(* ===== verification/Prelude.thy ===== *)
theory Prelude
  imports Main "HOL-Library.Word"
begin

text \<open>
  Shared vocabulary of the development: the machine integer types of
  \<^verbatim>\<open>src/src/common/Define.h\<close>, the state-and-exception results that model C++
  member functions which may throw or abort, and generic facts on lists, association lists and
  words that the component theories use.
\<close>

unbundle bit_operations_syntax

section \<open>Machine integers\<close>

type_synonym uint8 = "8 word"
type_synonym uint16 = "16 word"
type_synonym uint32 = "32 word"
type_synonym uint64 = "64 word"

text \<open>\<^verbatim>\<open>ObjectGuid\<close> is its raw 64-bit value; the empty identifier is zero.\<close>

type_synonym guid = uint64

text \<open>
  A \<^verbatim>\<open>size_t\<close> is 64 bits wide. Sizes and positions are natural numbers and every
  sum or difference the code forms on them is reduced modulo \<open>2 ^ 64\<close> here.
\<close>

definition size_add :: "nat \<Rightarrow> nat \<Rightarrow> nat" where
  "size_add a b = (a + b) mod 2 ^ 64"

definition size_sub :: "nat \<Rightarrow> nat \<Rightarrow> nat" where
  "size_sub a b = nat ((int a - int b) mod 2 ^ 64)"

lemma size_add_small [simp]: "a + b < 2 ^ 64 \<Longrightarrow> size_add a b = a + b"
  by (simp add: size_add_def)

lemma size_sub_le [simp]:
  assumes "b \<le> a" "a < 2 ^ 64"
  shows "size_sub a b = a - b"
proof -
  have "(int a - int b) mod 2 ^ 64 = int a - int b"
    using assms by (intro mod_pos_pos_trivial) auto
  then show ?thesis using assms by (simp add: size_sub_def)
qed

lemma size_sub_wrap: "size_sub 0 1 = 2 ^ 64 - 1"
  by (simp add: size_sub_def)

lemma unat_drop_bit_less:
  fixes w :: "'a::len word"
  assumes "w \<noteq> 0" "0 < n"
  shows "unat (drop_bit n w) < unat w"
proof -
  have "0 < unat w" using assms(1) by (simp add: unat_gt_0)
  moreover have "(1::nat) < 2 ^ n" using assms(2) by (rule one_less_power [rotated]) simp
  ultimately have "unat w div 2 ^ n < unat w" by simp
  then show ?thesis by (simp add: unat_drop_bit_eq flip: drop_bit_eq_div)
qed

section \<open>Computations with a state and an exception\<close>

text \<open>
  A member function that may throw leaves the object as the statements before the throw left
  it. So a run returns both the outcome (\<open>Inl\<close> the exception, \<open>Inr\<close> the value) and the state.
\<close>

type_synonym ('s, 'e, 'a) comp = "'s \<Rightarrow> ('e + 'a) \<times> 's"

definition ret :: "'a \<Rightarrow> ('s, 'e, 'a) comp" where
  "ret a s = (Inr a, s)"

definition throw :: "'e \<Rightarrow> ('s, 'e, 'a) comp" where
  "throw e s = (Inl e, s)"

definition bind :: "('s, 'e, 'a) comp \<Rightarrow> ('a \<Rightarrow> ('s, 'e, 'b) comp) \<Rightarrow> ('s, 'e, 'b) comp" where
  "bind m f s = (case m s of (Inl e, s') \<Rightarrow> (Inl e, s') | (Inr a, s') \<Rightarrow> f a s')"

definition modify :: "('s \<Rightarrow> 's) \<Rightarrow> ('s, 'e, unit) comp" where
  "modify f s = (Inr (), f s)"

fun mapM :: "('x \<Rightarrow> ('s, 'e, 'a) comp) \<Rightarrow> 'x list \<Rightarrow> ('s, 'e, 'a list) comp" where
  "mapM f [] = ret []"
| "mapM f (x # xs) = bind (f x) (\<lambda>a. bind (mapM f xs) (\<lambda>as. ret (a # as)))"

lemma mapM_const_map [simp]: "mapM (\<lambda>_. m) (map f xs) = mapM (\<lambda>_. m) xs"
  by (induction xs) simp_all

lemma ret_apply [simp]: "ret a s = (Inr a, s)"
  by (simp add: ret_def)

lemma throw_apply [simp]: "throw e s = (Inl e, s)"
  by (simp add: throw_def)

lemma modify_apply [simp]: "modify f s = (Inr (), f s)"
  by (simp add: modify_def)

lemma bind_ret [simp]: "m s = (Inr a, s') \<Longrightarrow> bind m f s = f a s'"
  by (simp add: bind_def)

lemma bind_throw [simp]: "m s = (Inl e, s') \<Longrightarrow> bind m f s = (Inl e, s')"
  by (simp add: bind_def)

lemma bind_eq_Inr:
  "bind m f s = (Inr b, s'') \<longleftrightarrow> (\<exists>a s'. m s = (Inr a, s') \<and> f a s' = (Inr b, s''))"
  by (auto simp: bind_def split: prod.splits sum.splits)

lemma bind_assoc: "bind (bind m f) g = bind m (\<lambda>a. bind (f a) g)"
  by (rule ext) (auto simp: bind_def split: prod.splits sum.splits)

lemma bind_ret_left [simp]: "bind (ret a) f = f a"
  by (rule ext) (simp add: bind_def)

lemma bind_inv:
  assumes "P s" "\<And>s. P s \<Longrightarrow> P (snd (m s))" "\<And>a s. P s \<Longrightarrow> P (snd (f a s))"
  shows "P (snd (bind m f s))"
proof -
  obtain r s' where m: "m s = (r, s')" by (cases "m s")
  have "P s'" using assms(2) [OF assms(1)] by (simp add: m)
  then show ?thesis
    using assms(3) by (cases r) (auto simp: bind_def m)
qed

section \<open>Lists\<close>

lemma append_take_nth_drop:
  "i < length xs \<Longrightarrow> take i xs @ xs ! i # drop (Suc i) xs = xs"
  by (rule id_take_nth_drop [symmetric])

text \<open>\<^verbatim>\<open>memcpy(&storage[pos], src, cnt)\<close> on a vector that is large enough.\<close>

definition overwrite :: "'a list \<Rightarrow> nat \<Rightarrow> 'a list \<Rightarrow> 'a list" where
  "overwrite xs pos src = take pos xs @ src @ drop (pos + length src) xs"

lemma length_overwrite [simp]:
  "pos + length src \<le> length xs \<Longrightarrow> length (overwrite xs pos src) = length xs"
  by (simp add: overwrite_def)

lemma overwrite_end [simp]: "overwrite (xs @ ys) (length xs) src = xs @ src" if "length ys = length src"
  using that by (simp add: overwrite_def)

lemma overwrite_read:
  "pos + length src \<le> length xs \<Longrightarrow> take (length src) (drop pos (overwrite xs pos src)) = src"
  by (simp add: overwrite_def)

lemma overwrite_Nil [simp]: "overwrite xs pos [] = xs"
  by (simp add: overwrite_def)

text \<open>\<^verbatim>\<open>std::vector::resize(n)\<close>: truncate, or pad with zero-initialised elements.\<close>

definition resize :: "nat \<Rightarrow> 'a::zero list \<Rightarrow> 'a list" where
  "resize n xs = take n xs @ replicate (n - length xs) 0"

lemma length_resize [simp]: "length (resize n xs) = n"
  by (simp add: resize_def)

lemma resize_grow: "length xs \<le> n \<Longrightarrow> resize n xs = xs @ replicate (n - length xs) 0"
  by (simp add: resize_def)

end
