(* ===== verification/Byte_Buffer.thy ===== *)
theory Byte_Buffer
  imports Prelude
begin

text \<open>
  The packet codec, \<^verbatim>\<open>src/src/server/shared/Packets/ByteBuffer.h\<close> and
  \<^verbatim>\<open>ByteBuffer.cpp\<close>: a growing byte vector with a byte read position, a byte write
  position and a bit cursor. The record mirrors the five members of the class; every member
  function is a computation over it that may end in a C++ exception, in a failed
  \<^verbatim>\<open>ASSERT\<close> (which aborts the process) or, where the code would leave defined
  behaviour, in \<open>UndefinedBehaviour\<close>. The host is little endian, so \<^verbatim>\<open>EndianConvert\<close>
  is the identity and a \<open>k\<close>-byte integer is its \<open>k\<close> bytes from the least significant one.
\<close>

section \<open>State\<close>

record byte_buffer =
  rpos :: nat
  wpos :: nat
  bitpos :: nat
  curbitval :: uint8
  storage :: "uint8 list"

datatype bb_error =
    ByteBufferException
  | PositionException bool nat nat nat
  | SourceException nat nat nat
  | AssertFailed
  | UndefinedBehaviour

type_synonym 'a bb = "(byte_buffer, bb_error, 'a) comp"

definition InitialBitPos :: nat where
  "InitialBitPos = 8"

definition bb_new :: byte_buffer where
  "bb_new = \<lparr>rpos = 0, wpos = 0, bitpos = InitialBitPos, curbitval = 0, storage = []\<rparr>"

text \<open>The constructor from a received message takes over the bytes, with both positions at 0.\<close>

definition bb_of_message :: "uint8 list \<Rightarrow> byte_buffer" where
  "bb_of_message bytes = bb_new\<lparr>storage := bytes\<rparr>"

text \<open>Move assignment: the bit cursor of neither side is touched (\<open>right\<close> keeps a moved-from,
  here empty, vector).\<close>

definition move_assign :: "byte_buffer \<Rightarrow> byte_buffer \<Rightarrow> byte_buffer \<times> byte_buffer" where
  "move_assign this right =
     (this\<lparr>rpos := rpos right, wpos := wpos right, storage := storage right\<rparr>,
      right\<lparr>rpos := 0, wpos := 0, storage := []\<rparr>)"

definition bb_clear :: "byte_buffer \<Rightarrow> byte_buffer" where
  "bb_clear b = b\<lparr>storage := [], rpos := 0, wpos := 0\<rparr>"

definition bb_size :: "byte_buffer \<Rightarrow> nat" where
  "bb_size b = length (storage b)"

definition bb_empty :: "byte_buffer \<Rightarrow> bool" where
  "bb_empty b \<longleftrightarrow> storage b = []"

definition bb_resize :: "nat \<Rightarrow> byte_buffer \<Rightarrow> byte_buffer" where
  "bb_resize n b = b\<lparr>storage := resize n (storage b), rpos := 0, wpos := n\<rparr>"

definition set_rpos :: "nat \<Rightarrow> byte_buffer \<Rightarrow> byte_buffer" where
  "set_rpos p b = b\<lparr>rpos := p\<rparr>"

definition rfinish :: "byte_buffer \<Rightarrow> byte_buffer" where
  "rfinish b = b\<lparr>rpos := wpos b\<rparr>"

definition set_wpos :: "nat \<Rightarrow> byte_buffer \<Rightarrow> byte_buffer" where
  "set_wpos p b = b\<lparr>wpos := p\<rparr>"

definition bitwpos :: "byte_buffer \<Rightarrow> nat" where
  "bitwpos b = size_sub (size_add (wpos b * 8 mod 2 ^ 64) 8) (bitpos b)"

definition set_bitwpos :: "nat \<Rightarrow> byte_buffer \<Rightarrow> byte_buffer" where
  "set_bitwpos p b = b\<lparr>wpos := p div 8, bitpos := 8 - p mod 8\<rparr>"

definition bb_contents :: "byte_buffer \<Rightarrow> bb_error + uint8 list" where
  "bb_contents b = (if storage b = [] then Inl ByteBufferException else Inr (storage b))"

section \<open>Writing\<close>

text \<open>
  The raw append and \<^verbatim>\<open>FlushBits\<close> call each other. \<^verbatim>\<open>FlushBits\<close> sets the bit cursor
  to 8 before it appends, so the inner append finds nothing to flush: \<open>append_aligned\<close> is the
  append with its own flush already done, and the two recursive calls unfold to it once.
  Capacity reservation does not change the vector's elements. The copy goes to
  \<^verbatim>\<open>_storage[_wpos]\<close> after the vector was grown to reach \<open>wpos + cnt\<close>; a sum that
  wrapped around would copy outside it.
\<close>

definition append_aligned :: "uint8 list \<Rightarrow> unit bb" where
  "append_aligned src b =
     (let newSize = size_add (wpos b) (length src);
          st = (if length (storage b) < newSize then resize newSize (storage b) else storage b)
      in if wpos b + length src \<le> length st
         then (Inr (), b\<lparr>storage := overwrite st (wpos b) src, wpos := newSize\<rparr>)
         else (Inl UndefinedBehaviour, b))"

definition FlushBits :: "unit bb" where
  "FlushBits b =
     (if bitpos b = 8 then (Inr (), b)
      else if \<not> bb_size b < 10000000 then (Inl AssertFailed, b\<lparr>bitpos := 8\<rparr>)
      else bind (append_aligned [curbitval b]) (\<lambda>_. modify (\<lambda>b. b\<lparr>curbitval := 0\<rparr>))
             (b\<lparr>bitpos := 8\<rparr>))"

definition append_bytes :: "uint8 list \<Rightarrow> unit bb" where
  "append_bytes src b =
     (if src = [] then (Inl AssertFailed, b)
      else if \<not> bb_size b < 10000000 then (Inl AssertFailed, b)
      else bind FlushBits (\<lambda>_. append_aligned src) b)"

text \<open>A word as its bytes, least significant first, and back.\<close>

definition le_bytes :: "'a::len word \<Rightarrow> uint8 list" where
  "le_bytes w = map (\<lambda>i. ucast (drop_bit (8 * i) w)) [0..<LENGTH('a) div 8]"

fun le_value :: "uint8 list \<Rightarrow> 'a::len word" where
  "le_value [] = 0"
| "le_value (b # bs) = ucast b OR push_bit 8 (le_value bs)"

text \<open>\<^verbatim>\<open>append<T>\<close>, and with it every integer and floating-point \<^verbatim>\<open>operator<<\<close>
  (a float is its bit pattern).\<close>

definition append_value :: "'a::len word \<Rightarrow> unit bb" where
  "append_value v = append_bytes (le_bytes v)"

definition write_bool :: "bool \<Rightarrow> unit bb" where
  "write_bool v = append_value (if v then 1 else 0 :: uint8)"

definition write_string :: "uint8 list \<Rightarrow> unit bb" where
  "write_string s =
     bind (if s = [] then ret () else append_bytes s) (\<lambda>_. append_value (0 :: uint8))"

definition WriteString :: "uint8 list \<Rightarrow> unit bb" where
  "WriteString s = (if s = [] then ret () else append_bytes s)"

definition WriteBit :: "uint32 \<Rightarrow> bool bb" where
  "WriteBit v b =
     (let p = size_sub (bitpos b) 1 in
      if v \<noteq> 0 \<and> 32 \<le> p then (Inl UndefinedBehaviour, b\<lparr>bitpos := p\<rparr>)
      else
        let b1 = b\<lparr>bitpos := p,
                   curbitval := (if v \<noteq> 0 then curbitval b OR push_bit p 1 else curbitval b)\<rparr>
        in if p = 0
           then bind (append_bytes [curbitval b1])
                  (\<lambda>_. bind (modify (\<lambda>b. b\<lparr>curbitval := 0\<rparr>)) (\<lambda>_. ret (v \<noteq> 0)))
                  (b1\<lparr>bitpos := 8\<rparr>)
           else (Inr (v \<noteq> 0), b1))"

text \<open>\<^verbatim>\<open>WriteBits<uint32>\<close>; a shift of a 32-bit value by more than 31 is undefined.\<close>

fun WriteBits :: "uint32 \<Rightarrow> nat \<Rightarrow> unit bb" where
  "WriteBits v 0 = ret ()"
| "WriteBits v (Suc i) =
     (if 32 \<le> i then throw UndefinedBehaviour
      else bind (WriteBit (drop_bit i v AND 1)) (\<lambda>_. WriteBits v i))"

definition WriteByteSeq :: "uint8 \<Rightarrow> unit bb" where
  "WriteByteSeq x = (if x \<noteq> 0 then append_value (x XOR 1) else ret ())"

definition append_buffer :: "byte_buffer \<Rightarrow> unit bb" where
  "append_buffer src =
     (if wpos src = 0 then ret ()
      else case bb_contents src of
        Inl e \<Rightarrow> throw e
      | Inr bytes \<Rightarrow>
          if wpos src \<le> length bytes then append_bytes (take (wpos src) bytes)
          else throw UndefinedBehaviour)"

text \<open>The raw \<^verbatim>\<open>put\<close>, whose assertions come before the copy.\<close>

definition put_bytes :: "nat \<Rightarrow> uint8 list \<Rightarrow> unit bb" where
  "put_bytes pos src b =
     (if \<not> size_add pos (length src) \<le> bb_size b then (Inl AssertFailed, b)
      else if src = [] then (Inl AssertFailed, b)
      else if pos + length src \<le> bb_size b
        then (Inr (), b\<lparr>storage := overwrite (storage b) pos src\<rparr>)
      else (Inl UndefinedBehaviour, b))"

definition put_value :: "nat \<Rightarrow> 'a::len word \<Rightarrow> unit bb" where
  "put_value pos v = put_bytes pos (le_bytes v)"

definition put_bit :: "uint8 list \<Rightarrow> nat \<Rightarrow> bool \<Rightarrow> uint8 list" where
  "put_bit st p v =
     (let wp = p div 8; k = p mod 8 in
      st[wp := (if v then (st ! wp) OR push_bit (7 - k) 1
                else (st ! wp) AND NOT (push_bit (7 - k) 1))])"

fun put_bits_loop :: "nat \<Rightarrow> uint32 \<Rightarrow> nat \<Rightarrow> nat list \<Rightarrow> uint8 list \<Rightarrow> uint8 list" where
  "put_bits_loop pos v n [] st = st"
| "put_bits_loop pos v n (i # is) st =
     put_bits_loop pos v n is (put_bit st (pos + i) (drop_bit (n - i - 1) v AND 1 \<noteq> 0))"

definition PutBits :: "nat \<Rightarrow> uint32 \<Rightarrow> nat \<Rightarrow> unit bb" where
  "PutBits pos v n b =
     (if n = 0 then (Inl (SourceException (size_add pos n div 8) (bb_size b) 0), b)
      else if size_add pos n > bb_size b * 8 mod 2 ^ 64
        then (Inl (PositionException False (size_add pos n div 8) (bb_size b) ((n - 1) div 8 + 1)), b)
      else if 32 < n \<or> bb_size b * 8 < pos + n then (Inl UndefinedBehaviour, b)
      else (Inr (), b\<lparr>storage := put_bits_loop pos v n [0..<n] (storage b)\<rparr>))"

section \<open>Reading\<close>

text \<open>\<^verbatim>\<open>read<T>(pos)\<close>: \<open>k\<close> bytes at \<open>pos\<close>. The sum in the guard may wrap around, in
  which case the access behind it would leave the vector.\<close>

definition read_at :: "nat \<Rightarrow> nat \<Rightarrow> byte_buffer \<Rightarrow> bb_error + uint8 list" where
  "read_at pos k b =
     (if size_add pos k > bb_size b then Inl (PositionException False pos k (bb_size b))
      else if pos + k \<le> bb_size b then Inr (take k (drop pos (storage b)))
      else Inl UndefinedBehaviour)"

definition read_bytes :: "nat \<Rightarrow> uint8 list bb" where
  "read_bytes k b =
     (case read_at (rpos b) k b of
        Inl e \<Rightarrow> (Inl e, b)
      | Inr bs \<Rightarrow> (Inr bs, b\<lparr>rpos := size_add (rpos b) k\<rparr>))"

definition read_skip :: "nat \<Rightarrow> unit bb" where
  "read_skip k b =
     (if size_add (rpos b) k > bb_size b then (Inl (PositionException False (rpos b) k (bb_size b)), b)
      else (Inr (), b\<lparr>rpos := size_add (rpos b) k\<rparr>))"

definition read_value :: "('a::len word) bb" where
  "read_value = bind (read_bytes (LENGTH('a) div 8)) (\<lambda>bs. ret (le_value bs))"

text \<open>\<^verbatim>\<open>operator>>(bool&)\<close> reads a (signed) \<^verbatim>\<open>char\<close> and tests it for being positive.\<close>

definition read_bool :: "bool bb" where
  "read_bool = bind read_value (\<lambda>v :: uint8. ret (0 < sint v))"

text \<open>\<^verbatim>\<open>std::isfinite\<close> on IEEE bit patterns: the exponent is not all ones.\<close>

definition isfinite_float :: "uint32 \<Rightarrow> bool" where
  "isfinite_float v \<longleftrightarrow> drop_bit 23 v AND 0xFF \<noteq> 0xFF"

definition isfinite_double :: "uint64 \<Rightarrow> bool" where
  "isfinite_double v \<longleftrightarrow> drop_bit 52 v AND 0x7FF \<noteq> 0x7FF"

definition read_float :: "uint32 bb" where
  "read_float = bind read_value
     (\<lambda>v. if isfinite_float v then ret v else throw ByteBufferException)"

definition read_double :: "uint64 bb" where
  "read_double = bind read_value
     (\<lambda>v. if isfinite_double v then ret v else throw ByteBufferException)"

text \<open>\<^verbatim>\<open>operator>>(std::string&)\<close>: up to a NUL or the end of the packet. The loop runs at most
  once per remaining byte.\<close>

function read_string_loop :: "uint8 list \<Rightarrow> (uint8 list) bb" where
  "read_string_loop acc b =
     (if rpos b < bb_size b then
        case storage b ! rpos b of c \<Rightarrow>
          (let b1 = b\<lparr>rpos := rpos b + 1\<rparr> in
           if c = 0 then (Inr acc, b1) else read_string_loop (acc @ [c]) b1)
      else (Inr acc, b))"
  by pat_completeness auto
termination
  by (relation "measure (\<lambda>(acc, b). bb_size b - rpos b)") (auto simp: bb_size_def)

declare read_string_loop.simps [simp del]

definition read_string :: "uint8 list bb" where
  "read_string = read_string_loop []"

text \<open>\<^verbatim>\<open>ReadString(length)\<close> copies \<open>length\<close> bytes and then builds a \<^verbatim>\<open>std::string\<close> from the
  C string, that is, up to its first NUL.\<close>

definition ReadString :: "nat \<Rightarrow> uint8 list bb" where
  "ReadString n =
     (if n = 0 then ret [] else bind (read_bytes n) (\<lambda>bs. ret (takeWhile (\<lambda>c. c \<noteq> 0) bs)))"

definition ReadBit :: "bool bb" where
  "ReadBit b =
     (let p = size_add (bitpos b) 1 in
      if p > 7
      then bind read_value
             (\<lambda>v b. (Inr (drop_bit 7 v AND 1 \<noteq> 0), b\<lparr>curbitval := v\<rparr>))
             (b\<lparr>bitpos := 0\<rparr>)
      else (Inr (drop_bit (7 - p) (curbitval b) AND 1 \<noteq> 0), b\<lparr>bitpos := p\<rparr>))"

fun ReadBits_loop :: "nat \<Rightarrow> uint32 \<Rightarrow> uint32 bb" where
  "ReadBits_loop 0 v = ret v"
| "ReadBits_loop (Suc i) v =
     bind ReadBit (\<lambda>r. if r \<and> 32 \<le> i then throw UndefinedBehaviour
                      else ReadBits_loop i (if r then v OR push_bit i 1 else v))"

definition ReadBits :: "nat \<Rightarrow> uint32 bb" where
  "ReadBits n = ReadBits_loop n 0"

definition ReadByteSeq :: "uint8 \<Rightarrow> uint8 bb" where
  "ReadByteSeq x = (if x \<noteq> 0 then bind read_value (\<lambda>v. ret (x XOR v)) else ret x)"

definition bb_index :: "nat \<Rightarrow> byte_buffer \<Rightarrow> bb_error + uint8" where
  "bb_index pos b =
     (if pos \<ge> bb_size b then Inl (PositionException False pos 1 (bb_size b))
      else Inr (storage b ! pos))"

section \<open>Packed identifiers and times\<close>

text \<open>The packing loop of \<^verbatim>\<open>appendPackGUID\<close>: \<open>i\<close> counts bytes, the loop ends when the
  rest of the identifier is zero (at most 8 rounds). The mask is \<^verbatim>\<open>packGUID[0]\<close>.\<close>

function pack_guid_loop :: "nat \<Rightarrow> uint64 \<Rightarrow> uint8 \<Rightarrow> uint8 list \<Rightarrow> uint8 \<times> uint8 list" where
  "pack_guid_loop i guid gmask out =
     (if guid = 0 then (gmask, out)
      else if guid AND 0xFF \<noteq> 0
        then pack_guid_loop (Suc i) (drop_bit 8 guid) (gmask OR push_bit i 1) (out @ [ucast (guid AND 0xFF)])
      else pack_guid_loop (Suc i) (drop_bit 8 guid) gmask out)"
  by pat_completeness auto
termination
  by (relation "measure (\<lambda>(i, guid, gmask, out). unat guid)") (auto intro: unat_drop_bit_less)

declare pack_guid_loop.simps [simp del]

definition appendPackGUID :: "uint64 \<Rightarrow> unit bb" where
  "appendPackGUID guid =
     (case pack_guid_loop 0 guid 0 [] of (gmask, out) \<Rightarrow> append_bytes (gmask # out))"

fun read_guid_loop :: "nat list \<Rightarrow> uint8 \<Rightarrow> uint64 \<Rightarrow> uint64 bb" where
  "read_guid_loop [] gmask guid = ret guid"
| "read_guid_loop (i # is) gmask guid =
     (if gmask AND push_bit i 1 \<noteq> 0
      then bind read_value (\<lambda>v :: uint8. read_guid_loop is gmask (guid OR push_bit (i * 8) (ucast v)))
      else read_guid_loop is gmask guid)"

definition readPackGUID :: "uint64 bb" where
  "readPackGUID = bind read_value (\<lambda>gmask. read_guid_loop [0..<8] gmask 0)"

text \<open>Broken-down time, as far as the packed format uses it. \<open>mktime\<close> and \<open>localtime\<close> are the
  C library's, parameters of the two operations.\<close>

record tm =
  tm_min :: int
  tm_hour :: int
  tm_mday :: int
  tm_mon :: int
  tm_year :: int
  tm_wday :: int

definition pack_tm :: "tm \<Rightarrow> uint32" where
  "pack_tm lt =
     push_bit 24 (word_of_int (tm_year lt - 100)) OR push_bit 20 (word_of_int (tm_mon lt)) OR
     push_bit 14 (word_of_int (tm_mday lt - 1)) OR push_bit 11 (word_of_int (tm_wday lt)) OR
     push_bit 6 (word_of_int (tm_hour lt)) OR word_of_int (tm_min lt)"

definition unpack_tm :: "uint32 \<Rightarrow> tm" where
  "unpack_tm d =
     \<lparr>tm_min = uint (d AND 0x3F), tm_hour = uint (drop_bit 6 d AND 0x1F),
      tm_mday = uint (drop_bit 14 d AND 0x3F) + 1, tm_mon = uint (drop_bit 20 d AND 0xF),
      tm_year = uint (drop_bit 24 d AND 0x1F) + 100, tm_wday = 0\<rparr>"

definition AppendPackedTime :: "(int \<Rightarrow> tm) \<Rightarrow> int \<Rightarrow> unit bb" where
  "AppendPackedTime localtime t = append_value (pack_tm (localtime t))"

definition ReadPackedTime :: "(tm \<Rightarrow> uint32) \<Rightarrow> uint32 bb" where
  "ReadPackedTime mktime = bind read_value (\<lambda>d. ret (mktime (unpack_tm d)))"

section \<open>Values as bytes\<close>

lemma bit_le_value:
  "bit (le_value bs :: 'a::len word) n \<longleftrightarrow>
     n < LENGTH('a) \<and> n div 8 < length bs \<and> bit (bs ! (n div 8)) (n mod 8)"
proof (induction bs arbitrary: n)
  case Nil
  then show ?case by simp
next
  case (Cons b bs)
  show ?case
  proof (cases "n < 8")
    case True
    then show ?thesis by (auto simp: bit_simps)
  next
    case False
    then have "n div 8 = Suc ((n - 8) div 8)" "n mod 8 = (n - 8) mod 8"
      by (simp_all add: le_div_geq le_mod_geq)
    moreover have "\<not> bit b n" using False bit_imp_le_length [of b n] by auto
    ultimately show ?thesis using False by (auto simp: bit_simps Cons.IH)
  qed
qed

lemma length_le_bytes [simp]: "length (le_bytes (w :: 'a::len word)) = LENGTH('a) div 8"
  by (simp add: le_bytes_def)

lemma nth_le_bytes: "i < LENGTH('a) div 8 \<Longrightarrow> le_bytes (w :: 'a::len word) ! i = ucast (drop_bit (8 * i) w)"
  by (simp add: le_bytes_def)

lemma le_value_le_bytes:
  fixes w :: "'a::len word"
  assumes "8 dvd LENGTH('a)"
  shows "le_value (le_bytes w) = w"
proof (rule bit_word_eqI)
  fix n assume n: "n < LENGTH('a)"
  then have i: "n div 8 < LENGTH('a) div 8"
    using assms by (auto elim!: dvdE)
  have "8 * (n div 8) + n mod 8 = n" by simp
  then show "bit (le_value (le_bytes w) :: 'a word) n = bit w n"
    using n i by (simp add: bit_le_value nth_le_bytes bit_simps)
qed

lemma le_bytes_le_value:
  assumes "8 * length bs = LENGTH('a)"
  shows "le_bytes (le_value bs :: 'a::len word) = bs"
proof (rule nth_equalityI)
  have len: "LENGTH('a) div 8 = length bs" using assms by (metis nonzero_mult_div_cancel_left zero_neq_numeral)
  then show "length (le_bytes (le_value bs :: 'a word)) = length bs" by simp
  fix i assume i: "i < length (le_bytes (le_value bs :: 'a word))"
  show "le_bytes (le_value bs :: 'a word) ! i = bs ! i"
  proof (rule bit_word_eqI)
    fix n assume n: "n < LENGTH(8)"
    then have "(8 * i + n) div 8 = i" "(8 * i + n) mod 8 = n" by auto
    moreover have "8 * i + n < LENGTH('a)" using n i len assms by auto
    ultimately show "bit (le_bytes (le_value bs :: 'a word) ! i) n = bit (bs ! i) n"
      using n i len by (simp add: nth_le_bytes bit_simps bit_le_value)
  qed
qed

section \<open>Bit streams\<close>

definition byte_bits :: "uint8 \<Rightarrow> bool list" where
  "byte_bits x = map (\<lambda>i. bit x (7 - i)) [0..<8]"

definition bits_of :: "uint8 list \<Rightarrow> bool list" where
  "bits_of st = concat (map byte_bits st)"

definition wbits :: "byte_buffer \<Rightarrow> bool list" where
  "wbits b = bits_of (storage b) @ take (8 - bitpos b) (byte_bits (curbitval b))"

definition wr_ok :: "byte_buffer \<Rightarrow> bool" where
  "wr_ok b \<longleftrightarrow> wpos b = length (storage b) \<and> 1 \<le> bitpos b \<and> bitpos b \<le> 8 \<and>
     (\<forall>i < bitpos b. \<not> bit (curbitval b) i)"

definition rbits :: "byte_buffer \<Rightarrow> bool list" where
  "rbits b = drop (Suc (bitpos b)) (byte_bits (curbitval b)) @ bits_of (drop (rpos b) (storage b))"

definition rd_ok :: "byte_buffer \<Rightarrow> bool" where
  "rd_ok b \<longleftrightarrow> rpos b \<le> length (storage b) \<and> length (storage b) < 2 ^ 63 \<and> bitpos b \<le> 8"

lemma length_byte_bits [simp]: "length (byte_bits x) = 8"
  by (simp add: byte_bits_def)

lemma nth_byte_bits [simp]: "i < 8 \<Longrightarrow> byte_bits x ! i = bit x (7 - i)"
  by (simp add: byte_bits_def)

lemma bits_of_simps [simp]:
  "bits_of [] = []" "bits_of (x # xs) = byte_bits x @ bits_of xs"
  "bits_of (xs @ ys) = bits_of xs @ bits_of ys"
  by (simp_all add: bits_of_def)

lemma length_bits_of [simp]: "length (bits_of xs) = 8 * length xs"
  by (induction xs) simp_all

lemma bits_of_Nil_iff [simp]: "bits_of xs = [] \<longleftrightarrow> xs = []"
  by (cases xs) (auto simp: byte_bits_def)

lemma byte_bits_Cons: "byte_bits v = bit v 7 # drop 1 (byte_bits v)"
  using Cons_nth_drop_Suc [of 0 "byte_bits v"] by simp

text \<open>The byte of the bit cursor: its written bits do not depend on the positions below it.\<close>

lemma take_byte_bits_cong:
  assumes "k \<le> 8" "\<And>i. 8 - k \<le> i \<Longrightarrow> i < 8 \<Longrightarrow> bit x i = bit y i"
  shows "take k (byte_bits x) = take k (byte_bits y)"
  using assms by (intro nth_equalityI) auto

lemma take_byte_bits_set:
  assumes "p < 8" "\<And>i. i \<le> p \<Longrightarrow> \<not> bit x i"
  shows "take (8 - p) (byte_bits (if v then x OR push_bit p 1 else x)) =
           take (7 - p) (byte_bits x) @ [v]"
  using assms by (intro nth_equalityI) (auto simp: nth_append bit_simps less_Suc_eq)

lemma append_aligned_end:
  assumes "wpos b = length (storage b)" "length (storage b) + length src < 2 ^ 64"
  shows "append_aligned src b =
    (Inr (), b\<lparr>storage := storage b @ src, wpos := length (storage b) + length src\<rparr>)"
  using assms by (auto simp: append_aligned_def Let_def resize_grow)

lemma append_bytes_end:
  assumes "wpos b = length (storage b)" "length (storage b) < 10000000"
    "src \<noteq> []" "length src < 2 ^ 63" "bitpos b = 8"
  shows "append_bytes src b =
    (Inr (), b\<lparr>storage := storage b @ src, wpos := length (storage b) + length src\<rparr>)"
  using assms by (simp add: append_bytes_def FlushBits_def bb_size_def append_aligned_end)

lemma FlushBits_wbits:
  assumes "wr_ok b" "length (storage b) < 10000000"
  shows "\<exists>b'. FlushBits b = (Inr (), b') \<and> wr_ok b' \<and> bitpos b' = 8 \<and>
     wbits b' = wbits b @ replicate (if bitpos b = 8 then 0 else bitpos b) False \<and>
     length (storage b') = length (storage b) + (if bitpos b = 8 then 0 else 1)"
proof (cases "bitpos b = 8")
  case True
  then show ?thesis using assms by (auto simp: FlushBits_def)
next
  case False
  have "take (8 - bitpos b) (byte_bits (curbitval b)) @ replicate (bitpos b) False = byte_bits (curbitval b)"
    using assms(1) False by (intro nth_equalityI) (auto simp: nth_append wr_ok_def)
  then show ?thesis
    using assms False by (auto simp: FlushBits_def bb_size_def append_aligned_end wr_ok_def wbits_def)
qed

lemma WriteBit_wbits:
  assumes "wr_ok b" "length (storage b) < 10000000"
  shows "\<exists>b'. WriteBit v b = (Inr (v \<noteq> 0), b') \<and> wr_ok b' \<and> wbits b' = wbits b @ [v \<noteq> 0] \<and>
     length (storage b') \<le> length (storage b) + 1"
proof -
  define p where "p = bitpos b - 1"
  define c where "c = (if v \<noteq> 0 then curbitval b OR push_bit p 1 else curbitval b)"
  have p: "size_sub (bitpos b) 1 = p" "p < 8" "bitpos b = Suc p"
    using assms(1) by (auto simp: p_def wr_ok_def)
  have low: "\<And>i. i \<le> p \<Longrightarrow> \<not> bit (curbitval b) i"
    using assms(1) p by (auto simp: wr_ok_def)
  have bits: "take (8 - p) (byte_bits c) = take (7 - p) (byte_bits (curbitval b)) @ [v \<noteq> 0]"
    unfolding c_def using p(2) low by (rule take_byte_bits_set)
  have low': "\<And>i. i < p \<Longrightarrow> \<not> bit c i"
    using low by (auto simp: c_def bit_simps)
  show ?thesis
  proof (cases "p = 0")
    case True
    have "WriteBit v b = bind (append_bytes [c])
        (\<lambda>_. bind (modify (\<lambda>b. b\<lparr>curbitval := 0\<rparr>)) (\<lambda>_. ret (v \<noteq> 0)))
        (b\<lparr>curbitval := c, bitpos := 8\<rparr>)"
      using True p by (simp add: WriteBit_def Let_def c_def)
    moreover have "append_bytes [c] (b\<lparr>curbitval := c, bitpos := 8\<rparr>) =
      (Inr (), b\<lparr>curbitval := c, bitpos := 8, storage := storage b @ [c], wpos := length (storage b) + 1\<rparr>)"
      using assms by (subst append_bytes_end) (auto simp: wr_ok_def)
    ultimately show ?thesis
      using True p bits assms by (auto simp: wr_ok_def wbits_def)
  next
    case False
    then show ?thesis
      using p bits low' assms by (auto simp: WriteBit_def Let_def wr_ok_def wbits_def simp flip: c_def)
  qed
qed

lemma read_bytes_ok:
  assumes "rpos b + k \<le> length (storage b)" "length (storage b) < 2 ^ 64"
  shows "read_bytes k b = (Inr (take k (drop (rpos b) (storage b))), b\<lparr>rpos := rpos b + k\<rparr>)"
  using assms by (simp add: read_bytes_def read_at_def bb_size_def)

lemma read_bytes_fail:
  assumes "length (storage b) < rpos b + k" "rpos b + k < 2 ^ 64"
  shows "read_bytes k b = (Inl (PositionException False (rpos b) k (length (storage b))), b)"
  using assms by (simp add: read_bytes_def read_at_def bb_size_def)

lemma read_uint8:
  assumes "rpos b < length (storage b)" "length (storage b) < 2 ^ 64"
  shows "read_value b = (Inr (storage b ! rpos b :: uint8), b\<lparr>rpos := rpos b + 1\<rparr>)"
  using assms by (simp add: read_value_def read_bytes_ok take_Suc_conv_app_nth hd_drop_conv_nth take_Suc)

lemma and_1_bit: "drop_bit k (w :: 'a::len word) AND 1 \<noteq> 0 \<longleftrightarrow> bit w k"
  by (simp add: and_one_eq bit_iff_odd_drop_bit odd_iff_mod_2_eq_one)

lemma ReadBit_rbits:
  assumes "rd_ok b" "rbits b = x # xs"
  shows "\<exists>b'. ReadBit b = (Inr x, b') \<and> rd_ok b' \<and> rbits b' = xs"
proof (cases "Suc (bitpos b) > 7")
  case True
  then have r: "rpos b < length (storage b)" "bits_of (drop (rpos b) (storage b)) = x # xs"
    using assms by (auto simp: rbits_def rd_ok_def intro: ccontr)
  define v where "v = storage b ! rpos b"
  have "bits_of (drop (rpos b) (storage b)) = byte_bits v @ bits_of (drop (Suc (rpos b)) (storage b))"
    using r(1) by (simp add: v_def flip: Cons_nth_drop_Suc)
  then have "x = bit v 7" "xs = drop 1 (byte_bits v) @ bits_of (drop (Suc (rpos b)) (storage b))"
    using r(2) byte_bits_Cons [of v] by (metis append_Cons list.inject)+
  then show ?thesis
    using True r(1) assms(1)
    by (auto simp: ReadBit_def Let_def read_uint8 rd_ok_def rbits_def and_1_bit v_def)
next
  case False
  then have "drop (Suc (bitpos b)) (byte_bits (curbitval b)) =
      bit (curbitval b) (7 - Suc (bitpos b)) # drop (Suc (Suc (bitpos b))) (byte_bits (curbitval b))"
    by (simp flip: Cons_nth_drop_Suc)
  then show ?thesis
    using False assms by (auto simp: ReadBit_def Let_def rd_ok_def rbits_def and_1_bit)
qed

lemma ReadBit_end:
  assumes "rd_ok b" "rbits b = []"
  shows "fst (ReadBit b) = Inl (PositionException False (rpos b) 1 (length (storage b)))"
proof -
  have "Suc (bitpos b) > 7" and "drop (rpos b) (storage b) = []"
    using assms(2) by (auto simp: rbits_def)
  then have "Suc (bitpos b) > 7" "rpos b = length (storage b)"
    using assms(1) by (auto simp: rd_ok_def)
  then show ?thesis using assms(1)
    by (simp add: ReadBit_def Let_def read_value_def read_bytes_fail rd_ok_def)
qed

section \<open>The contract of a bit stream\<close>

text \<open>
  What the packet classes rely on: a bit written goes to the end of the stream, a bit read comes
  from its front. Everything about fields of several bits follows from these two laws.
\<close>

locale bit_writer =
  fixes wbit :: "uint32 \<Rightarrow> ('s, 'e, bool) comp"
    and room :: "'s \<Rightarrow> nat \<Rightarrow> bool"
    and wb :: "'s \<Rightarrow> bool list"
  assumes wbit_law: "room s (Suc n) \<Longrightarrow>
    \<exists>s'. wbit v s = (Inr (v \<noteq> 0), s') \<and> room s' n \<and> wb s' = wb s @ [v \<noteq> 0]"
begin

lemma write_all:
  "room s (length vs + n) \<Longrightarrow>
    \<exists>s'. mapM wbit vs s = (Inr (map (\<lambda>v. v \<noteq> 0) vs), s') \<and> room s' n \<and>
      wb s' = wb s @ map (\<lambda>v. v \<noteq> 0) vs"
proof (induction vs arbitrary: s)
  case Nil
  then show ?case by simp
next
  case (Cons v vs)
  then obtain s1 where s1: "wbit v s = (Inr (v \<noteq> 0), s1)" "room s1 (length vs + n)"
      "wb s1 = wb s @ [v \<noteq> 0]"
    using wbit_law [of s "length vs + n" v] by auto
  from Cons.IH [OF s1(2)] show ?case using s1 by auto
qed

end

locale bit_reader =
  fixes rbit :: "('s, 'e, bool) comp"
    and ready :: "'s \<Rightarrow> bool"
    and rb :: "'s \<Rightarrow> bool list"
  assumes rbit_law: "ready s \<Longrightarrow> rb s = x # xs \<Longrightarrow>
    \<exists>s'. rbit s = (Inr x, s') \<and> ready s' \<and> rb s' = xs"
begin

lemma read_all:
  "ready s \<Longrightarrow> rb s = xs @ ys \<Longrightarrow>
    \<exists>s'. mapM (\<lambda>_. rbit) xs s = (Inr xs, s') \<and> ready s' \<and> rb s' = ys"
proof (induction xs arbitrary: s)
  case Nil
  then show ?case by simp
next
  case (Cons x xs)
  then obtain s1 where s1: "rbit s = (Inr x, s1)" "ready s1" "rb s1 = xs @ ys"
    using rbit_law [of s x "xs @ ys"] by auto
  from Cons.IH [OF s1(2,3)] show ?case using s1 by auto
qed

end

locale bit_channel = bit_writer wbit room wb + bit_reader rbit ready rb
  for wbit :: "uint32 \<Rightarrow> ('s, 'e, bool) comp" and room and wb and rbit :: "('t, 'e, bool) comp"
  and ready and rb +
  fixes transmit :: "'s \<Rightarrow> 't"
  assumes transmit_ready: "room s n \<Longrightarrow> ready (transmit s)"
    and transmit_bits: "room s n \<Longrightarrow> \<exists>pad. rb (transmit s) = wb s @ pad"
begin

lemma channel_all:
  assumes "room s (length vs)" "wb s = []"
  shows "\<exists>s' t'. mapM wbit vs s = (Inr (map (\<lambda>v. v \<noteq> 0) vs), s') \<and>
    mapM (\<lambda>_. rbit) vs (transmit s') = (Inr (map (\<lambda>v. v \<noteq> 0) vs), t')"
proof -
  from write_all [of s vs 0] assms obtain s' where s':
    "mapM wbit vs s = (Inr (map (\<lambda>v. v \<noteq> 0) vs), s')" "room s' 0" "wb s' = map (\<lambda>v. v \<noteq> 0) vs"
    by auto
  from transmit_bits [OF s'(2)] obtain pad where "rb (transmit s') = map (\<lambda>v. v \<noteq> 0) vs @ pad"
    by (auto simp: s')
  from read_all [OF transmit_ready [OF s'(2)] this] obtain t' where
    "mapM (\<lambda>_. rbit) (map (\<lambda>v. v \<noteq> 0) vs) (transmit s') = (Inr (map (\<lambda>v. v \<noteq> 0) vs), t')" by auto
  then show ?thesis using s'(1) by simp
qed

end

definition room_for :: "byte_buffer \<Rightarrow> nat \<Rightarrow> bool" where
  "room_for b n \<longleftrightarrow> wr_ok b \<and> length (wbits b) + n \<le> 80000000"

text \<open>Flushing the bits and handing the bytes to the receiver's buffer.\<close>

definition transmit :: "byte_buffer \<Rightarrow> byte_buffer" where
  "transmit b = bb_of_message (storage (snd (FlushBits b)))"

lemma room_for_size: "room_for b (Suc n) \<Longrightarrow> wr_ok b \<and> length (storage b) < 10000000"
  by (auto simp: room_for_def wbits_def wr_ok_def)

interpretation bb_writer: bit_writer WriteBit room_for wbits
proof
  fix s n and v :: uint32
  assume r: "room_for s (Suc n)"
  then obtain b' where "WriteBit v s = (Inr (v \<noteq> 0), b')" "wr_ok b'" "wbits b' = wbits s @ [v \<noteq> 0]"
    using WriteBit_wbits [of s v] room_for_size [OF r] by auto
  then show "\<exists>s'. WriteBit v s = (Inr (v \<noteq> 0), s') \<and> room_for s' n \<and> wbits s' = wbits s @ [v \<noteq> 0]"
    using r by (auto simp: room_for_def)
qed

interpretation bb_reader: bit_reader ReadBit rd_ok rbits
  by unfold_locales (rule ReadBit_rbits)

lemma rbits_message: "rbits (bb_of_message st) = bits_of st"
  by (simp add: rbits_def bb_of_message_def bb_new_def InitialBitPos_def)

lemma rd_ok_message: "rd_ok (bb_of_message st) \<longleftrightarrow> length st < 2 ^ 63"
  by (simp add: rd_ok_def bb_of_message_def bb_new_def InitialBitPos_def)

lemma transmit_bits:
  assumes "room_for b n"
  shows "rd_ok (transmit b) \<and> (\<exists>k < 8. rbits (transmit b) = wbits b @ replicate k False)"
proof (cases "bitpos b = 8")
  case True
  then show ?thesis
    using assms by (auto simp: transmit_def FlushBits_def rbits_message rd_ok_message wbits_def
        room_for_def wr_ok_def intro!: exI [of _ 0])
next
  case False
  have "length (storage b) < 10000000" "wr_ok b"
    using assms False by (auto simp: room_for_def wbits_def wr_ok_def)
  from FlushBits_wbits [OF this(2,1)] False obtain b' where b': "FlushBits b = (Inr (), b')"
      "bitpos b' = 8" "wbits b' = wbits b @ replicate (bitpos b) False"
      "length (storage b') = length (storage b) + 1"
    by auto
  have "bits_of (storage b') = wbits b @ replicate (bitpos b) False"
    using b'(2,3) by (simp add: wbits_def)
  moreover have "bitpos b < 8" using \<open>wr_ok b\<close> False by (simp add: wr_ok_def)
  ultimately show ?thesis
    using b' \<open>length (storage b) < 10000000\<close>
    by (auto simp: transmit_def rbits_message rd_ok_message)
qed

interpretation bb_channel: bit_channel WriteBit room_for wbits ReadBit rd_ok rbits transmit
proof
  fix s n assume r: "room_for s n"
  show "rd_ok (transmit s)" using transmit_bits [OF r] by blast
  show "\<exists>pad. rbits (transmit s) = wbits s @ pad" using transmit_bits [OF r] by blast
qed

section \<open>Fields of several bits\<close>

definition value_bits :: "uint32 \<Rightarrow> nat \<Rightarrow> bool list" where
  "value_bits v n = map (bit v) (rev [0..<n])"

lemma length_value_bits [simp]: "length (value_bits v n) = n"
  by (simp add: value_bits_def)

lemma value_bits_Suc [simp]: "value_bits v (Suc n) = bit v n # value_bits v n"
  by (simp add: value_bits_def)

lemma value_bits_0 [simp]: "value_bits v 0 = []"
  by (simp add: value_bits_def)

lemma WriteBits_wbits:
  "n \<le> 32 \<Longrightarrow> room_for b (n + m) \<Longrightarrow>
    \<exists>b'. WriteBits v n b = (Inr (), b') \<and> room_for b' m \<and> wbits b' = wbits b @ value_bits v n"
proof (induction n arbitrary: b)
  case 0
  then show ?case by simp
next
  case (Suc n)
  from bb_writer.wbit_law [of b "n + m" "drop_bit n v AND 1"] Suc.prems(2)
  obtain b1 where b1: "WriteBit (drop_bit n v AND 1) b = (Inr (bit v n), b1)" "room_for b1 (n + m)"
      "wbits b1 = wbits b @ [bit v n]"
    by (auto simp: and_1_bit)
  from Suc.IH [OF _ b1(2)] Suc.prems(1) show ?case using b1 by auto
qed

lemma take_bit_Suc_or:
  "take_bit (Suc n) (v :: uint32) = take_bit n v OR (if bit v n then push_bit n 1 else 0)"
  if "n < 32"
  using that by (intro bit_word_eqI) (auto simp: bit_simps less_Suc_eq)

lemma ReadBits_loop_rbits:
  "n \<le> 32 \<Longrightarrow> rd_ok b \<Longrightarrow> rbits b = value_bits v n @ ys \<Longrightarrow>
    \<exists>b'. ReadBits_loop n acc b = (Inr (acc OR take_bit n v), b') \<and> rd_ok b' \<and> rbits b' = ys"
proof (induction n arbitrary: b acc)
  case 0
  then show ?case by simp
next
  case (Suc n)
  then obtain b1 where b1: "ReadBit b = (Inr (bit v n), b1)" "rd_ok b1" "rbits b1 = value_bits v n @ ys"
    using bb_reader.rbit_law [of b "bit v n" "value_bits v n @ ys"] by auto
  define acc' where "acc' = (if bit v n then acc OR push_bit n 1 else acc)"
  from Suc.IH [OF _ b1(2,3), of acc'] Suc.prems(1) obtain b' where
    "ReadBits_loop n acc' b1 = (Inr (acc' OR take_bit n v), b')" "rd_ok b'" "rbits b' = ys" by auto
  moreover have "acc' OR take_bit n v = acc OR take_bit (Suc n) v"
    using Suc.prems(1) by (simp add: acc'_def take_bit_Suc_or ac_simps)
  ultimately show ?case using b1 Suc.prems(1) by (simp add: acc'_def)
qed

lemma ReadBits_rbits:
  assumes "n \<le> 32" "rd_ok b" "rbits b = value_bits v n @ ys"
  shows "\<exists>b'. ReadBits n b = (Inr (take_bit n v), b') \<and> rd_ok b' \<and> rbits b' = ys"
  using ReadBits_loop_rbits [OF assms, of 0] by (simp add: ReadBits_def)

lemma write_fields:
  "(\<forall>(v, n) \<in> set fs. n \<le> 32) \<Longrightarrow> room_for b (sum_list (map snd fs)) \<Longrightarrow>
    \<exists>rs b'. mapM (\<lambda>(v, n). WriteBits v n) fs b = (Inr rs, b') \<and> room_for b' 0 \<and>
      wbits b' = wbits b @ concat (map (\<lambda>(v, n). value_bits v n) fs)"
proof (induction fs arbitrary: b)
  case Nil
  then show ?case by simp
next
  case (Cons f fs)
  obtain v n where f: "f = (v, n)" by (cases f)
  from WriteBits_wbits [of n b "sum_list (map snd fs)" v] Cons.prems f obtain b1 where
    "WriteBits v n b = (Inr (), b1)" "room_for b1 (sum_list (map snd fs))"
    "wbits b1 = wbits b @ value_bits v n" by auto
  with Cons.IH [of b1] Cons.prems f show ?case by fastforce
qed

lemma read_fields:
  "(\<forall>(v, n) \<in> set fs. n \<le> 32) \<Longrightarrow> rd_ok b \<Longrightarrow>
    rbits b = concat (map (\<lambda>(v, n). value_bits v n) fs) @ ys \<Longrightarrow>
    \<exists>b'. mapM (\<lambda>(v, n). ReadBits n) fs b = (Inr (map (\<lambda>(v, n). take_bit n v) fs), b') \<and>
      rd_ok b' \<and> rbits b' = ys"
proof (induction fs arbitrary: b)
  case Nil
  then show ?case by simp
next
  case (Cons f fs)
  obtain v n where f: "f = (v, n)" by (cases f)
  from ReadBits_rbits [of n b v "concat (map (\<lambda>(v, n). value_bits v n) fs) @ ys"] Cons.prems f
  obtain b1 where "ReadBits n b = (Inr (take_bit n v), b1)" "rd_ok b1"
    "rbits b1 = concat (map (\<lambda>(v, n). value_bits v n) fs) @ ys" by auto
  with Cons.IH [of b1] Cons.prems f show ?case by fastforce
qed


section \<open>Values, strings and identifiers\<close>

definition unread :: "byte_buffer \<Rightarrow> uint8 list" where
  "unread b = drop (rpos b) (storage b)"

lemma unread_Cons:
  "unread b = x # xs \<longleftrightarrow> rpos b < length (storage b) \<and> storage b ! rpos b = x \<and>
     xs = drop (Suc (rpos b)) (storage b)"
  by (cases "rpos b < length (storage b)") (auto simp: unread_def simp flip: Cons_nth_drop_Suc)

lemma unread_update [simp]: "unread (b\<lparr>rpos := rpos b + k\<rparr>) = drop k (unread b)"
  by (simp add: unread_def add.commute)

lemma unread_update_Suc [simp]: "unread (b\<lparr>rpos := Suc (rpos b)\<rparr>) = tl (unread b)"
  using unread_update [of b 1] by (simp add: drop_Suc)

lemma length_unread: "length (unread b) = length (storage b) - rpos b"
  by (simp add: unread_def)

lemma read_bytes_unread:
  assumes "unread b = bs @ rest" "length bs = k" "0 < k" "length (storage b) < 2 ^ 64"
  shows "read_bytes k b = (Inr bs, b\<lparr>rpos := rpos b + k\<rparr>)"
proof -
  have "rpos b + k \<le> length (storage b)"
    using assms length_unread [of b] by simp
  from read_bytes_ok [OF this assms(4)] assms(1,2) show ?thesis by (simp add: unread_def)
qed

lemma read_value_unread:
  fixes v :: "'a::len word"
  assumes "unread b = le_bytes v @ rest" "8 dvd LENGTH('a)" "length (storage b) < 2 ^ 64"
  shows "read_value b = (Inr v, b\<lparr>rpos := rpos b + LENGTH('a) div 8\<rparr>)"
proof -
  have "0 < LENGTH('a) div 8" using assms(2) by (metis dvd_div_eq_0_iff len_gt_0 not_gr_zero gr0I neq0_conv)
  then have "read_bytes (LENGTH('a) div 8) b = (Inr (le_bytes v), b\<lparr>rpos := rpos b + LENGTH('a) div 8\<rparr>)"
    using assms by (intro read_bytes_unread [where rest = rest]) auto
  then show ?thesis by (simp add: read_value_def le_value_le_bytes [OF assms(2)])
qed

lemma read_uint8_unread:
  assumes "unread b = x # xs" "length (storage b) < 2 ^ 64"
  shows "read_value b = (Inr (x :: uint8), b\<lparr>rpos := rpos b + 1\<rparr>)"
  using assms by (auto simp: unread_Cons read_uint8)

lemma word_nonzero_bit: "(w :: 'a::len word) \<noteq> 0 \<longleftrightarrow> (\<exists>n < LENGTH('a). bit w n)"
  by (metis bit_0_eq bit_word_eqI bot_apply bot_bool_def)

lemma ucast_uint64_uint8 [simp]: "(ucast (ucast (x :: uint8) :: uint64) :: uint8) = x"
  by (rule bit_word_eqI) (simp add: bit_simps)

lemma ucast_uint64_0 [simp]: "(ucast (x :: uint8) :: uint64) = 0 \<longleftrightarrow> x = 0"
  by (metis ucast_0 ucast_uint64_uint8)

text \<open>The packed form of an identifier: a mask of its non-zero bytes, then those bytes.\<close>

definition nonzero :: "uint8 list \<Rightarrow> uint8 list" where
  "nonzero bs = filter (\<lambda>x. x \<noteq> 0) bs"

fun byte_mask :: "nat \<Rightarrow> uint8 list \<Rightarrow> uint8" where
  "byte_mask i [] = 0"
| "byte_mask i (x # xs) = (if x \<noteq> 0 then push_bit i 1 else 0) OR byte_mask (Suc i) xs"

lemma nonzero_simps [simp]:
  "nonzero [] = []" "nonzero (0 # xs) = nonzero xs" "x \<noteq> 0 \<Longrightarrow> nonzero (x # xs) = x # nonzero xs"
  by (simp_all add: nonzero_def)

lemma bit_byte_mask:
  "i + length bs \<le> 8 \<Longrightarrow> bit (byte_mask i bs) n \<longleftrightarrow> i \<le> n \<and> n < i + length bs \<and> bs ! (n - i) \<noteq> 0"
proof (induction bs arbitrary: i)
  case Nil
  then show ?case by simp
next
  case (Cons x xs)
  then have "bit (byte_mask (Suc i) xs) n \<longleftrightarrow> Suc i \<le> n \<and> n < Suc i + length xs \<and> xs ! (n - Suc i) \<noteq> 0"
    by auto
  then show ?case using Cons.prems
    by (cases "n = i") (auto simp: bit_simps nth_Cons' Suc_le_eq)
qed

lemma byte_mask_zero: "\<forall>x\<in>set bs. x = 0 \<Longrightarrow> byte_mask i bs = 0 \<and> nonzero bs = []"
  by (induction bs arbitrary: i) auto

lemma le_value_zero: "\<forall>x\<in>set bs. x = 0 \<Longrightarrow> (le_value bs :: 'a::len word) = 0"
  by (induction bs) auto

lemma and_0xFF: "(w :: 'a::len word) AND 0xFF = take_bit 8 w"
proof -
  have "(0xFF :: 'a word) = mask 8" by (simp add: mask_eq_exp_minus_1)
  then show ?thesis by (simp only: take_bit_eq_mask)
qed

lemma le_value_Cons_and: "(le_value (x # xs) :: uint64) AND 0xFF = ucast x"
  by (rule bit_word_eqI) (auto simp: and_0xFF bit_simps dest: bit_imp_le_length)

lemma le_value_Cons_drop: "8 * length xs < 64 \<Longrightarrow> drop_bit 8 (le_value (x # xs) :: uint64) = le_value xs"
  by (rule bit_word_eqI) (auto simp: bit_simps bit_le_value dest: bit_imp_le_length)

lemma le_value_0_iff:
  assumes "8 * length bs \<le> 64"
  shows "(le_value bs :: uint64) = 0 \<longleftrightarrow> (\<forall>x\<in>set bs. x = 0)"
proof
  assume z: "(le_value bs :: uint64) = 0"
  show "\<forall>x\<in>set bs. x = 0"
  proof (rule ccontr)
    assume "\<not> ?thesis"
    then obtain j k where "j < length bs" "k < 8" "bit (bs ! j) k"
      by (auto simp: in_set_conv_nth word_nonzero_bit)
    then have "bit (le_value bs :: uint64) (8 * j + k)"
      using assms by (auto simp: bit_le_value)
    then show False using z by simp
  qed
qed (rule le_value_zero)

lemma pack_guid_loop_bytes:
  "i + length bs \<le> 8 \<Longrightarrow>
    pack_guid_loop i (le_value bs) m out = (m OR byte_mask i bs, out @ nonzero bs)"
proof (induction bs arbitrary: i m out)
  case Nil
  then show ?case by (simp add: pack_guid_loop.simps)
next
  case (Cons x xs)
  show ?case
  proof (cases "(le_value (x # xs) :: uint64) = 0")
    case True
    then have "\<forall>y\<in>set (x # xs). y = 0" using le_value_0_iff [of "x # xs"] Cons.prems by simp
    then show ?thesis using byte_mask_zero [of "x # xs"] True
      by (simp add: pack_guid_loop.simps del: le_value.simps)
  next
    case False
    have "drop_bit 8 (le_value (x # xs) :: uint64) = le_value xs"
      using Cons.prems by (intro le_value_Cons_drop) simp
    then show ?thesis
      using False Cons.IH [of "Suc i"] Cons.prems le_value_Cons_and [of x xs]
      by (subst pack_guid_loop.simps) (auto simp: ac_simps simp del: le_value.simps)
  qed
qed

lemma read_guid_loop_bytes:
  "i + length bs = 8 \<Longrightarrow> \<forall>j < length bs. bit m (i + j) \<longleftrightarrow> bs ! j \<noteq> 0 \<Longrightarrow>
   unread b = nonzero bs @ rest \<Longrightarrow> length (storage b) < 2 ^ 64 \<Longrightarrow>
   read_guid_loop [i..<8] m g b =
     (Inr (g OR push_bit (i * 8) (le_value bs)), b\<lparr>rpos := rpos b + length (nonzero bs)\<rparr>)"
proof (induction bs arbitrary: i g b)
  case Nil
  then show ?case by simp
next
  case (Cons x xs)
  have m: "m AND push_bit i 1 \<noteq> 0 \<longleftrightarrow> x \<noteq> 0"
    using Cons.prems(1,2) by (auto simp: and_exp_eq_0_iff_not_bit)
  have upt: "[i..<8] = i # [Suc i..<8]" using Cons.prems(1) by (simp add: upt_conv_Cons)
  have rest: "\<forall>j < length xs. bit m (Suc i + j) \<longleftrightarrow> xs ! j \<noteq> 0"
    using Cons.prems(2) by auto
  have join: "push_bit (i * 8) (le_value (x # xs) :: uint64) =
      push_bit (i * 8) (ucast x) OR push_bit (Suc i * 8) (le_value xs)"
    by (simp add: push_bit_or push_bit_push_bit ac_simps)
  show ?case
  proof (cases "x = 0")
    case True
    then show ?thesis
      using Cons.IH [of "Suc i" b g] Cons.prems rest m by (simp add: upt join [unfolded True] del: le_value.simps push_bit_Suc)
  next
    case False
    then have u: "unread b = x # nonzero xs @ rest" using Cons.prems(3) by simp
    then have "unread (b\<lparr>rpos := rpos b + 1\<rparr>) = nonzero xs @ rest" by simp
    then show ?thesis
      using Cons.IH [of "Suc i" "b\<lparr>rpos := rpos b + 1\<rparr>" "g OR push_bit (i * 8) (ucast x)"]
        Cons.prems rest m False read_uint8_unread [OF u Cons.prems(4)]
      by (simp add: upt join ac_simps del: le_value.simps push_bit_Suc)
  qed
qed

lemma packed_guid_bytes:
  "appendPackGUID g = append_bytes (byte_mask 0 (le_bytes g) # nonzero (le_bytes g))"
  using pack_guid_loop_bytes [of 0 "le_bytes g" 0 "[]"] by (simp add: appendPackGUID_def le_value_le_bytes)


lemma read_string_unread:
  "unread b = s @ 0 # rest \<Longrightarrow> 0 \<notin> set s \<Longrightarrow>
    read_string_loop acc b = (Inr (acc @ s), b\<lparr>rpos := rpos b + length s + 1\<rparr>)"
proof (induction s arbitrary: acc b)
  case Nil
  then show ?case by (simp add: unread_Cons read_string_loop.simps bb_size_def)
next
  case (Cons c s)
  then have "rpos b < length (storage b)" "storage b ! rpos b = c"
    by (auto simp: unread_Cons)
  moreover have "unread (b\<lparr>rpos := rpos b + 1\<rparr>) = s @ 0 # rest" using Cons.prems(1) by simp
  ultimately show ?case
    using Cons.IH [of "b\<lparr>rpos := rpos b + 1\<rparr>" "acc @ [c]"] Cons.prems(2)
    by (subst read_string_loop.simps) (auto simp: bb_size_def Let_def)
qed

lemma read_string_no_throw: "\<exists>s b'. read_string_loop acc b = (Inr s, b') \<and>
   rpos b \<le> rpos b' \<and> rpos b' \<le> max (rpos b) (length (storage b)) \<and> storage b' = storage b"
proof (induction acc b rule: read_string_loop.induct)
  case (1 acc b)
  show ?case
  proof (cases "rpos b < bb_size b \<and> storage b ! rpos b \<noteq> 0")
    case True
    with 1 [OF _ refl] show ?thesis
      by (subst read_string_loop.simps) (auto simp: bb_size_def Let_def)
  next
    case False
    then show ?thesis by (subst read_string_loop.simps) (auto simp: bb_size_def Let_def)
  qed
qed

section \<open>Memory safety\<close>

text \<open>
  The positions stay inside the vector and the bit cursor inside a byte; the bound on the size is
  what a 64-bit address space allows. Under this invariant no operation runs into undefined
  behaviour, and each keeps it.
\<close>

definition bb_wf :: "byte_buffer \<Rightarrow> bool" where
  "bb_wf b \<longleftrightarrow> rpos b \<le> bb_size b \<and> wpos b \<le> bb_size b \<and> bitpos b \<le> 8 \<and> bb_size b < 2 ^ 63"

definition safe :: "'a bb \<Rightarrow> byte_buffer \<Rightarrow> bool" where
  "safe m b \<longleftrightarrow> fst (m b) \<noteq> Inl UndefinedBehaviour \<and> bb_wf (snd (m b))"

lemma safe_bind:
  assumes "safe m b" "\<And>a b'. m b = (Inr a, b') \<Longrightarrow> bb_wf b' \<Longrightarrow> safe (f a) b'"
  shows "safe (bind m f) b"
  using assms by (cases "m b"; cases "fst (m b)") (auto simp: safe_def bind_def)

lemma safe_ret [simp]: "bb_wf b \<Longrightarrow> safe (ret a) b"
  by (simp add: safe_def)

lemma safe_throw [simp]: "bb_wf b \<Longrightarrow> e \<noteq> UndefinedBehaviour \<Longrightarrow> safe (throw e) b"
  by (simp add: safe_def)

lemma read_bytes_safe [simp]: "bb_wf b \<Longrightarrow> k < 2 ^ 63 \<Longrightarrow> safe (read_bytes k) b"
  by (auto simp: safe_def bb_wf_def read_bytes_def read_at_def bb_size_def)

lemma read_skip_safe: "bb_wf b \<Longrightarrow> k < 2 ^ 63 \<Longrightarrow> safe (read_skip k) b"
  by (auto simp: safe_def bb_wf_def read_skip_def bb_size_def)

lemma read_value_safe [simp]:
  "bb_wf b \<Longrightarrow> LENGTH('a) div 8 < 2 ^ 63 \<Longrightarrow> safe (read_value :: ('a::len word) bb) b"
  unfolding read_value_def by (rule safe_bind) auto

lemma read_bool_safe: "bb_wf b \<Longrightarrow> safe read_bool b"
  unfolding read_bool_def by (rule safe_bind) auto

lemma read_float_safe: "bb_wf b \<Longrightarrow> safe read_float b"
  unfolding read_float_def by (rule safe_bind) auto

lemma read_double_safe: "bb_wf b \<Longrightarrow> safe read_double b"
  unfolding read_double_def by (rule safe_bind) auto

lemma ReadString_safe: "bb_wf b \<Longrightarrow> n < 2 ^ 32 \<Longrightarrow> safe (ReadString n) b"
  unfolding ReadString_def by (auto intro: safe_bind)

lemma read_string_safe: "bb_wf b \<Longrightarrow> safe read_string b"
proof -
  have keep: "bitpos (snd (read_string_loop acc b)) = bitpos b \<and> wpos (snd (read_string_loop acc b)) = wpos b" for acc b
  proof (induction acc b rule: read_string_loop.induct)
    case (1 acc b)
    then show ?case by (subst (1 2) read_string_loop.simps) (simp add: Let_def)
  qed
  assume "bb_wf b"
  then show ?thesis
    using read_string_no_throw [of "[]" b] keep [of "[]" b]
    by (auto simp: safe_def read_string_def bb_wf_def bb_size_def)
qed

lemma ReadBit_safe [simp]: "bb_wf b \<Longrightarrow> safe ReadBit b"
proof -
  assume wf: "bb_wf b"
  then have "bb_wf (b\<lparr>bitpos := 0\<rparr>)" by (simp add: bb_wf_def bb_size_def)
  then have "safe (bind read_value (\<lambda>v b. (Inr (drop_bit 7 (v :: uint8) AND 1 \<noteq> 0), b\<lparr>curbitval := v\<rparr>)))
      (b\<lparr>bitpos := 0\<rparr>)"
    by (rule safe_bind [OF read_value_safe]) (auto simp: safe_def bb_wf_def bb_size_def)
  then show ?thesis using wf by (auto simp: ReadBit_def Let_def safe_def bb_wf_def bb_size_def)
qed

lemma ReadBits_loop_safe: "bb_wf b \<Longrightarrow> n \<le> 32 \<Longrightarrow> safe (ReadBits_loop n v) b"
  by (induction n arbitrary: b v) (auto intro!: safe_bind)

lemma ReadBits_safe: "bb_wf b \<Longrightarrow> n \<le> 32 \<Longrightarrow> safe (ReadBits n) b"
  by (simp add: ReadBits_def ReadBits_loop_safe)

lemma ReadByteSeq_safe: "bb_wf b \<Longrightarrow> safe (ReadByteSeq x) b"
  unfolding ReadByteSeq_def by (auto intro!: safe_bind)

lemma read_guid_loop_safe: "bb_wf b \<Longrightarrow> safe (read_guid_loop is m g) b"
  by (induction "is" m g arbitrary: b rule: read_guid_loop.induct) (auto intro!: safe_bind)

lemma readPackGUID_safe: "bb_wf b \<Longrightarrow> safe readPackGUID b"
  unfolding readPackGUID_def by (auto intro!: safe_bind read_guid_loop_safe)

lemma ReadPackedTime_safe: "bb_wf b \<Longrightarrow> safe (ReadPackedTime mktime) b"
  unfolding ReadPackedTime_def by (auto intro!: safe_bind)

lemma append_aligned_safe: "bb_wf b \<Longrightarrow> bb_size b \<le> 10000000 \<Longrightarrow> length src < 2 ^ 62 \<Longrightarrow> safe (append_aligned src) b"
  by (auto simp: safe_def bb_wf_def append_aligned_def Let_def bb_size_def)

lemma FlushBits_safe: "bb_wf b \<Longrightarrow> safe FlushBits b \<and> bb_size (snd (FlushBits b)) \<le> bb_size b + 1"
  by (auto simp: safe_def FlushBits_def bb_wf_def bb_size_def append_aligned_def bind_def Let_def)

lemma append_bytes_safe: "bb_wf b \<Longrightarrow> length src < 2 ^ 62 \<Longrightarrow> safe (append_bytes src) b"
proof (cases "src = [] \<or> \<not> bb_size b < 10000000")
  case True
  moreover assume "bb_wf b"
  ultimately show ?thesis by (auto simp: safe_def append_bytes_def)
next
  case False
  assume wf: "bb_wf b" and len: "length src < 2 ^ 62"
  have "safe (bind FlushBits (\<lambda>_. append_aligned src)) b"
    using FlushBits_safe [OF wf] False len by (intro safe_bind) (auto intro!: append_aligned_safe)
  then show ?thesis using False by (simp add: safe_def append_bytes_def)
qed

lemma put_bytes_safe: "bb_wf b \<Longrightarrow> pos + length src < 2 ^ 64 \<Longrightarrow> safe (put_bytes pos src) b"
  by (auto simp: safe_def put_bytes_def bb_wf_def bb_size_def)

section \<open>Patching bits in place\<close>

lemma nth_bits_of: "p < 8 * length st \<Longrightarrow> bits_of st ! p = bit (st ! (p div 8)) (7 - p mod 8)"
proof (induction st arbitrary: p)
  case Nil
  then show ?case by simp
next
  case (Cons x st)
  show ?case
  proof (cases "p < 8")
    case True
    then show ?thesis by (simp add: nth_append)
  next
    case False
    then have "p div 8 = Suc ((p - 8) div 8)" "p mod 8 = (p - 8) mod 8"
      by (simp_all add: le_div_geq le_mod_geq)
    then show ?thesis using False Cons by (simp add: nth_append)
  qed
qed

lemma length_put_bit [simp]: "length (put_bit st p v) = length st"
  by (simp add: put_bit_def Let_def)

lemma bits_of_put_bit:
  assumes "p < 8 * length st"
  shows "bits_of (put_bit st p v) = (bits_of st)[p := v]"
proof (rule nth_equalityI)
  show "length (bits_of (put_bit st p v)) = length ((bits_of st)[p := v])" by simp
  fix q assume "q < length (bits_of (put_bit st p v))"
  then have q: "q < 8 * length st" by simp
  have pq: "p = q \<longleftrightarrow> p div 8 = q div 8 \<and> p mod 8 = q mod 8"
    by (metis div_mult_mod_eq)
  have "p mod 8 = q mod 8 \<longleftrightarrow> 7 - p mod 8 = 7 - q mod 8"
    using mod_less_divisor [of 8 p] mod_less_divisor [of 8 q] by linarith
  moreover have "7 - q mod 8 < 8" by simp
  ultimately show "bits_of (put_bit st p v) ! q = (bits_of st)[p := v] ! q"
    using q assms pq
    by (auto simp: nth_bits_of nth_list_update put_bit_def Let_def bit_simps)
qed

lemma put_bits_loop_fold:
  "\<forall>i \<in> set is. pos + i < 8 * length st \<Longrightarrow>
    bits_of (put_bits_loop pos v n is st) = fold (\<lambda>i bs. bs[pos + i := bit v (n - i - 1)]) is (bits_of st)"
  by (induction "is" arbitrary: st) (auto simp: bits_of_put_bit and_1_bit)

lemma nth_fold_update:
  "q < length bs \<Longrightarrow>
    fold (\<lambda>i bs. bs[pos + i := f i]) is bs ! q = (if pos \<le> q \<and> q - pos \<in> set is then f (q - pos) else bs ! q)"
  by (induction "is" arbitrary: bs) (auto simp: nth_list_update)

lemma length_fold_update [simp]: "length (fold (\<lambda>i bs. bs[pos + i := f i]) is bs) = length bs"
  by (induction "is" arbitrary: bs) auto

lemma nth_value_bits: "i < n \<Longrightarrow> value_bits v n ! i = bit v (n - i - 1)"
  by (simp add: value_bits_def rev_nth)

lemma fold_update_segment:
  assumes "pos + n \<le> length bs"
  shows "fold (\<lambda>i bs. bs[pos + i := bit v (n - i - 1)]) [0..<n] bs =
    take pos bs @ value_bits v n @ drop (pos + n) bs"
proof (rule nth_equalityI)
  fix q assume "q < length (fold (\<lambda>i bs. bs[pos + i := bit v (n - i - 1)]) [0..<n] bs)"
  then have q: "q < length bs" by simp
  consider "q < pos" | "pos \<le> q" "q < pos + n" | "pos + n \<le> q" by linarith
  then show "fold (\<lambda>i bs. bs[pos + i := bit v (n - i - 1)]) [0..<n] bs ! q =
      (take pos bs @ value_bits v n @ drop (pos + n) bs) ! q"
    using q assms by cases (auto simp: nth_fold_update nth_append nth_value_bits)
qed (use assms in simp)

lemma PutBits_bits:
  assumes "bb_wf b" "bb_size b < 2 ^ 60" "0 < n" "n \<le> 32" "pos + n \<le> 8 * bb_size b"
  shows "\<exists>b'. PutBits pos v n b = (Inr (), b') \<and>
    bits_of (storage b') = take pos (bits_of (storage b)) @ value_bits v n @ drop (pos + n) (bits_of (storage b)) \<and>
    b' = b\<lparr>storage := storage b'\<rparr>"
proof -
  have "bits_of (put_bits_loop pos v n [0..<n] (storage b)) =
      fold (\<lambda>i bs. bs[pos + i := bit v (n - i - 1)]) [0..<n] (bits_of (storage b))"
    using assms by (intro put_bits_loop_fold) (auto simp: bb_size_def)
  also have "\<dots> = take pos (bits_of (storage b)) @ value_bits v n @ drop (pos + n) (bits_of (storage b))"
    using assms by (intro fold_update_segment) (simp add: bb_size_def)
  finally have bits: "bits_of (put_bits_loop pos v n [0..<n] (storage b)) =
      take pos (bits_of (storage b)) @ value_bits v n @ drop (pos + n) (bits_of (storage b))" .
  have "size_add pos n = pos + n" "bb_size b * 8 mod 2 ^ 64 = bb_size b * 8"
    using assms by simp_all
  then have "PutBits pos v n b = (Inr (), b\<lparr>storage := put_bits_loop pos v n [0..<n] (storage b)\<rparr>)"
    using assms by (simp add: PutBits_def)
  then show ?thesis using bits by simp
qed

section \<open>Packed times\<close>

lemma small_bit: "take_bit k (w :: uint32) = w \<Longrightarrow> bit w n \<Longrightarrow> n < k"
  by (metis bit_take_bit_iff)

lemma word_small:
  assumes "0 \<le> x" "x < 2 ^ k" "k \<le> 32"
  shows "take_bit k (word_of_int x :: uint32) = word_of_int x" "uint (word_of_int x :: uint32) = x"
proof -
  have "(2::int) ^ k \<le> 2 ^ 32" using assms(3) by (rule power_increasing) simp
  then show u: "uint (word_of_int x :: uint32) = x" using assms by (simp add: uint_word_of_int)
  show "take_bit k (word_of_int x :: uint32) = word_of_int x"
    using assms u by (intro word_uint_eqI) (simp add: unsigned_take_bit_eq take_bit_int_eq_self)
qed

lemma and_masks:
  "(w :: uint32) AND 0x3F = take_bit 6 w" "w AND 0x1F = take_bit 5 w" "w AND 0xF = take_bit 4 w"
  by (simp_all add: take_bit_eq_mask mask_eq_exp_minus_1)

definition packable :: "tm \<Rightarrow> bool" where
  "packable lt \<longleftrightarrow> 0 \<le> tm_min lt \<and> tm_min lt < 60 \<and> 0 \<le> tm_hour lt \<and> tm_hour lt < 24 \<and>
     1 \<le> tm_mday lt \<and> tm_mday lt \<le> 31 \<and> 0 \<le> tm_mon lt \<and> tm_mon lt < 12 \<and>
     100 \<le> tm_year lt \<and> tm_year lt < 132 \<and> 0 \<le> tm_wday lt \<and> tm_wday lt < 7"

lemma unpack_words:
  fixes y mo d wd h mi :: uint32
  assumes "take_bit 5 y = y" "take_bit 4 mo = mo" "take_bit 6 d = d" "take_bit 3 wd = wd"
    "take_bit 5 h = h" "take_bit 6 mi = mi"
  defines "p \<equiv> push_bit 24 y OR push_bit 20 mo OR push_bit 14 d OR push_bit 11 wd OR push_bit 6 h OR mi"
  shows "take_bit 6 p = mi" "take_bit 5 (drop_bit 6 p) = h" "take_bit 6 (drop_bit 14 p) = d"
    "take_bit 4 (drop_bit 20 p) = mo" "take_bit 5 (drop_bit 24 p) = y"
  using assms(1-6) [THEN small_bit]
  by (fastforce intro!: bit_word_eqI simp: p_def bit_simps)+

lemma unpack_pack_tm:
  assumes "packable lt"
  shows "unpack_tm (pack_tm lt) = lt\<lparr>tm_wday := 0\<rparr>"
proof -
  have w: "take_bit 5 (word_of_int (tm_year lt - 100) :: uint32) = word_of_int (tm_year lt - 100)"
    "take_bit 4 (word_of_int (tm_mon lt) :: uint32) = word_of_int (tm_mon lt)"
    "take_bit 6 (word_of_int (tm_mday lt - 1) :: uint32) = word_of_int (tm_mday lt - 1)"
    "take_bit 3 (word_of_int (tm_wday lt) :: uint32) = word_of_int (tm_wday lt)"
    "take_bit 5 (word_of_int (tm_hour lt) :: uint32) = word_of_int (tm_hour lt)"
    "take_bit 6 (word_of_int (tm_min lt) :: uint32) = word_of_int (tm_min lt)"
    using assms by (intro word_small; simp add: packable_def)+
  have u: "uint (word_of_int (tm_year lt - 100) :: uint32) = tm_year lt - 100"
    "uint (word_of_int (tm_mon lt) :: uint32) = tm_mon lt"
    "uint (word_of_int (tm_mday lt - 1) :: uint32) = tm_mday lt - 1"
    "uint (word_of_int (tm_hour lt) :: uint32) = tm_hour lt"
    "uint (word_of_int (tm_min lt) :: uint32) = tm_min lt"
    using assms by (intro word_small(2) [where k = 6]; simp add: packable_def)+
  show ?thesis
    unfolding unpack_tm_def pack_tm_def and_masks unpack_words [OF w] u by simp
qed

section \<open>Properties\<close>

text \<open>\<^bold>\<open>C2.\<close>
  Any sequence of bit fields (each of at most 32 bits, 80,000,000 bits in all) written with
  \<^verbatim>\<open>WriteBits\<close> into a new buffer and flushed is read back field by field with
  \<^verbatim>\<open>ReadBits\<close> by a receiver that takes over the bytes: no call throws or aborts and each
  value comes back reduced to its field width.
\<close>

theorem bit_fields_roundtrip:
  assumes "\<forall>(v, n) \<in> set fs. n \<le> 32" and "sum_list (map snd fs) \<le> 80000000"
  shows "\<exists>rs b b'. mapM (\<lambda>(v, n). WriteBits v n) fs bb_new = (Inr rs, b) \<and>
    mapM (\<lambda>(v, n). ReadBits n) fs (transmit b) = (Inr (map (\<lambda>(v, n). take_bit n v) fs), b')"
proof -
  have "room_for bb_new (sum_list (map snd fs))" and new: "wbits bb_new = []"
    using assms(2) by (simp_all add: room_for_def wbits_def wr_ok_def bb_new_def InitialBitPos_def)
  with write_fields [OF assms(1)] obtain rs b where
    w: "mapM (\<lambda>(v, n). WriteBits v n) fs bb_new = (Inr rs, b)" "room_for b 0"
      "wbits b = concat (map (\<lambda>(v, n). value_bits v n) fs)" by fastforce
  from transmit_bits [OF w(2)] w(3) obtain k where "rd_ok (transmit b)"
    "rbits (transmit b) = concat (map (\<lambda>(v, n). value_bits v n) fs) @ replicate k False" by auto
  from read_fields [OF assms(1) this] w(1) show ?thesis by auto
qed

theorem bit_fields_roundtrip_witness:
  "\<exists>rs b b'. mapM (\<lambda>(v, n). WriteBits v n) [(5, 3), (300, 8), (1, 1)] bb_new = (Inr rs, b) \<and>
    mapM (\<lambda>(v, n). ReadBits n) [(5 :: uint32, 3), (300, 8), (1, 1)] (transmit b) = (Inr [5, 44, 1], b')"
proof -
  have "take_bit 3 (5 :: uint32) = 5" "take_bit 8 (300 :: uint32) = 44" "take_bit (Suc 0) (1 :: uint32) = 1"
    by (simp_all add: take_bit_word_eq_self)
  then show ?thesis
    using bit_fields_roundtrip [of "[(5, 3), (300, 8), (1, 1)]"] by simp
qed

text \<open>\<^bold>\<open>C11.\<close>
  Packed identifiers: \<^verbatim>\<open>appendPackGUID\<close> at the end of a byte-aligned buffer writes at
  most nine bytes, and \<^verbatim>\<open>readPackGUID\<close> at that place returns the very identifier and stops
  exactly behind it.
\<close>

theorem pack_guid_roundtrip:
  assumes "wr_ok b" "bitpos b = 8" "length (storage b) < 10000000" "rpos b = length (storage b)"
  shows "\<exists>b1 b2. appendPackGUID g b = (Inr (), b1) \<and> readPackGUID b1 = (Inr g, b2) \<and>
     rpos b2 = wpos b1 \<and> length (storage b1) \<le> length (storage b) + 9"
proof -
  define src where "src = byte_mask 0 (le_bytes g) # nonzero (le_bytes g)"
  define b1 where "b1 = b\<lparr>storage := storage b @ src, wpos := length (storage b) + length src\<rparr>"
  have len: "length (nonzero (le_bytes g)) \<le> 8"
    using length_filter_le [of "\<lambda>x. x \<noteq> 0" "le_bytes g"] by (simp add: nonzero_def)
  have w: "appendPackGUID g b = (Inr (), b1)"
    unfolding packed_guid_bytes b1_def src_def
    using assms len by (intro append_bytes_end) (auto simp: wr_ok_def)
  have u: "unread b1 = byte_mask 0 (le_bytes g) # nonzero (le_bytes g)"
    using assms(4) by (simp add: b1_def unread_def src_def)
  have s1: "length (storage b1) < 2 ^ 64" using assms len by (simp add: b1_def src_def)
  have "read_value b1 = (Inr (byte_mask 0 (le_bytes g)), b1\<lparr>rpos := rpos b1 + 1\<rparr>)"
    by (rule read_uint8_unread [OF u s1])
  moreover have "read_guid_loop [0..<8] (byte_mask 0 (le_bytes g)) 0 (b1\<lparr>rpos := rpos b1 + 1\<rparr>) =
      (Inr (0 OR push_bit (0 * 8) (le_value (le_bytes g))),
       b1\<lparr>rpos := rpos b1 + 1, rpos := rpos (b1\<lparr>rpos := rpos b1 + 1\<rparr>) + length (nonzero (le_bytes g))\<rparr>)"
    using u s1 by (intro read_guid_loop_bytes [where rest = "[]"]) (auto simp: bit_byte_mask)
  ultimately have "readPackGUID b1 = (Inr g, b1\<lparr>rpos := rpos b1 + 1 + length (nonzero (le_bytes g))\<rparr>)"
    by (simp add: readPackGUID_def le_value_le_bytes)
  then show ?thesis using w len assms(4) by (auto simp: b1_def src_def)
qed

theorem pack_guid_roundtrip_witness:
  "\<exists>b1 b2. appendPackGUID 0xF130000C2A00B511 bb_new = (Inr (), b1) \<and>
     readPackGUID b1 = (Inr 0xF130000C2A00B511, b2) \<and> rpos b2 = wpos b1 \<and> length (storage b1) \<le> 9"
  using pack_guid_roundtrip [of bb_new "0xF130000C2A00B511"]
  by (simp add: wr_ok_def bb_new_def InitialBitPos_def)



text \<open>\<^bold>\<open>C21.\<close>
  \<^verbatim>\<open>PutBits\<close> patches exactly the addressed bits: read as one bit stream, the packet after
  the call is the packet before it with the \<open>n\<close> bits from \<open>pos\<close> on replaced by the low \<open>n\<close>
  bits of the value, most significant first; positions and bit cursor are untouched.
\<close>

theorem PutBits_refines:
  assumes "bb_wf b" "bb_size b < 2 ^ 60" "0 < n" "n \<le> 32" "pos + n \<le> 8 * bb_size b"
  shows "\<exists>b'. PutBits pos v n b = (Inr (), b') \<and>
    bits_of (storage b') = take pos (bits_of (storage b)) @ value_bits v n @ drop (pos + n) (bits_of (storage b)) \<and>
    b' = b\<lparr>storage := storage b'\<rparr>"
  using assms by (rule PutBits_bits)

theorem PutBits_refines_witness:
  "\<exists>b'. PutBits 6 5 4 (bb_of_message [0, 255]) = (Inr (), b') \<and>
    bits_of (storage b') = take 6 (bits_of [0, 255]) @ value_bits 5 4 @ drop 10 (bits_of [0, 255])"
  using PutBits_refines [of "bb_of_message [0, 255]" 4 6 5]
  by (auto simp: bb_wf_def bb_of_message_def bb_new_def InitialBitPos_def bb_size_def)



end
