(* ===== verification/Event_Map.thy ===== *)
theory Event_Map
  imports Prelude "HOL-Library.Multiset"
begin

text \<open>
  The script timer \<^verbatim>\<open>src/src/common/Utilities/EventMap.{h,cpp}\<close>: events keyed by the time they
  are due, in a \<^verbatim>\<open>std::multimap<uint32, uint32>\<close>. The multimap is the list of its entries in
  iteration order: ascending keys, entries of equal key in the order of their insertion. An entry's
  value packs the event id (bits 0 to 15), a group mask (16 to 23) and a phase mask (24 to 31).
  \<^verbatim>\<open>urand\<close> is a parameter of the operations that draw a random time.
\<close>

section \<open>The ordered multimap\<close>

type_synonym event_store = "(uint32 \<times> uint32) list"

text \<open>\<^verbatim>\<open>multimap::insert\<close> places a new entry behind all entries of a key not above its own.\<close>

fun mm_insert :: "uint32 \<times> uint32 \<Rightarrow> event_store \<Rightarrow> event_store" where
  "mm_insert e [] = [e]"
| "mm_insert e (x # xs) = (if fst x \<le> fst e then x # mm_insert e xs else e # x # xs)"

definition mm_insert_all :: "event_store \<Rightarrow> event_store \<Rightarrow> event_store" where
  "mm_insert_all es m = fold mm_insert es m"

section \<open>State and operations\<close>

record event_map =
  ev_time :: uint32
  ev_phase :: uint8
  eventMap :: event_store
  lastEvent :: uint32

definition em_new :: event_map where
  "em_new = \<lparr>ev_time = 0, ev_phase = 0, eventMap = [], lastEvent = 0\<rparr>"

definition Reset :: "event_map \<Rightarrow> event_map" where
  "Reset m = m\<lparr>eventMap := [], ev_time := 0, ev_phase := 0\<rparr>"

definition Update :: "uint32 \<Rightarrow> event_map \<Rightarrow> event_map" where
  "Update t m = m\<lparr>ev_time := ev_time m + t\<rparr>"

definition GetTimer :: "event_map \<Rightarrow> uint32" where
  "GetTimer m = ev_time m"

definition GetPhaseMask :: "event_map \<Rightarrow> uint8" where
  "GetPhaseMask m = ev_phase m"

definition Empty :: "event_map \<Rightarrow> bool" where
  "Empty m \<longleftrightarrow> eventMap m = []"

definition SetPhase :: "uint8 \<Rightarrow> event_map \<Rightarrow> event_map" where
  "SetPhase phase m =
     (if phase = 0 then m\<lparr>ev_phase := 0\<rparr>
      else if phase \<le> 8 then m\<lparr>ev_phase := push_bit (unat phase - 1) 1\<rparr>
      else m)"

definition AddPhase :: "uint8 \<Rightarrow> event_map \<Rightarrow> event_map" where
  "AddPhase phase m =
     (if phase \<noteq> 0 \<and> phase \<le> 8 then m\<lparr>ev_phase := ev_phase m OR push_bit (unat phase - 1) 1\<rparr> else m)"

definition RemovePhase :: "uint8 \<Rightarrow> event_map \<Rightarrow> event_map" where
  "RemovePhase phase m =
     (if phase \<noteq> 0 \<and> phase \<le> 8
      then m\<lparr>ev_phase := ev_phase m AND NOT (push_bit (unat phase - 1) 1)\<rparr> else m)"

definition IsInPhase :: "uint8 \<Rightarrow> event_map \<Rightarrow> bool" where
  "IsInPhase phase m \<longleftrightarrow>
     phase \<le> 8 \<and> (phase = 0 \<or> ev_phase m AND push_bit (unat phase - 1) 1 \<noteq> 0)"

definition HasEvent :: "uint32 \<Rightarrow> event_map \<Rightarrow> bool" where
  "HasEvent eventId m \<longleftrightarrow> (\<exists>e \<in> set (eventMap m). snd e AND 0xFFFFFFFF = eventId)"

definition event_data :: "uint32 \<Rightarrow> uint32 \<Rightarrow> uint8 \<Rightarrow> uint32" where
  "event_data eventId grp phase =
     (let e1 = (if grp \<noteq> 0 \<and> grp \<le> 8 then eventId OR push_bit (unat grp + 15) 1 else eventId)
      in if phase \<noteq> 0 \<and> phase \<le> 8 then e1 OR push_bit (unat phase + 23) 1 else e1)"

definition ScheduleEvent :: "uint32 \<Rightarrow> uint32 \<Rightarrow> uint32 \<Rightarrow> uint8 \<Rightarrow> event_map \<Rightarrow> event_map" where
  "ScheduleEvent eventId time grp phase m =
     m\<lparr>eventMap := mm_insert (ev_time m + time, event_data eventId grp phase) (eventMap m)\<rparr>"

text \<open>The overload with a time range takes the phase as \<^verbatim>\<open>uint32\<close> and narrows it.\<close>

definition ScheduleEvent_range ::
  "(uint32 \<Rightarrow> uint32 \<Rightarrow> uint32) \<Rightarrow> uint32 \<Rightarrow> uint32 \<Rightarrow> uint32 \<Rightarrow> uint32 \<Rightarrow> uint32 \<Rightarrow> event_map \<Rightarrow> event_map" where
  "ScheduleEvent_range urand eventId minTime maxTime grp phase =
     ScheduleEvent eventId (urand minTime maxTime) grp (ucast phase)"

definition CancelEvent :: "uint32 \<Rightarrow> event_map \<Rightarrow> event_map" where
  "CancelEvent eventId m =
     (if Empty m then m
      else m\<lparr>eventMap := filter (\<lambda>e. \<not> eventId = snd e AND 0xFFFF) (eventMap m)\<rparr>)"

definition CancelEventGroup :: "uint32 \<Rightarrow> event_map \<Rightarrow> event_map" where
  "CancelEventGroup grp m =
     (if grp = 0 \<or> grp > 8 \<or> Empty m then m
      else m\<lparr>eventMap := filter (\<lambda>e. snd e AND push_bit (unat grp + 15) 1 = 0) (eventMap m)\<rparr>)"

definition RescheduleEvent :: "uint32 \<Rightarrow> uint32 \<Rightarrow> uint32 \<Rightarrow> uint8 \<Rightarrow> event_map \<Rightarrow> event_map" where
  "RescheduleEvent eventId time grp phase m =
     ScheduleEvent eventId time grp phase (CancelEvent eventId m)"

definition RescheduleEvent_range ::
  "(uint32 \<Rightarrow> uint32 \<Rightarrow> uint32) \<Rightarrow> uint32 \<Rightarrow> uint32 \<Rightarrow> uint32 \<Rightarrow> uint32 \<Rightarrow> uint32 \<Rightarrow> event_map \<Rightarrow> event_map" where
  "RescheduleEvent_range urand eventId minTime maxTime grp phase =
     RescheduleEvent eventId (urand minTime maxTime) grp (ucast phase)"

definition Repeat :: "uint32 \<Rightarrow> event_map \<Rightarrow> event_map" where
  "Repeat time m = m\<lparr>eventMap := mm_insert (ev_time m + time, lastEvent m) (eventMap m)\<rparr>"

definition Repeat_range :: "(uint32 \<Rightarrow> uint32 \<Rightarrow> uint32) \<Rightarrow> uint32 \<Rightarrow> uint32 \<Rightarrow> event_map \<Rightarrow> event_map" where
  "Repeat_range urand minTime maxTime = Repeat (urand minTime maxTime)"

text \<open>The loop of \<^verbatim>\<open>ExecuteEvent\<close> looks at the first entry only; each round that does not
  return erases it. The result is the event id, the remaining store and the last event.\<close>

fun execute_loop :: "uint32 \<Rightarrow> uint8 \<Rightarrow> uint32 \<Rightarrow> event_store \<Rightarrow> uint32 \<times> event_store \<times> uint32" where
  "execute_loop now phase lst [] = (0, [], lst)"
| "execute_loop now phase lst ((t, v) # es) =
     (if t > now then (0, (t, v) # es, lst)
      else if phase \<noteq> 0 \<and> v AND 0xFF000000 \<noteq> 0 \<and> \<not> drop_bit 24 v AND ucast phase \<noteq> 0
        then execute_loop now phase lst es
      else (v AND 0x0000FFFF, es, v))"

definition ExecuteEvent :: "event_map \<Rightarrow> uint32 \<times> event_map" where
  "ExecuteEvent m =
     (case execute_loop (ev_time m) (ev_phase m) (lastEvent m) (eventMap m) of
        (ev, es, lst) \<Rightarrow> (ev, m\<lparr>eventMap := es, lastEvent := lst\<rparr>))"

definition DelayEvents :: "uint32 \<Rightarrow> event_map \<Rightarrow> event_map" where
  "DelayEvents delay m = m\<lparr>ev_time := (if delay < ev_time m then ev_time m - delay else 0)\<rparr>"

text \<open>Both selective delays collect the matching entries, in order, into a second multimap
  while they erase them, and then insert that one into what is left.\<close>

definition delay_matching :: "(uint32 \<Rightarrow> bool) \<Rightarrow> uint32 \<Rightarrow> event_store \<Rightarrow> event_store" where
  "delay_matching p delay es =
     (let delayed = mm_insert_all (map (\<lambda>(t, v). (t + delay, v)) (filter (\<lambda>e. p (snd e)) es)) []
      in mm_insert_all delayed (filter (\<lambda>e. \<not> p (snd e)) es))"

definition DelayEvents_group :: "uint32 \<Rightarrow> uint32 \<Rightarrow> event_map \<Rightarrow> event_map" where
  "DelayEvents_group delay grp m =
     (if grp = 0 \<or> grp > 8 \<or> Empty m then m
      else m\<lparr>eventMap := delay_matching (\<lambda>v. v AND push_bit (unat grp + 15) 1 \<noteq> 0) delay (eventMap m)\<rparr>)"

definition DelayEvent :: "uint32 \<Rightarrow> uint32 \<Rightarrow> event_map \<Rightarrow> event_map" where
  "DelayEvent eventID delay m =
     (if Empty m then m
      else m\<lparr>eventMap := delay_matching (\<lambda>v. v AND 0xFFFFFFFF = eventID) delay (eventMap m)\<rparr>)"

definition GetNextEventTime :: "uint32 \<Rightarrow> event_map \<Rightarrow> uint32" where
  "GetNextEventTime eventId m =
     (if Empty m then 0
      else case find (\<lambda>e. eventId = snd e AND 0xFFFF) (eventMap m) of None \<Rightarrow> 0 | Some e \<Rightarrow> fst e)"

definition GetNextEventTime_any :: "event_map \<Rightarrow> uint32" where
  "GetNextEventTime_any m = (case eventMap m of [] \<Rightarrow> 0 | e # _ \<Rightarrow> fst e)"

definition GetTimeUntilEvent :: "uint32 \<Rightarrow> event_map \<Rightarrow> uint32" where
  "GetTimeUntilEvent eventId m =
     (case find (\<lambda>e. eventId = snd e AND 0xFFFF) (eventMap m) of
        None \<Rightarrow> - 1
      | Some e \<Rightarrow> fst e - ev_time m)"

section \<open>The store stays ordered\<close>

definition by_time :: "event_store \<Rightarrow> bool" where
  "by_time es \<longleftrightarrow> sorted (map fst es)"

lemma by_time_simps [simp]:
  "by_time []" "by_time (x # xs) \<longleftrightarrow> (\<forall>y \<in> set xs. fst x \<le> fst y) \<and> by_time xs"
  by (auto simp: by_time_def)

lemma set_mm_insert [simp]: "set (mm_insert e es) = insert e (set es)"
  by (induction es) auto

lemma by_time_mm_insert [simp]: "by_time es \<Longrightarrow> by_time (mm_insert e es)"
  by (induction es) auto

lemma mset_mm_insert: "mset (mm_insert e es) = add_mset e (mset es)"
  by (induction es) auto

lemma by_time_insert_all [simp]: "by_time m \<Longrightarrow> by_time (mm_insert_all es m)"
  unfolding mm_insert_all_def by (induction es arbitrary: m) auto

lemma mset_insert_all: "mset (mm_insert_all es m) = mset es + mset m"
  unfolding mm_insert_all_def by (induction es arbitrary: m) (auto simp: mset_mm_insert)

lemma by_time_filter [simp]: "by_time es \<Longrightarrow> by_time (filter p es)"
  by (induction es) auto

lemma by_time_delay_matching [simp]: "by_time es \<Longrightarrow> by_time (delay_matching p d es)"
  by (simp add: delay_matching_def Let_def)

lemma mset_delay_matching:
  "mset (delay_matching p d es) = mset (map (\<lambda>(t, v). (if p v then t + d else t, v)) es)"
proof -
  have "mset (map (\<lambda>(t, v). (t + d, v)) (filter (\<lambda>e. p (snd e)) es)) + mset (filter (\<lambda>e. \<not> p (snd e)) es)
      = mset (map (\<lambda>(t, v). (if p v then t + d else t, v)) es)"
    by (induction es) auto
  then show ?thesis by (simp add: delay_matching_def Let_def mset_insert_all del: mset_map mset_filter)
qed

text \<open>Splitting a sorted store at the current time: what is due comes first.\<close>

lemma by_time_partition:
  "by_time es \<Longrightarrow> filter (\<lambda>e. fst e \<le> now) es @ filter (\<lambda>e. \<not> fst e \<le> now) es = es"
proof (induction es)
  case Nil
  then show ?case by simp
next
  case (Cons x xs)
  show ?case
  proof (cases "fst x \<le> now")
    case True
    then show ?thesis using Cons by simp
  next
    case False
    then have "filter (\<lambda>e. fst e \<le> now) xs = []" "filter (\<lambda>e. \<not> fst e \<le> now) xs = xs"
      using Cons.prems by (force simp: filter_empty_conv filter_id_conv)+
    then show ?thesis using False by simp
  qed
qed

definition blocked :: "uint8 \<Rightarrow> uint32 \<Rightarrow> bool" where
  "blocked phase v \<longleftrightarrow> phase \<noteq> 0 \<and> v AND 0xFF000000 \<noteq> 0 \<and> drop_bit 24 v AND ucast phase = 0"

lemma execute_loop_suffix:
  "\<exists>gone. es = gone @ fst (snd (execute_loop now phase lst es)) \<and> (\<forall>e \<in> set gone. fst e \<le> now)"
proof (induction now phase lst es rule: execute_loop.induct)
  case (1 now phase lst)
  then show ?case by simp
next
  case (2 now phase lst t v es)
  show ?case
  proof (cases "t > now")
    case True
    then show ?thesis by simp
  next
    case t: False
    show ?thesis
    proof (cases "blocked phase v")
      case True
      then obtain gone where "es = gone @ fst (snd (execute_loop now phase lst es))"
          "\<forall>e \<in> set gone. fst e \<le> now"
        using 2 t by (auto simp: blocked_def)
      then show ?thesis using t True
        by (intro exI [of _ "(t, v) # gone"]) (auto simp: blocked_def not_less)
    next
      case False
      then show ?thesis using t by (intro exI [of _ "[(t, v)]"]) (auto simp: blocked_def not_less)
    qed
  qed
qed

lemma by_time_append: "by_time (xs @ ys) \<Longrightarrow> by_time ys"
  by (simp add: by_time_def sorted_append)

lemma ExecuteEvent_by_time: "by_time (eventMap m) \<Longrightarrow> by_time (eventMap (snd (ExecuteEvent m)))"
  using execute_loop_suffix [of "eventMap m" "ev_time m" "ev_phase m" "lastEvent m"]
  by (auto simp: ExecuteEvent_def split: prod.splits dest!: by_time_append)

section \<open>Steps of a timer\<close>

text \<open>Any sequence of calls, as scripts make them.\<close>

datatype em_op =
    OpReset | OpUpdate uint32 | OpSetPhase uint8 | OpAddPhase uint8 | OpRemovePhase uint8
  | OpSchedule uint32 uint32 uint32 uint8 | OpReschedule uint32 uint32 uint32 uint8
  | OpRepeat uint32 | OpExecute | OpDelay uint32 | OpDelayGroup uint32 uint32
  | OpDelayEvent uint32 uint32 | OpCancel uint32 | OpCancelGroup uint32

fun em_step :: "em_op \<Rightarrow> event_map \<Rightarrow> event_map" where
  "em_step OpReset m = Reset m"
| "em_step (OpUpdate t) m = Update t m"
| "em_step (OpSetPhase p) m = SetPhase p m"
| "em_step (OpAddPhase p) m = AddPhase p m"
| "em_step (OpRemovePhase p) m = RemovePhase p m"
| "em_step (OpSchedule e t g p) m = ScheduleEvent e t g p m"
| "em_step (OpReschedule e t g p) m = RescheduleEvent e t g p m"
| "em_step (OpRepeat t) m = Repeat t m"
| "em_step OpExecute m = snd (ExecuteEvent m)"
| "em_step (OpDelay d) m = DelayEvents d m"
| "em_step (OpDelayGroup d g) m = DelayEvents_group d g m"
| "em_step (OpDelayEvent e d) m = DelayEvent e d m"
| "em_step (OpCancel e) m = CancelEvent e m"
| "em_step (OpCancelGroup g) m = CancelEventGroup g m"

lemma em_step_by_time: "by_time (eventMap m) \<Longrightarrow> by_time (eventMap (em_step op m))"
  by (cases op)
    (auto simp: Reset_def Update_def SetPhase_def AddPhase_def RemovePhase_def ScheduleEvent_def
      RescheduleEvent_def Repeat_def DelayEvents_def DelayEvents_group_def DelayEvent_def CancelEvent_def
      CancelEventGroup_def ExecuteEvent_by_time)

lemma event_data_and:
  assumes "eventId AND 0xFFFF = eventId"
  shows "event_data eventId grp phase AND 0xFFFF = eventId"
proof -
  have m: "(0xFFFF :: uint32) = mask 16" by (simp add: mask_eq_exp_minus_1)
  have z: "mask 16 AND push_bit k (1 :: uint32) = 0" if "16 \<le> k" for k
    using that by (intro bit_word_eqI) (auto simp: bit_simps)
  have g: "mask 16 AND push_bit (unat grp + 15) (1 :: uint32) = 0" if "grp \<noteq> 0"
    using that by (intro z) (simp add: unat_gt_0 Suc_leI)
  show ?thesis using assms unfolding m
    by (auto simp: g event_data_def Let_def bit.conj_disj_distrib2 and.commute [of _ "mask 16"] z
        bit.conj_disj_distrib and.assoc simp del: push_bit_of_1)
qed

lemma time_CancelEvent [simp]: "ev_time (CancelEvent eventId m) = ev_time m"
  by (simp add: CancelEvent_def)

lemma unat_le_8: "(grp :: uint32) \<le> 8 \<Longrightarrow> unat grp \<le> 8"
  by (simp add: word_le_nat_alt)

lemma low_id_bit:
  assumes "(eventId :: uint32) AND 0xFFFF = eventId" "(grp :: uint32) \<noteq> 0"
  shows "\<not> bit eventId (unat grp + 15)"
proof -
  have m: "(0xFFFF :: uint32) = mask 16" by (simp add: mask_eq_exp_minus_1)
  have "0 < unat grp" using assms(2) by (simp add: unat_gt_0)
  then have "\<not> bit (eventId AND mask 16) (unat grp + 15)" by (auto simp: bit_simps)
  then show ?thesis using assms(1) by (metis m)
qed

lemma and_all_ones: "(v :: uint32) AND 0xFFFFFFFF = v"
proof -
  have "(0xFFFFFFFF :: uint32) = - 1" by simp
  then show ?thesis by (simp only: and.right_neutral)
qed

lemma execute_loop_correct:
  "by_time es \<Longrightarrow> execute_loop now phase lst es =
    (case dropWhile (\<lambda>e. blocked phase (snd e)) (filter (\<lambda>e. fst e \<le> now) es) of
       [] \<Rightarrow> (0, filter (\<lambda>e. \<not> fst e \<le> now) es, lst)
     | e # rest \<Rightarrow> (snd e AND 0xFFFF, rest @ filter (\<lambda>e. \<not> fst e \<le> now) es, snd e))"
proof (induction now phase lst es rule: execute_loop.induct)
  case (1 now phase lst)
  then show ?case by simp
next
  case (2 now phase lst t v es)
  show ?case
  proof (cases "t > now")
    case True
    then have "filter (\<lambda>e. fst e \<le> now) es = []" "filter (\<lambda>e. \<not> fst e \<le> now) es = es"
      using "2.prems" by (force simp: filter_empty_conv filter_id_conv)+
    then show ?thesis using True by simp
  next
    case t: False
    have "filter (\<lambda>e. fst e \<le> now) es @ filter (\<lambda>e. \<not> fst e \<le> now) es = es"
      using "2.prems" by (intro by_time_partition) simp
    moreover have "execute_loop now phase lst ((t, v) # es) =
        (if blocked phase v then execute_loop now phase lst es else (v AND 0xFFFF, es, v))"
      using t by (simp add: blocked_def)
    moreover have "blocked phase v \<Longrightarrow> phase \<noteq> 0 \<and> v AND 0xFF000000 \<noteq> 0 \<and> \<not> drop_bit 24 v AND ucast phase \<noteq> 0"
      by (simp add: blocked_def)
    moreover have "t \<le> now" "\<not> now < t" using t by simp_all
    ultimately show ?thesis
      using 2 by (cases "blocked phase v") (simp_all cong: list.case_cong)
  qed
qed

section \<open>Properties\<close>


text \<open>\<^bold>\<open>C8.\<close>
  \<^verbatim>\<open>ExecuteEvent\<close> on an ordered store: let the due entries be those with a time not after the
  timer. Due entries whose phases are all inactive are dropped from the front; the first remaining
  due entry, if there is one, is removed, recorded as the last event and its id returned; if there
  is none, the result is 0. Entries that are not yet due are never lost.
\<close>

theorem ExecuteEvent_correct:
  assumes "by_time (eventMap m)"
  defines "due \<equiv> filter (\<lambda>e. fst e \<le> ev_time m) (eventMap m)"
    and "later \<equiv> filter (\<lambda>e. \<not> fst e \<le> ev_time m) (eventMap m)"
  shows "ExecuteEvent m =
    (case dropWhile (\<lambda>e. blocked (ev_phase m) (snd e)) due of
       [] \<Rightarrow> (0, m\<lparr>eventMap := later\<rparr>)
     | e # rest \<Rightarrow> (snd e AND 0xFFFF, m\<lparr>eventMap := rest @ later, lastEvent := snd e\<rparr>))"
  using execute_loop_correct [OF assms(1), of "ev_time m" "ev_phase m" "lastEvent m"]
  unfolding due_def later_def
  by (cases m; cases "dropWhile (\<lambda>e. blocked (ev_phase m) (snd e)) (filter (\<lambda>e. fst e \<le> ev_time m) (eventMap m))")
    (simp_all add: ExecuteEvent_def del: dropWhile_eq_Nil_conv)

theorem ExecuteEvent_correct_witness:
  "ExecuteEvent \<lparr>ev_time = 10, ev_phase = 1, eventMap = [(5, 0x02000001), (7, 2), (9, 3), (20, 4)], lastEvent = 0\<rparr>
    = (2, \<lparr>ev_time = 10, ev_phase = 1, eventMap = [(9, 3), (20, 4)], lastEvent = 2\<rparr>)"
  using ExecuteEvent_correct [of "\<lparr>ev_time = 10, ev_phase = 1, eventMap = [(5, 0x02000001), (7, 2), (9, 3), (20, 4)], lastEvent = 0\<rparr>"]
  by (simp add: blocked_def)

text \<open>\<^bold>\<open>C27.\<close>
  After \<^verbatim>\<open>RescheduleEvent\<close> with an id of 16 bits, exactly one entry carries that id, it is due
  \<open>time\<close> from now, and the entries of all other ids are the same as before.
\<close>

theorem RescheduleEvent_unique:
  assumes "eventId AND 0xFFFF = eventId"
  shows "filter (\<lambda>e. snd e AND 0xFFFF = eventId) (eventMap (RescheduleEvent eventId time grp phase m))
      = [(ev_time m + time, event_data eventId grp phase)] \<and>
    mset (filter (\<lambda>e. snd e AND 0xFFFF \<noteq> eventId) (eventMap (RescheduleEvent eventId time grp phase m)))
      = mset (filter (\<lambda>e. snd e AND 0xFFFF \<noteq> eventId) (eventMap m))"
proof -
  have ins: "filter p (mm_insert e es) = [e]" if "p e" "filter p es = []" for p e es
    using that by (induction es) (auto split: if_splits)
  have "eventMap (CancelEvent eventId m) = filter (\<lambda>e. snd e AND 0xFFFF \<noteq> eventId) (eventMap m)"
    by (auto simp: CancelEvent_def Empty_def intro: filter_cong)
  then show ?thesis
    using event_data_and [OF assms, of grp phase]
    by (auto simp: RescheduleEvent_def ScheduleEvent_def mset_mm_insert ins filter_filter_mset)
qed

theorem RescheduleEvent_unique_witness:
  "filter (\<lambda>e. snd e AND 0xFFFF = 3) (eventMap (RescheduleEvent 3 100 1 2 (ScheduleEvent 3 5 0 0 em_new)))
      = [(100, 0x02010003)]"
proof -
  have "(3 :: uint32) AND 0xFFFF = 3" by simp
  from RescheduleEvent_unique [OF this, of 100 1 2 "ScheduleEvent 3 5 0 0 em_new"] show ?thesis
    by (simp add: ScheduleEvent_def em_new_def event_data_def Let_def)
qed

text \<open>\<^bold>\<open>C28.\<close>
  Delaying the events of a group (1 to 8) moves exactly the entries of that group by \<open>delay\<close> and
  neither loses nor duplicates an entry.
\<close>

theorem DelayEvents_group_exact:
  assumes "grp \<noteq> 0" "grp \<le> 8"
  shows "mset (eventMap (DelayEvents_group delay grp m)) =
    mset (map (\<lambda>(t, v). (if bit v (unat grp + 15) then t + delay else t, v)) (eventMap m))"
  using assms
  by (auto simp: DelayEvents_group_def Empty_def mset_delay_matching and_exp_eq_0_iff_not_bit
      simp del: mset_map)

theorem DelayEvents_group_exact_witness:
  "mset (eventMap (DelayEvents_group 50 2 (ScheduleEvent 7 10 2 0 em_new))) = {#(60, 0x00020007)#}"
proof -
  have s: "eventMap (ScheduleEvent 7 10 2 0 em_new) = [(10, 0x00020007)]"
    by (simp add: ScheduleEvent_def em_new_def event_data_def Let_def)
  have "bit (0x00020007 :: uint32) 17" by (simp add: bit_iff_odd)
  then show ?thesis
    using DelayEvents_group_exact [of 2 50 "ScheduleEvent 7 10 2 0 em_new"] by (simp add: s)
qed

text \<open>
  \<^verbatim>\<open>HasEvent\<close> compares the whole 32-bit entry with the id, where \<^verbatim>\<open>CancelEvent\<close> and the
  others compare its low 16 bits. So an event scheduled in a group or a phase is not found by its id
  although it is in the map and \<^verbatim>\<open>GetNextEventTime\<close> finds it.
\<close>

theorem HasEvent_misses_grouped:
  assumes "eventId AND 0xFFFF = eventId" "grp \<noteq> 0" "grp \<le> 8"
  shows "\<not> HasEvent eventId (ScheduleEvent eventId time grp phase em_new) \<and>
    GetNextEventTime eventId (ScheduleEvent eventId time grp phase em_new) = time"
proof -
  have "bit (event_data eventId grp phase) (unat grp + 15)"
    using assms(2,3) unat_le_8 [OF assms(3)] by (simp add: event_data_def Let_def bit_simps)
  moreover have "\<not> bit eventId (unat grp + 15)"
    using assms(1,2) by (rule low_id_bit)
  ultimately have "event_data eventId grp phase \<noteq> eventId" by metis
  then show ?thesis
    using event_data_and [OF assms(1), of grp phase]
    by (simp add: HasEvent_def GetNextEventTime_def ScheduleEvent_def em_new_def Empty_def and_all_ones)
qed

theorem HasEvent_misses_grouped_witness:
  "\<not> HasEvent 5 (ScheduleEvent 5 1000 1 0 em_new) \<and> GetNextEventTime 5 (ScheduleEvent 5 1000 1 0 em_new) = 1000"
  using HasEvent_misses_grouped [of 5 1 1000 0] by simp

end
