(* ===== verification/Rbac.thy ===== *)
theory Rbac
  imports Prelude
begin

text \<open>
  Role based access control: \<^verbatim>\<open>src/src/server/game/Accounts/RBAC.{h,cpp}\<close> and the
  permission tables of \<^verbatim>\<open>AccountMgr.cpp\<close>. A \<^verbatim>\<open>std::set<uint32>\<close> is a set of words,
  iterated in ascending order; the permission table is a map from ids to permissions. Statements
  sent to the login database are collected in the order they are executed; the rows a query returns
  are an argument of the operation that reads them.
\<close>

section \<open>Permission tables\<close>

datatype rbac_result =
    RBAC_OK | RBAC_CANT_ADD_ALREADY_ADDED | RBAC_CANT_REVOKE_NOT_IN_LIST
  | RBAC_IN_GRANTED_LIST | RBAC_IN_DENIED_LIST | RBAC_ID_DOES_NOT_EXISTS

record rbac_permission =
  perm_id :: uint32
  perm_name :: string
  perm_linked :: "uint32 set"

definition AddLinkedPermission :: "uint32 \<Rightarrow> rbac_permission \<Rightarrow> rbac_permission" where
  "AddLinkedPermission i p = p\<lparr>perm_linked := insert i (perm_linked p)\<rparr>"

definition RemoveLinkedPermission :: "uint32 \<Rightarrow> rbac_permission \<Rightarrow> rbac_permission" where
  "RemoveLinkedPermission i p = p\<lparr>perm_linked := perm_linked p - {i}\<rparr>"

record account_mgr =
  permissions :: "uint32 \<Rightarrow> rbac_permission option"
  defaultPermissions :: "uint8 \<Rightarrow> uint32 set"

definition GetRBACPermission :: "account_mgr \<Rightarrow> uint32 \<Rightarrow> rbac_permission option" where
  "GetRBACPermission am i = permissions am i"

definition GetRBACDefaultPermissions :: "account_mgr \<Rightarrow> uint8 \<Rightarrow> uint32 set" where
  "GetRBACDefaultPermissions am sec = defaultPermissions am sec"

definition ClearRBAC :: account_mgr where
  "ClearRBAC = \<lparr>permissions = (\<lambda>_. None), defaultPermissions = (\<lambda>_. {})\<rparr>"

text \<open>
  \<^verbatim>\<open>LoadRBAC\<close>. The three tables arrive as the rows of three queries; an empty result ends the
  load. The second loop keeps a pointer to the permission of the current id, which is null at the
  start and for an id that is not in the table; adding a link through it crashes (\<open>None\<close>).
\<close>

fun load_permissions :: "(uint32 \<times> string) list \<Rightarrow> account_mgr \<Rightarrow> account_mgr" where
  "load_permissions [] am = am"
| "load_permissions ((i, nm) # rows) am =
     load_permissions rows
       (am\<lparr>permissions := (permissions am)(i \<mapsto> \<lparr>perm_id = i, perm_name = nm, perm_linked = {}\<rparr>)\<rparr>)"

fun load_linked ::
  "(uint32 \<times> uint32) list \<Rightarrow> uint32 \<Rightarrow> uint32 option \<Rightarrow> account_mgr \<Rightarrow> account_mgr option" where
  "load_linked [] cur ptr am = Some am"
| "load_linked ((newId, linkedId) # rows) cur ptr am =
     (let ptr' = (if cur \<noteq> newId then (if permissions am newId = None then None else Some newId) else ptr)
      in if linkedId = newId then load_linked rows newId ptr' am
         else case ptr' of
           None \<Rightarrow> None
         | Some i \<Rightarrow>
             (case permissions am i of
                None \<Rightarrow> None
              | Some p \<Rightarrow>
                  load_linked rows newId ptr'
                    (am\<lparr>permissions := (permissions am)(i \<mapsto> AddLinkedPermission linkedId p)\<rparr>)))"

fun load_defaults :: "(uint32 \<times> uint32) list \<Rightarrow> account_mgr \<Rightarrow> account_mgr" where
  "load_defaults [] am = am"
| "load_defaults ((sec, i) # rows) am =
     load_defaults rows
       (am\<lparr>defaultPermissions :=
          (defaultPermissions am)(ucast sec := insert i (defaultPermissions am (ucast sec)))\<rparr>)"

definition LoadRBAC ::
  "(uint32 \<times> string) list \<Rightarrow> (uint32 \<times> uint32) list \<Rightarrow> (uint32 \<times> uint32) list \<Rightarrow> account_mgr option" where
  "LoadRBAC perms linked defaults =
     (let am1 = load_permissions perms ClearRBAC in
      if perms = [] \<or> linked = [] then Some am1
      else case load_linked linked 0 None am1 of
        None \<Rightarrow> None
      | Some am2 \<Rightarrow> Some (load_defaults defaults am2))"

section \<open>Permissions of an account\<close>

record rbac_data =
  rb_id :: uint32
  rb_name :: string
  rb_realm :: int
  rb_sec :: uint8
  grantedPerms :: "uint32 set"
  deniedPerms :: "uint32 set"
  globalPerms :: "uint32 set"

datatype rbac_stmt =
    InsAccountPermission uint32 uint32 bool int
  | DelAccountPermission uint32 uint32 int
  | DelAccountAccess uint32
  | DelAccountAccessByRealm uint32 int
  | InsAccountAccess uint32 uint8 int

definition rbac_new :: "uint32 \<Rightarrow> string \<Rightarrow> int \<Rightarrow> uint8 \<Rightarrow> rbac_data" where
  "rbac_new i nm realm sec =
     \<lparr>rb_id = i, rb_name = nm, rb_realm = realm, rb_sec = sec,
      grantedPerms = {}, deniedPerms = {}, globalPerms = {}\<rparr>"

definition HasPermission :: "uint32 \<Rightarrow> rbac_data \<Rightarrow> bool" where
  "HasPermission p d \<longleftrightarrow> p \<in> globalPerms d"

definition HasGrantedPermission :: "uint32 \<Rightarrow> rbac_data \<Rightarrow> bool" where
  "HasGrantedPermission p d \<longleftrightarrow> p \<in> grantedPerms d"

definition HasDeniedPermission :: "uint32 \<Rightarrow> rbac_data \<Rightarrow> bool" where
  "HasDeniedPermission p d \<longleftrightarrow> p \<in> deniedPerms d"

definition AddGrantedPermission :: "uint32 \<Rightarrow> rbac_data \<Rightarrow> rbac_data" where
  "AddGrantedPermission p d = d\<lparr>grantedPerms := insert p (grantedPerms d)\<rparr>"

definition RemoveGrantedPermission :: "uint32 \<Rightarrow> rbac_data \<Rightarrow> rbac_data" where
  "RemoveGrantedPermission p d = d\<lparr>grantedPerms := grantedPerms d - {p}\<rparr>"

definition AddDeniedPermission :: "uint32 \<Rightarrow> rbac_data \<Rightarrow> rbac_data" where
  "AddDeniedPermission p d = d\<lparr>deniedPerms := insert p (deniedPerms d)\<rparr>"

definition RemoveDeniedPermission :: "uint32 \<Rightarrow> rbac_data \<Rightarrow> rbac_data" where
  "RemoveDeniedPermission p d = d\<lparr>deniedPerms := deniedPerms d - {p}\<rparr>"

text \<open>
  \<^verbatim>\<open>ExpandPermissions\<close>: a work list that takes the smallest id first. A permission may be
  linked back to one that was expanded before, and an unknown id may come up again and again; the
  lexicographic measure shows that the loop ends all the same.
\<close>

function expand_loop :: "(uint32 \<Rightarrow> rbac_permission option) \<Rightarrow> uint32 set \<Rightarrow> uint32 set \<Rightarrow> uint32 set" where
  "expand_loop tab toCheck perms =
     (if toCheck = {} then perms
      else
        let p = Min toCheck; rest = toCheck - {p} in
        case tab p of
          None \<Rightarrow> expand_loop tab rest perms
        | Some perm \<Rightarrow>
            let perms' = insert p perms
            in expand_loop tab (rest \<union> {q \<in> perm_linked perm. q \<notin> perms'}) perms')"
  by pat_completeness auto
termination
proof (relation "measures [\<lambda>(tab, toCheck, perms). card (- perms),
    \<lambda>(tab, toCheck, perms). card (toCheck \<inter> perms), \<lambda>(tab, toCheck, perms). card toCheck]", goal_cases)
  case 1
  then show ?case by simp
next
  case (2 tab toCheck perms p rest)
  have p: "p \<in> toCheck" using 2 Min_in [of toCheck] by simp
  then have "card (toCheck - {p}) < card toCheck" by (intro card_Diff1_less) auto
  moreover have "card ((toCheck - {p}) \<inter> perms) \<le> card (toCheck \<inter> perms)" by (intro card_mono) auto
  ultimately show ?case using 2 by auto
next
  case (3 tab toCheck perms p rest perm perms')
  have p: "p \<in> toCheck" using 3 Min_in [of toCheck] by simp
  show ?case
  proof (cases "p \<in> perms")
    case True
    then have "(rest \<union> {q \<in> perm_linked perm. q \<notin> perms'}) \<inter> perms' = toCheck \<inter> perms - {p}"
      using 3 p by auto
    then have "card ((rest \<union> {q \<in> perm_linked perm. q \<notin> perms'}) \<inter> perms') < card (toCheck \<inter> perms)"
      using True p card_Diff1_less [of "toCheck \<inter> perms" p] by simp
    moreover have "perms' = perms" using 3 True by auto
    ultimately show ?thesis by auto
  next
    case False
    then have "- perms' = - perms - {p}" using 3 by auto
    then have "card (- perms') < card (- perms)" using False card_Diff1_less [of "- perms" p] by simp
    then show ?thesis by auto
  qed
qed

declare expand_loop.simps [simp del]

definition ExpandPermissions :: "account_mgr \<Rightarrow> uint32 set \<Rightarrow> uint32 set" where
  "ExpandPermissions am perms = expand_loop (GetRBACPermission am) perms {}"

definition RemovePermissions :: "uint32 set \<Rightarrow> uint32 set \<Rightarrow> uint32 set" where
  "RemovePermissions permsFrom permsToRemove = permsFrom - permsToRemove"

definition AddPermissions :: "uint32 set \<Rightarrow> uint32 set \<Rightarrow> uint32 set" where
  "AddPermissions permsFrom permsTo = permsTo \<union> permsFrom"

definition CalculateNewPermissions :: "account_mgr \<Rightarrow> rbac_data \<Rightarrow> rbac_data" where
  "CalculateNewPermissions am d =
     d\<lparr>globalPerms := RemovePermissions (ExpandPermissions am (grantedPerms d))
                         (ExpandPermissions am (deniedPerms d))\<rparr>"

definition SavePermission :: "uint32 \<Rightarrow> bool \<Rightarrow> int \<Rightarrow> rbac_data \<Rightarrow> rbac_stmt list" where
  "SavePermission p granted realm d = [InsAccountPermission (rb_id d) p granted realm]"

type_synonym rbac_ret = "rbac_result \<times> rbac_data \<times> rbac_stmt list"

definition GrantPermission :: "account_mgr \<Rightarrow> uint32 \<Rightarrow> int \<Rightarrow> rbac_data \<Rightarrow> rbac_ret" where
  "GrantPermission am p realm d =
     (if GetRBACPermission am p = None then (RBAC_ID_DOES_NOT_EXISTS, d, [])
      else if HasDeniedPermission p d then (RBAC_IN_DENIED_LIST, d, [])
      else if HasGrantedPermission p d then (RBAC_CANT_ADD_ALREADY_ADDED, d, [])
      else
        let d1 = AddGrantedPermission p d in
        if realm \<noteq> 0
        then (RBAC_OK, CalculateNewPermissions am d1, SavePermission p True realm d1)
        else (RBAC_OK, d1, []))"

definition DenyPermission :: "account_mgr \<Rightarrow> uint32 \<Rightarrow> int \<Rightarrow> rbac_data \<Rightarrow> rbac_ret" where
  "DenyPermission am p realm d =
     (if GetRBACPermission am p = None then (RBAC_ID_DOES_NOT_EXISTS, d, [])
      else if HasGrantedPermission p d then (RBAC_IN_GRANTED_LIST, d, [])
      else if HasDeniedPermission p d then (RBAC_CANT_ADD_ALREADY_ADDED, d, [])
      else
        let d1 = AddDeniedPermission p d in
        if realm \<noteq> 0
        then (RBAC_OK, CalculateNewPermissions am d1, SavePermission p False realm d1)
        else (RBAC_OK, d1, []))"

definition RevokePermission :: "account_mgr \<Rightarrow> uint32 \<Rightarrow> int \<Rightarrow> rbac_data \<Rightarrow> rbac_ret" where
  "RevokePermission am p realm d =
     (if \<not> HasGrantedPermission p d \<and> \<not> HasDeniedPermission p d
      then (RBAC_CANT_REVOKE_NOT_IN_LIST, d, [])
      else
        let d1 = RemoveDeniedPermission p (RemoveGrantedPermission p d) in
        if realm \<noteq> 0
        then (RBAC_OK, CalculateNewPermissions am d1, [DelAccountPermission (rb_id d1) p realm])
        else (RBAC_OK, d1, []))"

definition ClearData :: "rbac_data \<Rightarrow> rbac_data" where
  "ClearData d = d\<lparr>grantedPerms := {}, deniedPerms := {}, globalPerms := {}\<rparr>"

fun load_rows :: "account_mgr \<Rightarrow> (uint32 \<times> bool) list \<Rightarrow> rbac_data \<Rightarrow> rbac_data" where
  "load_rows am [] d = d"
| "load_rows am ((p, granted) # rows) d =
     load_rows am rows
       (fst (snd (if granted then GrantPermission am p 0 d else DenyPermission am p 0 d)))"

definition LoadFromDBCallback :: "account_mgr \<Rightarrow> (uint32 \<times> bool) list \<Rightarrow> rbac_data \<Rightarrow> rbac_data" where
  "LoadFromDBCallback am rows d =
     (let d1 = load_rows am rows d;
          d2 = fold (\<lambda>p d. fst (snd (GrantPermission am p 0 d)))
                 (sorted_list_of_set (GetRBACDefaultPermissions am (rb_sec d1))) d1
      in CalculateNewPermissions am d2)"

definition LoadFromDB :: "account_mgr \<Rightarrow> (uint32 \<times> bool) list \<Rightarrow> rbac_data \<Rightarrow> rbac_data" where
  "LoadFromDB am rows d = LoadFromDBCallback am rows (ClearData d)"

definition SetSecurityLevel :: "account_mgr \<Rightarrow> (uint32 \<times> bool) list \<Rightarrow> uint8 \<Rightarrow> rbac_data \<Rightarrow> rbac_data" where
  "SetSecurityLevel am rows sec d = LoadFromDB am rows (d\<lparr>rb_sec := sec\<rparr>)"

text \<open>\<^verbatim>\<open>AccountMgr::UpdateAccountAccess\<close>; the account may have no live \<^verbatim>\<open>RBACData\<close>.\<close>

definition UpdateAccountAccess ::
  "account_mgr \<Rightarrow> (uint32 \<times> bool) list \<Rightarrow> rbac_data option \<Rightarrow> uint32 \<Rightarrow> uint8 \<Rightarrow> int
    \<Rightarrow> rbac_data option \<times> rbac_stmt list" where
  "UpdateAccountAccess am rows rbac account sec realm =
     ((case rbac of
         None \<Rightarrow> None
       | Some d \<Rightarrow> Some (if sec \<noteq> rb_sec d then SetSecurityLevel am rows sec d else d)),
      (if realm = - 1 then [DelAccountAccess account] else [DelAccountAccessByRealm account realm])
      @ (if sec \<noteq> 0 then [InsAccountAccess account sec realm] else []))"

text \<open>\<^verbatim>\<open>AccountMgr::HasPermission\<close>: a query for an account that need not be online.\<close>

definition AccountHasPermission ::
  "account_mgr \<Rightarrow> (uint32 \<times> bool) list \<Rightarrow> uint8 \<Rightarrow> uint32 \<Rightarrow> uint32 \<Rightarrow> int \<Rightarrow> bool" where
  "AccountHasPermission am rows sec account p realm =
     (if account = 0 then False
      else HasPermission p (LoadFromDB am rows (rbac_new account '''' realm sec)))"

section \<open>What expansion computes\<close>

inductive implied :: "(uint32 \<Rightarrow> rbac_permission option) \<Rightarrow> uint32 set \<Rightarrow> uint32 \<Rightarrow> bool"
  for tab and start where
  implied_start: "p \<in> start \<Longrightarrow> tab p \<noteq> None \<Longrightarrow> implied tab start p"
| implied_link: "implied tab start p \<Longrightarrow> tab p = Some perm \<Longrightarrow> q \<in> perm_linked perm \<Longrightarrow> tab q \<noteq> None \<Longrightarrow>
    implied tab start q"

text \<open>The loop invariant: what was expanded is implied, what is still to be checked is implied
  where it exists, and the links of an expanded permission are expanded or waiting.\<close>

definition expand_inv :: "(uint32 \<Rightarrow> rbac_permission option) \<Rightarrow> uint32 set \<Rightarrow> uint32 set \<Rightarrow> uint32 set \<Rightarrow> bool" where
  "expand_inv tab start toCheck perms \<longleftrightarrow>
     (\<forall>p \<in> perms. implied tab start p) \<and>
     (\<forall>p \<in> toCheck. tab p \<noteq> None \<longrightarrow> implied tab start p) \<and>
     (\<forall>p \<in> start. tab p \<noteq> None \<longrightarrow> p \<in> perms \<union> toCheck) \<and>
     (\<forall>p \<in> perms. \<forall>perm. tab p = Some perm \<longrightarrow>
        (\<forall>q \<in> perm_linked perm. tab q \<noteq> None \<longrightarrow> q \<in> perms \<union> toCheck))"

lemma expand_inv_skip: "expand_inv tab start toCheck perms \<Longrightarrow> tab p = None \<Longrightarrow> expand_inv tab start (toCheck - {p}) perms"
  unfolding expand_inv_def by fastforce

lemma expand_inv_take:
  assumes "expand_inv tab start toCheck perms" "p \<in> toCheck" "tab p = Some perm"
  shows "expand_inv tab start (toCheck - {p} \<union> {q \<in> perm_linked perm. q \<notin> insert p perms}) (insert p perms)"
proof -
  note inv = assms(1) [unfolded expand_inv_def]
  have p: "implied tab start p" using inv assms(2,3) by auto
  then have link: "implied tab start q" if "q \<in> perm_linked perm" "tab q \<noteq> None" for q
    using assms(3) that by (rule implied_link)
  have "q \<in> insert p perms \<union> (toCheck - {p} \<union> {q \<in> perm_linked perm. q \<notin> insert p perms})"
    if "r \<in> insert p perms" "tab r = Some perm'" "q \<in> perm_linked perm'" "tab q \<noteq> None" for q r perm'
  proof (cases "r = p")
    case True
    then show ?thesis using that assms(3) by auto
  next
    case False
    then have "q \<in> perms \<union> toCheck" using inv that by blast
    then show ?thesis by auto
  qed
  then show ?thesis using inv p link unfolding expand_inv_def by blast
qed

lemma expand_inv_end:
  assumes "expand_inv tab start {} perms"
  shows "perms = {p. implied tab start p}"
proof
  show "perms \<subseteq> {p. implied tab start p}" using assms by (auto simp: expand_inv_def)
  show "{p. implied tab start p} \<subseteq> perms"
  proof clarify
    fix p assume "implied tab start p"
    then show "p \<in> perms" using assms by (induction rule: implied.induct) (auto simp: expand_inv_def)
  qed
qed

lemma expand_loop_implied:
  "expand_inv tab start toCheck perms \<Longrightarrow> expand_loop tab toCheck perms = {p. implied tab start p}"
proof (induction tab toCheck perms rule: expand_loop.induct)
  case (1 tab toCheck perms)
  show ?case
  proof (cases "toCheck = {}")
    case True
    then show ?thesis using expand_inv_end 1 by (simp add: expand_loop.simps)
  next
    case False
    then have p: "Min toCheck \<in> toCheck" by simp
    show ?thesis
    proof (cases "tab (Min toCheck)")
      case None
      then show ?thesis
        using False 1 expand_inv_skip [OF 1(3) None]
        by (subst expand_loop.simps) (simp add: Let_def)
    next
      case (Some perm)
      then show ?thesis
        using False 1 expand_inv_take [OF 1(3) p Some]
        by (subst expand_loop.simps) (simp add: Let_def)
    qed
  qed
qed

lemma ExpandPermissions_implied: "ExpandPermissions am start = {p. implied (permissions am) start p}"
proof -
  have "expand_inv (GetRBACPermission am) start start {}"
    by (auto simp: expand_inv_def intro: implied_start)
  then show ?thesis by (simp add: ExpandPermissions_def expand_loop_implied GetRBACPermission_def [abs_def])
qed

lemma implied_exists: "implied tab start p \<Longrightarrow> tab p \<noteq> None"
  by (induction rule: implied.induct) auto

lemma implied_mono: "implied tab s p \<Longrightarrow> s \<subseteq> t \<Longrightarrow> implied tab t p"
  by (induction rule: implied.induct) (auto intro: implied.intros)

section \<open>Consistency of an account's permissions\<close>

text \<open>Granted and denied permissions exist and exclude each other.\<close>

definition rbac_wf :: "account_mgr \<Rightarrow> rbac_data \<Rightarrow> bool" where
  "rbac_wf am d \<longleftrightarrow> grantedPerms d \<inter> deniedPerms d = {} \<and>
     (\<forall>p \<in> grantedPerms d \<union> deniedPerms d. permissions am p \<noteq> None)"

text \<open>The cached set is what the granted permissions imply without what the denied ones imply.\<close>

definition coherent :: "account_mgr \<Rightarrow> rbac_data \<Rightarrow> bool" where
  "coherent am d \<longleftrightarrow> (\<forall>p. HasPermission p d \<longleftrightarrow>
     implied (permissions am) (grantedPerms d) p \<and> \<not> implied (permissions am) (deniedPerms d) p)"

lemmas rbac_ops_defs = GrantPermission_def DenyPermission_def RevokePermission_def HasGrantedPermission_def
  HasDeniedPermission_def AddGrantedPermission_def AddDeniedPermission_def RemoveGrantedPermission_def
  RemoveDeniedPermission_def GetRBACPermission_def

lemma Calculate_fields [simp]:
  "grantedPerms (CalculateNewPermissions am d) = grantedPerms d"
  "deniedPerms (CalculateNewPermissions am d) = deniedPerms d"
  "rb_sec (CalculateNewPermissions am d) = rb_sec d"
  by (simp_all add: CalculateNewPermissions_def)

lemma Calculate_coherent [simp]: "coherent am (CalculateNewPermissions am d)"
  by (simp add: coherent_def CalculateNewPermissions_def HasPermission_def RemovePermissions_def
      ExpandPermissions_implied)

lemma rbac_wf_Calculate [simp]: "rbac_wf am (CalculateNewPermissions am d) \<longleftrightarrow> rbac_wf am d"
  by (simp add: rbac_wf_def)

lemma Grant_wf: "rbac_wf am d \<Longrightarrow> rbac_wf am (fst (snd (GrantPermission am p realm d)))"
  by (auto simp: rbac_wf_def rbac_ops_defs Let_def)

lemma Deny_wf: "rbac_wf am d \<Longrightarrow> rbac_wf am (fst (snd (DenyPermission am p realm d)))"
  by (auto simp: rbac_wf_def rbac_ops_defs Let_def)

lemma Revoke_wf: "rbac_wf am d \<Longrightarrow> rbac_wf am (fst (snd (RevokePermission am p realm d)))"
  by (auto simp: rbac_wf_def rbac_ops_defs Let_def)

lemma ok_coherent:
  "fst (GrantPermission am p realm d) = RBAC_OK \<Longrightarrow> realm \<noteq> 0 \<Longrightarrow> coherent am (fst (snd (GrantPermission am p realm d)))"
  "fst (DenyPermission am p realm d) = RBAC_OK \<Longrightarrow> realm \<noteq> 0 \<Longrightarrow> coherent am (fst (snd (DenyPermission am p realm d)))"
  "fst (RevokePermission am p realm d) = RBAC_OK \<Longrightarrow> realm \<noteq> 0 \<Longrightarrow> coherent am (fst (snd (RevokePermission am p realm d)))"
  by (auto simp: GrantPermission_def DenyPermission_def RevokePermission_def Let_def split: if_splits)

lemma load_rows_wf: "rbac_wf am d \<Longrightarrow> rbac_wf am (load_rows am rows d)"
  by (induction am rows d rule: load_rows.induct) (auto simp: Grant_wf Deny_wf split: if_splits)

lemma Grant_fields:
  "deniedPerms (fst (snd (GrantPermission am p 0 d))) = deniedPerms d"
  "rb_sec (fst (snd (GrantPermission am p 0 d))) = rb_sec d"
  "grantedPerms (fst (snd (GrantPermission am p 0 d))) =
     (if permissions am p \<noteq> None \<and> p \<notin> deniedPerms d then insert p (grantedPerms d) else grantedPerms d)"
  by (auto simp: rbac_ops_defs Let_def)

lemma Deny_fields:
  "grantedPerms (fst (snd (DenyPermission am p 0 d))) = grantedPerms d"
  "rb_sec (fst (snd (DenyPermission am p 0 d))) = rb_sec d"
  by (auto simp: rbac_ops_defs Let_def)

lemma load_rows_sec [simp]: "rb_sec (load_rows am rows d) = rb_sec d"
  by (induction am rows d rule: load_rows.induct) (auto simp: Grant_fields Deny_fields)

lemma grant_all_fields:
  "deniedPerms (fold (\<lambda>p d. fst (snd (GrantPermission am p 0 d))) ps d) = deniedPerms d \<and>
   grantedPerms (fold (\<lambda>p d. fst (snd (GrantPermission am p 0 d))) ps d) =
     grantedPerms d \<union> {p \<in> set ps. permissions am p \<noteq> None \<and> p \<notin> deniedPerms d}"
  by (induction ps arbitrary: d) (auto simp: Grant_fields)

lemma grant_all_wf: "rbac_wf am d \<Longrightarrow> rbac_wf am (fold (\<lambda>p d. fst (snd (GrantPermission am p 0 d))) ps d)"
  by (induction ps arbitrary: d) (auto simp: Grant_wf)

lemma LoadFromDB_wf: "rbac_wf am (LoadFromDB am rows d)"
proof -
  have "rbac_wf am (ClearData d)" by (simp add: rbac_wf_def ClearData_def)
  then show ?thesis
    by (simp add: LoadFromDB_def LoadFromDBCallback_def Let_def grant_all_wf load_rows_wf)
qed

section \<open>Properties\<close>

text \<open>\<^bold>\<open>C12.\<close>
  \<^verbatim>\<open>ExpandPermissions\<close> terminates on every table, cyclic links and unknown ids included, and
  returns exactly the existing permissions that the given ones imply through links.
\<close>

theorem expand_is_closure: "ExpandPermissions am start = {p. implied (permissions am) start p}"
  by (rule ExpandPermissions_implied)







end
