(* ===== verification/Ordered_Map.thy ===== *)
theory Ordered_Map
  imports Prelude
begin

text \<open>
  \<^verbatim>\<open>std::map\<close> as the components use it: the list of its entries in iteration order, that is,
  by strictly ascending keys. The contract of a map (what a lookup sees after an update or an
  erase) is the locale \<open>keyed_store\<close>; the ordered list is its implementation here, and the facts the
  component theories use are those of its interpretation.
\<close>

type_synonym ('k, 'v) omap = "('k \<times> 'v) list"

definition om_find :: "'k \<Rightarrow> ('k, 'v) omap \<Rightarrow> 'v option" where
  "om_find k m = map_of m k"

text \<open>\<^verbatim>\<open>m[k] = v\<close>\<close>

fun om_put :: "'k::linorder \<Rightarrow> 'v \<Rightarrow> ('k, 'v) omap \<Rightarrow> ('k, 'v) omap" where
  "om_put k v [] = [(k, v)]"
| "om_put k v ((k', v') # m) =
     (if k < k' then (k, v) # (k', v') # m
      else if k = k' then (k, v) # m
      else (k', v') # om_put k v m)"

definition om_erase :: "'k \<Rightarrow> ('k, 'v) omap \<Rightarrow> ('k, 'v) omap" where
  "om_erase k m = filter (\<lambda>e. fst e \<noteq> k) m"

text \<open>A change of one entry through a reference or an iterator.\<close>

definition om_modify :: "'k \<Rightarrow> ('v \<Rightarrow> 'v) \<Rightarrow> ('k, 'v) omap \<Rightarrow> ('k, 'v) omap" where
  "om_modify k f m = map (\<lambda>(k', v). if k' = k then (k', f v) else (k', v)) m"

definition om_keys :: "('k, 'v) omap \<Rightarrow> 'k list" where
  "om_keys m = map fst m"

definition om_ok :: "('k::linorder, 'v) omap \<Rightarrow> bool" where
  "om_ok m \<longleftrightarrow> sorted_wrt (<) (map fst m)"

locale keyed_store =
  fixes find :: "'k \<Rightarrow> 'm \<Rightarrow> 'v option"
    and empty :: 'm
    and put :: "'k \<Rightarrow> 'v \<Rightarrow> 'm \<Rightarrow> 'm"
    and erase :: "'k \<Rightarrow> 'm \<Rightarrow> 'm"
    and modify_at :: "'k \<Rightarrow> ('v \<Rightarrow> 'v) \<Rightarrow> 'm \<Rightarrow> 'm"
    and ok :: "'m \<Rightarrow> bool"
  assumes find_empty [simp]: "find k empty = None"
    and find_put [simp]: "find k (put k' v m) = (if k = k' then Some v else find k m)"
    and find_erase [simp]: "find k (erase k' m) = (if k = k' then None else find k m)"
    and find_modify [simp]: "find k (modify_at k' f m) = (if k = k' then map_option f (find k m) else find k m)"
    and ok_empty [simp]: "ok empty"
    and ok_put [simp]: "ok m \<Longrightarrow> ok (put k v m)"
    and ok_erase [simp]: "ok m \<Longrightarrow> ok (erase k m)"
    and ok_modify [simp]: "ok m \<Longrightarrow> ok (modify_at k f m)"
begin

definition members :: "'m \<Rightarrow> 'k set" where
  "members m = {k. find k m \<noteq> None}"

text \<open>A property of all entries survives an update with a good value, an erase, and a change that
  keeps it.\<close>

definition all_entries :: "('k \<Rightarrow> 'v \<Rightarrow> bool) \<Rightarrow> 'm \<Rightarrow> bool" where
  "all_entries P m \<longleftrightarrow> (\<forall>k v. find k m = Some v \<longrightarrow> P k v)"

lemma all_entries_empty [simp]: "all_entries P empty"
  by (simp add: all_entries_def)

lemma all_entries_put [intro]: "all_entries P m \<Longrightarrow> P k v \<Longrightarrow> all_entries P (put k v m)"
  by (simp add: all_entries_def)

lemma all_entries_erase [intro]: "all_entries P m \<Longrightarrow> all_entries P (erase k m)"
  by (simp add: all_entries_def)

lemma all_entries_modify [intro]:
  "all_entries P m \<Longrightarrow> (\<And>v. P k v \<Longrightarrow> P k (f v)) \<Longrightarrow> all_entries P (modify_at k f m)"
  by (auto simp: all_entries_def)

lemma members_simps [simp]:
  "members empty = {}" "members (put k v m) = insert k (members m)"
  "members (erase k m) = members m - {k}" "members (modify_at k f m) = members m"
  by (auto simp: members_def split: if_splits)

end

lemma om_ok_simps [simp]:
  "om_ok []" "om_ok (e # m) \<longleftrightarrow> (\<forall>e' \<in> set m. fst e < fst e') \<and> om_ok m"
  by (auto simp: om_ok_def)

lemma fst_set_om_put: "fst ` set (om_put k v m) = insert k (fst ` set m)"
  by (induction k v m rule: om_put.induct) auto

lemma om_ok_put: "om_ok m \<Longrightarrow> om_ok (om_put k v m)"
proof (induction k v m rule: om_put.induct)
  case (2 k v k' v' m)
  have "\<forall>e \<in> set (om_put k v m). k' < fst e" if "k' < k"
    using 2 that fst_set_om_put [of k v m] by (fastforce simp: image_iff)
  then show ?case using 2 by auto
qed auto

lemma om_ok_filter: "om_ok m \<Longrightarrow> om_ok (filter P m)"
  by (induction m) auto

lemma fst_om_modify [simp]: "map fst (om_modify k f m) = map fst m"
  by (induction m) (auto simp: om_modify_def)

lemma om_find_put: "om_find k (om_put k' v m) = (if k = k' then Some v else om_find k m)"
  by (induction k' v m rule: om_put.induct) (auto simp: om_find_def)

lemma om_find_erase: "om_find k (om_erase k' m) = (if k = k' then None else om_find k m)"
  by (induction m) (auto simp: om_find_def om_erase_def)

lemma om_find_modify: "om_find k (om_modify k' f m) = (if k = k' then map_option f (om_find k m) else om_find k m)"
  by (induction m) (auto simp: om_find_def om_modify_def)

interpretation om: keyed_store om_find "[]" om_put om_erase om_modify om_ok
proof unfold_locales
  fix k k' :: 'a and v :: 'b and m :: "('a, 'b) omap" and f
  show "om_find k [] = (None :: 'b option)" by (simp add: om_find_def)
  show "om_find k (om_put k' v m) = (if k = k' then Some v else om_find k m)" by (rule om_find_put)
  show "om_find k (om_erase k' m) = (if k = k' then None else om_find k m)" by (rule om_find_erase)
  show "om_find k (om_modify k' f m) = (if k = k' then map_option f (om_find k m) else om_find k m)"
    by (rule om_find_modify)
  show "om_ok []" by simp
  show "om_ok m \<Longrightarrow> om_ok (om_put k v m)" by (rule om_ok_put)
  show "om_ok m \<Longrightarrow> om_ok (om_erase k m)" by (simp add: om_erase_def om_ok_filter)
  show "om_ok m \<Longrightarrow> om_ok (om_modify k f m)" by (simp add: om_ok_def)
qed

lemma om_keys_find: "k \<in> set (om_keys m) \<longleftrightarrow> om_find k m \<noteq> None"
  by (simp add: om_keys_def om_find_def map_of_eq_None_iff)

lemma om_keys_modify [simp]: "om_keys (om_modify k f m) = om_keys m"
  by (simp add: om_keys_def)

lemma om_modify_Nil_iff [simp]: "om_modify k f m = [] \<longleftrightarrow> m = []"
  by (simp add: om_modify_def)

lemma om_put_not_Nil [simp]: "om_put k v m \<noteq> []"
  by (cases m) (auto split: if_splits)

lemma om_find_hd: "om_find (fst e) (e # m) = Some (snd e)"
  by (cases e) (simp add: om_find_def)

lemma om_Nil_find: "m = [] \<longleftrightarrow> (\<forall>k. om_find k m = None)"
proof (cases m)
  case (Cons e m')
  then show ?thesis using om_find_hd [of e m'] by (metis list.discI option.distinct(1))
qed (simp add: om_find_def)

end
