(* ===== verification/Channel.thy ===== *)
theory Channel
  imports Ordered_Map Rbac Byte_Buffer
begin

text \<open>
  Chat channels: \<^verbatim>\<open>src/src/server/game/Chat/Channels/Channel.{h,cpp}\<close>,
  \<^verbatim>\<open>ChannelAppenders.h\<close> and \<^verbatim>\<open>ChannelMgr.cpp\<close>. A channel is a record of the members of the
  class; a handler takes the world it looks players up in, the calling player and the channel and
  returns the changed channel with everything it sends or writes, in order: packets to connected
  players, statements for the character database and the calls back into the players.
  The world is what the other managers answer: the connected players by identifier and by name, the
  configuration, and the visibility test.
\<close>

section \<open>Players and the world\<close>

record chan_player =
  pl_guid :: guid
  pl_name :: string
  pl_team :: uint32
  pl_gm_visible :: bool
  pl_security :: uint32
  pl_in_group :: bool
  pl_rbac :: rbac_data
  pl_ignores :: "guid set"

record chan_world =
  online :: "guid \<Rightarrow> chan_player option"
  by_name :: "string \<Rightarrow> chan_player option"
  cfg_preserve_custom_channels :: bool
  cfg_restricted_lfg_channel :: bool
  cfg_two_side_channel :: bool
  cfg_gm_level_in_who_list :: uint32
  visible_globally_for :: "guid \<Rightarrow> guid \<Rightarrow> bool"

definition RBAC_PERM_TWO_SIDE_INTERACTION_CHANNEL :: uint32 where
  "RBAC_PERM_TWO_SIDE_INTERACTION_CHANNEL = 26"

definition RBAC_PERM_WHO_SEE_ALL_SEC_LEVELS :: uint32 where
  "RBAC_PERM_WHO_SEE_ALL_SEC_LEVELS = 35"

definition RBAC_PERM_SILENTLY_JOIN_CHANNEL :: uint32 where
  "RBAC_PERM_SILENTLY_JOIN_CHANNEL = 45"

definition RBAC_PERM_CHANGE_CHANNEL_NOT_MODERATOR :: uint32 where
  "RBAC_PERM_CHANGE_CHANNEL_NOT_MODERATOR = 46"

abbreviation has_perm :: "chan_player \<Rightarrow> uint32 \<Rightarrow> bool" where
  "has_perm pl p \<equiv> HasPermission p (pl_rbac pl)"

definition IsPlayerAccount :: "uint32 \<Rightarrow> bool" where
  "IsPlayerAccount sec \<longleftrightarrow> sec = 0"

section \<open>Notifications\<close>

datatype chat_notice =
    JoinedAppend guid | LeftAppend guid | YouJoinedAppend uint8 uint32 | YouLeftAppend uint32 bool
  | WrongPasswordAppend | NotMemberAppend | NotModeratorAppend | PasswordChangedAppend guid
  | OwnerChangedAppend guid | PlayerNotFoundAppend string | NotOwnerAppend
  | ChannelOwnerAppend bool guid "string option" | ModeChangeAppend guid uint8 uint8
  | AnnouncementsOnAppend guid | AnnouncementsOffAppend guid | MutedAppend
  | PlayerKickedAppend guid guid | BannedAppend | PlayerBannedAppend guid guid
  | PlayerUnbannedAppend guid guid | PlayerNotBannedAppend string | PlayerAlreadyMemberAppend guid
  | InviteAppend guid | InviteWrongFactionAppend | WrongFactionAppend | InvalidNameAppend
  | NotModeratedAppend | PlayerInvitedAppend string | PlayerInviteBannedAppend string
  | ThrottledAppend | NotInAreaAppend | NotInLFGAppend | VoiceOnAppend guid | VoiceOffAppend guid

fun NotificationType :: "chat_notice \<Rightarrow> uint8" where
  "NotificationType (JoinedAppend _) = 0x00"
| "NotificationType (LeftAppend _) = 0x01"
| "NotificationType (YouJoinedAppend _ _) = 0x02"
| "NotificationType (YouLeftAppend _ _) = 0x03"
| "NotificationType WrongPasswordAppend = 0x04"
| "NotificationType NotMemberAppend = 0x05"
| "NotificationType NotModeratorAppend = 0x06"
| "NotificationType (PasswordChangedAppend _) = 0x07"
| "NotificationType (OwnerChangedAppend _) = 0x08"
| "NotificationType (PlayerNotFoundAppend _) = 0x09"
| "NotificationType NotOwnerAppend = 0x0A"
| "NotificationType (ChannelOwnerAppend _ _ _) = 0x0B"
| "NotificationType (ModeChangeAppend _ _ _) = 0x0C"
| "NotificationType (AnnouncementsOnAppend _) = 0x0D"
| "NotificationType (AnnouncementsOffAppend _) = 0x0E"
| "NotificationType MutedAppend = 0x11"
| "NotificationType (PlayerKickedAppend _ _) = 0x12"
| "NotificationType BannedAppend = 0x13"
| "NotificationType (PlayerBannedAppend _ _) = 0x14"
| "NotificationType (PlayerUnbannedAppend _ _) = 0x15"
| "NotificationType (PlayerNotBannedAppend _) = 0x16"
| "NotificationType (PlayerAlreadyMemberAppend _) = 0x17"
| "NotificationType (InviteAppend _) = 0x18"
| "NotificationType InviteWrongFactionAppend = 0x19"
| "NotificationType WrongFactionAppend = 0x1A"
| "NotificationType InvalidNameAppend = 0x1B"
| "NotificationType NotModeratedAppend = 0x1C"
| "NotificationType (PlayerInvitedAppend _) = 0x1D"
| "NotificationType (PlayerInviteBannedAppend _) = 0x1E"
| "NotificationType ThrottledAppend = 0x1F"
| "NotificationType NotInAreaAppend = 0x20"
| "NotificationType NotInLFGAppend = 0x21"
| "NotificationType (VoiceOnAppend _) = 0x22"
| "NotificationType (VoiceOffAppend _) = 0x23"

definition string_bytes :: "string \<Rightarrow> uint8 list" where
  "string_bytes s = map of_char s"

definition seq :: "'a bb \<Rightarrow> 'b bb \<Rightarrow> 'b bb" where
  "seq m n = bind m (\<lambda>_. n)"

text \<open>The \<^verbatim>\<open>Append\<close> member of each appender. Kick, ban and unban write the victim first.\<close>

fun Append :: "chat_notice \<Rightarrow> unit bb" where
  "Append (JoinedAppend g) = append_value g"
| "Append (LeftAppend g) = append_value g"
| "Append (YouJoinedAppend flags cid) = seq (append_value flags) (seq (append_value cid) (append_value (0 :: uint32)))"
| "Append (YouLeftAppend cid const) = seq (append_value cid) (append_value (if const then 1 else 0 :: uint8))"
| "Append (PasswordChangedAppend g) = append_value g"
| "Append (OwnerChangedAppend g) = append_value g"
| "Append (PlayerNotFoundAppend nm) = write_string (string_bytes nm)"
| "Append (ChannelOwnerAppend const g nm) =
     write_string (string_bytes (if const \<or> g = 0 then ''Nobody'' else case nm of None \<Rightarrow> '''' | Some s \<Rightarrow> s))"
| "Append (ModeChangeAppend g old new) = seq (append_value g) (seq (append_value old) (append_value new))"
| "Append (AnnouncementsOnAppend g) = append_value g"
| "Append (AnnouncementsOffAppend g) = append_value g"
| "Append (PlayerKickedAppend kicker kickee) = seq (append_value kickee) (append_value kicker)"
| "Append (PlayerBannedAppend moderator banned) = seq (append_value banned) (append_value moderator)"
| "Append (PlayerUnbannedAppend moderator unbanned) = seq (append_value unbanned) (append_value moderator)"
| "Append (PlayerNotBannedAppend nm) = write_string (string_bytes nm)"
| "Append (PlayerAlreadyMemberAppend g) = append_value g"
| "Append (InviteAppend g) = append_value g"
| "Append (PlayerInvitedAppend nm) = write_string (string_bytes nm)"
| "Append (PlayerInviteBannedAppend nm) = write_string (string_bytes nm)"
| "Append (VoiceOnAppend g) = append_value g"
| "Append (VoiceOffAppend g) = append_value g"
| "Append _ = ret ()"

definition ChannelNameBuilder :: "string \<Rightarrow> chat_notice \<Rightarrow> unit bb" where
  "ChannelNameBuilder name n =
     seq (append_value (NotificationType n)) (seq (write_string (string_bytes name)) (Append n))"

section \<open>The channel\<close>

record player_info =
  pi_flags :: uint8
  pi_invisible :: bool

definition MEMBER_FLAG_OWNER :: uint8 where "MEMBER_FLAG_OWNER = 0x01"

definition MEMBER_FLAG_MODERATOR :: uint8 where "MEMBER_FLAG_MODERATOR = 0x02"

definition MEMBER_FLAG_MUTED :: uint8 where "MEMBER_FLAG_MUTED = 0x08"

definition set_flag :: "uint8 \<Rightarrow> bool \<Rightarrow> player_info \<Rightarrow> player_info" where
  "set_flag f state i = i\<lparr>pi_flags := (if state then pi_flags i OR f else pi_flags i AND NOT f)\<rparr>"

definition has_flag :: "uint8 \<Rightarrow> player_info \<Rightarrow> bool" where
  "has_flag f i \<longleftrightarrow> pi_flags i AND f \<noteq> 0"

record channel =
  announceEnabled :: bool
  ownershipEnabled :: bool
  persistentChannel :: bool
  isOwnerInvisible :: bool
  channelFlags :: uint8
  channelId :: uint32
  channelTeam :: uint32
  ownerGuid :: guid
  channelName :: string
  channelPassword :: string
  playersStore :: "(guid, player_info) omap"
  bannedStore :: "guid set"
  zoneEntry :: "uint32 option"

definition CHANNEL_FLAG_CUSTOM :: uint8 where "CHANNEL_FLAG_CUSTOM = 0x01"

definition CHANNEL_FLAG_TRADE :: uint8 where "CHANNEL_FLAG_TRADE = 0x04"

definition CHANNEL_FLAG_NOT_LFG :: uint8 where "CHANNEL_FLAG_NOT_LFG = 0x08"

definition CHANNEL_FLAG_GENERAL :: uint8 where "CHANNEL_FLAG_GENERAL = 0x10"

definition CHANNEL_FLAG_CITY :: uint8 where "CHANNEL_FLAG_CITY = 0x20"

definition CHANNEL_FLAG_LFG :: uint8 where "CHANNEL_FLAG_LFG = 0x40"

definition CHANNEL_DBC_FLAG_GLOBAL :: uint32 where "CHANNEL_DBC_FLAG_GLOBAL = 0x00004"

definition CHANNEL_DBC_FLAG_TRADE :: uint32 where "CHANNEL_DBC_FLAG_TRADE = 0x00008"

definition CHANNEL_DBC_FLAG_CITY_ONLY :: uint32 where "CHANNEL_DBC_FLAG_CITY_ONLY = 0x00010"

definition CHANNEL_DBC_FLAG_CITY_ONLY2 :: uint32 where "CHANNEL_DBC_FLAG_CITY_ONLY2 = 0x00020"

definition CHANNEL_DBC_FLAG_LFG :: uint32 where "CHANNEL_DBC_FLAG_LFG = 0x40000"

datatype chan_effect =
    Notify guid chat_notice
  | UserlistAdd guid guid uint8 uint8 nat
  | UserlistUpdate guid guid uint8 uint8 nat
  | UserlistRemove guid guid uint8 nat
  | ChatMsg guid guid uint32 string
  | ListPacket guid uint8 "(guid \<times> uint8) list"
  | DbInsChannel string uint32
  | DbUpdChannel bool bool string "guid set" string uint32
  | DbUpdUsage string uint32
  | PlayerJoinedChannel guid
  | PlayerLeftChannel guid

type_synonym chan_ret = "channel \<times> chan_effect list"

text \<open>The built-in channel of a channel entry with the given flags.\<close>

definition channel_builtin :: "uint32 \<Rightarrow> uint32 \<Rightarrow> uint32 \<Rightarrow> uint32 option \<Rightarrow> channel" where
  "channel_builtin dbcFlags cid team zone =
     \<lparr>announceEnabled = False, ownershipEnabled = False, persistentChannel = False, isOwnerInvisible = False,
      channelFlags = CHANNEL_FLAG_GENERAL
        OR (if dbcFlags AND CHANNEL_DBC_FLAG_TRADE \<noteq> 0 then CHANNEL_FLAG_TRADE else 0)
        OR (if dbcFlags AND CHANNEL_DBC_FLAG_CITY_ONLY2 \<noteq> 0 then CHANNEL_FLAG_CITY else 0)
        OR (if dbcFlags AND CHANNEL_DBC_FLAG_LFG \<noteq> 0 then CHANNEL_FLAG_LFG else CHANNEL_FLAG_NOT_LFG),
      channelId = cid, channelTeam = team, ownerGuid = 0, channelName = '''', channelPassword = '''',
      playersStore = [], bannedStore = {}, zoneEntry = zone\<rparr>"

text \<open>A custom channel. With channel preservation on, the row of the channel is loaded if there is
  one (name, announcements, ownership, password and the identifiers of the ban list) and inserted
  otherwise.\<close>

definition channel_custom ::
  "chan_world \<Rightarrow> (string \<times> bool \<times> bool \<times> string \<times> guid list) option \<Rightarrow> string \<Rightarrow> uint32 \<Rightarrow> chan_ret" where
  "channel_custom w row name team =
     (let c = \<lparr>announceEnabled = True, ownershipEnabled = True, persistentChannel = False, isOwnerInvisible = False,
               channelFlags = CHANNEL_FLAG_CUSTOM, channelId = 0, channelTeam = team, ownerGuid = 0,
               channelName = name, channelPassword = '''', playersStore = [], bannedStore = {}, zoneEntry = None\<rparr>
      in if cfg_preserve_custom_channels w then
           case row of
             Some (nm, ann, own, pass, bans) \<Rightarrow>
               (c\<lparr>channelName := nm, announceEnabled := ann, ownershipEnabled := own, channelPassword := pass,
                  bannedStore := set bans - {0}, persistentChannel := True\<rparr>, [])
           | None \<Rightarrow> (c\<lparr>persistentChannel := True\<rparr>, [DbInsChannel name team])
         else (c, []))"

definition IsConstant :: "channel \<Rightarrow> bool" where
  "IsConstant c \<longleftrightarrow> channelId c \<noteq> 0"

definition IsLFG :: "channel \<Rightarrow> bool" where
  "IsLFG c \<longleftrightarrow> channelFlags c AND CHANNEL_FLAG_LFG \<noteq> 0"

definition GetNumPlayers :: "channel \<Rightarrow> nat" where
  "GetNumPlayers c = length (playersStore c)"

definition IsOn :: "guid \<Rightarrow> channel \<Rightarrow> bool" where
  "IsOn g c \<longleftrightarrow> om_find g (playersStore c) \<noteq> None"

definition IsBanned :: "guid \<Rightarrow> channel \<Rightarrow> bool" where
  "IsBanned g c \<longleftrightarrow> g \<in> bannedStore c"

definition GetPlayerFlags :: "guid \<Rightarrow> channel \<Rightarrow> uint8" where
  "GetPlayerFlags g c = (case om_find g (playersStore c) of None \<Rightarrow> 0 | Some i \<Rightarrow> pi_flags i)"

definition modify_player :: "guid \<Rightarrow> (player_info \<Rightarrow> player_info) \<Rightarrow> channel \<Rightarrow> channel" where
  "modify_player g f c = c\<lparr>playersStore := om_modify g f (playersStore c)\<rparr>"

definition member_has :: "uint8 \<Rightarrow> guid \<Rightarrow> channel \<Rightarrow> bool" where
  "member_has f g c \<longleftrightarrow> (case om_find g (playersStore c) of None \<Rightarrow> False | Some i \<Rightarrow> has_flag f i)"

definition UpdateChannelInDB :: "channel \<Rightarrow> chan_effect list" where
  "UpdateChannelInDB c =
     (if persistentChannel c
      then [DbUpdChannel (announceEnabled c) (ownershipEnabled c) (channelPassword c) (bannedStore c)
              (channelName c) (channelTeam c)]
      else [])"

definition UpdateChannelUseageInDB :: "channel \<Rightarrow> chan_effect list" where
  "UpdateChannelUseageInDB c = [DbUpdUsage (channelName c) (channelTeam c)]"

text \<open>The three senders. \<open>mk\<close> builds the packet for one recipient.\<close>

definition SendToAll :: "chan_world \<Rightarrow> (guid \<Rightarrow> chan_effect) \<Rightarrow> guid \<Rightarrow> channel \<Rightarrow> chan_effect list" where
  "SendToAll w mk g c =
     map mk (filter (\<lambda>k. case online w k of None \<Rightarrow> False | Some pl \<Rightarrow> g = 0 \<or> g \<notin> pl_ignores pl)
              (om_keys (playersStore c)))"

definition SendToAllButOne :: "chan_world \<Rightarrow> (guid \<Rightarrow> chan_effect) \<Rightarrow> guid \<Rightarrow> channel \<Rightarrow> chan_effect list" where
  "SendToAllButOne w mk who c =
     map mk (filter (\<lambda>k. k \<noteq> who \<and> online w k \<noteq> None) (om_keys (playersStore c)))"

definition SendToOne :: "chan_world \<Rightarrow> chat_notice \<Rightarrow> guid \<Rightarrow> chan_effect list" where
  "SendToOne w n who = (if online w who \<noteq> None then [Notify who n] else [])"

abbreviation notify_all :: "chan_world \<Rightarrow> chat_notice \<Rightarrow> channel \<Rightarrow> chan_effect list" where
  "notify_all w n c \<equiv> SendToAll w (\<lambda>k. Notify k n) 0 c"

definition JoinNotify :: "chan_world \<Rightarrow> guid \<Rightarrow> channel \<Rightarrow> chan_effect list" where
  "JoinNotify w g c =
     (if IsConstant c
      then SendToAllButOne w (\<lambda>k. UserlistAdd k g (GetPlayerFlags g c) (channelFlags c) (GetNumPlayers c)) g c
      else SendToAll w (\<lambda>k. UserlistUpdate k g (GetPlayerFlags g c) (channelFlags c) (GetNumPlayers c)) 0 c)"

definition LeaveNotify :: "chan_world \<Rightarrow> guid \<Rightarrow> channel \<Rightarrow> chan_effect list" where
  "LeaveNotify w g c =
     (if IsConstant c
      then SendToAllButOne w (\<lambda>k. UserlistRemove k g (channelFlags c) (GetNumPlayers c)) g c
      else SendToAll w (\<lambda>k. UserlistRemove k g (channelFlags c) (GetNumPlayers c)) 0 c)"

text \<open>\<^verbatim>\<open>SetOwner(ObjectGuid, bool)\<close>: the old owner loses the owner flag if it is still a member;
  the new one gets owner and moderator flags if it is a member, and nothing is announced or saved
  otherwise.\<close>

definition SetOwner_guid :: "chan_world \<Rightarrow> guid \<Rightarrow> bool \<Rightarrow> channel \<Rightarrow> chan_ret" where
  "SetOwner_guid w g exclaim c =
     (let c1 = (if ownerGuid c \<noteq> 0 then modify_player (ownerGuid c) (set_flag MEMBER_FLAG_OWNER False) c else c);
          c2 = c1\<lparr>ownerGuid := g\<rparr>
      in if g = 0 \<or> \<not> IsOn g c2 then (c2, [])
         else
           let oldFlag = GetPlayerFlags g c2;
               c3 = modify_player g (\<lambda>i. set_flag MEMBER_FLAG_OWNER True (set_flag MEMBER_FLAG_MODERATOR True i)) c2
           in (c3, notify_all w (ModeChangeAppend g oldFlag (GetPlayerFlags g c3)) c3
                 @ (if exclaim then notify_all w (OwnerChangedAppend g) c3 else [])
                 @ UpdateChannelInDB c3))"

definition JoinChannel :: "chan_world \<Rightarrow> chan_player \<Rightarrow> string \<Rightarrow> channel \<Rightarrow> chan_ret" where
  "JoinChannel w player pass c =
     (let guid = pl_guid player in
      if IsOn guid c then
        (c, if \<not> IsConstant c then SendToOne w (PlayerAlreadyMemberAppend guid) guid else [])
      else if IsBanned guid c then (c, SendToOne w BannedAppend guid)
      else if channelPassword c \<noteq> '''' \<and> pass \<noteq> channelPassword c then (c, SendToOne w WrongPasswordAppend guid)
      else if channelFlags c AND CHANNEL_FLAG_LFG \<noteq> 0 \<and> cfg_restricted_lfg_channel w
        \<and> IsPlayerAccount (pl_security player) \<and> pl_in_group player
        then (c, SendToOne w NotInLFGAppend guid)
      else
        let e1 = [PlayerJoinedChannel guid]
                 @ (if announceEnabled c \<and> \<not> has_perm player RBAC_PERM_SILENTLY_JOIN_CHANNEL
                    then notify_all w (JoinedAppend guid) c else []);
            newChannel = (playersStore c = []);
            invis = (\<not> pl_gm_visible player);
            c1 = c\<lparr>playersStore := om_put guid \<lparr>pi_flags = 0, pi_invisible = invis\<rparr> (playersStore c)\<rparr>;
            e2 = SendToOne w (YouJoinedAppend (channelFlags c1) (channelId c1)) guid @ JoinNotify w guid c1
        in if IsConstant c1 then (c1, e1 @ e2)
           else
             let e3 = UpdateChannelUseageInDB c1
             in if ownershipEnabled c1 \<and> (newChannel \<or> \<not> invis) \<and> (ownerGuid c1 = 0 \<or> isOwnerInvisible c1)
                then
                  let c2 = c1\<lparr>isOwnerInvisible := invis\<rparr>;
                      (c3, e4) = SetOwner_guid w guid (\<not> newChannel \<and> \<not> invis) c2
                  in (modify_player guid (set_flag MEMBER_FLAG_MODERATOR True) c3, e1 @ e2 @ e3 @ e4)
                else (c1, e1 @ e2 @ e3))"

text \<open>The successor of an owner who left: the first visible member, or the first member.\<close>

definition pick_owner :: "(guid, player_info) omap \<Rightarrow> (guid \<times> player_info) option" where
  "pick_owner m =
     (case find (\<lambda>e. \<not> pi_invisible (snd e)) m of
        Some e \<Rightarrow> Some e
      | None \<Rightarrow> (case m of [] \<Rightarrow> None | e # _ \<Rightarrow> Some e))"

definition LeaveChannel :: "chan_world \<Rightarrow> chan_player \<Rightarrow> bool \<Rightarrow> channel \<Rightarrow> chan_ret" where
  "LeaveChannel w player send c =
     (let guid = pl_guid player in
      if \<not> IsOn guid c then (c, if send then SendToOne w NotMemberAppend guid else [])
      else
        let e1 = (if send
                  then SendToOne w (YouLeftAppend (channelId c) (IsConstant c)) guid @ [PlayerLeftChannel guid]
                  else []);
            changeowner = member_has MEMBER_FLAG_OWNER guid c;
            c1 = c\<lparr>playersStore := om_erase guid (playersStore c)\<rparr>;
            e2 = (if announceEnabled c1 \<and> \<not> has_perm player RBAC_PERM_SILENTLY_JOIN_CHANNEL
                  then notify_all w (LeftAppend guid) c1 else []) @ LeaveNotify w guid c1
        in if IsConstant c1 then (c1, e1 @ e2)
           else
             let e3 = UpdateChannelUseageInDB c1
             in if changeowner \<and> ownershipEnabled c1 then
                  case pick_owner (playersStore c1) of
                    None \<Rightarrow> (c1, e1 @ e2 @ e3)
                  | Some (newOwner, info) \<Rightarrow>
                      let c2 = modify_player newOwner (set_flag MEMBER_FLAG_MODERATOR True) c1;
                          (c3, e4) = SetOwner_guid w newOwner True c2
                      in (if pi_invisible info then c3\<lparr>isOwnerInvisible := True\<rparr> else c3, e1 @ e2 @ e3 @ e4)
                else (c1, e1 @ e2 @ e3))"

text \<open>
  \<^verbatim>\<open>KickOrBan\<close> keeps a reference to the caller's entry across the erase of the victim's. When
  the caller is the victim and a successor is chosen, the code writes through it after the entry is
  gone: the result is \<open>None\<close>.
\<close>

definition KickOrBan :: "chan_world \<Rightarrow> chan_player \<Rightarrow> string \<Rightarrow> bool \<Rightarrow> channel \<Rightarrow> chan_ret option" where
  "KickOrBan w player badname ban c =
     (let good = pl_guid player in
      if \<not> IsOn good c then Some (c, SendToOne w NotMemberAppend good)
      else if \<not> member_has MEMBER_FLAG_MODERATOR good c \<and> \<not> has_perm player RBAC_PERM_CHANGE_CHANNEL_NOT_MODERATOR
        then Some (c, SendToOne w NotModeratorAppend good)
      else
        let victim = (case by_name w badname of None \<Rightarrow> 0 | Some bad \<Rightarrow> pl_guid bad) in
        if victim = 0 \<or> \<not> IsOn victim c then Some (c, SendToOne w (PlayerNotFoundAppend badname) good)
        else
          let changeowner = (ownerGuid c = victim) in
          if \<not> has_perm player RBAC_PERM_CHANGE_CHANNEL_NOT_MODERATOR \<and> changeowner \<and> good \<noteq> ownerGuid c
            then Some (c, SendToOne w NotOwnerAppend good)
          else
            let silent = has_perm player RBAC_PERM_SILENTLY_JOIN_CHANNEL;
                (c1, e1) =
                  (if ban \<and> \<not> IsBanned victim c
                   then let c' = c\<lparr>bannedStore := insert victim (bannedStore c)\<rparr>
                        in (c', UpdateChannelInDB c'
                              @ (if \<not> silent then notify_all w (PlayerBannedAppend good victim) c' else []))
                   else (c, if \<not> silent then notify_all w (PlayerKickedAppend good victim) c else []));
                c2 = c1\<lparr>playersStore := om_erase victim (playersStore c1)\<rparr>;
                e2 = [PlayerLeftChannel victim]
            in if changeowner \<and> ownershipEnabled c2 \<and> playersStore c2 \<noteq> []
               then if good = victim then None
                    else
                      let c3 = modify_player good (set_flag MEMBER_FLAG_MODERATOR True) c2;
                          (c4, e4) = SetOwner_guid w good True c3
                      in Some (c4, e1 @ e2 @ e4)
               else Some (c2, e1 @ e2))"

definition UnBan :: "chan_world \<Rightarrow> chan_player \<Rightarrow> string \<Rightarrow> channel \<Rightarrow> chan_ret" where
  "UnBan w player badname c =
     (let good = pl_guid player in
      if \<not> IsOn good c then (c, SendToOne w NotMemberAppend good)
      else if \<not> member_has MEMBER_FLAG_MODERATOR good c \<and> \<not> has_perm player RBAC_PERM_CHANGE_CHANNEL_NOT_MODERATOR
        then (c, SendToOne w NotModeratorAppend good)
      else
        let victim = (case by_name w badname of None \<Rightarrow> 0 | Some bad \<Rightarrow> pl_guid bad) in
        if victim = 0 \<or> \<not> IsBanned victim c then (c, SendToOne w (PlayerNotFoundAppend badname) good)
        else
          let c1 = c\<lparr>bannedStore := bannedStore c - {victim}\<rparr>
          in (c1, notify_all w (PlayerUnbannedAppend good victim) c1 @ UpdateChannelInDB c1))"

definition Password :: "chan_world \<Rightarrow> chan_player \<Rightarrow> string \<Rightarrow> channel \<Rightarrow> chan_ret" where
  "Password w player pass c =
     (let guid = pl_guid player in
      if \<not> IsOn guid c then (c, SendToOne w NotMemberAppend guid)
      else if \<not> member_has MEMBER_FLAG_MODERATOR guid c \<and> \<not> has_perm player RBAC_PERM_CHANGE_CHANNEL_NOT_MODERATOR
        then (c, SendToOne w NotModeratorAppend guid)
      else
        let c1 = c\<lparr>channelPassword := pass\<rparr>
        in (c1, notify_all w (PasswordChangedAppend guid) c1 @ UpdateChannelInDB c1))"

definition SetModerator :: "chan_world \<Rightarrow> guid \<Rightarrow> bool \<Rightarrow> channel \<Rightarrow> chan_ret" where
  "SetModerator w g state c =
     (if \<not> IsOn g c then (c, [])
      else if member_has MEMBER_FLAG_MODERATOR g c \<noteq> state then
        let c1 = modify_player g (set_flag MEMBER_FLAG_MODERATOR state) c
        in (c1, notify_all w (ModeChangeAppend g (GetPlayerFlags g c) (GetPlayerFlags g c1)) c1)
      else (c, []))"

definition SetMute :: "chan_world \<Rightarrow> guid \<Rightarrow> bool \<Rightarrow> channel \<Rightarrow> chan_ret" where
  "SetMute w g state c =
     (if \<not> IsOn g c then (c, [])
      else if member_has MEMBER_FLAG_MUTED g c \<noteq> state then
        let c1 = modify_player g (set_flag MEMBER_FLAG_MUTED state) c
        in (c1, notify_all w (ModeChangeAppend g (GetPlayerFlags g c) (GetPlayerFlags g c1)) c1)
      else (c, []))"

definition two_side_ok :: "chan_player \<Rightarrow> chan_player \<Rightarrow> bool" where
  "two_side_ok a b \<longleftrightarrow> pl_team a = pl_team b \<or>
     has_perm a RBAC_PERM_TWO_SIDE_INTERACTION_CHANNEL \<and> has_perm b RBAC_PERM_TWO_SIDE_INTERACTION_CHANNEL"

definition SetMode :: "chan_world \<Rightarrow> chan_player \<Rightarrow> string \<Rightarrow> bool \<Rightarrow> bool \<Rightarrow> channel \<Rightarrow> chan_ret" where
  "SetMode w player p2n md state c =
     (let guid = pl_guid player in
      if \<not> IsOn guid c then (c, SendToOne w NotMemberAppend guid)
      else if \<not> member_has MEMBER_FLAG_MODERATOR guid c \<and> \<not> has_perm player RBAC_PERM_CHANGE_CHANNEL_NOT_MODERATOR
        then (c, SendToOne w NotModeratorAppend guid)
      else if guid = ownerGuid c \<and> p2n = pl_name player \<and> md then (c, [])
      else
        case by_name w p2n of
          None \<Rightarrow> (c, SendToOne w (PlayerNotFoundAppend p2n) guid)
        | Some newp \<Rightarrow>
            let victim = pl_guid newp in
            if victim = 0 \<or> \<not> IsOn victim c \<or> \<not> two_side_ok player newp
              then (c, SendToOne w (PlayerNotFoundAppend p2n) guid)
            else if ownerGuid c = victim \<and> ownerGuid c \<noteq> guid then (c, SendToOne w NotOwnerAppend guid)
            else if md then SetModerator w victim state c
            else SetMute w victim state c)"

definition SetInvisible :: "chan_player \<Rightarrow> bool \<Rightarrow> channel \<Rightarrow> channel" where
  "SetInvisible player on c =
     (let g = pl_guid player in
      if \<not> IsOn g c then c
      else
        let c1 = modify_player g (\<lambda>i. i\<lparr>pi_invisible := on\<rparr>) c
        in if ownerGuid c1 = g then c1\<lparr>isOwnerInvisible := on\<rparr> else c1)"

definition SetOwner_player :: "chan_world \<Rightarrow> chan_player \<Rightarrow> string \<Rightarrow> channel \<Rightarrow> chan_ret" where
  "SetOwner_player w player newname c =
     (let guid = pl_guid player in
      if \<not> IsOn guid c then (c, SendToOne w NotMemberAppend guid)
      else if \<not> has_perm player RBAC_PERM_CHANGE_CHANNEL_NOT_MODERATOR \<and> guid \<noteq> ownerGuid c
        then (c, SendToOne w NotOwnerAppend guid)
      else
        case by_name w newname of
          None \<Rightarrow> (c, SendToOne w (PlayerNotFoundAppend newname) guid)
        | Some newp \<Rightarrow>
            let victim = pl_guid newp in
            if victim = 0 \<or> \<not> IsOn victim c \<or> \<not> two_side_ok player newp
              then (c, SendToOne w (PlayerNotFoundAppend newname) guid)
            else SetOwner_guid w victim True (modify_player victim (set_flag MEMBER_FLAG_MODERATOR True) c))"

text \<open>\<open>cached_name\<close> is the character cache's answer for the owner.\<close>

definition SendWhoOwner :: "chan_world \<Rightarrow> (guid \<Rightarrow> string option) \<Rightarrow> guid \<Rightarrow> channel \<Rightarrow> chan_effect list" where
  "SendWhoOwner w cached_name g c =
     (if IsOn g c then SendToOne w (ChannelOwnerAppend (IsConstant c) (ownerGuid c) (cached_name (ownerGuid c))) g
      else SendToOne w NotMemberAppend g)"

definition ListChannel :: "chan_world \<Rightarrow> chan_player \<Rightarrow> channel \<Rightarrow> chan_effect list" where
  "ListChannel w player c =
     (let guid = pl_guid player in
      if \<not> IsOn guid c then SendToOne w NotMemberAppend guid
      else
        [ListPacket guid (channelFlags c)
           (map (\<lambda>(k, i). (k, pi_flags i))
             (filter (\<lambda>(k, i).
                case online w k of
                  None \<Rightarrow> False
                | Some member \<Rightarrow>
                    (has_perm player RBAC_PERM_WHO_SEE_ALL_SEC_LEVELS
                     \<or> pl_security member \<le> cfg_gm_level_in_who_list w)
                    \<and> visible_globally_for w k guid)
               (playersStore c)))])"

definition Announce :: "chan_world \<Rightarrow> chan_player \<Rightarrow> channel \<Rightarrow> chan_ret" where
  "Announce w player c =
     (let guid = pl_guid player in
      if \<not> IsOn guid c then (c, SendToOne w NotMemberAppend guid)
      else if \<not> member_has MEMBER_FLAG_MODERATOR guid c \<and> \<not> has_perm player RBAC_PERM_CHANGE_CHANNEL_NOT_MODERATOR
        then (c, SendToOne w NotModeratorAppend guid)
      else
        let c1 = c\<lparr>announceEnabled := \<not> announceEnabled c\<rparr>
        in (c1, (if announceEnabled c1 then notify_all w (AnnouncementsOnAppend guid) c1
                 else notify_all w (AnnouncementsOffAppend guid) c1) @ UpdateChannelInDB c1))"

definition Say :: "chan_world \<Rightarrow> guid \<Rightarrow> string \<Rightarrow> uint32 \<Rightarrow> channel \<Rightarrow> chan_effect list" where
  "Say w g what lang c =
     (if what = '''' then []
      else
        let lang' = (if cfg_two_side_channel w then 0 else lang) in
        if \<not> IsOn g c then SendToOne w NotMemberAppend g
        else if member_has MEMBER_FLAG_MUTED g c then SendToOne w MutedAppend g
        else SendToAll w (\<lambda>k. ChatMsg k g lang' what)
               (if \<not> member_has MEMBER_FLAG_MODERATOR g c then g else 0) c)"

definition Invite :: "chan_world \<Rightarrow> chan_player \<Rightarrow> string \<Rightarrow> channel \<Rightarrow> chan_effect list" where
  "Invite w player newname c =
     (let guid = pl_guid player in
      if \<not> IsOn guid c then SendToOne w NotMemberAppend guid
      else
        case by_name w newname of
          None \<Rightarrow> SendToOne w (PlayerNotFoundAppend newname) guid
        | Some newp \<Rightarrow>
            if \<not> pl_gm_visible newp then SendToOne w (PlayerNotFoundAppend newname) guid
            else if IsBanned (pl_guid newp) c then SendToOne w (PlayerInviteBannedAppend newname) guid
            else if \<not> two_side_ok player newp then SendToOne w InviteWrongFactionAppend guid
            else if IsOn (pl_guid newp) c then SendToOne w (PlayerAlreadyMemberAppend (pl_guid newp)) guid
            else (if guid \<notin> pl_ignores newp then SendToOne w (InviteAppend guid) (pl_guid newp) else [])
                 @ SendToOne w (PlayerInvitedAppend (pl_name newp)) guid)"

section \<open>Calls on a channel\<close>

text \<open>The public operations that change a channel, as the opcode handlers and the player call them.\<close>

datatype chan_call =
    CallJoin chan_player string
  | CallLeave chan_player bool
  | CallKickOrBan chan_player string bool
  | CallUnBan chan_player string
  | CallPassword chan_player string
  | CallSetMode chan_player string bool bool
  | CallSetInvisible chan_player bool
  | CallSetOwner chan_player string
  | CallAnnounce chan_player
  | CallSetAnnounce bool
  | CallSetPassword string
  | CallSetOwnership bool

fun chan_run :: "chan_world \<Rightarrow> chan_call \<Rightarrow> channel \<Rightarrow> chan_ret option" where
  "chan_run w (CallJoin p pass) c = Some (JoinChannel w p pass c)"
| "chan_run w (CallLeave p send) c = Some (LeaveChannel w p send c)"
| "chan_run w (CallKickOrBan p n ban) c = KickOrBan w p n ban c"
| "chan_run w (CallUnBan p n) c = Some (UnBan w p n c)"
| "chan_run w (CallPassword p pass) c = Some (Password w p pass c)"
| "chan_run w (CallSetMode p n md st) c = Some (SetMode w p n md st c)"
| "chan_run w (CallSetInvisible p on) c = Some (SetInvisible p on c, [])"
| "chan_run w (CallSetOwner p n) c = Some (SetOwner_player w p n c)"
| "chan_run w (CallAnnounce p) c = Some (Announce w p c)"
| "chan_run w (CallSetAnnounce b) c = Some (c\<lparr>announceEnabled := b\<rparr>, [])"
| "chan_run w (CallSetPassword s) c = Some (c\<lparr>channelPassword := s\<rparr>, [])"
| "chan_run w (CallSetOwnership b) c = Some (c\<lparr>ownershipEnabled := b\<rparr>, [])"

text \<open>The player behind a call; a connected player has a non-empty identifier.\<close>

fun call_player :: "chan_call \<Rightarrow> chan_player option" where
  "call_player (CallJoin p _) = Some p"
| "call_player (CallLeave p _) = Some p"
| "call_player (CallKickOrBan p _ _) = Some p"
| "call_player (CallUnBan p _) = Some p"
| "call_player (CallPassword p _) = Some p"
| "call_player (CallSetMode p _ _ _) = Some p"
| "call_player (CallSetInvisible p _) = Some p"
| "call_player (CallSetOwner p _) = Some p"
| "call_player (CallAnnounce p) = Some p"
| "call_player _ = None"

definition call_ok :: "chan_call \<Rightarrow> bool" where
  "call_ok x \<longleftrightarrow> (case call_player x of None \<Rightarrow> True | Some p \<Rightarrow> pl_guid p \<noteq> 0)"

inductive chan_reach :: "channel \<Rightarrow> bool" where
  builtin: "chan_reach (channel_builtin fl cid team zone)"
| custom: "chan_reach (fst (channel_custom w row name team))"
| step: "\<lbrakk>chan_reach c; call_ok x; chan_run w x c = Some (c', es)\<rbrakk> \<Longrightarrow> chan_reach c'"

end
