(* ===== verification/Channel_Props.thy ===== *)
theory Channel_Props
  imports Channel
begin

text \<open>
  What the channel promises: who may change it, who owns it, and what happens to the members when
  an owner leaves, over every sequence of calls.
\<close>

section \<open>Flags\<close>

lemma member_flag_exp:
  "MEMBER_FLAG_OWNER = 2 ^ 0" "MEMBER_FLAG_MODERATOR = 2 ^ 1" "MEMBER_FLAG_MUTED = 2 ^ 3"
  by (simp_all add: MEMBER_FLAG_OWNER_def MEMBER_FLAG_MODERATOR_def MEMBER_FLAG_MUTED_def)

lemma has_flag_exp: "has_flag (2 ^ k) i \<longleftrightarrow> bit (pi_flags i) k"
  by (simp add: has_flag_def and_exp_eq_0_iff_not_bit)

lemma set_flag_exp:
  "k < 8 \<Longrightarrow> bit (pi_flags (set_flag (2 ^ k) st i)) n = (if n = k then st else bit (pi_flags i) n)"
  by (auto simp: set_flag_def bit_simps dest: bit_imp_le_length)

lemma member_flag_bits:
  "has_flag MEMBER_FLAG_OWNER i \<longleftrightarrow> bit (pi_flags i) 0"
  "has_flag MEMBER_FLAG_MODERATOR i \<longleftrightarrow> bit (pi_flags i) 1"
  "has_flag MEMBER_FLAG_MUTED i \<longleftrightarrow> bit (pi_flags i) 3"
  unfolding member_flag_exp has_flag_exp by simp_all

lemma set_flag_bits:
  "bit (pi_flags (set_flag MEMBER_FLAG_OWNER st i)) n = (if n = 0 then st else bit (pi_flags i) n)"
  "bit (pi_flags (set_flag MEMBER_FLAG_MODERATOR st i)) n = (if n = 1 then st else bit (pi_flags i) n)"
  "bit (pi_flags (set_flag MEMBER_FLAG_MUTED st i)) n = (if n = 3 then st else bit (pi_flags i) n)"
  unfolding member_flag_exp by (rule set_flag_exp, simp)+

lemma set_flag_invisible [simp]: "pi_invisible (set_flag f st i) = pi_invisible i"
  by (simp add: set_flag_def)

lemmas flag_simps = member_flag_bits set_flag_bits

section \<open>The ownership invariant\<close>

text \<open>The members are stored by ascending identifier, none has the empty one, and only the
  channel's owner carries the owner flag.\<close>

definition chan_inv :: "channel \<Rightarrow> bool" where
  "chan_inv c \<longleftrightarrow> om_ok (playersStore c) \<and> om_find 0 (playersStore c) = None
     \<and> om.all_entries (\<lambda>g i. has_flag MEMBER_FLAG_OWNER i \<longrightarrow> g = ownerGuid c) (playersStore c)"

lemma chan_invI [intro]:
  assumes "om_ok (playersStore c)" "om_find 0 (playersStore c) = None"
    "\<And>g i. om_find g (playersStore c) = Some i \<Longrightarrow> has_flag MEMBER_FLAG_OWNER i \<Longrightarrow> g = ownerGuid c"
  shows "chan_inv c"
  using assms by (auto simp: chan_inv_def om.all_entries_def)

lemma chan_invD:
  assumes "chan_inv c"
  shows "om_ok (playersStore c)" "om_find 0 (playersStore c) = None"
    "om_find g (playersStore c) = Some i \<Longrightarrow> bit (pi_flags i) 0 \<Longrightarrow> g = ownerGuid c \<and> ownerGuid c \<noteq> 0"
  using assms by (auto simp: chan_inv_def om.all_entries_def flag_simps)

lemma chan_inv_cong:
  "playersStore c' = playersStore c \<Longrightarrow> ownerGuid c' = ownerGuid c \<Longrightarrow> chan_inv c' \<longleftrightarrow> chan_inv c"
  by (simp add: chan_inv_def)

lemma modify_player_sel [simp]:
  "playersStore (modify_player g f c) = om_modify g f (playersStore c)"
  "ownerGuid (modify_player g f c) = ownerGuid c"
  "bannedStore (modify_player g f c) = bannedStore c"
  "ownershipEnabled (modify_player g f c) = ownershipEnabled c"
  "channelId (modify_player g f c) = channelId c"
  "isOwnerInvisible (modify_player g f c) = isOwnerInvisible c"
  by (simp_all add: modify_player_def)

lemma chan_inv_update [simp]:
  "chan_inv (c\<lparr>bannedStore := b\<rparr>) = chan_inv c" "chan_inv (c\<lparr>announceEnabled := a\<rparr>) = chan_inv c"
  "chan_inv (c\<lparr>channelPassword := p\<rparr>) = chan_inv c" "chan_inv (c\<lparr>ownershipEnabled := own\<rparr>) = chan_inv c"
  "chan_inv (c\<lparr>isOwnerInvisible := iv\<rparr>) = chan_inv c"
  "chan_inv (c\<lparr>bannedStore := b, playersStore := m\<rparr>) = chan_inv (c\<lparr>playersStore := m\<rparr>)"
  by (simp_all add: chan_inv_def)

lemma chan_inv_modify:
  assumes "chan_inv c" "\<And>i. has_flag MEMBER_FLAG_OWNER (f i) \<Longrightarrow> has_flag MEMBER_FLAG_OWNER i"
  shows "chan_inv (modify_player g f c)"
  using assms
  by (auto intro!: chan_invI simp: chan_invD flag_simps split: if_splits dest: chan_invD(3))

lemma chan_inv_set_flag [simp]:
  "chan_inv c \<Longrightarrow> chan_inv (modify_player g (set_flag MEMBER_FLAG_MODERATOR st) c)"
  "chan_inv c \<Longrightarrow> chan_inv (modify_player g (set_flag MEMBER_FLAG_MUTED st) c)"
  "chan_inv c \<Longrightarrow> chan_inv (modify_player g (\<lambda>i. i\<lparr>pi_invisible := on\<rparr>) c)"
  by (auto intro!: chan_inv_modify simp: flag_simps)

lemma chan_inv_erase [simp]: "chan_inv c \<Longrightarrow> chan_inv (c\<lparr>playersStore := om_erase g (playersStore c)\<rparr>)"
  by (auto intro!: chan_invI simp: chan_invD flag_simps split: if_splits dest: chan_invD(3))

lemma chan_inv_put [simp]:
  "chan_inv c \<Longrightarrow> g \<noteq> 0 \<Longrightarrow>
   chan_inv (c\<lparr>playersStore := om_put g \<lparr>pi_flags = 0, pi_invisible = iv\<rparr> (playersStore c)\<rparr>)"
  by (auto intro!: chan_invI simp: chan_invD flag_simps split: if_splits dest: chan_invD(3))

text \<open>The old owner's flag is cleared before the new owner gets it.\<close>

lemma clear_owner:
  assumes "chan_inv c" and
    "om_find k (playersStore (if ownerGuid c \<noteq> 0 then modify_player (ownerGuid c) (set_flag MEMBER_FLAG_OWNER False) c
                          else c)) = Some i"
  shows "\<not> bit (pi_flags i) 0"
  using assms(2) by (auto simp: flag_simps split: if_splits dest: chan_invD(3) [OF assms(1)])

lemma chan_inv_new_owner:
  assumes "om_ok (playersStore c)" "om_find 0 (playersStore c) = None"
    and none: "\<And>k i. om_find k (playersStore c) = Some i \<Longrightarrow> \<not> bit (pi_flags i) 0"
  shows "chan_inv (c\<lparr>ownerGuid := g\<rparr>)" "chan_inv (modify_player g f (c\<lparr>ownerGuid := g\<rparr>))"
  using assms(1,2) by (auto simp: chan_inv_def om.all_entries_def flag_simps none)

lemma SetOwner_guid_inv [simp]:
  assumes "chan_inv c" shows "chan_inv (fst (SetOwner_guid w g ex c))"
proof -
  let ?c1 = "if ownerGuid c \<noteq> 0 then modify_player (ownerGuid c) (set_flag MEMBER_FLAG_OWNER False) c else c"
  have "chan_inv (?c1\<lparr>ownerGuid := g\<rparr>)" "chan_inv (modify_player g f (?c1\<lparr>ownerGuid := g\<rparr>))" for f
    using clear_owner [OF assms] assms by (auto intro!: chan_inv_new_owner simp: chan_invD)
  then show ?thesis unfolding SetOwner_guid_def Let_def by (simp only: if_distrib [of fst] fst_conv split: if_split) simp
qed

text \<open>The channel a handler returns, without what it sends.\<close>

lemmas fst_if = if_distrib [of fst] split_beta fst_conv Let_def

lemma JoinChannel_inv: "chan_inv c \<Longrightarrow> pl_guid p \<noteq> 0 \<Longrightarrow> chan_inv (fst (JoinChannel w p pass c))"
  unfolding JoinChannel_def fst_if by simp

lemma LeaveChannel_inv: "chan_inv c \<Longrightarrow> chan_inv (fst (LeaveChannel w p send c))"
  unfolding LeaveChannel_def fst_if option.case_distrib [of fst] by (simp split: option.split)

lemma KickOrBan_inv': "chan_inv c \<Longrightarrow> pred_option (\<lambda>r. chan_inv (fst r)) (KickOrBan w p n ban c)"
  unfolding KickOrBan_def fst_if if_distrib [of "pred_option (\<lambda>r. chan_inv (fst r))"] option.pred_inject
  by simp

lemma KickOrBan_inv: "chan_inv c \<Longrightarrow> KickOrBan w p n ban c = Some (c', es) \<Longrightarrow> chan_inv c'"
  using KickOrBan_inv' [of c w p n ban] by simp

lemma SetMode_inv: "chan_inv c \<Longrightarrow> chan_inv (fst (SetMode w p n md st c))"
  by (auto simp: SetMode_def SetModerator_def SetMute_def Let_def split: option.splits)

lemma SetOwner_player_inv: "chan_inv c \<Longrightarrow> chan_inv (fst (SetOwner_player w p n c))"
  by (auto simp: SetOwner_player_def Let_def SetOwner_guid_inv split: option.splits)

lemma chan_run_inv:
  assumes "chan_inv c" "call_ok x" "chan_run w x c = Some (c', es)"
  shows "chan_inv c'"
  using assms
proof (cases x)
  case (CallJoin p pass)
  then show ?thesis using assms JoinChannel_inv [of c p w pass] by (simp add: call_ok_def)
next
  case (CallLeave p send)
  then show ?thesis using assms LeaveChannel_inv [of c w p send] by simp
next
  case (CallKickOrBan p n ban)
  then show ?thesis using assms by (auto intro: KickOrBan_inv)
next
  case (CallSetMode p n md st)
  then show ?thesis using assms SetMode_inv [of c w p n md st] by simp
next
  case (CallSetOwner p n)
  then show ?thesis using assms SetOwner_player_inv [of c w p n] by simp
qed (auto simp: UnBan_def Password_def Announce_def SetInvisible_def Let_def
      split: if_splits option.splits)

lemma channel_new_inv [simp]:
  "chan_inv (channel_builtin fl cid team zone)" "chan_inv (fst (channel_custom w row name team))"
  by (auto intro!: chan_invI simp: channel_builtin_def channel_custom_def Let_def split: option.splits)

lemma chan_reach_inv: "chan_reach c \<Longrightarrow> chan_inv c"
  by (induction rule: chan_reach.induct) (auto intro: chan_run_inv)

section \<open>Membership\<close>

lemma IsOn_modify [simp]: "IsOn g (modify_player k f c) = IsOn g c"
  by (auto simp: IsOn_def)

lemma IsOn_update [simp]:
  "IsOn g (c\<lparr>ownerGuid := b1\<rparr>) = IsOn g c" "IsOn g (c\<lparr>bannedStore := b2\<rparr>) = IsOn g c"
  "IsOn g (c\<lparr>isOwnerInvisible := b3\<rparr>) = IsOn g c" "IsOn g (c\<lparr>announceEnabled := b4\<rparr>) = IsOn g c"
  "IsOn g (c\<lparr>channelPassword := b5\<rparr>) = IsOn g c" "IsOn g (c\<lparr>ownershipEnabled := b6\<rparr>) = IsOn g c"
  "IsOn g (c\<lparr>playersStore := om_erase k (playersStore d)\<rparr>) \<longleftrightarrow> g \<noteq> k \<and> IsOn g d"
  "IsOn g (c\<lparr>playersStore := om_put k i (playersStore d)\<rparr>) \<longleftrightarrow> g = k \<or> IsOn g d"
  by (auto simp: IsOn_def)

lemma SetOwner_guid_sel [simp]:
  "IsOn k (fst (SetOwner_guid w g ex c)) = IsOn k c"
  "bannedStore (fst (SetOwner_guid w g ex c)) = bannedStore c"
  "ownerGuid (fst (SetOwner_guid w g ex c)) = g"
  "isOwnerInvisible (fst (SetOwner_guid w g ex c)) = isOwnerInvisible c"
  unfolding SetOwner_guid_def by (simp_all add: Let_def)

lemma JoinChannel_members:
  "IsOn k (fst (JoinChannel w p pass c)) \<longrightarrow> IsOn k c \<or> k = pl_guid p \<and> \<not> IsBanned (pl_guid p) c"
  "bannedStore (fst (JoinChannel w p pass c)) = bannedStore c"
  unfolding JoinChannel_def fst_if by simp_all

lemma LeaveChannel_members:
  "IsOn k (fst (LeaveChannel w p send c)) \<longleftrightarrow> IsOn k c \<and> k \<noteq> pl_guid p"
  "bannedStore (fst (LeaveChannel w p send c)) = bannedStore c"
  unfolding LeaveChannel_def fst_if option.case_distrib [of fst]
  by (auto split: option.split)

lemma KickOrBan_members':
  "pred_option (\<lambda>r. (IsOn k (fst r) \<longrightarrow> IsOn k c) \<and> bannedStore c \<subseteq> bannedStore (fst r)) (KickOrBan w p n ban c)"
  unfolding KickOrBan_def fst_if
    if_distrib [of "pred_option (\<lambda>r. (IsOn k (fst r) \<longrightarrow> IsOn k c) \<and> bannedStore c \<subseteq> bannedStore (fst r))"]
    option.pred_inject
  by (simp add: subset_insertI)

lemma KickOrBan_members:
  "KickOrBan w p n ban c = Some (c', es) \<Longrightarrow> (IsOn k c' \<longrightarrow> IsOn k c) \<and> bannedStore c \<subseteq> bannedStore c'"
  using KickOrBan_members' [of k c w p n ban] by simp

lemma SetMode_members:
  "IsOn k (fst (SetMode w p n md st c)) = IsOn k c" "bannedStore (fst (SetMode w p n md st c)) = bannedStore c"
  by (auto simp: SetMode_def SetModerator_def SetMute_def Let_def split: option.split)

lemma SetOwner_player_members:
  "IsOn k (fst (SetOwner_player w p n c)) = IsOn k c" "bannedStore (fst (SetOwner_player w p n c)) = bannedStore c"
  by (auto simp: SetOwner_player_def Let_def split: option.split)

fun is_unban :: "chan_call \<Rightarrow> bool" where
  "is_unban (CallUnBan _ _) = True"
| "is_unban _ = False"

lemma chan_run_banned:
  assumes "IsBanned g c" "\<not> IsOn g c" "\<not> is_unban x" "chan_run w x c = Some (c', es)"
  shows "IsBanned g c' \<and> \<not> IsOn g c'"
  using assms
proof (cases x)
  case (CallJoin p pass)
  then show ?thesis using assms JoinChannel_members(1) [of g w p pass c] JoinChannel_members(2) [of w p pass c]
    by (auto simp: IsBanned_def)
next
  case (CallLeave p send)
  then show ?thesis using assms LeaveChannel_members(1) [of g w p send c] LeaveChannel_members(2) [of w p send c]
    by (simp add: IsBanned_def)
next
  case (CallKickOrBan p n ban)
  then show ?thesis using assms KickOrBan_members [of w p n ban c c' es g] by (auto simp: IsBanned_def)
next
  case (CallSetMode p n md st)
  then show ?thesis using assms SetMode_members(1) [of g w p n md st c] SetMode_members(2) [of w p n md st c]
    by (simp add: IsBanned_def)
next
  case (CallSetOwner p n)
  then show ?thesis using assms SetOwner_player_members(1) [of g w p n c] SetOwner_player_members(2) [of w p n c]
    by (simp add: IsBanned_def)
qed (auto simp: Password_def Announce_def SetInvisible_def IsBanned_def Let_def split: if_splits)

fun chan_runs :: "chan_world \<Rightarrow> chan_call list \<Rightarrow> channel \<Rightarrow> channel option" where
  "chan_runs w [] c = Some c"
| "chan_runs w (x # xs) c = (case chan_run w x c of None \<Rightarrow> None | Some (c', _) \<Rightarrow> chan_runs w xs c')"

section \<open>Handing a channel over\<close>

lemma find_Some_set: "find P xs = Some x \<Longrightarrow> x \<in> set xs \<and> P x"
  by (induction xs) (auto split: if_splits)

lemma om_find_in_set: "om_ok m \<Longrightarrow> (k, v) \<in> set m \<Longrightarrow> om_find k m = Some v"
  by (induction m) (auto simp: om_find_def)

lemma pick_owner_spec:
  assumes "om_ok m" "m \<noteq> []"
  obtains k i where "pick_owner m = Some (k, i)" "om_find k m = Some i"
    "(\<exists>k' i'. om_find k' m = Some i' \<and> \<not> pi_invisible i') \<longrightarrow> \<not> pi_invisible i"
proof (cases "find (\<lambda>e. \<not> pi_invisible (snd e)) m")
  case None
  then have "\<forall>e \<in> set m. pi_invisible (snd e)" by (auto simp: find_None_iff)
  then have "\<And>k' i'. om_find k' m = Some i' \<Longrightarrow> pi_invisible i'"
    by (fastforce simp: om_find_def dest: map_of_SomeD)
  moreover obtain k i m' where "m = (k, i) # m'" using assms(2) by (cases m) auto
  ultimately show ?thesis using that None by (auto simp: pick_owner_def om_find_def)
next
  case (Some e)
  then show ?thesis
    using that [of "fst e" "snd e"] find_Some_set [OF Some] om_find_in_set [OF assms(1)]
    by (cases e) (auto simp: pick_owner_def)
qed

lemma SetOwner_guid_flags:
  assumes "g \<noteq> 0" "IsOn g c"
  shows "member_has MEMBER_FLAG_OWNER g (fst (SetOwner_guid w g ex c))"
    "member_has MEMBER_FLAG_MODERATOR g (fst (SetOwner_guid w g ex c))"
  using assms
  by (auto simp: SetOwner_guid_def Let_def member_has_def IsOn_def flag_simps split: option.splits)

lemma SetOwner_guid_invisible:
  "map_option pi_invisible (om_find k (playersStore (fst (SetOwner_guid w g ex c))))
   = map_option pi_invisible (om_find k (playersStore c))"
  by (auto simp: SetOwner_guid_def Let_def option.map_comp comp_def)

definition visible_member :: "guid \<Rightarrow> channel \<Rightarrow> bool" where
  "visible_member g c \<longleftrightarrow> (case om_find g (playersStore c) of None \<Rightarrow> False | Some i \<Rightarrow> \<not> pi_invisible i)"

lemma visible_member_iff: "visible_member g c \<longleftrightarrow> map_option pi_invisible (om_find g (playersStore c)) = Some False"
  by (auto simp: visible_member_def split: option.splits)

text \<open>The state after the owner leaves and somebody is left.\<close>

lemma LeaveChannel_owner:
  assumes "chan_inv c" "member_has MEMBER_FLAG_OWNER (pl_guid p) c" "\<not> IsConstant c" "ownershipEnabled c"
    "IsOn q c" "q \<noteq> pl_guid p"
  obtains k i c2 where
    "fst (LeaveChannel w p send c) =
       (if pi_invisible i then (fst (SetOwner_guid w k True c2))\<lparr>isOwnerInvisible := True\<rparr>
        else fst (SetOwner_guid w k True c2))"
    "c2 = modify_player k (set_flag MEMBER_FLAG_MODERATOR True) (c\<lparr>playersStore := om_erase (pl_guid p) (playersStore c)\<rparr>)"
    "om_find k (om_erase (pl_guid p) (playersStore c)) = Some i" "k \<noteq> 0" "k \<noteq> pl_guid p"
    "(\<exists>q. q \<noteq> pl_guid p \<and> visible_member q c) \<longrightarrow> \<not> pi_invisible i"
proof -
  let ?m = "om_erase (pl_guid p) (playersStore c)"
  have ok: "om_ok ?m" and ne: "?m \<noteq> []"
    using assms(1,5,6) by (auto simp: chan_invD om_Nil_find IsOn_def)
  obtain k i where ki: "pick_owner ?m = Some (k, i)" "om_find k ?m = Some i"
    "(\<exists>k' i'. om_find k' ?m = Some i' \<and> \<not> pi_invisible i') \<longrightarrow> \<not> pi_invisible i"
    by (rule pick_owner_spec [OF ok ne])
  have vis: "(\<exists>q. q \<noteq> pl_guid p \<and> visible_member q c) \<longrightarrow> \<not> pi_invisible i"
  proof (intro impI, elim exE conjE)
    fix q assume "q \<noteq> pl_guid p" "visible_member q c"
    then obtain i' where "om_find q ?m = Some i' \<and> \<not> pi_invisible i'"
      by (auto simp: visible_member_def split: option.splits)
    with ki(3) show "\<not> pi_invisible i" by blast
  qed
  have k: "k \<noteq> 0 \<and> k \<noteq> pl_guid p"
    using ki(2) chan_invD(2) [OF assms(1)] by (auto split: if_splits)
  have "IsOn (pl_guid p) c" using assms(2) by (auto simp: member_has_def IsOn_def split: option.splits)
  then have "fst (LeaveChannel w p send c) =
       (if pi_invisible i then (fst (SetOwner_guid w k True (modify_player k (set_flag MEMBER_FLAG_MODERATOR True) (c\<lparr>playersStore := ?m\<rparr>))))\<lparr>isOwnerInvisible := True\<rparr>
        else fst (SetOwner_guid w k True (modify_player k (set_flag MEMBER_FLAG_MODERATOR True) (c\<lparr>playersStore := ?m\<rparr>))))"
    using assms(2,3,4) ki(1) by (simp add: LeaveChannel_def Let_def split_beta IsConstant_def)
  then show ?thesis using that ki(2) vis k by blast
qed

section \<open>Properties\<close>

text \<open>Players and worlds for the witnesses.\<close>

definition wit_player :: "guid \<Rightarrow> string \<Rightarrow> bool \<Rightarrow> chan_player" where
  "wit_player g nm vis = \<lparr>pl_guid = g, pl_name = nm, pl_team = 469, pl_gm_visible = vis, pl_security = 0,
     pl_in_group = False, pl_rbac = rbac_new 1 ''p'' 1 0, pl_ignores = {}\<rparr>"

definition wit_world :: chan_world where
  "wit_world = \<lparr>online = (\<lambda>g. if g = 1 then Some (wit_player 1 ''Ann'' True) else if g = 2 then Some (wit_player 2 ''Bob'' True) else None),
     by_name = (\<lambda>n. if n = ''Ann'' then Some (wit_player 1 ''Ann'' True) else if n = ''Bob'' then Some (wit_player 2 ''Bob'' True) else None),
     cfg_preserve_custom_channels = False, cfg_restricted_lfg_channel = False, cfg_two_side_channel = False,
     cfg_gm_level_in_who_list = 3, visible_globally_for = (\<lambda>_ _. True)\<rparr>"

definition wit_channel :: channel where
  "wit_channel = fst (channel_custom wit_world None ''raid'' 469)"

lemmas wit_defs = wit_player_def wit_world_def wit_channel_def channel_custom_def rbac_new_def

text \<open>
  \<^bold>\<open>C7.\<close> In every state a channel reaches through its public operations, from either
  constructor, a member carries the owner flag only if it is the channel's recorded owner, and that
  owner is a real player: there are never two owners.
\<close>

theorem owner_unique:
  assumes "chan_reach c" "member_has MEMBER_FLAG_OWNER g c"
  shows "g = ownerGuid c \<and> g \<noteq> 0"
  using assms(2) chan_invD(3) [OF chan_reach_inv [OF assms(1)], of g]
  by (auto simp: member_has_def member_flag_bits split: option.splits)

text \<open>
  \<^bold>\<open>C18.\<close> A player who was banned and is not in the channel stays out and stays banned,
  whatever calls follow, until somebody lifts a ban.
\<close>

theorem banned_stays_out:
  assumes "IsBanned g c" "\<not> IsOn g c" "\<forall>x \<in> set xs. \<not> is_unban x" "chan_runs w xs c = Some c'"
  shows "IsBanned g c' \<and> \<not> IsOn g c'"
  using assms
proof (induction xs arbitrary: c)
  case (Cons x xs)
  obtain c1 es where run: "chan_run w x c = Some (c1, es)" "chan_runs w xs c1 = Some c'"
    using Cons.prems(4) by (auto split: option.splits)
  then show ?case using Cons.prems(3) Cons.IH [of c1] chan_run_banned [OF Cons.prems(1,2) _ run(1)] by simp
qed simp

definition moderation_call :: "chan_player \<Rightarrow> chan_call \<Rightarrow> bool" where
  "moderation_call p x \<longleftrightarrow> call_player x = Some p \<and>
     (case x of CallJoin _ _ \<Rightarrow> False | CallLeave _ _ \<Rightarrow> False | CallSetInvisible _ _ \<Rightarrow> False | _ \<Rightarrow> True)"

text \<open>
  \<^bold>\<open>C13.\<close> A player who is neither a moderator nor the owner of a channel and has not the
  permission to change channels cannot change it: kick, ban, unban, password, moderator and mute
  modes, ownership and announcements leave every part of it as it was, and the caller alone is told,
  with one of the three refusals.
\<close>

theorem only_moderators_change:
  assumes "\<not> member_has MEMBER_FLAG_MODERATOR (pl_guid p) c" "pl_guid p \<noteq> ownerGuid c"
    "\<not> has_perm p RBAC_PERM_CHANGE_CHANNEL_NOT_MODERATOR" "moderation_call p x"
  shows "\<exists>es. chan_run w x c = Some (c, es) \<and>
     set es \<subseteq> Notify (pl_guid p) ` {NotMemberAppend, NotModeratorAppend, NotOwnerAppend}"
  using assms
  by (cases x) (auto simp: moderation_call_def KickOrBan_def UnBan_def Password_def SetMode_def
      SetOwner_player_def Announce_def SendToOne_def Let_def)

text \<open>
  \<^bold>\<open>C30.\<close> Exactly who hears a message: the text must not be empty, the speaker must be a
  member that is not muted, and the listener a connected member that, unless the speaker is a
  moderator, does not ignore the speaker.
\<close>

theorem Say_reaches:
  "ChatMsg k g l what \<in> set (Say w g txt lang c) \<longleftrightarrow>
     txt \<noteq> '''' \<and> what = txt \<and> l = (if cfg_two_side_channel w then 0 else lang)
     \<and> IsOn g c \<and> \<not> member_has MEMBER_FLAG_MUTED g c \<and> IsOn k c
     \<and> (\<exists>pl. online w k = Some pl \<and> (member_has MEMBER_FLAG_MODERATOR g c \<or> g = 0 \<or> g \<notin> pl_ignores pl))"
  by (auto simp: Say_def SendToOne_def SendToAll_def om_keys_find IsOn_def Let_def split: option.splits if_splits)

text \<open>
  \<^bold>\<open>C19.\<close> When the owner of a custom channel with ownership leaves and members remain,
  exactly the owner is removed, and the recorded owner is then a remaining member that carries the
  owner and moderator flags; it is a visible one if any remaining member is visible.
\<close>

theorem leaving_owner_hands_over:
  assumes "chan_reach c" "member_has MEMBER_FLAG_OWNER (pl_guid p) c" "\<not> IsConstant c" "ownershipEnabled c"
    "IsOn q c" "q \<noteq> pl_guid p" "c' = fst (LeaveChannel w p send c)"
  shows "(\<forall>k. IsOn k c' \<longleftrightarrow> IsOn k c \<and> k \<noteq> pl_guid p) \<and> IsOn (ownerGuid c') c'
    \<and> member_has MEMBER_FLAG_OWNER (ownerGuid c') c' \<and> member_has MEMBER_FLAG_MODERATOR (ownerGuid c') c'
    \<and> ((\<exists>k. k \<noteq> pl_guid p \<and> visible_member k c) \<longrightarrow> visible_member (ownerGuid c') c')"
proof -
  obtain k i c2 where l:
    "fst (LeaveChannel w p send c) =
       (if pi_invisible i then (fst (SetOwner_guid w k True c2))\<lparr>isOwnerInvisible := True\<rparr>
        else fst (SetOwner_guid w k True c2))"
    "c2 = modify_player k (set_flag MEMBER_FLAG_MODERATOR True) (c\<lparr>playersStore := om_erase (pl_guid p) (playersStore c)\<rparr>)"
    "om_find k (om_erase (pl_guid p) (playersStore c)) = Some i" "k \<noteq> 0" "k \<noteq> pl_guid p"
    "(\<exists>q. q \<noteq> pl_guid p \<and> visible_member q c) \<longrightarrow> \<not> pi_invisible i"
    by (rule LeaveChannel_owner [OF chan_reach_inv [OF assms(1)] assms(2-6)])
  have on: "IsOn k c2" using l(2,3) by (simp add: IsOn_def)
  have own: "ownerGuid c' = k" using l(1) assms(7) by simp
  have flags: "member_has MEMBER_FLAG_OWNER k c' \<and> member_has MEMBER_FLAG_MODERATOR k c'"
    using SetOwner_guid_flags [OF l(4) on, of w True] l(1) assms(7) by (simp add: member_has_def)
  have vis: "visible_member k c' \<longleftrightarrow> \<not> pi_invisible i"
    using l(2,3) SetOwner_guid_invisible [of k w k True c2] unfolding assms(7) l(1) visible_member_iff
    by auto
  have "IsOn k c'" using l(1) on assms(7) by simp
  then show ?thesis using LeaveChannel_members(1) [of _ w p send c] own flags vis l(6) assms(7) by auto
qed

text \<open>
  \<^bold>\<open>C37.\<close> An owner that kicks or bans itself while others are in the channel makes the
  code write to the map entry it has just erased: for such a call no result is defined.
\<close>

theorem self_kick_dangles:
  assumes "IsOn (pl_guid p) c" "ownerGuid c = pl_guid p" "pl_guid p \<noteq> 0" "by_name w n = Some p"
    "member_has MEMBER_FLAG_MODERATOR (pl_guid p) c" "ownershipEnabled c" "IsOn q c" "q \<noteq> pl_guid p"
  shows "KickOrBan w p n ban c = None"
proof -
  have "om_erase (pl_guid p) (playersStore c) \<noteq> []"
    using assms(7,8) by (auto simp: om_Nil_find IsOn_def)
  then show ?thesis using assms by (simp add: KickOrBan_def Let_def split_beta)
qed

text \<open>
  \<^bold>\<open>C38.\<close> The mark of an invisible owner is not cleared when that owner leaves and a visible
  member succeeds it. So the next visible player to join takes the channel away from its visible
  owner.
\<close>

theorem stale_invisible_owner:
  assumes "chan_reach c" "member_has MEMBER_FLAG_OWNER (pl_guid p) c" "\<not> IsConstant c" "ownershipEnabled c"
    "isOwnerInvisible c" "visible_member q c" "q \<noteq> pl_guid p" "c' = fst (LeaveChannel w p send c)"
    "\<not> IsOn (pl_guid j) c'" "\<not> IsBanned (pl_guid j) c" "channelPassword c' = '''' \<or> pass = channelPassword c'"
    "\<not> IsLFG c'" "pl_gm_visible j"
  shows "visible_member (ownerGuid c') c' \<and> isOwnerInvisible c'
    \<and> ownerGuid (fst (JoinChannel w j pass c')) = pl_guid j"
proof -
  have q: "IsOn q c" using assms(6) by (auto simp: visible_member_def IsOn_def split: option.splits)
  obtain k i c2 where l:
    "fst (LeaveChannel w p send c) =
       (if pi_invisible i then (fst (SetOwner_guid w k True c2))\<lparr>isOwnerInvisible := True\<rparr>
        else fst (SetOwner_guid w k True c2))"
    "c2 = modify_player k (set_flag MEMBER_FLAG_MODERATOR True) (c\<lparr>playersStore := om_erase (pl_guid p) (playersStore c)\<rparr>)"
    "om_find k (om_erase (pl_guid p) (playersStore c)) = Some i" "k \<noteq> 0" "k \<noteq> pl_guid p"
    "(\<exists>q. q \<noteq> pl_guid p \<and> visible_member q c) \<longrightarrow> \<not> pi_invisible i"
    by (rule LeaveChannel_owner [OF chan_reach_inv [OF assms(1)] assms(2-4) q assms(7)])
  have vi: "\<not> pi_invisible i" using l(6) assms(6,7) by blast
  then have c': "c' = fst (SetOwner_guid w k True c2)" using l(1) assms(8) by simp
  have "visible_member (ownerGuid c') c'" "isOwnerInvisible c'"
    using vi l(2,3) SetOwner_guid_invisible [of k w k True c2] assms(5) unfolding visible_member_iff c' by auto
  moreover have "channelId c' = channelId c" "ownershipEnabled c'" "bannedStore c' = bannedStore c"
    using assms(4) unfolding c' l(2) by (auto simp: SetOwner_guid_def Let_def)
  ultimately show ?thesis using assms(3,9-13)
    by (auto simp: JoinChannel_def Let_def split_beta IsConstant_def IsLFG_def IsBanned_def)
qed

text \<open>A channel with an owner and a second member, reached through two joins.\<close>

definition wit_joined :: "bool \<Rightarrow> channel" where
  "wit_joined vis = fst (JoinChannel wit_world (wit_player 2 ''Bob'' True) ''''
     (fst (JoinChannel wit_world (wit_player 1 ''Ann'' vis) '''' wit_channel)))"

lemma wit_joined_reach: "chan_reach (wit_joined vis)"
proof -
  have 0: "chan_reach wit_channel" unfolding wit_channel_def by (rule chan_reach.custom)
  have 1: "chan_reach (fst (JoinChannel wit_world (wit_player 1 ''Ann'' vis) '''' wit_channel))" (is "chan_reach ?c")
    by (rule chan_reach.step [OF 0, of "CallJoin (wit_player 1 ''Ann'' vis) ''''" wit_world _
          "snd (JoinChannel wit_world (wit_player 1 ''Ann'' vis) '''' wit_channel)"])
      (simp_all add: call_ok_def wit_player_def)
  show ?thesis unfolding wit_joined_def
    by (rule chan_reach.step [OF 1, of "CallJoin (wit_player 2 ''Bob'' True) ''''" wit_world _
          "snd (JoinChannel wit_world (wit_player 2 ''Bob'' True) '''' ?c)"])
      (simp_all add: call_ok_def wit_player_def)
qed

theorem owner_unique_witness:
  "chan_reach (wit_joined True) \<and> member_has MEMBER_FLAG_OWNER 1 (wit_joined True)
   \<and> 1 = ownerGuid (wit_joined True)"
proof -
  have m: "member_has MEMBER_FLAG_OWNER 1 (wit_joined True)" by code_simp
  show ?thesis using owner_unique [OF wit_joined_reach m] wit_joined_reach m by simp
qed

theorem banned_stays_out_witness:
  "IsBanned 2 (the (chan_runs wit_world
     [CallJoin (wit_player 2 ''Bob'' True) '''', CallPassword (wit_player 1 ''Ann'' True) ''pw'']
     (fst (the (KickOrBan wit_world (wit_player 1 ''Ann'' True) ''Bob'' True (wit_joined True))))))"
proof -
  let ?c = "fst (the (KickOrBan wit_world (wit_player 1 ''Ann'' True) ''Bob'' True (wit_joined True)))"
  let ?xs = "[CallJoin (wit_player 2 ''Bob'' True) '''', CallPassword (wit_player 1 ''Ann'' True) ''pw'']"
  have "IsBanned 2 ?c" "\<not> IsOn 2 ?c" by code_simp+
  moreover have "chan_runs wit_world ?xs ?c \<noteq> None" by (simp add: split_beta)
  ultimately show ?thesis
    using banned_stays_out [of 2 ?c ?xs wit_world "the (chan_runs wit_world ?xs ?c)"] by simp
qed

theorem only_moderators_change_witness:
  "\<exists>es. chan_run wit_world (CallPassword (wit_player 2 ''Bob'' True) ''pw'') (wit_joined True) = Some (wit_joined True, es)
   \<and> set es \<subseteq> Notify 2 ` {NotMemberAppend, NotModeratorAppend, NotOwnerAppend}"
proof -
  let ?p = "wit_player 2 ''Bob'' True"
  have g: "pl_guid ?p = 2" by (simp add: wit_player_def)
  have "\<not> member_has MEMBER_FLAG_MODERATOR (pl_guid ?p) (wit_joined True)" by code_simp
  moreover have "pl_guid ?p \<noteq> ownerGuid (wit_joined True)" by code_simp
  moreover have "\<not> has_perm ?p RBAC_PERM_CHANGE_CHANNEL_NOT_MODERATOR" by code_simp
  moreover have "moderation_call ?p (CallPassword ?p ''pw'')" by (simp add: moderation_call_def)
  ultimately show ?thesis
    using only_moderators_change [of ?p "wit_joined True" "CallPassword ?p ''pw''" wit_world] unfolding g by blast
qed

theorem Say_reaches_witness:
  "ChatMsg 2 1 7 ''hello'' \<in> set (Say wit_world 1 ''hello'' 7 (wit_joined True))"
proof -
  have "IsOn 1 (wit_joined True)" "\<not> member_has MEMBER_FLAG_MUTED 1 (wit_joined True)"
    "IsOn 2 (wit_joined True)" "member_has MEMBER_FLAG_MODERATOR 1 (wit_joined True)" by code_simp+
  moreover have "online wit_world 2 = Some (wit_player 2 ''Bob'' True)" "\<not> cfg_two_side_channel wit_world"
    by (simp_all add: wit_world_def)
  ultimately show ?thesis using Say_reaches [of 2 1 7 "''hello''" wit_world "''hello''" 7 "wit_joined True"] by simp
qed

theorem leaving_owner_hands_over_witness:
  "IsOn (ownerGuid (fst (LeaveChannel wit_world (wit_player 1 ''Ann'' True) True (wit_joined True))))
     (fst (LeaveChannel wit_world (wit_player 1 ''Ann'' True) True (wit_joined True)))"
proof -
  have "member_has MEMBER_FLAG_OWNER (pl_guid (wit_player 1 ''Ann'' True)) (wit_joined True)" by code_simp
  moreover have "\<not> IsConstant (wit_joined True)" "ownershipEnabled (wit_joined True)" "IsOn 2 (wit_joined True)"
    by code_simp+
  moreover have "2 \<noteq> pl_guid (wit_player 1 ''Ann'' True)" by (simp add: wit_player_def)
  ultimately show ?thesis
    using leaving_owner_hands_over [OF wit_joined_reach, of "wit_player 1 ''Ann'' True" True 2 _ wit_world True]
    by blast
qed

theorem self_kick_dangles_witness:
  "KickOrBan wit_world (wit_player 1 ''Ann'' True) ''Ann'' False (wit_joined True) = None"
proof -
  let ?p = "wit_player 1 ''Ann'' True"
  have "IsOn (pl_guid ?p) (wit_joined True)" "ownerGuid (wit_joined True) = pl_guid ?p" "pl_guid ?p \<noteq> 0"
    "by_name wit_world ''Ann'' = Some ?p" "member_has MEMBER_FLAG_MODERATOR (pl_guid ?p) (wit_joined True)"
    "ownershipEnabled (wit_joined True)" "IsOn 2 (wit_joined True)" "2 \<noteq> pl_guid ?p"
    by (code_simp, code_simp, code_simp, simp add: wit_world_def, code_simp, code_simp, code_simp, code_simp)
  then show ?thesis by (rule self_kick_dangles)
qed

text \<open>An invisible owner that was in the channel first, and a member that became visible later.\<close>

definition wit_invisible :: channel where
  "wit_invisible = SetInvisible (wit_player 1 ''Ann'' True) True (wit_joined True)"

theorem stale_invisible_owner_witness:
  "ownerGuid (fst (JoinChannel wit_world (wit_player 3 ''Cid'' True) ''''
     (fst (LeaveChannel wit_world (wit_player 1 ''Ann'' True) True wit_invisible)))) = 3"
proof -
  let ?p = "wit_player 1 ''Ann'' True" and ?j = "wit_player 3 ''Cid'' True" and ?c = wit_invisible
  let ?c' = "fst (LeaveChannel wit_world ?p True ?c)"
  have r: "chan_reach ?c" unfolding wit_invisible_def
    by (rule chan_reach.step [OF wit_joined_reach [of True], of "CallSetInvisible ?p True" wit_world _ "[]"])
      (simp_all add: call_ok_def wit_player_def)
  have h: "member_has MEMBER_FLAG_OWNER (pl_guid ?p) ?c" "\<not> IsConstant ?c" "ownershipEnabled ?c"
    "isOwnerInvisible ?c" "visible_member 2 ?c" "2 \<noteq> pl_guid ?p" by code_simp+
  have h': "\<not> IsOn (pl_guid ?j) ?c'" "\<not> IsBanned (pl_guid ?j) ?c" "channelPassword ?c' = '''' \<or> '''' = channelPassword ?c'"
    "\<not> IsLFG ?c'" "pl_gm_visible ?j" by code_simp+
  have "pl_guid ?j = 3" by code_simp
  with stale_invisible_owner [OF r h refl h'] show ?thesis by simp
qed

end
