(* ===== verification/Channel_Mgr.thy ===== *)
theory Channel_Mgr
  imports Channel_Props
begin

text \<open>
  The owner of the channels of one faction:
  \<^verbatim>\<open>src/src/server/game/Chat/Channels/ChannelMgr.{h,cpp}\<close>. Its two tables hold the
  channels by the lower-cased name and by the pair of channel and zone identifier. A pointer to a
  channel is the key it is stored under. Folding a name (decoding the UTF-8 and lower-casing the
  wide string) and the channel entries of the client database come from outside the module:
  \<open>fold_name\<close> fails on malformed UTF-8, and \<open>dbc_flags\<close> is \<open>None\<close> where
  \<^verbatim>\<open>AssertEntry\<close> aborts.
\<close>

type_synonym wname = "uint32 list"

datatype chan_ptr = Custom wname | Builtin uint32 uint32

record chan_env =
  fold_name :: "string \<Rightarrow> wname option"
  dbc_flags :: "uint32 \<Rightarrow> uint32 option"

record channel_mgr =
  customChannels :: "wname \<Rightarrow> channel option"
  builtinChannels :: "uint32 \<times> uint32 \<Rightarrow> channel option"
  mgr_team :: uint32

definition mgr_new :: "uint32 \<Rightarrow> channel_mgr" where
  "mgr_new team = \<lparr>customChannels = Map.empty, builtinChannels = Map.empty, mgr_team = team\<rparr>"

definition ALLIANCE :: uint32 where "ALLIANCE = 469"

definition HORDE :: uint32 where "HORDE = 67"

text \<open>Which of the two managers serves a team: \<open>False\<close> the alliance's, \<open>True\<close> the horde's.\<close>

definition forTeam :: "chan_world \<Rightarrow> uint32 \<Rightarrow> bool option" where
  "forTeam w team =
     (if cfg_two_side_channel w then Some False
      else if team = ALLIANCE then Some False
      else if team = HORDE then Some True
      else None)"

definition builtin_key :: "chan_env \<Rightarrow> uint32 \<Rightarrow> uint32 option \<Rightarrow> (uint32 \<times> uint32) option" where
  "builtin_key env cid zone =
     (case dbc_flags env cid of
        None \<Rightarrow> None
      | Some fl \<Rightarrow>
          Some (cid, if fl AND (CHANNEL_DBC_FLAG_GLOBAL OR CHANNEL_DBC_FLAG_CITY_ONLY) \<noteq> 0 then 0
                     else case zone of None \<Rightarrow> 0 | Some z \<Rightarrow> z))"

definition channel_at :: "chan_ptr \<Rightarrow> channel_mgr \<Rightarrow> channel option" where
  "channel_at ptr m = (case ptr of Custom n \<Rightarrow> customChannels m n | Builtin cid z \<Rightarrow> builtinChannels m (cid, z))"

definition store_channel :: "chan_ptr \<Rightarrow> channel option \<Rightarrow> channel_mgr \<Rightarrow> channel_mgr" where
  "store_channel ptr v m =
     (case ptr of
        Custom n \<Rightarrow> m\<lparr>customChannels := (customChannels m)(n := v)\<rparr>
      | Builtin cid z \<Rightarrow> m\<lparr>builtinChannels := (builtinChannels m)((cid, z) := v)\<rparr>)"

text \<open>The key a call refers to. \<open>Inl ()\<close> is the abort of \<^verbatim>\<open>AssertEntry\<close>, \<open>Inr None\<close> a name that
  cannot be decoded.\<close>

definition chan_key :: "chan_env \<Rightarrow> uint32 \<Rightarrow> string \<Rightarrow> uint32 option \<Rightarrow> unit + chan_ptr option" where
  "chan_key env cid name zone =
     (if cid \<noteq> 0 then case builtin_key env cid zone of None \<Rightarrow> Inl () | Some (i, z) \<Rightarrow> Inr (Some (Builtin i z))
      else Inr (map_option Custom (fold_name env name)))"

text \<open>\<open>row\<close> is the saved custom channel of that name, if the database has one.\<close>

definition GetJoinChannel ::
  "chan_world \<Rightarrow> chan_env \<Rightarrow> (string \<times> bool \<times> bool \<times> string \<times> guid list) option \<Rightarrow> uint32 \<Rightarrow> string
   \<Rightarrow> uint32 option \<Rightarrow> channel_mgr \<Rightarrow> unit + chan_ptr option \<times> channel_mgr \<times> chan_effect list" where
  "GetJoinChannel w env row cid name zone m =
     (case chan_key env cid name zone of
        Inl u \<Rightarrow> Inl u
      | Inr None \<Rightarrow> Inr (None, m, [])
      | Inr (Some ptr) \<Rightarrow>
          (case channel_at ptr m of
             Some _ \<Rightarrow> Inr (Some ptr, m, [])
           | None \<Rightarrow>
               if cid \<noteq> 0
               then Inr (Some ptr,
                         store_channel ptr (Some (channel_builtin (the (dbc_flags env cid)) cid (mgr_team m) zone)) m, [])
               else
                 let (c, es) = channel_custom w row name (mgr_team m)
                 in Inr (Some ptr, store_channel ptr (Some c) m, es)))"

text \<open>The second component says whether the player is sent a not-a-member packet.\<close>

definition GetChannel ::
  "chan_env \<Rightarrow> uint32 \<Rightarrow> string \<Rightarrow> bool \<Rightarrow> uint32 option \<Rightarrow> channel_mgr \<Rightarrow> unit + chan_ptr option \<times> bool" where
  "GetChannel env cid name pkt zone m =
     (case chan_key env cid name zone of
        Inl u \<Rightarrow> Inl u
      | Inr None \<Rightarrow> Inr (None, False)
      | Inr (Some ptr) \<Rightarrow> (case channel_at ptr m of Some _ \<Rightarrow> Inr (Some ptr, False) | None \<Rightarrow> Inr (None, pkt)))"

definition drop_if_empty :: "chan_ptr \<Rightarrow> channel_mgr \<Rightarrow> channel_mgr" where
  "drop_if_empty ptr m =
     (case channel_at ptr m of
        None \<Rightarrow> m
      | Some c \<Rightarrow> if GetNumPlayers c = 0 then store_channel ptr None m else m)"

definition LeftChannel_name :: "chan_env \<Rightarrow> string \<Rightarrow> channel_mgr \<Rightarrow> channel_mgr" where
  "LeftChannel_name env name m =
     (case fold_name env name of None \<Rightarrow> m | Some n \<Rightarrow> drop_if_empty (Custom n) m)"

definition LeftChannel_id :: "chan_env \<Rightarrow> uint32 \<Rightarrow> uint32 option \<Rightarrow> channel_mgr \<Rightarrow> channel_mgr option" where
  "LeftChannel_id env cid zone m =
     (case builtin_key env cid zone of None \<Rightarrow> None | Some (i, z) \<Rightarrow> Some (drop_if_empty (Builtin i z) m))"

text \<open>\<open>joined\<close> are the channels the player is in, in the order it joined them, with the names shown
  to it.\<close>

fun GetChannelForPlayerByNamePart :: "chan_env \<Rightarrow> string \<Rightarrow> (chan_ptr \<times> string) list \<Rightarrow> chan_ptr option" where
  "GetChannelForPlayerByNamePart env part [] = None"
| "GetChannelForPlayerByNamePart env part ((ptr, nm) # joined) =
     (case fold_name env part of
        None \<Rightarrow> None
      | Some pat \<Rightarrow>
          (case fold_name env nm of
             None \<Rightarrow> GetChannelForPlayerByNamePart env part joined
           | Some n \<Rightarrow>
               if take (length pat) n = pat then Some ptr
               else GetChannelForPlayerByNamePart env part joined))"

text \<open>\<open>MakeNotOnPacket\<close>\<close>

definition MakeNotOnPacket :: "string \<Rightarrow> unit bb" where
  "MakeNotOnPacket name = seq (append_value (NotificationType NotMemberAppend)) (write_string (string_bytes name))"

section \<open>The tables\<close>

lemma channel_at_store [simp]: "channel_at p (store_channel p' v m) = (if p = p' then v else channel_at p m)"
  by (auto simp: channel_at_def store_channel_def split: chan_ptr.splits)

text \<open>Every stored channel is of the kind of its table: a custom channel has no identifier, and a
  built-in one has the identifier it is stored under.\<close>

definition ptr_kind :: "chan_ptr \<Rightarrow> channel \<Rightarrow> bool" where
  "ptr_kind ptr c \<longleftrightarrow> (case ptr of Custom _ \<Rightarrow> \<not> IsConstant c | Builtin cid _ \<Rightarrow> channelId c = cid \<and> IsConstant c)"

definition mgr_wf :: "channel_mgr \<Rightarrow> bool" where
  "mgr_wf m \<longleftrightarrow> (\<forall>ptr c. channel_at ptr m = Some c \<longrightarrow> ptr_kind ptr c \<and> chan_inv c)"

lemma ptr_kind_cong: "channelId c' = channelId c \<Longrightarrow> ptr_kind ptr c' = ptr_kind ptr c"
  by (simp add: ptr_kind_def IsConstant_def split: chan_ptr.split)

lemma chan_key_kind:
  "chan_key env cid name zone = Inr (Some ptr) \<Longrightarrow> channelId c = cid \<Longrightarrow> ptr_kind ptr c"
  by (auto simp: chan_key_def builtin_key_def ptr_kind_def IsConstant_def split: if_splits option.splits)

lemma channel_new_kind [simp]:
  "channelId (channel_builtin fl cid team zone) = cid" "channelId (fst (channel_custom w row nm team)) = 0"
  by (auto simp: channel_builtin_def channel_custom_def Let_def split: option.splits)

lemma mgr_new_wf [simp]: "mgr_wf (mgr_new team)"
  by (auto simp: mgr_wf_def mgr_new_def channel_at_def split: chan_ptr.splits)

lemma mgr_wf_drop: "mgr_wf m \<Longrightarrow> mgr_wf (drop_if_empty ptr m)"
  by (auto simp: mgr_wf_def drop_if_empty_def split: option.splits)

lemma mgr_wf_store:
  assumes "mgr_wf m" "ptr_kind ptr c" "chan_inv c"
  shows "mgr_wf (store_channel ptr (Some c) m)"
  using assms by (auto simp: mgr_wf_def)

lemma GetJoinChannel_wf:
  assumes "mgr_wf m" "GetJoinChannel w env row cid name zone m = Inr (r, m', es)"
  shows "mgr_wf m'"
  using assms
  by (auto simp: GetJoinChannel_def split_beta Let_def
      intro!: mgr_wf_store elim: chan_key_kind split: option.splits sum.splits if_splits)

text \<open>Calls that change the manager or, through it, one of its channels.\<close>

inductive mgr_reach :: "channel_mgr \<Rightarrow> bool" where
  init: "mgr_reach (mgr_new team)"
| join: "\<lbrakk>mgr_reach m; GetJoinChannel w env row cid name zone m = Inr (r, m', es)\<rbrakk> \<Longrightarrow> mgr_reach m'"
| left_name: "mgr_reach m \<Longrightarrow> mgr_reach (LeftChannel_name env name m)"
| left_id: "\<lbrakk>mgr_reach m; LeftChannel_id env cid zone m = Some m'\<rbrakk> \<Longrightarrow> mgr_reach m'"
| call: "\<lbrakk>mgr_reach m; channel_at ptr m = Some c; call_ok x; chan_run w x c = Some (c', es)\<rbrakk>
         \<Longrightarrow> mgr_reach (store_channel ptr (Some c') m)"

text \<open>No call changes the identifier of a channel.\<close>

lemma SetOwner_guid_id [simp]: "channelId (fst (SetOwner_guid w g ex c)) = channelId c"
  by (auto simp: SetOwner_guid_def Let_def)

lemma KickOrBan_id: "pred_option (\<lambda>r. channelId (fst r) = channelId c) (KickOrBan w p n ban c)"
  unfolding KickOrBan_def fst_if if_distrib [of "pred_option (\<lambda>r. channelId (fst r) = channelId c)"] option.pred_inject
  by simp

lemma JoinChannel_id: "channelId (fst (JoinChannel w p pass c)) = channelId c"
  unfolding JoinChannel_def fst_if by simp

lemma LeaveChannel_id: "channelId (fst (LeaveChannel w p send c)) = channelId c"
  unfolding LeaveChannel_def fst_if option.case_distrib [of fst] by (auto split: option.split)

lemma chan_run_id:
  assumes "chan_run w x c = Some (c', es)" shows "channelId c' = channelId c"
  using assms
proof (cases x)
  case (CallJoin p pass)
  then show ?thesis using assms JoinChannel_id [of w p pass c] by simp
next
  case (CallLeave p send)
  then show ?thesis using assms LeaveChannel_id [of w p send c] by simp
next
  case (CallKickOrBan p n ban)
  then show ?thesis using assms KickOrBan_id [of c w p n ban] by simp
next
  case (CallSetMode p n md st)
  have "channelId (fst (SetMode w p n md st c)) = channelId c"
    by (auto simp: SetMode_def SetModerator_def SetMute_def Let_def split: option.split)
  then show ?thesis using assms CallSetMode by simp
next
  case (CallSetOwner p n)
  have "channelId (fst (SetOwner_player w p n c)) = channelId c"
    by (auto simp: SetOwner_player_def Let_def split: option.split)
  then show ?thesis using assms CallSetOwner by simp
qed (auto simp: UnBan_def Password_def Announce_def SetInvisible_def Let_def split: if_splits option.splits)

lemma mgr_reach_wf: "mgr_reach m \<Longrightarrow> mgr_wf m"
proof (induction rule: mgr_reach.induct)
  case (join m w env row cid name zone r m' es)
  then show ?case by (auto intro: GetJoinChannel_wf)
next
  case (left_name m env name)
  then show ?case by (auto simp: LeftChannel_name_def mgr_wf_drop split: option.splits)
next
  case (left_id m env cid zone m')
  then show ?case by (auto simp: LeftChannel_id_def mgr_wf_drop split: option.splits)
next
  case (call m ptr c x w c' es)
  then show ?case
    using chan_run_id [OF call.hyps(4)] chan_run_inv [OF _ call.hyps(3,4)]
      ptr_kind_cong [OF chan_run_id [OF call.hyps(4)]]
    by (intro mgr_wf_store) (auto simp: mgr_wf_def)
qed simp

text \<open>
  \<^bold>\<open>C24.\<close> In every reachable state of a channel manager, the channel in the custom table
  is a custom one, the channel stored under a channel and zone identifier is the built-in one of that
  identifier, and every channel obeys the ownership rule.
\<close>

theorem manager_tables_consistent:
  assumes "mgr_reach m" "channel_at ptr m = Some c"
  shows "(case ptr of Custom _ \<Rightarrow> \<not> IsConstant c | Builtin cid _ \<Rightarrow> channelId c = cid \<and> IsConstant c)
    \<and> (\<forall>g. member_has MEMBER_FLAG_OWNER g c \<longrightarrow> g = ownerGuid c)"
proof -
  have "chan_inv c" using mgr_reach_wf [OF assms(1)] assms(2) by (auto simp: mgr_wf_def)
  then have "member_has MEMBER_FLAG_OWNER g c \<longrightarrow> g = ownerGuid c" for g
    by (auto simp: member_has_def member_flag_bits split: option.splits dest: chan_invD(3))
  then show ?thesis using mgr_reach_wf [OF assms(1)] assms(2) by (simp add: mgr_wf_def ptr_kind_def)
qed

text \<open>
  \<^bold>\<open>C25.\<close> The channel a player is given to join is the one every later lookup under the
  same identifier, or under any spelling of the name that folds to the same key, returns; looking it up sends
  no refusal, and joining never replaces or loses another channel.
\<close>

theorem joined_channel_is_found:
  assumes "GetJoinChannel w env row cid name zone m = Inr (Some ptr, m', es)"
    "cid = 0 \<longrightarrow> fold_name env name' = fold_name env name"
  shows "GetChannel env cid name' pkt zone m' = Inr (Some ptr, False) \<and> channel_at ptr m' \<noteq> None
    \<and> (\<forall>p c. channel_at p m = Some c \<longrightarrow> channel_at p m' = Some c)"
  using assms
  by (auto simp: GetJoinChannel_def GetChannel_def chan_key_def split_beta Let_def
      split: option.splits sum.splits if_splits)

text \<open>
  Telling the manager that a player left drops a channel exactly when it is the one
  named and nobody is in it; no channel with members is ever lost this way.
\<close>

theorem left_drops_only_empty:
  "channel_at ptr (LeftChannel_name env name m) =
     (case channel_at ptr m of
        None \<Rightarrow> None
      | Some c \<Rightarrow> if map_option Custom (fold_name env name) = Some ptr \<and> playersStore c = [] then None else Some c)"
  by (auto simp: LeftChannel_name_def drop_if_empty_def GetNumPlayers_def split: option.splits)

section \<open>Witnesses\<close>

definition wit_env :: chan_env where
  "wit_env = \<lparr>fold_name = (\<lambda>s. Some (map (\<lambda>ch. of_char ch OR 0x20) s)), dbc_flags = (\<lambda>i. if i = 2 then Some 0 else None)\<rparr>"

definition wit_mgr :: channel_mgr where
  "wit_mgr = fst (snd (projr (GetJoinChannel wit_world wit_env None 2 '''' (Some 12) (mgr_new ALLIANCE))))"

theorem manager_tables_consistent_witness:
  "\<exists>c. channel_at (Builtin 2 12) wit_mgr = Some c \<and> channelId c = 2"
proof -
  let ?r = "GetJoinChannel wit_world wit_env None 2 '''' (Some 12) (mgr_new ALLIANCE)"
  have r: "?r = Inr (Some (Builtin 2 12), wit_mgr, [])"
    by (simp add: wit_mgr_def GetJoinChannel_def chan_key_def builtin_key_def wit_env_def mgr_new_def channel_at_def)
  have reach: "mgr_reach wit_mgr" by (rule mgr_reach.join [OF mgr_reach.init r])
  have "channel_at (Builtin 2 12) wit_mgr \<noteq> None"
    by (simp add: wit_mgr_def GetJoinChannel_def chan_key_def builtin_key_def wit_env_def mgr_new_def channel_at_def
        store_channel_def)
  then obtain c where c: "channel_at (Builtin 2 12) wit_mgr = Some c" by blast
  show ?thesis using manager_tables_consistent [OF reach c] c by simp
qed

theorem joined_channel_is_found_witness:
  "GetChannel wit_env 2 '''' True (Some 12) wit_mgr = Inr (Some (Builtin 2 12), False)"
proof -
  have "GetJoinChannel wit_world wit_env None 2 '''' (Some 12) (mgr_new ALLIANCE) = Inr (Some (Builtin 2 12), wit_mgr, [])"
    by (simp add: wit_mgr_def GetJoinChannel_def chan_key_def builtin_key_def wit_env_def mgr_new_def channel_at_def)
  from joined_channel_is_found [OF this, of "''''"] show ?thesis by simp
qed

end
