(* ===== verification/Object_Guid.thy ===== *)
theory Object_Guid
  imports Byte_Buffer
begin

text \<open>
  Object identifiers: \<^verbatim>\<open>src/src/server/game/Entities/Object/ObjectGuid.{h,cpp}\<close>. An identifier is
  a 64-bit word with a counter in the low half, an entry above it and the kind of the object in the
  top bits. The theory gives the constructors and accessors, the packed form written to packets, and the generator
  of counters.
\<close>

section \<open>Kinds\<close>

text \<open>\<^verbatim>\<open>enum class HighGuid\<close>; a value of the enumeration is its number.\<close>

definition HG_Item :: uint32 where "HG_Item = 0x400"

definition HG_Player :: uint32 where "HG_Player = 0x000"

definition HG_GameObject :: uint32 where "HG_GameObject = 0xF11"

definition HG_Transport :: uint32 where "HG_Transport = 0xF12"

definition HG_Unit :: uint32 where "HG_Unit = 0xF13"

definition HG_Pet :: uint32 where "HG_Pet = 0xF14"

definition HG_Vehicle :: uint32 where "HG_Vehicle = 0xF15"

definition HG_DynamicObject :: uint32 where "HG_DynamicObject = 0xF10"

definition HG_Corpse :: uint32 where "HG_Corpse = 0xF101"

definition HG_AreaTrigger :: uint32 where "HG_AreaTrigger = 0xF102"

definition HG_BattleGround :: uint32 where "HG_BattleGround = 0x1F1"

definition HG_Mo_Transport :: uint32 where "HG_Mo_Transport = 0x1FC"

definition HG_Instance :: uint32 where "HG_Instance = 0x1F4"

definition HG_Group :: uint32 where "HG_Group = 0x1F5"

definition HG_Guild :: uint32 where "HG_Guild = 0x1FF"

lemmas high_guids = HG_Item_def HG_Player_def HG_GameObject_def HG_Transport_def HG_Unit_def HG_Pet_def
  HG_Vehicle_def HG_DynamicObject_def HG_Corpse_def HG_AreaTrigger_def HG_BattleGround_def HG_Mo_Transport_def
  HG_Instance_def HG_Group_def HG_Guild_def

definition high_shift :: "uint32 \<Rightarrow> nat" where
  "high_shift hi = (if hi = HG_Corpse \<or> hi = HG_AreaTrigger then 48 else 52)"

section \<open>Construction and access\<close>

definition guid_entry :: "uint32 \<Rightarrow> uint32 \<Rightarrow> uint32 \<Rightarrow> guid" where
  "guid_entry hi entry counter =
     (if counter \<noteq> 0
      then ucast counter OR push_bit 32 (ucast entry) OR push_bit (high_shift hi) (ucast hi)
      else 0)"

definition guid_global :: "uint32 \<Rightarrow> uint32 \<Rightarrow> guid" where
  "guid_global hi counter = (if counter \<noteq> 0 then ucast counter OR push_bit (high_shift hi) (ucast hi) else 0)"

definition GetHigh :: "guid \<Rightarrow> uint32" where
  "GetHigh g =
     (let temp = ucast (drop_bit 48 g AND 0xFFFF) :: uint32
      in if temp = HG_Corpse \<or> temp = HG_AreaTrigger then temp else drop_bit 4 temp AND 0xFFF)"

definition high_has_entry :: "uint32 \<Rightarrow> bool" where
  "high_has_entry hi \<longleftrightarrow> hi \<notin> {HG_Item, HG_Player, HG_DynamicObject, HG_Corpse, HG_Mo_Transport, HG_Instance, HG_Group}"

definition GetEntry :: "guid \<Rightarrow> uint32" where
  "GetEntry g = (if high_has_entry (GetHigh g) then ucast (drop_bit 32 g AND 0xFFFFF) else 0)"

definition GetCounter :: "guid \<Rightarrow> uint32" where
  "GetCounter g = ucast (g AND 0xFFFFFFFF)"

definition IsEmpty :: "guid \<Rightarrow> bool" where "IsEmpty g \<longleftrightarrow> g = 0"

definition IsPlayer :: "guid \<Rightarrow> bool" where "IsPlayer g \<longleftrightarrow> \<not> IsEmpty g \<and> GetHigh g = HG_Player"

definition IsGroup :: "guid \<Rightarrow> bool" where "IsGroup g \<longleftrightarrow> GetHigh g = HG_Group"

definition IsAnyTypeCreature :: "guid \<Rightarrow> bool" where
  "IsAnyTypeCreature g \<longleftrightarrow> GetHigh g \<in> {HG_Unit, HG_Pet, HG_Vehicle}"

definition IsUnit :: "guid \<Rightarrow> bool" where "IsUnit g \<longleftrightarrow> IsAnyTypeCreature g \<or> IsPlayer g"

definition IsAnyTypeGameObject :: "guid \<Rightarrow> bool" where
  "IsAnyTypeGameObject g \<longleftrightarrow> GetHigh g \<in> {HG_GameObject, HG_Transport, HG_Mo_Transport}"

datatype type_id =
    TYPEID_OBJECT | TYPEID_ITEM | TYPEID_CONTAINER | TYPEID_UNIT | TYPEID_PLAYER | TYPEID_GAMEOBJECT
  | TYPEID_DYNAMICOBJECT | TYPEID_CORPSE | TYPEID_AREATRIGGER

definition GetTypeId :: "uint32 \<Rightarrow> type_id" where
  "GetTypeId hi =
     (if hi = HG_Item then TYPEID_ITEM
      else if hi = HG_Unit then TYPEID_UNIT
      else if hi = HG_Pet then TYPEID_UNIT
      else if hi = HG_Player then TYPEID_PLAYER
      else if hi = HG_GameObject then TYPEID_GAMEOBJECT
      else if hi = HG_DynamicObject then TYPEID_DYNAMICOBJECT
      else if hi = HG_Corpse then TYPEID_CORPSE
      else if hi = HG_AreaTrigger then TYPEID_AREATRIGGER
      else if hi = HG_Mo_Transport then TYPEID_GAMEOBJECT
      else if hi = HG_Vehicle then TYPEID_UNIT
      else TYPEID_OBJECT)"

definition GetTypeName :: "uint32 \<Rightarrow> string" where
  "GetTypeName hi =
     (if hi = HG_Item then ''Item''
      else if hi = HG_Player then ''Player''
      else if hi = HG_GameObject then ''Gameobject''
      else if hi = HG_Transport then ''Transport''
      else if hi = HG_Unit then ''Creature''
      else if hi = HG_Pet then ''Pet''
      else if hi = HG_Vehicle then ''Vehicle''
      else if hi = HG_DynamicObject then ''DynObject''
      else if hi = HG_Corpse then ''Corpse''
      else if hi = HG_AreaTrigger then ''AreaTrigger''
      else if hi = HG_BattleGround then ''Battleground''
      else if hi = HG_Mo_Transport then ''MoTransport''
      else if hi = HG_Instance then ''InstanceID''
      else if hi = HG_Group then ''Group''
      else if hi = HG_Guild then ''Guild''
      else ''<unknown>'')"

text \<open>\<^verbatim>\<open>operator[]\<close>: a byte of the identifier in memory, least significant first; the assertion
  fails from 8 on.\<close>

definition guid_byte :: "guid \<Rightarrow> nat \<Rightarrow> uint8 option" where
  "guid_byte g i = (if i < 8 then Some (le_bytes g ! i) else None)"

section \<open>The packed form\<close>

definition PackedGuid :: "guid \<Rightarrow> (bb_error + unit) \<times> byte_buffer" where
  "PackedGuid g = appendPackGUID g bb_new"

definition PackedGuid_Set :: "guid \<Rightarrow> byte_buffer \<Rightarrow> (bb_error + unit) \<times> byte_buffer" where
  "PackedGuid_Set g b = appendPackGUID g (set_wpos 0 b)"

definition write_packed :: "byte_buffer \<Rightarrow> unit bb" where
  "write_packed pg = append_buffer pg"

definition write_guid :: "guid \<Rightarrow> unit bb" where
  "write_guid g = append_value g"

definition read_guid :: "guid bb" where
  "read_guid = read_value"

section \<open>The generator\<close>

datatype gen_event = StopNow | TriggerGuidAlert | TriggerGuidWarning

record gen_world =
  isGuidAlert :: bool
  isGuidWarning :: bool
  guidAlertLevel :: uint32
  guidWarnLevel :: uint32

definition MaxCounter :: uint32 where "MaxCounter = 0xFFFFFFFF"

definition CheckGuidTrigger :: "gen_world \<Rightarrow> uint32 \<Rightarrow> gen_event list" where
  "CheckGuidTrigger w guidlow =
     (if \<not> isGuidAlert w \<and> guidAlertLevel w < guidlow then [TriggerGuidAlert]
      else if \<not> isGuidWarning w \<and> guidWarnLevel w < guidlow then [TriggerGuidWarning]
      else [])"

text \<open>The state of a generator is its next counter. Asking for a shutdown does not stop the call.\<close>

definition Generate :: "gen_world \<Rightarrow> uint32 \<Rightarrow> uint32 \<Rightarrow> uint32 \<times> uint32 \<times> gen_event list" where
  "Generate w hi nxt =
     (nxt, nxt + 1,
      (if MaxCounter - 1 \<le> nxt then [StopNow] else [])
      @ (if hi = HG_Unit \<or> hi = HG_GameObject then CheckGuidTrigger w nxt else []))"

fun generate_all :: "gen_world \<Rightarrow> uint32 \<Rightarrow> nat \<Rightarrow> uint32 \<Rightarrow> uint32 list \<times> gen_event list" where
  "generate_all w hi 0 nxt = ([], [])"
| "generate_all w hi (Suc n) nxt =
     (let (v, nxt', es) = Generate w hi nxt; (vs, es') = generate_all w hi n nxt' in (v # vs, es @ es'))"

section \<open>Bits of an identifier\<close>

lemma bit_below:
  fixes w :: "'a::len word"
  assumes "w < 2 ^ k" "k < LENGTH('a)" "bit w m"
  shows "m < k"
proof -
  have "unat w < unat (2 ^ k :: 'a word)" using assms(1) by (simp add: word_less_nat_alt)
  also have "unat (2 ^ k :: 'a word) = take_bit LENGTH('a) (2 ^ k)"
    using unsigned_of_nat [where 'a = nat and 'b = 'a and n = "2 ^ k"] by simp
  also have "\<dots> = 2 ^ k" using assms(2) by (simp add: take_bit_of_exp)
  finally have "unat w < 2 ^ k" .
  then have "take_bit k w = w" by (simp add: word_unat_eq_iff unsigned_take_bit_eq take_bit_nat_eq_self)
  then show ?thesis using assms(3) by (metis bit_take_bit_iff)
qed

lemma ones_mask: "(0xFFFF :: guid) = mask 16" "(0xFFFFF :: guid) = mask 20" "(0xFFFFFFFF :: guid) = mask 32"
  "(0xFFF :: uint32) = mask 12"
  by (simp_all add: mask_eq_exp_minus_1)

lemma guid_temp:
  assumes "counter \<noteq> 0" "hi < 2 ^ 12" "entry < 2 ^ 20"
  shows "(ucast (drop_bit 48 (guid_entry hi entry counter) AND 0xFFFF) :: uint32) = push_bit 4 hi OR drop_bit 16 entry"
proof -
  have "hi \<noteq> HG_Corpse" "hi \<noteq> HG_AreaTrigger" using assms(2) by (auto simp: high_guids)
  moreover have "m < 12" if "bit hi m" for m by (rule bit_below [OF assms(2) _ that]) simp
  moreover have "m < 20" if "bit entry m" for m by (rule bit_below [OF assms(3) _ that]) simp
  moreover have "m < 32" if "bit counter m" for m using bit_imp_le_length [OF that] by simp
  ultimately show ?thesis
    unfolding ones_mask
    by (intro bit_word_eqI) (fastforce simp: guid_entry_def high_shift_def assms(1) bit_simps)
qed

lemma guid_parts:
  assumes "counter \<noteq> 0" "hi < 2 ^ 12" "entry < 2 ^ 20"
  shows "GetCounter (guid_entry hi entry counter) = counter"
    and "(ucast (drop_bit 32 (guid_entry hi entry counter) AND 0xFFFFF) :: uint32) = entry"
proof -
  have h: "hi \<noteq> HG_Corpse" "hi \<noteq> HG_AreaTrigger" using assms(2) by (auto simp: high_guids)
  have e: "m < 20" if "bit entry m" for m by (rule bit_below [OF assms(3) _ that]) simp
  have c: "m < 32" if "bit counter m" for m using bit_imp_le_length [OF that] by simp
  show "GetCounter (guid_entry hi entry counter) = counter"
    unfolding GetCounter_def ones_mask using h c
    by (intro bit_word_eqI) (fastforce simp: guid_entry_def high_shift_def assms(1) bit_simps)
  show "(ucast (drop_bit 32 (guid_entry hi entry counter) AND 0xFFFFF) :: uint32) = entry"
    unfolding ones_mask using h e c
    by (intro bit_word_eqI) (fastforce simp: guid_entry_def high_shift_def assms(1) bit_simps)
qed

lemma high_temp_parts:
  assumes "hi < 2 ^ 12" "entry < 2 ^ 20" "temp = push_bit 4 hi OR drop_bit 16 (entry :: uint32)"
  shows "drop_bit 4 temp AND 0xFFF = hi" "temp AND 0xF = drop_bit 16 entry"
proof -
  have m15: "(0xF :: uint32) = mask 4" by (simp add: mask_eq_exp_minus_1)
  have hb: "m < 12" if "bit hi m" for m by (rule bit_below [OF assms(1) _ that]) simp
  have e: "m < 20" if "bit entry m" for m by (rule bit_below [OF assms(2) _ that]) simp
  show "drop_bit 4 temp AND 0xFFF = hi"
    unfolding assms(3) ones_mask using hb e by (intro bit_word_eqI) (fastforce simp: bit_simps)
  show "temp AND 0xF = drop_bit 16 entry"
    unfolding assms(3) m15 using hb e by (intro bit_word_eqI) (fastforce simp: bit_simps)
qed

section \<open>Properties\<close>



text \<open>
  \<^bold>\<open>C39.\<close> A dynamic object with an entry between 65536 and 131071 is taken for a corpse:
  the accessor compares sixteen bits although the constructor put the kind into twelve.
\<close>

theorem dynamic_object_taken_for_corpse:
  assumes "counter \<noteq> 0" "drop_bit 16 entry = (1 :: uint32)" "entry < 2 ^ 20"
  shows "GetHigh (guid_entry HG_DynamicObject entry counter) = HG_Corpse"
proof -
  have "HG_DynamicObject < 2 ^ 12" by (simp add: high_guids)
  from guid_temp [OF assms(1) this assms(3)] show ?thesis
    by (simp add: GetHigh_def assms(2) high_guids)
qed

theorem dynamic_object_taken_for_corpse_witness:
  "GetHigh (guid_entry HG_DynamicObject 70000 5) = HG_Corpse"
  using dynamic_object_taken_for_corpse [of 5 70000] by simp

lemma generate_all_values: "fst (generate_all w hi n nxt) = map (\<lambda>i. nxt + of_nat i) [0..<n]"
proof (induction n arbitrary: nxt)
  case (Suc n)
  have "map (\<lambda>i. nxt + of_nat i) [0..<Suc n] = nxt # map (\<lambda>i. nxt + 1 + of_nat i) [0..<n]"
    by (simp add: map_upt_Suc ac_simps del: upt_Suc)
  then show ?case using Suc [of "nxt + 1"] by (simp add: Generate_def split_beta Let_def del: upt_Suc)
qed simp

lemma generate_all_stop:
  "StopNow \<in> set (snd (generate_all w hi n nxt)) \<longleftrightarrow> (\<exists>v \<in> set (fst (generate_all w hi n nxt)). MaxCounter - 1 \<le> v)"
  by (induction n arbitrary: nxt)
    (auto simp: Generate_def CheckGuidTrigger_def split_beta Let_def split: if_splits)

text \<open>
  \<^bold>\<open>C32.\<close> The counters a generator hands out are pairwise different for as many calls as
  there are counters, and a shutdown is asked for exactly when one of them is within two of the
  largest: no counter is reused before the server was told to stop.
\<close>

theorem generator_unique:
  assumes "n \<le> 2 ^ 32"
  shows "distinct (fst (generate_all w hi n nxt))
    \<and> (StopNow \<in> set (snd (generate_all w hi n nxt)) \<longleftrightarrow> (\<exists>v \<in> set (fst (generate_all w hi n nxt)). MaxCounter - 1 \<le> v))"
proof -
  have "inj_on (\<lambda>i. nxt + of_nat i) {0..<n}"
  proof (rule inj_onI)
    fix i j assume ij: "i \<in> {0..<n}" "j \<in> {0..<n}" "nxt + of_nat i = nxt + of_nat j"
    then have "take_bit 32 i = take_bit 32 j" by (simp add: word_of_nat_eq_iff)
    then show "i = j" using ij(1,2) assms by (simp add: take_bit_nat_eq_self)
  qed
  then have "distinct (fst (generate_all w hi n nxt))"
    by (simp add: generate_all_values distinct_map)
  then show ?thesis using generate_all_stop by blast
qed

theorem generator_unique_witness:
  "distinct (fst (generate_all \<lparr>isGuidAlert = False, isGuidWarning = False, guidAlertLevel = 16000000, guidWarnLevel = 12000000\<rparr>
     HG_Unit 3 0xFFFFFFFD))"
  using generator_unique [of 3] by simp

definition packed_bytes :: "guid \<Rightarrow> uint8 list" where
  "packed_bytes g = byte_mask 0 (le_bytes g) # nonzero (le_bytes g)"

lemma packed_bytes_length: "length (packed_bytes g) \<le> 9" "packed_bytes g \<noteq> []"
  using length_filter_le [of "\<lambda>x. x \<noteq> 0" "le_bytes g"] by (simp_all add: packed_bytes_def nonzero_def)

lemma append_at_start:
  assumes "bitpos b = 8" "length (storage b) < 10000000" "src \<noteq> []" "length src \<le> 9"
  shows "\<exists>st. append_bytes src (set_wpos 0 b) = (Inr (), b\<lparr>storage := st, wpos := length src\<rparr>)
    \<and> take (length src) st = src \<and> length src \<le> length st \<and> length st \<le> max 9 (length (storage b))"
proof -
  define st where "st = (if length (storage b) < length src then resize (length src) (storage b) else storage b)"
  have l: "length src \<le> length st" "length st \<le> max 9 (length (storage b))"
    using assms(4) by (auto simp: st_def resize_def)
  have "append_bytes src (set_wpos 0 b) = (Inr (), b\<lparr>storage := overwrite st 0 src, wpos := length src\<rparr>)"
    using assms l by (simp add: append_bytes_def FlushBits_def bb_size_def append_aligned_def set_wpos_def Let_def st_def)
  moreover have "take (length src) (overwrite st 0 src) = src" using overwrite_read [of 0 src st] l by simp
  ultimately show ?thesis using l by auto
qed

text \<open>
  An object's packed identifier is reused when the object gets its identifier:
  after \<^verbatim>\<open>Set\<close>, whatever was packed before, what is appended to a packet is exactly the
  packed form of the new identifier, although the buffer keeps the longer old storage.
\<close>

theorem PackedGuid_Set_replaces:
  "\<exists>pg1 pg2. PackedGuid g1 = (Inr (), pg1) \<and> PackedGuid_Set g2 pg1 = (Inr (), pg2)
     \<and> write_packed pg2 bb_new = appendPackGUID g2 bb_new"
proof -
  define pg1 where "pg1 = bb_new\<lparr>storage := packed_bytes g1, wpos := length (packed_bytes g1)\<rparr>"
  have new: "bitpos bb_new = 8" "storage bb_new = []" "wpos bb_new = 0"
    by (simp_all add: bb_new_def InitialBitPos_def)
  have 1: "PackedGuid g1 = (Inr (), pg1)"
    unfolding PackedGuid_def packed_guid_bytes packed_bytes_def [symmetric] pg1_def
    using append_bytes_end [of bb_new "packed_bytes g1"] packed_bytes_length [of g1] new by simp
  have "length (storage pg1) < 10000000" "bitpos pg1 = 8"
    using packed_bytes_length(1) [of g1] new by (simp_all add: pg1_def)
  then obtain st where st: "append_bytes (packed_bytes g2) (set_wpos 0 pg1) = (Inr (), pg1\<lparr>storage := st, wpos := length (packed_bytes g2)\<rparr>)"
    "take (length (packed_bytes g2)) st = packed_bytes g2" "length (packed_bytes g2) \<le> length st"
    using append_at_start [of pg1 "packed_bytes g2"] packed_bytes_length [of g2] by blast
  then have 2: "PackedGuid_Set g2 pg1 = (Inr (), pg1\<lparr>storage := st, wpos := length (packed_bytes g2)\<rparr>)"
    unfolding PackedGuid_Set_def packed_guid_bytes packed_bytes_def [symmetric] by simp
  have "st \<noteq> []" using st(3) packed_bytes_length(2) [of g2] by auto
  then have "write_packed (pg1\<lparr>storage := st, wpos := length (packed_bytes g2)\<rparr>) bb_new = append_bytes (packed_bytes g2) bb_new"
    using st(2,3) packed_bytes_length(2) [of g2] by (simp add: write_packed_def append_buffer_def bb_contents_def)
  then show ?thesis using 1 2 unfolding packed_guid_bytes packed_bytes_def [symmetric] by blast
qed

end
