(* ===== verification/Lfg_Roles.thy ===== *)
theory Lfg_Roles
  imports Ordered_Map
begin

text \<open>
  Roles in the dungeon finder: the masks of \<^verbatim>\<open>src/src/server/game/DungeonFinding/LFG.h\<close> and
  the backtracking search \<^verbatim>\<open>LFGMgr::CheckGroupRoles\<close> that gives every player of a group one of
  the roles the player selected, within the numbers the dungeon needs. The search is shown sound and
  complete: it answers yes exactly when such a choice exists, and then leaves one in the map.
\<close>

section \<open>Masks and dungeons\<close>

definition PLAYER_ROLE_LEADER :: uint8 where "PLAYER_ROLE_LEADER = 0x01"

definition PLAYER_ROLE_TANK :: uint8 where "PLAYER_ROLE_TANK = 0x02"

definition PLAYER_ROLE_HEALER :: uint8 where "PLAYER_ROLE_HEALER = 0x04"

definition PLAYER_ROLE_DAMAGE :: uint8 where "PLAYER_ROLE_DAMAGE = 0x08"

lemmas role_defs = PLAYER_ROLE_LEADER_def PLAYER_ROLE_TANK_def PLAYER_ROLE_HEALER_def PLAYER_ROLE_DAMAGE_def

type_synonym roles_map = "(guid, uint8) omap"

record lfg_dungeon =
  requiredTanks :: uint32
  requiredHealers :: uint32
  requiredDamageDealers :: uint32

definition GetMaxGroupSize :: "lfg_dungeon \<Rightarrow> uint32" where
  "GetMaxGroupSize dg = requiredTanks dg + requiredHealers dg + requiredDamageDealers dg"

section \<open>The search\<close>

text \<open>\<^verbatim>\<open>it->second -= r\<close> and \<^verbatim>\<open>it->second += r\<close> at the i-th entry.\<close>

definition sub_role :: "nat \<Rightarrow> uint8 \<Rightarrow> roles_map \<Rightarrow> roles_map" where
  "sub_role i r g = g[i := (fst (g ! i), snd (g ! i) - r)]"

definition add_role :: "nat \<Rightarrow> uint8 \<Rightarrow> roles_map \<Rightarrow> roles_map" where
  "add_role i r g = g[i := (fst (g ! i), snd (g ! i) + r)]"

text \<open>
  The block for one role: nothing if the player did not select it; if it is one of several, try
  without it and put it back on failure; if it is the only one, count it, or fail when the dungeon
  has enough. \<open>Inl\<close> is a return from the function, \<open>Inr\<close> goes on with the map and the counter.
  \<open>None\<close> says that the recursive call ran out of fuel.
\<close>

definition try_role ::
  "(roles_map \<Rightarrow> (bool \<times> roles_map) option) \<Rightarrow> uint8 \<Rightarrow> uint32 \<Rightarrow> nat \<Rightarrow> uint8 \<Rightarrow> roles_map \<Rightarrow> uint8
   \<Rightarrow> ((bool \<times> roles_map) + (roles_map \<times> uint8)) option" where
  "try_role rec r required i role g count =
     (if role AND r = 0 then Some (Inr (g, count))
      else if role \<noteq> r then
        (case rec (sub_role i r g) of
           None \<Rightarrow> None
         | Some (b, g') \<Rightarrow> if b then Some (Inl (True, g')) else Some (Inr (add_role i r g', count)))
      else if ucast count = required then Some (Inl (False, g))
      else Some (Inr (g, count + 1)))"

fun role_loop ::
  "(roles_map \<Rightarrow> (bool \<times> roles_map) option) \<Rightarrow> lfg_dungeon \<Rightarrow> nat list \<Rightarrow> roles_map \<Rightarrow> uint8 \<Rightarrow> uint8 \<Rightarrow> uint8
   \<Rightarrow> (bool \<times> roles_map) option" where
  "role_loop rec dg [] g damage healer tank =
     Some (unat tank + unat healer + unat damage = unat (of_nat (length g) :: uint8), g)"
| "role_loop rec dg (i # is) g damage healer tank =
     (let role = snd (g ! i) AND NOT PLAYER_ROLE_LEADER in
      if role = 0 then Some (False, g)
      else
        case try_role rec PLAYER_ROLE_DAMAGE (requiredDamageDealers dg) i role g damage of
          None \<Rightarrow> None
        | Some (Inl r) \<Rightarrow> Some r
        | Some (Inr (g1, damage')) \<Rightarrow>
            (case try_role rec PLAYER_ROLE_HEALER (requiredHealers dg) i role g1 healer of
               None \<Rightarrow> None
             | Some (Inl r) \<Rightarrow> Some r
             | Some (Inr (g2, healer')) \<Rightarrow>
                 (case try_role rec PLAYER_ROLE_TANK (requiredTanks dg) i role g2 tank of
                    None \<Rightarrow> None
                  | Some (Inl r) \<Rightarrow> Some r
                  | Some (Inr (g3, tank')) \<Rightarrow> role_loop rec dg is g3 damage' healer' tank')))"

fun check_roles :: "nat \<Rightarrow> lfg_dungeon \<Rightarrow> roles_map \<Rightarrow> (bool \<times> roles_map) option" where
  "check_roles 0 dg g = None"
| "check_roles (Suc fuel) dg g =
     (if g = [] then Some (False, g)
      else role_loop (check_roles fuel dg) dg [0..<length g] g 0 0 0)"

text \<open>Every nested call removes a selected role, so the sum of the masks bounds the depth.\<close>

definition role_weight :: "roles_map \<Rightarrow> nat" where
  "role_weight g = sum_list (map (\<lambda>e. unat (snd e)) g)"

definition CheckGroupRoles :: "lfg_dungeon \<Rightarrow> roles_map \<Rightarrow> bool \<times> roles_map" where
  "CheckGroupRoles dg g = the (check_roles (Suc (role_weight g)) dg g)"

section \<open>Choices of roles\<close>

definition the_roles :: "uint8 set" where
  "the_roles = {PLAYER_ROLE_DAMAGE, PLAYER_ROLE_HEALER, PLAYER_ROLE_TANK}"

text \<open>\<open>b\<close> is one of the roles selected in \<open>a\<close>, with the leader flag kept.\<close>

definition fits :: "uint8 \<Rightarrow> uint8 \<Rightarrow> bool" where
  "fits a b \<longleftrightarrow> (\<exists>s \<in> the_roles. a AND s \<noteq> 0 \<and> b = s OR (a AND PLAYER_ROLE_LEADER))"

definition role_count :: "uint8 \<Rightarrow> roles_map \<Rightarrow> nat" where
  "role_count s g = length (filter (\<lambda>e. snd e AND NOT PLAYER_ROLE_LEADER = s) g)"

definition role_choice :: "lfg_dungeon \<Rightarrow> roles_map \<Rightarrow> roles_map \<Rightarrow> bool" where
  "role_choice dg g g' \<longleftrightarrow> list_all2 (\<lambda>e e'. fst e' = fst e \<and> fits (snd e) (snd e')) g g'
     \<and> role_count PLAYER_ROLE_DAMAGE g' \<le> unat (requiredDamageDealers dg)
     \<and> role_count PLAYER_ROLE_HEALER g' \<le> unat (requiredHealers dg)
     \<and> role_count PLAYER_ROLE_TANK g' \<le> unat (requiredTanks dg)"

definition roles_known :: "roles_map \<Rightarrow> bool" where
  "roles_known g \<longleftrightarrow> (\<forall>e \<in> set g. snd e < 16)"

lemma known_role_cases: "(a :: uint8) < 16 \<Longrightarrow> a \<in> {0, 1, 2, 3, 4, 5, 6, 7, 8, 9, 10, 11, 12, 13, 14, 15}"
proof -
  assume "a < 16"
  then have "unat a < 16" by (simp add: word_less_nat_alt)
  then have "unat a \<in> set [0..<16]" by simp
  then have "a \<in> of_nat ` set [0..<16]" by (metis imageI of_nat_unat ucast_id)
  also have "of_nat ` set [0..<16] = {0, 1, 2, 3, 4, 5, 6, 7, 8, 9, 10, 11, 12, 13, 14, 15 :: uint8}"
    by (simp add: upt_rec)
  finally show ?thesis .
qed

lemma sub_role_and:
  assumes "a < 16" "r \<in> the_roles" "a AND r \<noteq> 0"
  shows "a - r = a AND NOT r \<and> a - r < a"
proof -
  have "\<forall>r \<in> the_roles. a AND r \<noteq> 0 \<longrightarrow> a - r = a AND NOT r \<and> a - r < a"
    using known_role_cases [OF assms(1)] unfolding the_roles_def role_defs by (elim insertE emptyE; simp)
  then show ?thesis using assms(2,3) by blast
qed

lemma roles_disjoint:
  "s \<in> the_roles \<Longrightarrow> r \<in> the_roles \<Longrightarrow> s AND r = (if s = r then s else 0)"
  "s \<in> the_roles \<Longrightarrow> s AND PLAYER_ROLE_LEADER = 0" "s \<in> the_roles \<Longrightarrow> NOT s AND PLAYER_ROLE_LEADER = PLAYER_ROLE_LEADER"
  "s \<in> the_roles \<Longrightarrow> s AND NOT PLAYER_ROLE_LEADER = s" "s \<in> the_roles \<Longrightarrow> s \<noteq> 0"
  "s \<in> the_roles \<Longrightarrow> r \<in> the_roles \<Longrightarrow> r \<noteq> s \<Longrightarrow> NOT r AND s = s"
  by (auto simp: the_roles_def role_defs)

lemma fits_sub:
  assumes "a < 16" "r \<in> the_roles" "a AND r \<noteq> 0" "fits (a - r) b"
  shows "fits a b"
proof -
  obtain s where s: "s \<in> the_roles" "(a AND NOT r) AND s \<noteq> 0" "b = s OR ((a AND NOT r) AND PLAYER_ROLE_LEADER)"
    using assms(4) sub_role_and [OF assms(1-3)] unfolding fits_def by metis
  have "a AND s \<noteq> 0"
    using s(2) by (metis and.assoc and.commute and_zero_eq)
  moreover have "b = s OR (a AND PLAYER_ROLE_LEADER)"
    using s(3) roles_disjoint(3) [OF assms(2)] by (simp only: and.assoc)
  ultimately show ?thesis using s(1) unfolding fits_def by blast
qed

lemma fits_drop:
  assumes "a < 16" "fits a b"
  obtains s where "s \<in> the_roles" "a AND s \<noteq> 0"
    "\<And>r. r \<in> the_roles \<Longrightarrow> r \<noteq> s \<Longrightarrow> a AND r \<noteq> 0 \<Longrightarrow> fits (a - r) b"
proof -
  obtain s where s: "s \<in> the_roles" "a AND s \<noteq> 0" "b = s OR (a AND PLAYER_ROLE_LEADER)"
    using assms(2) unfolding fits_def by blast
  have "fits (a - r) b" if "r \<in> the_roles" "r \<noteq> s" "a AND r \<noteq> 0" for r
  proof -
    have "(a AND NOT r) AND s = a AND s" "(a AND NOT r) AND PLAYER_ROLE_LEADER = a AND PLAYER_ROLE_LEADER"
      using roles_disjoint(6) [OF s(1) that(1,2)] roles_disjoint(3) [OF that(1)] by (simp_all only: and.assoc)
    then have "(a - r) AND s \<noteq> 0 \<and> b = s OR ((a - r) AND PLAYER_ROLE_LEADER)"
      using s(2,3) sub_role_and [OF assms(1) that(1,3)] by simp
    then show ?thesis using s(1) unfolding fits_def by blast
  qed
  with s show thesis using that by blast
qed

text \<open>A mask with no role, one role or several.\<close>

lemma mask_kinds:
  assumes "a < 16" "role = a AND NOT PLAYER_ROLE_LEADER"
  shows "r \<in> the_roles \<Longrightarrow> role AND r = a AND r"
    and "role = 0 \<Longrightarrow> \<not> fits a b"
    and "role \<in> the_roles \<Longrightarrow> fits a b \<longleftrightarrow> b = a"
    and "role \<noteq> 0 \<Longrightarrow> role \<notin> the_roles \<Longrightarrow> s \<in> the_roles \<Longrightarrow> \<exists>r \<in> the_roles. r \<noteq> s \<and> a AND r \<noteq> 0"
proof -
  have sel: "role AND r = a AND r" if "r \<in> the_roles" for r
    using that unfolding assms(2) the_roles_def role_defs by (auto simp: ac_simps)
  then show "r \<in> the_roles \<Longrightarrow> role AND r = a AND r" .
  show "role = 0 \<Longrightarrow> \<not> fits a b"
    using sel unfolding fits_def by (metis zero_and_eq)
  have split: "role OR (a AND PLAYER_ROLE_LEADER) = a"
    unfolding assms(2) by (rule bit_word_eqI) (auto simp: bit_simps)
  show "role \<in> the_roles \<Longrightarrow> fits a b \<longleftrightarrow> b = a"
    unfolding fits_def using sel split roles_disjoint(1,5) by metis
  have "role \<noteq> 0 \<longrightarrow> role \<notin> the_roles \<longrightarrow> (\<forall>s \<in> the_roles. \<exists>r \<in> the_roles. r \<noteq> s \<and> a AND r \<noteq> 0)"
    using known_role_cases [OF assms(1)] unfolding assms(2) the_roles_def role_defs by (elim insertE emptyE; simp)
  then show "role \<noteq> 0 \<Longrightarrow> role \<notin> the_roles \<Longrightarrow> s \<in> the_roles \<Longrightarrow> \<exists>r \<in> the_roles. r \<noteq> s \<and> a AND r \<noteq> 0"
    by blast
qed

section \<open>Soundness and completeness\<close>

definition answers :: "lfg_dungeon \<Rightarrow> roles_map \<Rightarrow> (bool \<times> roles_map) option \<Rightarrow> bool" where
  "answers dg g res \<longleftrightarrow> (case res of None \<Rightarrow> False
     | Some (b, g') \<Rightarrow> if b then role_choice dg g g' else g' = g \<and> \<not> (\<exists>g''. role_choice dg g g''))"

lemma add_sub_role [simp]: "i < length g \<Longrightarrow> add_role i r (sub_role i r g) = g"
  by (simp add: add_role_def sub_role_def)

lemma length_sub_role [simp]: "length (sub_role i r g) = length g"
  by (simp add: sub_role_def)

lemma sub_role_nth [simp]:
  "j < length g \<Longrightarrow> fst (sub_role i r g ! j) = fst (g ! j)"
  "j < length g \<Longrightarrow> snd (sub_role i r g ! j) = (if j = i then snd (g ! j) - r else snd (g ! j))"
  by (cases "j = i"; simp add: sub_role_def)+

lemma role_choice_nth:
  "role_choice dg g g' \<longleftrightarrow> length g' = length g
     \<and> (\<forall>j < length g. fst (g' ! j) = fst (g ! j) \<and> fits (snd (g ! j)) (snd (g' ! j)))
     \<and> role_count PLAYER_ROLE_DAMAGE g' \<le> unat (requiredDamageDealers dg)
     \<and> role_count PLAYER_ROLE_HEALER g' \<le> unat (requiredHealers dg)
     \<and> role_count PLAYER_ROLE_TANK g' \<le> unat (requiredTanks dg)"
  by (auto simp: role_choice_def list_all2_conv_all_nth)

lemma role_choice_sub:
  assumes "roles_known g" "i < length g" "r \<in> the_roles" "snd (g ! i) AND r \<noteq> 0" "role_choice dg (sub_role i r g) g'"
  shows "role_choice dg g g'"
proof -
  have "snd (g ! i) < 16" using assms(1,2) by (auto simp: roles_known_def)
  then have "fits (snd (g ! i) - r) b \<Longrightarrow> fits (snd (g ! i)) b" for b by (rule fits_sub [OF _ assms(3,4)])
  then have "\<forall>j < length g. fits (snd (sub_role i r g ! j)) (snd (g' ! j)) \<longrightarrow> fits (snd (g ! j)) (snd (g' ! j))"
    by simp
  with assms(5) show ?thesis unfolding role_choice_nth by simp
qed

text \<open>If there is a choice for a player with several roles, there is one without some of them.\<close>

lemma role_choice_drop:
  assumes "roles_known g" "i < length g" "role_choice dg g g'" "role = snd (g ! i) AND NOT PLAYER_ROLE_LEADER"
    "role \<noteq> 0" "role \<notin> the_roles"
  shows "\<exists>r \<in> the_roles. snd (g ! i) AND r \<noteq> 0 \<and> role_choice dg (sub_role i r g) g'"
proof -
  have a: "snd (g ! i) < 16" using assms(1,2) by (auto simp: roles_known_def)
  have f: "fits (snd (g ! i)) (snd (g' ! i))"
    using assms(2,3) by (auto simp: role_choice_nth)
  obtain s where s: "s \<in> the_roles" "snd (g ! i) AND s \<noteq> 0"
    "\<And>r. r \<in> the_roles \<Longrightarrow> r \<noteq> s \<Longrightarrow> snd (g ! i) AND r \<noteq> 0 \<Longrightarrow> fits (snd (g ! i) - r) (snd (g' ! i))"
    using fits_drop [OF a f] by blast
  obtain r where r: "r \<in> the_roles" "r \<noteq> s" "snd (g ! i) AND r \<noteq> 0"
    using mask_kinds(4) [OF a assms(4-6) s(1)] by blast
  have "role_choice dg (sub_role i r g) g'"
    using assms(3) s(3) [OF r] unfolding role_choice_nth by simp
  with r show ?thesis by blast
qed

definition required :: "lfg_dungeon \<Rightarrow> uint8 \<Rightarrow> nat" where
  "required dg s = (if s = PLAYER_ROLE_DAMAGE then unat (requiredDamageDealers dg)
     else if s = PLAYER_ROLE_HEALER then unat (requiredHealers dg) else unat (requiredTanks dg))"

lemma role_choice_required: "role_choice dg g g' \<Longrightarrow> s \<in> the_roles \<Longrightarrow> role_count s g' \<le> required dg s"
  by (auto simp: role_choice_def required_def the_roles_def role_defs)

lemma role_count_simps [simp]:
  "role_count s [] = 0"
  "role_count s (e # g) = (if snd e AND NOT PLAYER_ROLE_LEADER = s then Suc (role_count s g) else role_count s g)"
  "role_count s (g @ h) = role_count s g + role_count s h"
  by (simp_all add: role_count_def)

lemma role_count_take: "role_count s (take n g) \<le> role_count s g"
  by (metis append_take_drop_id le_add1 role_count_simps(3))

text \<open>A player with one role keeps it in every choice.\<close>

lemma role_count_forced:
  assumes "list_all2 (\<lambda>e e'. fst e' = fst e \<and> fits (snd e) (snd e')) g g'" "roles_known g" "s \<in> the_roles"
  shows "role_count s g \<le> role_count s g'"
  using assms
proof (induction rule: list_all2_induct)
  case (Cons e g e' g')
  then have a: "snd e < 16" by (simp add: roles_known_def)
  have "snd e' = snd e" if "snd e AND NOT PLAYER_ROLE_LEADER = s"
    using mask_kinds(3) [OF a refl] that Cons by simp
  then show ?case using Cons by (auto simp: roles_known_def)
qed simp

lemma no_choice_overfull:
  assumes "roles_known g" "s \<in> the_roles" "required dg s < role_count s (take n g)"
  shows "\<not> role_choice dg g g'"
proof
  assume c: "role_choice dg g g'"
  then have "role_count s g \<le> role_count s g'"
    by (intro role_count_forced [OF _ assms(1,2)]) (simp add: role_choice_def)
  then show False
    using role_choice_required [OF c assms(2)] role_count_take [of s n g] assms(3) by linarith
qed

text \<open>The counted players are all players exactly when everyone has one role.\<close>

lemma role_counts_le:
  "role_count PLAYER_ROLE_TANK g + role_count PLAYER_ROLE_HEALER g + role_count PLAYER_ROLE_DAMAGE g \<le> length g"
  by (induction g) (auto simp: role_defs)

lemma role_counts_eq:
  "role_count PLAYER_ROLE_TANK g + role_count PLAYER_ROLE_HEALER g + role_count PLAYER_ROLE_DAMAGE g = length g
   \<longleftrightarrow> (\<forall>e \<in> set g. snd e AND NOT PLAYER_ROLE_LEADER \<in> the_roles)"
proof (induction g)
  case (Cons e g)
  then show ?case using role_counts_le [of g] by (auto simp: the_roles_def role_defs)
qed simp

text \<open>What one block does, when the recursive calls answer correctly.\<close>

lemma try_role_single:
  assumes "r \<in> the_roles" "role \<in> the_roles"
  shows "try_role rec r req i role g count =
    (if role \<noteq> r then Some (Inr (g, count)) else if unat count = unat req then Some (Inl (False, g))
     else Some (Inr (g, count + 1)))"
proof -
  have "ucast count = req \<longleftrightarrow> unat count = unat req" for count :: uint8 and req :: uint32
  proof -
    have "unat count < 2 ^ LENGTH(8)" by (rule unsigned_less)
    then show ?thesis by (simp add: word_unat_eq_iff unsigned_ucast_eq take_bit_nat_eq_self)
  qed
  then show ?thesis using roles_disjoint(1) [OF assms(2,1)] roles_disjoint(5) [OF assms(1)]
    by (simp add: try_role_def)
qed

lemma try_role_multi:
  assumes "roles_known g" "i < length g" "r \<in> the_roles" "role = snd (g ! i) AND NOT PLAYER_ROLE_LEADER"
    "role \<notin> the_roles" "snd (g ! i) AND r \<noteq> 0 \<longrightarrow> answers dg (sub_role i r g) (rec (sub_role i r g))"
  shows "(\<exists>g'. try_role rec r req i role g count = Some (Inl (True, g')) \<and> role_choice dg g g')
    \<or> try_role rec r req i role g count = Some (Inr (g, count))
      \<and> (snd (g ! i) AND r \<noteq> 0 \<longrightarrow> \<not> (\<exists>g'. role_choice dg (sub_role i r g) g'))"
proof -
  have a: "snd (g ! i) < 16" using assms(1,2) by (auto simp: roles_known_def)
  have sel: "role AND r = snd (g ! i) AND r" by (rule mask_kinds(1) [OF a assms(4,3)])
  show ?thesis
  proof (cases "snd (g ! i) AND r = 0")
    case True
    then show ?thesis using sel by (simp add: try_role_def)
  next
    case False
    then have ans: "answers dg (sub_role i r g) (rec (sub_role i r g))" using assms(6) by blast
    have ne: "role \<noteq> r" using assms(3,5) by auto
    show ?thesis
    proof (cases "rec (sub_role i r g)")
      case (Some res)
      obtain b g' where res: "res = (b, g')" by (cases res)
      show ?thesis
      proof (cases b)
        case True
        then have "role_choice dg g g'"
          using ans Some res role_choice_sub [OF assms(1-3) False] by (simp add: answers_def)
        then show ?thesis using True Some res False sel ne by (simp add: try_role_def)
      next
        case b: False
        then have "g' = sub_role i r g" "\<not> (\<exists>g''. role_choice dg (sub_role i r g) g'')"
          using ans Some res by (simp_all add: answers_def)
        then show ?thesis using b Some res False sel ne assms(2) by (simp add: try_role_def)
      qed
    qed (use ans in \<open>simp add: answers_def\<close>)
  qed
qed

text \<open>The state of the loop before the i-th player: the counters count the players with one role,
  none is over its limit, and a player with several roles was passed only if there is no choice.\<close>

definition loop_inv :: "lfg_dungeon \<Rightarrow> roles_map \<Rightarrow> nat \<Rightarrow> uint8 \<Rightarrow> uint8 \<Rightarrow> uint8 \<Rightarrow> bool" where
  "loop_inv dg g i damage healer tank \<longleftrightarrow> i \<le> length g
     \<and> unat damage = role_count PLAYER_ROLE_DAMAGE (take i g)
     \<and> unat healer = role_count PLAYER_ROLE_HEALER (take i g)
     \<and> unat tank = role_count PLAYER_ROLE_TANK (take i g)
     \<and> (\<forall>s \<in> the_roles. role_count s (take i g) \<le> required dg s)
     \<and> ((\<exists>j < i. snd (g ! j) AND NOT PLAYER_ROLE_LEADER \<notin> the_roles) \<longrightarrow> \<not> (\<exists>g'. role_choice dg g g'))"

lemma role_loop_end:
  assumes "loop_inv dg g (length g) damage healer tank" "length g < 256" "roles_known g"
  shows "answers dg g (role_loop rec dg [] g damage healer tank)"
proof -
  have len: "unat (of_nat (length g) :: uint8) = length g"
    using assms(2) by (simp add: unat_of_nat)
  have sum: "unat tank + unat healer + unat damage = length g \<longleftrightarrow> (\<forall>e \<in> set g. snd e AND NOT PLAYER_ROLE_LEADER \<in> the_roles)"
    using assms(1) role_counts_eq [of g] by (simp add: loop_inv_def)
  have "role_choice dg g g" if all: "\<forall>e \<in> set g. snd e AND NOT PLAYER_ROLE_LEADER \<in> the_roles"
  proof -
    have "fits (snd (g ! j)) (snd (g ! j))" if "j < length g" for j
      using mask_kinds(3) [of "snd (g ! j)", OF _ refl] all assms(3) that by (auto simp: roles_known_def)
    moreover have "\<forall>s \<in> the_roles. role_count s g \<le> required dg s" using assms(1) by (simp add: loop_inv_def)
    ultimately show ?thesis by (auto simp: role_choice_nth required_def the_roles_def role_defs)
  qed
  moreover have "\<not> (\<exists>g'. role_choice dg g g')" if "\<not> (\<forall>e \<in> set g. snd e AND NOT PLAYER_ROLE_LEADER \<in> the_roles)"
    using assms(1) that unfolding loop_inv_def all_set_conv_all_nth by blast
  ultimately show ?thesis using sum len by (simp add: answers_def)
qed

lemma role_distinct:
  "PLAYER_ROLE_DAMAGE \<noteq> PLAYER_ROLE_HEALER" "PLAYER_ROLE_DAMAGE \<noteq> PLAYER_ROLE_TANK" "PLAYER_ROLE_HEALER \<noteq> PLAYER_ROLE_TANK"
  "PLAYER_ROLE_HEALER \<noteq> PLAYER_ROLE_DAMAGE" "PLAYER_ROLE_TANK \<noteq> PLAYER_ROLE_DAMAGE" "PLAYER_ROLE_TANK \<noteq> PLAYER_ROLE_HEALER"
  by (simp_all add: role_defs)

lemma unat_inc8: "unat (x :: uint8) < 255 \<Longrightarrow> unat (x + 1) = Suc (unat x)"
  by (simp add: unat_word_ariths)

text \<open>One player with one role.\<close>

lemma role_loop_single:
  assumes "loop_inv dg g i damage healer tank" "i < length g" "length g < 256" "roles_known g"
    and role: "role = snd (g ! i) AND NOT PLAYER_ROLE_LEADER" "role \<in> the_roles"
    and IH: "\<And>damage healer tank. loop_inv dg g (Suc i) damage healer tank \<Longrightarrow>
       answers dg g (role_loop rec dg is g damage healer tank)"
  shows "answers dg g (role_loop rec dg (i # is) g damage healer tank)"
proof -
  let ?n = "role_count role (take i g)"
  have r: "PLAYER_ROLE_DAMAGE \<in> the_roles" "PLAYER_ROLE_HEALER \<in> the_roles" "PLAYER_ROLE_TANK \<in> the_roles"
    by (simp_all add: the_roles_def)
  have tk: "take (Suc i) g = take i g @ [g ! i]" using assms(2) by (rule take_Suc_conv_app_nth)
  have n: "?n < 255" using role_counts_le [of "take i g"] assms(2,3) role(2) by (auto simp: the_roles_def)
  have full: "answers dg g (Some (False, g))" if "required dg role \<le> ?n"
    using no_choice_overfull [OF assms(4) role(2), of dg "Suc i"] that role(1) by (simp add: answers_def tk)
  have nz: "role \<noteq> 0" by (rule roles_disjoint(5) [OF role(2)])
  have go: "loop_inv dg g (Suc i)
      (if role = PLAYER_ROLE_DAMAGE then damage + 1 else damage)
      (if role = PLAYER_ROLE_HEALER then healer + 1 else healer)
      (if role = PLAYER_ROLE_TANK then tank + 1 else tank)" if "\<not> required dg role \<le> ?n"
    using assms(1,2) that role n unfolding loop_inv_def
    by (auto simp: tk less_Suc_eq unat_inc8)
  have req: "unat (requiredDamageDealers dg) = required dg PLAYER_ROLE_DAMAGE"
    "unat (requiredHealers dg) = required dg PLAYER_ROLE_HEALER" "unat (requiredTanks dg) = required dg PLAYER_ROLE_TANK"
    by (simp_all add: required_def role_defs)
  have cnt: "unat damage = role_count PLAYER_ROLE_DAMAGE (take i g)"
    "unat healer = role_count PLAYER_ROLE_HEALER (take i g)" "unat tank = role_count PLAYER_ROLE_TANK (take i g)"
    using assms(1) by (simp_all add: loop_inv_def)
  have le: "?n \<le> required dg role" using assms(1) role(2) by (simp add: loop_inv_def)
  have "role_loop rec dg (i # is) g damage healer tank =
     (if required dg role \<le> ?n then Some (False, g) else
      role_loop rec dg is g
      (if role = PLAYER_ROLE_DAMAGE then damage + 1 else damage)
      (if role = PLAYER_ROLE_HEALER then healer + 1 else healer)
      (if role = PLAYER_ROLE_TANK then tank + 1 else tank))"
    using nz le role(2) unfolding role_loop.simps Let_def role(1) [symmetric]
      try_role_single [OF r(1) role(2)] try_role_single [OF r(2) role(2)] try_role_single [OF r(3) role(2)] req cnt
    by (auto simp: the_roles_def role_distinct)
  then show ?thesis using full go IH by simp
qed

text \<open>One player with several roles.\<close>

lemma role_loop_multi:
  assumes "loop_inv dg g i damage healer tank" "i < length g" "roles_known g"
    and role: "role = snd (g ! i) AND NOT PLAYER_ROLE_LEADER" "role \<notin> the_roles" "role \<noteq> 0"
    and rec: "\<And>r. r \<in> the_roles \<Longrightarrow> snd (g ! i) AND r \<noteq> 0 \<Longrightarrow> answers dg (sub_role i r g) (rec (sub_role i r g))"
    and IH: "loop_inv dg g (Suc i) damage healer tank \<Longrightarrow>
       answers dg g (role_loop rec dg is g damage healer tank)"
  shows "answers dg g (role_loop rec dg (i # is) g damage healer tank)"
proof -
  let ?no = "\<lambda>r. snd (g ! i) AND r \<noteq> 0 \<longrightarrow> \<not> (\<exists>g'. role_choice dg (sub_role i r g) g')"
  have r: "PLAYER_ROLE_DAMAGE \<in> the_roles" "PLAYER_ROLE_HEALER \<in> the_roles" "PLAYER_ROLE_TANK \<in> the_roles"
    by (simp_all add: the_roles_def)
  have tk: "take (Suc i) g = take i g @ [g ! i]" using assms(2) by (rule take_Suc_conv_app_nth)
  have go: "loop_inv dg g (Suc i) damage healer tank" if "\<forall>r \<in> the_roles. ?no r"
  proof -
    have none: "\<not> (\<exists>g'. role_choice dg g g')"
      using role_choice_drop [OF assms(3,2) _ role(1,3,2)] that by blast
    have "role_count s (take (Suc i) g) = role_count s (take i g)" if "s \<in> the_roles" for s
      using that role(1,2) by (auto simp: tk)
    then show ?thesis using assms(1,2) none r unfolding loop_inv_def by auto
  qed
  have win: "answers dg g (Some (True, g'))" if "role_choice dg g g'" for g'
    using that by (simp add: answers_def)
  have step: "P (try_role rec r req i role g count)"
    if h: "r \<in> the_roles" "\<And>g'. role_choice dg g g' \<Longrightarrow> P (Some (Inl (True, g')))" "?no r \<Longrightarrow> P (Some (Inr (g, count)))"
    for P r req count
  proof -
    have rc: "snd (g ! i) AND r \<noteq> 0 \<longrightarrow> answers dg (sub_role i r g) (rec (sub_role i r g))"
      using rec [OF h(1)] by blast
    from try_role_multi [where rec = rec and dg = dg and req = req and count = count, OF assms(3,2) h(1) role(1,2) rc]
    show ?thesis
    proof (elim disjE exE conjE)
      fix g' assume "try_role rec r req i role g count = Some (Inl (True, g'))" "role_choice dg g g'"
      then show ?thesis using h(2) by simp
    next
      assume "try_role rec r req i role g count = Some (Inr (g, count))" "?no r"
      then show ?thesis using h(3) by simp
    qed
  qed
  show ?thesis
    unfolding role_loop.simps Let_def role(1) [symmetric] using role(3)
    apply simp
    apply (rule step [OF r(1)], simp add: win)
    apply simp
    apply (rule step [OF r(2)], simp add: win)
    apply simp
    apply (rule step [OF r(3)], simp add: win)
    apply (simp add: IH go the_roles_def)
    done
qed

lemma role_loop_spec:
  assumes "length g < 256" "roles_known g"
    and rec: "\<And>i r. i < length g \<Longrightarrow> r \<in> the_roles \<Longrightarrow> snd (g ! i) AND r \<noteq> 0 \<Longrightarrow>
       answers dg (sub_role i r g) (rec (sub_role i r g))"
  shows "loop_inv dg g i damage healer tank \<Longrightarrow> answers dg g (role_loop rec dg [i..<length g] g damage healer tank)"
proof (induction "length g - i" arbitrary: i damage healer tank)
  case 0
  then have "i = length g" by (simp add: loop_inv_def)
  then show ?case using role_loop_end [OF _ assms(1,2)] 0 by simp
next
  case (Suc n)
  then have i: "i < length g" by simp
  have IH: "answers dg g (role_loop rec dg [Suc i..<length g] g d h t)" if "loop_inv dg g (Suc i) d h t" for d h t
    using Suc.hyps that by simp
  let ?role = "snd (g ! i) AND NOT PLAYER_ROLE_LEADER"
  have "answers dg g (role_loop rec dg (i # [Suc i..<length g]) g damage healer tank)"
  proof (cases "?role = 0")
    case True
    have "\<not> role_choice dg g g'" for g'
      using mask_kinds(2) [OF _ refl True] i assms(2) by (auto simp: role_choice_nth roles_known_def)
    then show ?thesis using True by (simp add: answers_def)
  next
    case False
    show ?thesis
    proof (cases "?role \<in> the_roles")
      case True
      show ?thesis by (rule role_loop_single [OF Suc.prems i assms(1,2) refl True]) (rule IH)
    next
      case multi: False
      show ?thesis by (rule role_loop_multi [OF Suc.prems i assms(2) refl multi False]) (auto intro: rec [OF i] IH)
    qed
  qed
  then show ?case using i by (simp add: upt_conv_Cons)
qed

lemma sub_role_weight:
  assumes "roles_known g" "i < length g" "r \<in> the_roles" "snd (g ! i) AND r \<noteq> 0"
  shows "role_weight (sub_role i r g) < role_weight g"
proof -
  let ?f = "\<lambda>e. unat (snd e)"
  have "snd (g ! i) - r < snd (g ! i)"
    using sub_role_and [OF _ assms(3,4)] assms(1,2) by (auto simp: roles_known_def)
  then have lt: "unat (snd (g ! i) - r) < unat (snd (g ! i))" by (simp add: word_less_nat_alt)
  have "?f (g ! i) \<le> sum_list (map ?f g)"
    using elem_le_sum_list [of i "map ?f g"] assms(2) by simp
  then show ?thesis using lt assms(2)
    by (simp add: role_weight_def sub_role_def map_update sum_list_update)
qed

lemma roles_known_sub:
  assumes "roles_known g" "i < length g" "r \<in> the_roles" "snd (g ! i) AND r \<noteq> 0"
  shows "roles_known (sub_role i r g)"
proof -
  have "snd (g ! i) < 16" using assms(1,2) by (simp add: roles_known_def)
  then have "snd (g ! i) - r < 16" using sub_role_and [OF _ assms(3,4)] order.strict_trans by blast
  then have "\<forall>j < length g. snd (sub_role i r g ! j) < 16" using assms(1) by (simp add: roles_known_def)
  then show ?thesis unfolding roles_known_def all_set_conv_all_nth by simp
qed

text \<open>With more fuel than the sum of the masks the search ends, and its answer is right.\<close>

lemma check_roles_answers:
  assumes "roles_known g" "length g < 256" "g \<noteq> []" "role_weight g < fuel"
  shows "answers dg g (check_roles fuel dg g)"
  using assms
proof (induction fuel arbitrary: g)
  case (Suc fuel)
  have "answers dg (sub_role i r g) (check_roles fuel dg (sub_role i r g))"
    if "i < length g" "r \<in> the_roles" "snd (g ! i) AND r \<noteq> 0" for i r
  proof (rule Suc.IH [OF roles_known_sub [OF Suc.prems(1) that]])
    show "sub_role i r g \<noteq> []" using Suc.prems(3) by (simp add: sub_role_def)
    show "role_weight (sub_role i r g) < fuel" using sub_role_weight [OF Suc.prems(1) that] Suc.prems(4) by linarith
  qed (use Suc.prems(2) in simp)
  from role_loop_spec [OF Suc.prems(2,1) this, where i = 0 and damage = 0 and healer = 0 and tank = 0]
  show ?case using Suc.prems(3) by (simp add: loop_inv_def)
qed simp

section \<open>Properties\<close>

text \<open>
  \<^bold>\<open>C3.\<close> \<^verbatim>\<open>CheckGroupRoles\<close> on a group of fewer than 256 players that selected only known
  roles ends and decides whether the players can be given one selected role each within the numbers of
  tanks, healers and damage dealers of the dungeon. On yes the map holds such a choice, with every leader flag
  kept; on no the map is as it was before the call.
\<close>

theorem CheckGroupRoles_correct:
  assumes "roles_known g" "length g < 256" "g \<noteq> []" "CheckGroupRoles dg g = (ok, g')"
  shows "(ok \<longleftrightarrow> (\<exists>h. role_choice dg g h)) \<and> (ok \<longrightarrow> role_choice dg g g') \<and> (\<not> ok \<longrightarrow> g' = g)"
  using check_roles_answers [OF assms(1-3), of "Suc (role_weight g)" dg] assms(4)
  by (auto simp: answers_def CheckGroupRoles_def split: option.splits if_splits)

definition wit_dungeon :: lfg_dungeon where
  "wit_dungeon = \<lparr>requiredTanks = 1, requiredHealers = 1, requiredDamageDealers = 3\<rparr>"

text \<open>A leader who can tank or heal, and a player who can only tank.\<close>

theorem CheckGroupRoles_correct_witness:
  "role_choice wit_dungeon [(1, 7), (2, 2)] [(1, 5), (2, 2)]"
proof -
  have "CheckGroupRoles wit_dungeon [(1, 7), (2, 2)] = (True, [(1, 5), (2, 2)])" by code_simp
  moreover have "roles_known [(1, 7), (2, 2)]" by (simp add: roles_known_def)
  ultimately show ?thesis using CheckGroupRoles_correct [of "[(1, 7), (2, 2)]" wit_dungeon True "[(1, 5), (2, 2)]"] by simp
qed

end
