(* ===== verification/Lfg_Data.thy ===== *)
theory Lfg_Data
  imports Lfg_Roles
begin

text \<open>
  What the dungeon finder keeps of a player and of a group:
  \<^verbatim>\<open>src/src/server/game/DungeonFinding/LFGPlayerData.{h,cpp}\<close> and
  \<^verbatim>\<open>LFGGroupData.{h,cpp}\<close>. Both are state machines with a saved state to fall back to when
  a role check or a proposal fails; the lemmas show what is restored.
\<close>

datatype lfg_state =
    LFG_STATE_NONE | LFG_STATE_ROLECHECK | LFG_STATE_QUEUED | LFG_STATE_PROPOSAL
  | LFG_STATE_DUNGEON | LFG_STATE_FINISHED_DUNGEON | LFG_STATE_RAIDBROWSER

fun state_code :: "lfg_state \<Rightarrow> uint8" where
  "state_code LFG_STATE_NONE = 0"
| "state_code LFG_STATE_ROLECHECK = 1"
| "state_code LFG_STATE_QUEUED = 2"
| "state_code LFG_STATE_PROPOSAL = 3"
| "state_code LFG_STATE_DUNGEON = 5"
| "state_code LFG_STATE_FINISHED_DUNGEON = 6"
| "state_code LFG_STATE_RAIDBROWSER = 7"

section \<open>Groups\<close>

record lfg_group =
  g_State :: lfg_state
  g_OldState :: lfg_state
  g_Leader :: guid
  g_Players :: "guid set"
  g_Dungeon :: uint32
  g_KicksLeft :: uint8
  g_VoteKickActive :: bool

definition LFG_GROUP_MAX_KICKS :: uint8 where "LFG_GROUP_MAX_KICKS = 3"

definition LfgGroupData :: lfg_group where
  "LfgGroupData = \<lparr>g_State = LFG_STATE_NONE, g_OldState = LFG_STATE_NONE, g_Leader = 0, g_Players = {},
     g_Dungeon = 0, g_KicksLeft = LFG_GROUP_MAX_KICKS, g_VoteKickActive = False\<rparr>"

definition group_IsLfgGroup :: "lfg_group \<Rightarrow> bool" where
  "group_IsLfgGroup g \<longleftrightarrow> g_OldState g \<noteq> LFG_STATE_NONE"

fun group_SetState :: "lfg_state \<Rightarrow> lfg_group \<Rightarrow> lfg_group" where
  "group_SetState LFG_STATE_NONE g =
     g\<lparr>g_Dungeon := 0, g_KicksLeft := LFG_GROUP_MAX_KICKS, g_OldState := LFG_STATE_NONE, g_State := LFG_STATE_NONE\<rparr>"
| "group_SetState LFG_STATE_FINISHED_DUNGEON g =
     g\<lparr>g_OldState := LFG_STATE_FINISHED_DUNGEON, g_State := LFG_STATE_FINISHED_DUNGEON\<rparr>"
| "group_SetState LFG_STATE_DUNGEON g = g\<lparr>g_OldState := LFG_STATE_DUNGEON, g_State := LFG_STATE_DUNGEON\<rparr>"
| "group_SetState st g = g\<lparr>g_State := st\<rparr>"

definition group_RestoreState :: "lfg_group \<Rightarrow> lfg_group" where
  "group_RestoreState g = g\<lparr>g_State := g_OldState g\<rparr>"

definition AddPlayer :: "guid \<Rightarrow> lfg_group \<Rightarrow> lfg_group" where
  "AddPlayer p g = g\<lparr>g_Players := insert p (g_Players g)\<rparr>"

definition RemovePlayer :: "guid \<Rightarrow> lfg_group \<Rightarrow> uint8 \<times> lfg_group" where
  "RemovePlayer p g = (let ps = g_Players g - {p} in (of_nat (card ps), g\<lparr>g_Players := ps\<rparr>))"

definition RemoveAllPlayers :: "lfg_group \<Rightarrow> lfg_group" where
  "RemoveAllPlayers g = g\<lparr>g_Players := {}\<rparr>"

definition SetLeader :: "guid \<Rightarrow> lfg_group \<Rightarrow> lfg_group" where
  "SetLeader p g = g\<lparr>g_Leader := p\<rparr>"

definition SetDungeon :: "uint32 \<Rightarrow> lfg_group \<Rightarrow> lfg_group" where
  "SetDungeon d g = g\<lparr>g_Dungeon := d\<rparr>"

definition DecreaseKicksLeft :: "lfg_group \<Rightarrow> lfg_group" where
  "DecreaseKicksLeft g = (if g_KicksLeft g \<noteq> 0 then g\<lparr>g_KicksLeft := g_KicksLeft g - 1\<rparr> else g)"

definition GetPlayerCount :: "lfg_group \<Rightarrow> uint8" where
  "GetPlayerCount g = of_nat (card (g_Players g))"

definition GetDungeon :: "bool \<Rightarrow> lfg_group \<Rightarrow> uint32" where
  "GetDungeon asId g = (if asId then g_Dungeon g AND 0x00FFFFFF else g_Dungeon g)"

definition SetVoteKick :: "bool \<Rightarrow> lfg_group \<Rightarrow> lfg_group" where
  "SetVoteKick b g = g\<lparr>g_VoteKickActive := b\<rparr>"

section \<open>Players\<close>

text \<open>\<open>'t\<close> is the type of the join ticket, which is only stored and returned.\<close>

record 't lfg_player =
  p_Ticket :: 't
  p_State :: lfg_state
  p_OldState :: lfg_state
  p_Team :: uint8
  p_Group :: guid
  p_Roles :: uint8
  p_Comment :: string
  p_SelectedDungeons :: "uint32 set"
  p_Shortage :: bool

definition LfgPlayerData :: "'t \<Rightarrow> 't lfg_player" where
  "LfgPlayerData ticket = \<lparr>p_Ticket = ticket, p_State = LFG_STATE_NONE, p_OldState = LFG_STATE_NONE, p_Team = 0,
     p_Group = 0, p_Roles = 0, p_Comment = '''', p_SelectedDungeons = {}, p_Shortage = False\<rparr>"

fun player_SetState :: "lfg_state \<Rightarrow> 't lfg_player \<Rightarrow> 't lfg_player" where
  "player_SetState LFG_STATE_NONE p =
     p\<lparr>p_Roles := 0, p_SelectedDungeons := {}, p_Comment := '''', p_OldState := LFG_STATE_NONE, p_State := LFG_STATE_NONE\<rparr>"
| "player_SetState LFG_STATE_FINISHED_DUNGEON p =
     p\<lparr>p_Roles := 0, p_SelectedDungeons := {}, p_Comment := '''', p_OldState := LFG_STATE_FINISHED_DUNGEON,
       p_State := LFG_STATE_FINISHED_DUNGEON\<rparr>"
| "player_SetState LFG_STATE_DUNGEON p = p\<lparr>p_OldState := LFG_STATE_DUNGEON, p_State := LFG_STATE_DUNGEON\<rparr>"
| "player_SetState st p = p\<lparr>p_State := st\<rparr>"

definition player_RestoreState :: "'t lfg_player \<Rightarrow> 't lfg_player" where
  "player_RestoreState p =
     (let p1 = (if p_OldState p = LFG_STATE_NONE then p\<lparr>p_SelectedDungeons := {}, p_Roles := 0\<rparr> else p)
      in p1\<lparr>p_State := p_OldState p1\<rparr>)"

definition player_SetTicket :: "'t \<Rightarrow> 't lfg_player \<Rightarrow> 't lfg_player" where
  "player_SetTicket t p = p\<lparr>p_Ticket := t\<rparr>"

definition player_SetTeam :: "uint8 \<Rightarrow> 't lfg_player \<Rightarrow> 't lfg_player" where
  "player_SetTeam team p = p\<lparr>p_Team := team\<rparr>"

definition player_SetGroup :: "guid \<Rightarrow> 't lfg_player \<Rightarrow> 't lfg_player" where
  "player_SetGroup grp p = p\<lparr>p_Group := grp\<rparr>"

definition player_SetRoles :: "uint8 \<Rightarrow> 't lfg_player \<Rightarrow> 't lfg_player" where
  "player_SetRoles r p = p\<lparr>p_Roles := r\<rparr>"

definition player_SetComment :: "string \<Rightarrow> 't lfg_player \<Rightarrow> 't lfg_player" where
  "player_SetComment s p = p\<lparr>p_Comment := s\<rparr>"

definition player_SetSelectedDungeons :: "uint32 set \<Rightarrow> 't lfg_player \<Rightarrow> 't lfg_player" where
  "player_SetSelectedDungeons ds p = p\<lparr>p_SelectedDungeons := ds\<rparr>"

definition player_SetShortage :: "bool \<Rightarrow> 't lfg_player \<Rightarrow> 't lfg_player" where
  "player_SetShortage b p = p\<lparr>p_Shortage := b\<rparr>"

section \<open>The saved state\<close>

definition stable :: "lfg_state \<Rightarrow> bool" where
  "stable st \<longleftrightarrow> st \<in> {LFG_STATE_NONE, LFG_STATE_DUNGEON, LFG_STATE_FINISHED_DUNGEON}"

text \<open>The contract both classes share: states are set, and the saved one can be restored.\<close>

locale saved_state =
  fixes set_state :: "lfg_state \<Rightarrow> 's \<Rightarrow> 's"
    and restore :: "'s \<Rightarrow> 's"
    and cur :: "'s \<Rightarrow> lfg_state"
    and saved :: "'s \<Rightarrow> lfg_state"
  assumes cur_set [simp]: "cur (set_state st s) = st"
    and saved_set [simp]: "saved (set_state st s) = (if stable st then st else saved s)"
    and cur_restore [simp]: "cur (restore s) = saved s"
    and saved_restore [simp]: "saved (restore s) = saved s"
begin

definition run :: "lfg_state list \<Rightarrow> 's \<Rightarrow> 's" where
  "run sts s = fold set_state sts s"

text \<open>The saved state is the last stable one that was set.\<close>

lemma saved_run: "saved (run sts s) = last (saved s # filter stable sts)"
  by (induction sts arbitrary: s) (auto simp: run_def)

lemma restore_run: "cur (restore (run sts s)) = last (saved s # filter stable sts)"
  by (simp add: saved_run)

lemma saved_stable: "stable (saved s) \<Longrightarrow> stable (saved (run sts s))"
  by (induction sts arbitrary: s) (auto simp: run_def)

end

interpretation lfg_group_state: saved_state group_SetState group_RestoreState g_State g_OldState
proof unfold_locales
  fix st g
  show "g_State (group_SetState st g) = st" by (cases st) simp_all
  show "g_OldState (group_SetState st g) = (if stable st then st else g_OldState g)"
    by (cases st) (simp_all add: stable_def)
qed (simp_all add: group_RestoreState_def)

interpretation lfg_player_state: saved_state player_SetState player_RestoreState p_State p_OldState
proof unfold_locales
  fix st and p :: "'t lfg_player"
  show "p_State (player_SetState st p) = st" by (cases st) simp_all
  show "p_OldState (player_SetState st p) = (if stable st then st else p_OldState p)"
    by (cases st) (simp_all add: stable_def)
qed (simp_all add: player_RestoreState_def Let_def)

text \<open>
  \<^bold>\<open>C40.\<close> After any sequence of state changes, restoring a player brings back the last
  state among none, dungeon and finished dungeon that it was set to, and the same holds of a group;
  a player who falls back to none loses the selected roles and dungeons, and any other player keeps
  them.
\<close>

theorem restore_returns_last_stable:
  "p_State (player_RestoreState (fold player_SetState sts p)) = last (p_OldState p # filter stable sts)
   \<and> g_State (group_RestoreState (fold group_SetState sts g)) = last (g_OldState g # filter stable sts)
   \<and> p_Roles (player_RestoreState p) = (if p_OldState p = LFG_STATE_NONE then 0 else p_Roles p)
   \<and> p_SelectedDungeons (player_RestoreState p) = (if p_OldState p = LFG_STATE_NONE then {} else p_SelectedDungeons p)"
  using lfg_player_state.restore_run [of sts p] lfg_group_state.restore_run [of sts g]
  by (simp add: lfg_player_state.run_def lfg_group_state.run_def player_RestoreState_def Let_def)

end
