(* ===== verification/Lfg_Queue.thy ===== *)
theory Lfg_Queue
  imports Lfg_Data Object_Guid "HOL-Library.List_Lexorder" "HOL-Library.Char_ord"
begin

text \<open>
  The queue of the dungeon finder: \<^verbatim>\<open>src/src/server/game/DungeonFinding/LFGQueue.{h,cpp}\<close>.
  Players and groups wait in it until enough of them are compatible to fill a dungeon group; then
  a proposal is handed to the manager. The queue caches what it found out about sets of queue
  entries under the string of their identifiers. What the queue asks of the manager
  (dungeons, states, ignore lists, the clock and random numbers) is the environment \<open>lfg_env\<close>; the
  proposals it adds are collected in the order they are made.
\<close>

section \<open>Data\<close>

datatype lfg_compat =
    LFG_COMPATIBILITY_PENDING
  | LFG_INCOMPATIBLES_WRONG_GROUP_SIZE
  | LFG_INCOMPATIBLES_TOO_MUCH_PLAYERS
  | LFG_INCOMPATIBLES_MULTIPLE_LFG_GROUPS
  | LFG_INCOMPATIBLES_HAS_IGNORES
  | LFG_INCOMPATIBLES_NO_ROLES
  | LFG_INCOMPATIBLES_NO_DUNGEONS
  | LFG_COMPATIBLES_WITH_LESS_PLAYERS
  | LFG_COMPATIBLES_BAD_STATES
  | LFG_COMPATIBLES_MATCH

fun compat_code :: "lfg_compat \<Rightarrow> nat" where
  "compat_code LFG_COMPATIBILITY_PENDING = 0"
| "compat_code LFG_INCOMPATIBLES_WRONG_GROUP_SIZE = 1"
| "compat_code LFG_INCOMPATIBLES_TOO_MUCH_PLAYERS = 2"
| "compat_code LFG_INCOMPATIBLES_MULTIPLE_LFG_GROUPS = 3"
| "compat_code LFG_INCOMPATIBLES_HAS_IGNORES = 4"
| "compat_code LFG_INCOMPATIBLES_NO_ROLES = 5"
| "compat_code LFG_INCOMPATIBLES_NO_DUNGEONS = 6"
| "compat_code LFG_COMPATIBLES_WITH_LESS_PLAYERS = 7"
| "compat_code LFG_COMPATIBLES_BAD_STATES = 8"
| "compat_code LFG_COMPATIBLES_MATCH = 9"

lemma compat_code_inject: "compat_code a = compat_code b \<longleftrightarrow> a = b"
  by (cases a; cases b) simp_all

instantiation lfg_compat :: linorder
begin

definition less_eq_lfg_compat :: "lfg_compat \<Rightarrow> lfg_compat \<Rightarrow> bool" where
  "less_eq_lfg_compat a b \<longleftrightarrow> compat_code a \<le> compat_code b"

definition less_lfg_compat :: "lfg_compat \<Rightarrow> lfg_compat \<Rightarrow> bool" where
  "less_lfg_compat a b \<longleftrightarrow> compat_code a < compat_code b"

instance
  by standard (auto simp: less_eq_lfg_compat_def less_lfg_compat_def simp flip: compat_code_inject)

end

record compat_data =
  cd_compatibility :: lfg_compat
  cd_roles :: roles_map

record queue_data =
  qd_joinTime :: int
  qd_tanks :: uint8
  qd_healers :: uint8
  qd_dps :: uint8
  qd_dungeons :: "uint32 set"
  qd_roles :: roles_map
  qd_bestCompatible :: string

record wait_time =
  wt_time :: uint32
  wt_number :: uint32

datatype lfg_answer = LFG_ANSWER_PENDING | LFG_ANSWER_DENY | LFG_ANSWER_AGREE

text \<open>\<open>pp_group\<close> is \<open>None\<close> where the code reads the group through an end iterator.\<close>

record proposal_player =
  pp_role :: uint8
  pp_accept :: lfg_answer
  pp_group :: "guid option"

record lfg_proposal =
  lp_dungeonId :: uint32
  lp_group :: guid
  lp_leader :: guid
  lp_cancelTime :: int
  lp_isNew :: bool
  lp_queues :: "guid list"
  lp_players :: "(guid, proposal_player) omap"

record lfg_env =
  GetLFGDungeon :: "uint32 \<Rightarrow> lfg_dungeon option"
  AllQueued :: "guid list \<Rightarrow> bool"
  IsLfgGroup :: "guid \<Rightarrow> bool"
  HasIgnore :: "guid \<Rightarrow> guid \<Rightarrow> bool"
  GetOldState :: "guid \<Rightarrow> lfg_state"
  GameTime :: int
  random :: "nat \<Rightarrow> nat"

text \<open>\<open>draws\<close> counts the random numbers taken. A missing entry of a wait-time table reads as the
  default that \<^verbatim>\<open>operator[]\<close> would store.\<close>

record lfg_queue =
  QueueDataStore :: "(guid, queue_data) omap"
  CompatibleMapStore :: "(string, compat_data) omap"
  waitTimesAvgStore :: "uint32 \<Rightarrow> wait_time option"
  waitTimesTankStore :: "uint32 \<Rightarrow> wait_time option"
  waitTimesHealerStore :: "uint32 \<Rightarrow> wait_time option"
  waitTimesDpsStore :: "uint32 \<Rightarrow> wait_time option"
  currentQueueStore :: "guid list"
  newToQueueStore :: "guid list"
  proposals :: "lfg_proposal list"
  draws :: nat

definition lfg_queue_new :: lfg_queue where
  "lfg_queue_new = \<lparr>QueueDataStore = [], CompatibleMapStore = [], waitTimesAvgStore = Map.empty,
     waitTimesTankStore = Map.empty, waitTimesHealerStore = Map.empty, waitTimesDpsStore = Map.empty,
     currentQueueStore = [], newToQueueStore = [], proposals = [], draws = 0\<rparr>"

section \<open>Strings of identifiers\<close>

fun show_digits :: "nat \<Rightarrow> nat \<Rightarrow> string" where
  "show_digits 0 n = ''''"
| "show_digits (Suc fuel) n =
     (if n < 10 then [char_of (48 + n)] else show_digits fuel (n div 10) @ [char_of (48 + n mod 10)])"

text \<open>\<^verbatim>\<open>operator<<\<close> of a 64-bit number: at most 20 decimal digits.\<close>

definition show_guid :: "guid \<Rightarrow> string" where
  "show_guid g = show_digits 20 (unat g)"

fun join_bar :: "string list \<Rightarrow> string" where
  "join_bar [] = ''''"
| "join_bar [s] = s"
| "join_bar (s # ss) = s @ ''|'' @ join_bar ss"

definition ConcatenateGuids :: "guid list \<Rightarrow> string" where
  "ConcatenateGuids check = join_bar (map show_guid (sort (remdups check)))"

fun str_contains :: "string \<Rightarrow> string \<Rightarrow> bool" where
  "str_contains pat [] \<longleftrightarrow> pat = []"
| "str_contains pat (c # s) \<longleftrightarrow> take (length pat) (c # s) = pat \<or> str_contains pat s"

section \<open>Queue entries\<close>

definition InitializeGroupSetup :: "lfg_env \<Rightarrow> queue_data \<Rightarrow> queue_data" where
  "InitializeGroupSetup env d =
     (if qd_dungeons d = {} then d\<lparr>qd_tanks := 0, qd_healers := 0, qd_dps := 0\<rparr>
      else case GetLFGDungeon env (Min (qd_dungeons d)) of
        None \<Rightarrow> d\<lparr>qd_tanks := 0, qd_healers := 0, qd_dps := 0\<rparr>
      | Some dg \<Rightarrow> d\<lparr>qd_tanks := ucast (requiredTanks dg), qd_healers := ucast (requiredHealers dg),
                     qd_dps := ucast (requiredDamageDealers dg)\<rparr>)"

definition LfgQueueData_default :: "lfg_env \<Rightarrow> queue_data" where
  "LfgQueueData_default env = InitializeGroupSetup env
     \<lparr>qd_joinTime = GameTime env, qd_tanks = 0, qd_healers = 0, qd_dps = 0, qd_dungeons = {}, qd_roles = [],
      qd_bestCompatible = ''''\<rparr>"

definition LfgQueueData :: "lfg_env \<Rightarrow> int \<Rightarrow> uint32 set \<Rightarrow> roles_map \<Rightarrow> queue_data" where
  "LfgQueueData env t ds roles = InitializeGroupSetup env
     \<lparr>qd_joinTime = t, qd_tanks = 0, qd_healers = 0, qd_dps = 0, qd_dungeons = ds, qd_roles = roles,
      qd_bestCompatible = ''''\<rparr>"

text \<open>\<^verbatim>\<open>QueueDataStore[guid]\<close>, which stores a default entry when there is none.\<close>

definition queue_at :: "lfg_env \<Rightarrow> guid \<Rightarrow> lfg_queue \<Rightarrow> queue_data \<times> lfg_queue" where
  "queue_at env g q =
     (case om_find g (QueueDataStore q) of
        Some d \<Rightarrow> (d, q)
      | None \<Rightarrow>
          let d = LfgQueueData_default env
          in (d, q\<lparr>QueueDataStore := om_put g d (QueueDataStore q)\<rparr>))"

definition bar_count :: "string \<Rightarrow> uint8" where
  "bar_count s = of_nat (length (filter (\<lambda>ch. ch = CHR 0x7C) s)) + 1"

definition take_slot :: "uint8 \<Rightarrow> queue_data \<Rightarrow> queue_data" where
  "take_slot role d =
     (if role AND PLAYER_ROLE_TANK \<noteq> 0 then d\<lparr>qd_tanks := qd_tanks d - 1\<rparr>
      else if role AND PLAYER_ROLE_HEALER \<noteq> 0 then d\<lparr>qd_healers := qd_healers d - 1\<rparr>
      else d\<lparr>qd_dps := qd_dps d - 1\<rparr>)"

definition UpdateBestCompatibleInQueue :: "lfg_env \<Rightarrow> string \<Rightarrow> roles_map \<Rightarrow> queue_data \<Rightarrow> queue_data" where
  "UpdateBestCompatibleInQueue env key roles d =
     (let storedSize = (if qd_bestCompatible d = '''' then 0 else bar_count (qd_bestCompatible d))
      in if bar_count key \<le> storedSize then d
         else fold (\<lambda>e. take_slot (snd e)) roles (InitializeGroupSetup env (d\<lparr>qd_bestCompatible := key\<rparr>)))"

text \<open>Over the cache in the order of its keys.\<close>

definition FindBestCompatibleInQueue :: "lfg_env \<Rightarrow> guid \<Rightarrow> lfg_queue \<Rightarrow> queue_data \<Rightarrow> queue_data" where
  "FindBestCompatibleInQueue env g q d =
     fold (\<lambda>(key, cd) d.
        if cd_compatibility cd = LFG_COMPATIBLES_WITH_LESS_PLAYERS \<and> str_contains (show_guid g) key
        then UpdateBestCompatibleInQueue env key (cd_roles cd) d else d)
      (CompatibleMapStore q) d"

section \<open>The queues and the cache\<close>

definition AddToNewQueue :: "guid \<Rightarrow> lfg_queue \<Rightarrow> lfg_queue" where
  "AddToNewQueue g q = q\<lparr>newToQueueStore := newToQueueStore q @ [g]\<rparr>"

definition RemoveFromNewQueue :: "guid \<Rightarrow> lfg_queue \<Rightarrow> lfg_queue" where
  "RemoveFromNewQueue g q = q\<lparr>newToQueueStore := removeAll g (newToQueueStore q)\<rparr>"

definition AddToCurrentQueue :: "guid \<Rightarrow> lfg_queue \<Rightarrow> lfg_queue" where
  "AddToCurrentQueue g q = q\<lparr>currentQueueStore := currentQueueStore q @ [g]\<rparr>"

definition AddToFrontCurrentQueue :: "guid \<Rightarrow> lfg_queue \<Rightarrow> lfg_queue" where
  "AddToFrontCurrentQueue g q = q\<lparr>currentQueueStore := g # currentQueueStore q\<rparr>"

definition RemoveFromCurrentQueue :: "guid \<Rightarrow> lfg_queue \<Rightarrow> lfg_queue" where
  "RemoveFromCurrentQueue g q = q\<lparr>currentQueueStore := removeAll g (currentQueueStore q)\<rparr>"

definition AddToQueue :: "guid \<Rightarrow> bool \<Rightarrow> lfg_queue \<Rightarrow> lfg_queue" where
  "AddToQueue g reAdd q =
     (if om_find g (QueueDataStore q) = None then q
      else if reAdd then AddToFrontCurrentQueue g q
      else AddToNewQueue g q)"

definition RemoveFromCompatibles :: "guid \<Rightarrow> lfg_queue \<Rightarrow> lfg_queue" where
  "RemoveFromCompatibles g q =
     q\<lparr>CompatibleMapStore := filter (\<lambda>e. \<not> str_contains (show_guid g) (fst e)) (CompatibleMapStore q)\<rparr>"

definition SetCompatibles :: "string \<Rightarrow> lfg_compat \<Rightarrow> lfg_queue \<Rightarrow> lfg_queue" where
  "SetCompatibles key c q =
     (let d = (case om_find key (CompatibleMapStore q) of
                 None \<Rightarrow> \<lparr>cd_compatibility = LFG_COMPATIBILITY_PENDING, cd_roles = []\<rparr> | Some d \<Rightarrow> d)
      in q\<lparr>CompatibleMapStore := om_put key (d\<lparr>cd_compatibility := c\<rparr>) (CompatibleMapStore q)\<rparr>)"

definition SetCompatibilityData :: "string \<Rightarrow> compat_data \<Rightarrow> lfg_queue \<Rightarrow> lfg_queue" where
  "SetCompatibilityData key d q = q\<lparr>CompatibleMapStore := om_put key d (CompatibleMapStore q)\<rparr>"

definition GetCompatibles :: "string \<Rightarrow> lfg_queue \<Rightarrow> lfg_compat" where
  "GetCompatibles key q =
     (case om_find key (CompatibleMapStore q) of None \<Rightarrow> LFG_COMPATIBILITY_PENDING | Some d \<Rightarrow> cd_compatibility d)"

definition RemoveFromQueue :: "lfg_env \<Rightarrow> guid \<Rightarrow> lfg_queue \<Rightarrow> lfg_queue" where
  "RemoveFromQueue env g q =
     (let q1 = RemoveFromCompatibles g (RemoveFromCurrentQueue g (RemoveFromNewQueue g q))
      in q1\<lparr>QueueDataStore := om_erase g
           (map (\<lambda>(k, d).
               (k, if k \<noteq> g \<and> str_contains (show_guid g) (qd_bestCompatible d)
                   then FindBestCompatibleInQueue env k q1 (d\<lparr>qd_bestCompatible := ''''\<rparr>) else d))
             (QueueDataStore q1))\<rparr>)"

definition AddQueueData :: "lfg_env \<Rightarrow> guid \<Rightarrow> int \<Rightarrow> uint32 set \<Rightarrow> roles_map \<Rightarrow> lfg_queue \<Rightarrow> lfg_queue" where
  "AddQueueData env g t ds roles q =
     AddToQueue g False (q\<lparr>QueueDataStore := om_put g (LfgQueueData env t ds roles) (QueueDataStore q)\<rparr>)"

definition RemoveQueueData :: "guid \<Rightarrow> lfg_queue \<Rightarrow> lfg_queue" where
  "RemoveQueueData g q = q\<lparr>QueueDataStore := om_erase g (QueueDataStore q)\<rparr>"

definition GetJoinTime :: "guid \<Rightarrow> lfg_queue \<Rightarrow> int" where
  "GetJoinTime g q = (case om_find g (QueueDataStore q) of None \<Rightarrow> 0 | Some d \<Rightarrow> qd_joinTime d)"

section \<open>Wait times\<close>

text \<open>The product, the sum and the quotient are of unsigned 32-bit numbers.\<close>

definition wait_default :: wait_time where
  "wait_default = \<lparr>wt_time = - 1, wt_number = 0\<rparr>"

definition wait_at :: "(uint32 \<Rightarrow> wait_time option) \<Rightarrow> uint32 \<Rightarrow> wait_time" where
  "wait_at m d = (case m d of None \<Rightarrow> wait_default | Some wt \<Rightarrow> wt)"

definition update_wait :: "uint32 \<Rightarrow> wait_time \<Rightarrow> wait_time" where
  "update_wait waitTime wt =
     (let n = wt_number wt + 1
      in \<lparr>wt_time = (wt_time wt * wt_number wt + waitTime) div n, wt_number = n\<rparr>)"

definition UpdateWaitTimeAvg :: "uint32 \<Rightarrow> uint32 \<Rightarrow> lfg_queue \<Rightarrow> lfg_queue" where
  "UpdateWaitTimeAvg t d q =
     q\<lparr>waitTimesAvgStore := (waitTimesAvgStore q)(d \<mapsto> update_wait t (wait_at (waitTimesAvgStore q) d))\<rparr>"

definition UpdateWaitTimeTank :: "uint32 \<Rightarrow> uint32 \<Rightarrow> lfg_queue \<Rightarrow> lfg_queue" where
  "UpdateWaitTimeTank t d q =
     q\<lparr>waitTimesTankStore := (waitTimesTankStore q)(d \<mapsto> update_wait t (wait_at (waitTimesTankStore q) d))\<rparr>"

definition UpdateWaitTimeHealer :: "uint32 \<Rightarrow> uint32 \<Rightarrow> lfg_queue \<Rightarrow> lfg_queue" where
  "UpdateWaitTimeHealer t d q =
     q\<lparr>waitTimesHealerStore := (waitTimesHealerStore q)(d \<mapsto> update_wait t (wait_at (waitTimesHealerStore q) d))\<rparr>"

definition UpdateWaitTimeDps :: "uint32 \<Rightarrow> uint32 \<Rightarrow> lfg_queue \<Rightarrow> lfg_queue" where
  "UpdateWaitTimeDps t d q =
     q\<lparr>waitTimesDpsStore := (waitTimesDpsStore q)(d \<mapsto> update_wait t (wait_at (waitTimesDpsStore q) d))\<rparr>"

section \<open>Compatibility of queue entries\<close>

text \<open>The dungeons common to all entries; each is read with \<^verbatim>\<open>operator[]\<close>.\<close>

fun common_dungeons :: "lfg_env \<Rightarrow> guid list \<Rightarrow> uint32 set \<Rightarrow> lfg_queue \<Rightarrow> uint32 set \<times> lfg_queue" where
  "common_dungeons env [] acc q = (acc, q)"
| "common_dungeons env (g # gs) acc q =
     (let (d, q1) = queue_at env g q in common_dungeons env gs (acc \<inter> qd_dungeons d) q1)"

definition proposal_dungeons :: "lfg_env \<Rightarrow> guid list \<Rightarrow> lfg_queue \<Rightarrow> uint32 set \<times> lfg_queue" where
  "proposal_dungeons env check q =
     (let (d, q1) = queue_at env (hd check) q in common_dungeons env (tl check) (qd_dungeons d) q1)"

text \<open>Draw dungeons until one is known; the list is the set in its order.\<close>

function pick_dungeon :: "lfg_env \<Rightarrow> uint32 list \<Rightarrow> nat \<Rightarrow> (uint32 \<times> lfg_dungeon) option \<times> nat" where
  "pick_dungeon env [] n = (None, n)"
| "pick_dungeon env (d # ds) n =
     (let x = (d # ds) ! (random env n mod Suc (length ds))
      in case GetLFGDungeon env x of
           Some dg \<Rightarrow> (Some (x, dg), Suc n)
         | None \<Rightarrow> pick_dungeon env (remove1 x (d # ds)) (Suc n))"
  by pat_completeness auto

termination
proof (relation "measure (\<lambda>(env, ds, n). length ds)", goal_cases)
  case (2 env d ds n x)
  then have "x \<in> set (d # ds)" using nth_mem [of "random env n mod Suc (length ds)" "d # ds"] by simp
  then show ?case by (simp add: length_remove1 del: remove1.simps)
qed simp

record player_count =
  pc_players :: uint8
  pc_groups :: uint8
  pc_map :: "(guid, guid) omap"
  pc_group :: guid

text \<open>Counting players and groups of the dungeon finder. The loop stops at the first such group or
  when there are more players than fit. \<open>Inl\<close> is an entry without queue data.\<close>

fun count_players :: "lfg_env \<Rightarrow> uint32 \<Rightarrow> lfg_queue \<Rightarrow> guid list \<Rightarrow> player_count \<Rightarrow> guid + player_count" where
  "count_players env maxSize q [] pc = Inr pc"
| "count_players env maxSize q (g # gs) pc =
     (if \<not> (pc_groups pc < 1 \<and> ucast (pc_players pc) \<le> maxSize) then Inr pc
      else case om_find g (QueueDataStore q) of
        None \<Rightarrow> Inl g
      | Some d \<Rightarrow>
          let m = fold (\<lambda>e. om_put (fst e) (if IsGroup g then g else 0)) (qd_roles d) (pc_map pc);
              pc1 = pc\<lparr>pc_map := m, pc_players := pc_players pc + of_nat (length (qd_roles d))\<rparr>
          in count_players env maxSize q gs
               (if IsLfgGroup env g
                then pc1\<lparr>pc_group := (if pc_groups pc1 = 0 then g else pc_group pc1), pc_groups := pc_groups pc1 + 1\<rparr>
                else pc1))"

text \<open>A player joins the proposal unless it ignores, or is ignored by, a player already in it.\<close>

definition join_roles :: "lfg_env \<Rightarrow> guid \<times> uint8 \<Rightarrow> roles_map \<Rightarrow> roles_map" where
  "join_roles env e acc =
     (if list_ex (\<lambda>k. k \<noteq> fst e \<and> HasIgnore env (fst e) k) (om_keys acc) then acc
      else om_put (fst e) (snd e) acc)"

fun merge_roles :: "lfg_env \<Rightarrow> guid list \<Rightarrow> roles_map \<Rightarrow> lfg_queue \<Rightarrow> roles_map \<times> lfg_queue" where
  "merge_roles env [] acc q = (acc, q)"
| "merge_roles env (g # gs) acc q =
     (let (d, q1) = queue_at env g q in merge_roles env gs (fold (join_roles env) (qd_roles d) acc) q1)"

text \<open>\<^verbatim>\<open>urand(0, 1)\<close>\<close>

definition coin :: "lfg_env \<Rightarrow> nat \<Rightarrow> bool" where
  "coin env n \<longleftrightarrow> random env n mod 2 = 1"

text \<open>The leader: preferably a player who selected the leader role, otherwise any, at random.\<close>

fun pick_leader :: "lfg_env \<Rightarrow> roles_map \<Rightarrow> bool \<Rightarrow> guid \<Rightarrow> nat \<Rightarrow> guid \<times> nat" where
  "pick_leader env [] leader cur n = (cur, n)"
| "pick_leader env ((g, role) # es) leader cur n =
     (if role AND PLAYER_ROLE_LEADER \<noteq> 0 then
        if \<not> leader \<or> cur = 0 then pick_leader env es True g n
        else pick_leader env es True (if coin env n then g else cur) (Suc n)
      else if \<not> leader then
        if cur = 0 then pick_leader env es leader g n
        else pick_leader env es leader (if coin env n then g else cur) (Suc n)
      else pick_leader env es leader cur n)"

definition proposal_players :: "bool \<Rightarrow> guid \<Rightarrow> (guid, guid) omap \<Rightarrow> roles_map \<Rightarrow> (guid, proposal_player) omap" where
  "proposal_players isNew grp groups roles =
     map (\<lambda>(g, role).
       let pg = om_find g groups
       in (g, \<lparr>pp_role = role,
               pp_accept = (if \<not> isNew \<and> pg \<noteq> None \<and> pg \<noteq> Some 0 \<and> pg = Some grp then LFG_ANSWER_AGREE else LFG_ANSWER_PENDING),
               pp_group = pg\<rparr>)) roles"

definition LFG_TIME_PROPOSAL :: int where "LFG_TIME_PROPOSAL = 45"

text \<open>The last part: everybody fits; make the proposal or record why not.\<close>

definition make_proposal ::
  "lfg_env \<Rightarrow> guid list \<Rightarrow> uint32 \<Rightarrow> player_count \<Rightarrow> roles_map \<Rightarrow> lfg_queue \<Rightarrow> lfg_compat \<times> lfg_queue" where
  "make_proposal env check dungeonId pc roles q =
     (let key = ConcatenateGuids check;
          isNew = (pc_groups pc \<noteq> 1 \<or> GetOldState env (hd check) \<noteq> LFG_STATE_DUNGEON)
      in if \<not> AllQueued env check
         then (LFG_COMPATIBLES_BAD_STATES, SetCompatibles key LFG_COMPATIBLES_BAD_STATES q)
         else
           let (leader, n) = pick_leader env roles False 0 (draws q);
               p = \<lparr>lp_dungeonId = dungeonId, lp_group = pc_group pc, lp_leader = leader,
                    lp_cancelTime = GameTime env + LFG_TIME_PROPOSAL, lp_isNew = isNew, lp_queues = check,
                    lp_players = proposal_players isNew (pc_group pc) (pc_map pc) roles\<rparr>;
               q1 = fold (\<lambda>g q. RemoveFromCurrentQueue g (RemoveFromNewQueue g q)) check (q\<lparr>draws := n\<rparr>)
           in (LFG_COMPATIBLES_MATCH,
               SetCompatibles key LFG_COMPATIBLES_MATCH (q1\<lparr>proposals := proposals q1 @ [p]\<rparr>)))"

text \<open>Enough players, or the best that there is so far.\<close>

definition finish_check ::
  "lfg_env \<Rightarrow> guid list \<Rightarrow> uint32 \<Rightarrow> lfg_dungeon \<Rightarrow> player_count \<Rightarrow> roles_map \<Rightarrow> lfg_queue \<Rightarrow> lfg_compat \<times> lfg_queue" where
  "finish_check env check dungeonId dg pc roles q =
     (if ucast (pc_players pc) \<noteq> GetMaxGroupSize dg then
        let key = ConcatenateGuids check;
            q1 = fold (\<lambda>g q. q\<lparr>QueueDataStore := om_modify g (UpdateBestCompatibleInQueue env key roles) (QueueDataStore q)\<rparr>) check q
        in (LFG_COMPATIBLES_WITH_LESS_PLAYERS,
            SetCompatibilityData key \<lparr>cd_compatibility = LFG_COMPATIBLES_WITH_LESS_PLAYERS, cd_roles = roles\<rparr> q1)
      else make_proposal env check dungeonId pc roles q)"

definition check_players ::
  "lfg_env \<Rightarrow> guid list \<Rightarrow> uint32 \<Rightarrow> lfg_dungeon \<Rightarrow> player_count \<Rightarrow> lfg_queue \<Rightarrow> lfg_compat \<times> lfg_queue" where
  "check_players env check dungeonId dg pc q =
     (let key = ConcatenateGuids check in
      if 1 < pc_groups pc
      then (LFG_INCOMPATIBLES_MULTIPLE_LFG_GROUPS, SetCompatibles key LFG_INCOMPATIBLES_MULTIPLE_LFG_GROUPS q)
      else if GetMaxGroupSize dg < ucast (pc_players pc)
      then (LFG_INCOMPATIBLES_TOO_MUCH_PLAYERS, SetCompatibles key LFG_INCOMPATIBLES_TOO_MUCH_PLAYERS q)
      else if 1 < length check then
        let (roles, q1) = merge_roles env check [] q in
        if pc_players pc - of_nat (length roles) \<noteq> 0
        then (LFG_INCOMPATIBLES_HAS_IGNORES, SetCompatibles key LFG_INCOMPATIBLES_HAS_IGNORES q1)
        else
          let (ok, roles') = CheckGroupRoles dg roles in
          if \<not> ok then (LFG_INCOMPATIBLES_NO_ROLES, SetCompatibles key LFG_INCOMPATIBLES_NO_ROLES q1)
          else finish_check env check dungeonId dg pc roles' q1
      else
        let (d, q1) = queue_at env (hd check) q
        in finish_check env check dungeonId dg pc (snd (CheckGroupRoles dg (qd_roles d))) q1)"

text \<open>The checks of one set of entries, after those of the set without the first.\<close>

definition check_set :: "lfg_env \<Rightarrow> guid list \<Rightarrow> lfg_queue \<Rightarrow> lfg_compat \<times> lfg_queue" where
  "check_set env check q =
     (let key = ConcatenateGuids check;
          (ds, q1) = proposal_dungeons env check q;
          (picked, n) = pick_dungeon env (sorted_list_of_set ds) (draws q1);
          q2 = q1\<lparr>draws := n\<rparr>
      in case picked of
           None \<Rightarrow> (LFG_INCOMPATIBLES_NO_DUNGEONS, SetCompatibles key LFG_INCOMPATIBLES_NO_DUNGEONS q2)
         | Some (dungeonId, dg) \<Rightarrow>
             if unat (GetMaxGroupSize dg) < length check then (LFG_INCOMPATIBLES_WRONG_GROUP_SIZE, q2)
             else
               case count_players env (GetMaxGroupSize dg) q2 check \<lparr>pc_players = 0, pc_groups = 0, pc_map = [], pc_group = 0\<rparr> of
                 Inl g \<Rightarrow> (LFG_COMPATIBILITY_PENDING, RemoveFromQueue env g q2)
               | Inr pc \<Rightarrow> check_players env check dungeonId dg pc q2)"

fun CheckCompatibility :: "lfg_env \<Rightarrow> guid list \<Rightarrow> lfg_queue \<Rightarrow> lfg_compat \<times> lfg_queue" where
  "CheckCompatibility env [] q = (LFG_INCOMPATIBLES_WRONG_GROUP_SIZE, q)"
| "CheckCompatibility env (g # rest) q =
     (if 2 < length (g # rest) then
        let (child, q1) = CheckCompatibility env rest q in
        if child < LFG_COMPATIBLES_WITH_LESS_PLAYERS
        then (child, SetCompatibles (ConcatenateGuids (g # rest)) child q1)
        else check_set env (g # rest) q1
      else check_set env (g # rest) q)"

section \<open>Searching for groups\<close>

text \<open>The first part of \<^verbatim>\<open>FindNewGroups\<close>: the cached or new result for the set.\<close>

definition group_state :: "lfg_env \<Rightarrow> guid list \<Rightarrow> lfg_queue \<Rightarrow> lfg_compat \<times> lfg_queue" where
  "group_state env check q =
     (let key = ConcatenateGuids check;
          cached = GetCompatibles key q;
          (c, q1) = (if cached = LFG_COMPATIBILITY_PENDING then CheckCompatibility env check q else (cached, q))
      in if c = LFG_COMPATIBLES_BAD_STATES \<and> AllQueued env check
         then (LFG_COMPATIBLES_MATCH, SetCompatibles key LFG_COMPATIBLES_MATCH q1)
         else (c, q1))"

text \<open>The loop over the entries left in \<open>all\<close>, which the recursive call shares and uses up. The
  second component of the result is what is left of it.\<close>

function find_loop :: "lfg_env \<Rightarrow> guid list \<Rightarrow> guid list \<Rightarrow> lfg_queue \<Rightarrow> lfg_compat \<times> guid list \<times> lfg_queue" where
  "find_loop env check [] q = (LFG_COMPATIBLES_WITH_LESS_PLAYERS, [], q)"
| "find_loop env check (a # all) q =
     (let (c, q1) = group_state env (check @ [a]) q;
          (sub, all', q2) =
            (if c = LFG_COMPATIBLES_WITH_LESS_PLAYERS then find_loop env (check @ [a]) all q1 else (c, all, q1))
      in if sub = LFG_COMPATIBLES_MATCH then (LFG_COMPATIBLES_MATCH, all', q2)
         else find_loop env check all' q2)"
  by pat_completeness auto

lemma find_loop_rest:
  "find_loop_dom (env, check, all, q) \<Longrightarrow> length (fst (snd (find_loop env check all q))) \<le> length all"
proof (induction env check all q rule: find_loop.pinduct)
  case (2 env check a all q)
  obtain c q1 where g: "group_state env (check @ [a]) q = (c, q1)" by (cases "group_state env (check @ [a]) q")
  obtain sub all' q2 where f:
    "(if c = LFG_COMPATIBLES_WITH_LESS_PLAYERS then find_loop env (check @ [a]) all q1 else (c, all, q1)) = (sub, all', q2)"
    by (metis prod_cases3)
  have 1: "length all' \<le> length all"
    using 2(2) [OF g [symmetric] refl] f by (auto split: if_splits)
  have "length (fst (snd (find_loop env check all' q2))) \<le> length all'" if "sub \<noteq> LFG_COMPATIBLES_MATCH"
    using 2(3) [OF g [symmetric] refl f [symmetric] refl refl that] .
  with 1 show ?case
    using find_loop.psimps(2) [OF 2(1)] g f by (cases "sub = LFG_COMPATIBLES_MATCH") (auto simp: Let_def)
qed (simp add: find_loop.psimps)

termination find_loop
proof (relation "measure (\<lambda>(env, check, all, q). length all)", goal_cases)
  case (3 env check a all q p c q1 p' sub p'' all' q2)
  then have "length all' \<le> length all"
    using find_loop_rest [of env "check @ [a]" all q1] by (cases "c = LFG_COMPATIBLES_WITH_LESS_PLAYERS") (metis fst_conv snd_conv, simp)
  then show ?case by simp
qed auto

definition FindNewGroups :: "lfg_env \<Rightarrow> guid list \<Rightarrow> guid list \<Rightarrow> lfg_queue \<Rightarrow> lfg_compat \<times> guid list \<times> lfg_queue" where
  "FindNewGroups env check all q =
     (let (c, q1) = group_state env check q
      in if c \<noteq> LFG_COMPATIBLES_WITH_LESS_PLAYERS then (c, all, q1) else find_loop env check all q1)"

section \<open>No operation of the search adds to the queues\<close>

text \<open>\<open>q'\<close> has at most the waiting entries of \<open>q\<close>, and its proposals are those of \<open>q\<close> and new ones.\<close>

definition narrows :: "lfg_queue \<Rightarrow> lfg_queue \<Rightarrow> bool" where
  "narrows q q' \<longleftrightarrow> length (newToQueueStore q') \<le> length (newToQueueStore q)
     \<and> set (newToQueueStore q') \<subseteq> set (newToQueueStore q) \<and> set (currentQueueStore q') \<subseteq> set (currentQueueStore q)
     \<and> (\<exists>ps. proposals q' = proposals q @ ps)"

lemma narrows_refl [simp, intro]: "narrows q q"
  by (simp add: narrows_def)

lemma narrows_trans [trans]: "narrows q q' \<Longrightarrow> narrows q' q'' \<Longrightarrow> narrows q q''"
  by (fastforce simp: narrows_def)

lemma narrows_step [simp]:
  "narrows q q' \<Longrightarrow> narrows q (q'\<lparr>QueueDataStore := m\<rparr>)" "narrows q q' \<Longrightarrow> narrows q (q'\<lparr>draws := n\<rparr>)"
  "narrows q q' \<Longrightarrow> narrows q (SetCompatibles key c q')" "narrows q q' \<Longrightarrow> narrows q (SetCompatibilityData key d q')"
  "narrows q q' \<Longrightarrow> narrows q (RemoveFromNewQueue g q')" "narrows q q' \<Longrightarrow> narrows q (RemoveFromCurrentQueue g q')"
  "narrows q q' \<Longrightarrow> narrows q (q'\<lparr>proposals := proposals q' @ [p]\<rparr>)" "narrows q q' \<Longrightarrow> narrows q (RemoveFromCompatibles g q')"
  by (auto simp: narrows_def SetCompatibles_def SetCompatibilityData_def RemoveFromNewQueue_def RemoveFromCompatibles_def
      RemoveFromCurrentQueue_def Let_def intro: order.trans [OF length_removeAll_less_eq] split: option.splits)

lemma queue_at_narrows: "narrows q (snd (queue_at env g q))"
  by (auto simp: queue_at_def Let_def split: option.splits)

lemma common_dungeons_narrows: "narrows q (snd (common_dungeons env gs acc q))"
proof (induction gs arbitrary: acc q)
  case (Cons g gs)
  then show ?case using narrows_trans [OF queue_at_narrows [of q env g]] by (simp add: Let_def split_beta)
qed simp

lemma proposal_dungeons_narrows: "narrows q (snd (proposal_dungeons env check q))"
  using narrows_trans [OF queue_at_narrows common_dungeons_narrows]
  by (simp add: proposal_dungeons_def Let_def split_beta)

lemma merge_roles_narrows: "narrows q (snd (merge_roles env gs acc q))"
proof (induction gs arbitrary: acc q)
  case (Cons g gs)
  then show ?case using narrows_trans [OF queue_at_narrows [of q env g]] by (simp add: Let_def split_beta)
qed simp

lemma RemoveFromQueue_narrows: "narrows q (RemoveFromQueue env g q)"
  by (simp add: RemoveFromQueue_def Let_def)

lemma remove_all_narrows:
  "narrows q q' \<Longrightarrow> narrows q (fold (\<lambda>g q. RemoveFromCurrentQueue g (RemoveFromNewQueue g q)) gs q')"
  by (induction gs arbitrary: q') simp_all

lemma update_all_narrows:
  "narrows q q' \<Longrightarrow> narrows q (fold (\<lambda>g q. q\<lparr>QueueDataStore := om_modify g f (QueueDataStore q)\<rparr>) gs q')"
  by (induction gs arbitrary: q') simp_all

lemma make_proposal_narrows: "narrows q (snd (make_proposal env check dungeonId pc roles q))"
  by (simp add: make_proposal_def Let_def split_beta remove_all_narrows)

lemma finish_check_narrows: "narrows q (snd (finish_check env check dungeonId dg pc roles q))"
  by (simp add: finish_check_def Let_def update_all_narrows make_proposal_narrows)

lemma check_players_narrows: "narrows q (snd (check_players env check dungeonId dg pc q))"
  using narrows_trans [OF merge_roles_narrows finish_check_narrows] narrows_trans [OF queue_at_narrows finish_check_narrows]
  by (simp add: check_players_def Let_def split_beta merge_roles_narrows)

lemma check_set_narrows: "narrows q (snd (check_set env check q))"
proof -
  have 1: "narrows q (snd (proposal_dungeons env check q))" by (rule proposal_dungeons_narrows)
  have 2: "narrows q (RemoveFromQueue env g (snd (proposal_dungeons env check q)\<lparr>draws := n\<rparr>))" for g n
    by (rule narrows_trans [OF _ RemoveFromQueue_narrows]) (simp add: 1)
  have 3: "narrows q (snd (check_players env check d dg pc (snd (proposal_dungeons env check q)\<lparr>draws := n\<rparr>)))" for d dg pc n
    by (rule narrows_trans [OF _ check_players_narrows]) (simp add: 1)
  show ?thesis
    by (simp add: check_set_def Let_def split_beta 1 2 3 split: option.split sum.split)
qed

lemma CheckCompatibility_narrows: "narrows q (snd (CheckCompatibility env check q))"
proof (induction check)
  case (Cons g rest)
  then show ?case using narrows_trans [OF Cons check_set_narrows]
    by (simp add: Let_def split_beta check_set_narrows)
qed simp

lemma group_state_narrows: "narrows q (snd (group_state env check q))"
  by (simp add: group_state_def Let_def split_beta CheckCompatibility_narrows)

lemma find_loop_narrows: "narrows q (snd (snd (find_loop env check all q)))"
proof (induction env check all q rule: find_loop.induct)
  case (2 env check a all q)
  obtain c q1 where g: "group_state env (check @ [a]) q = (c, q1)" by (cases "group_state env (check @ [a]) q")
  obtain sub all' q2 where f:
    "(if c = LFG_COMPATIBLES_WITH_LESS_PLAYERS then find_loop env (check @ [a]) all q1 else (c, all, q1)) = (sub, all', q2)"
    by (metis prod_cases3)
  have "narrows q q1" using group_state_narrows [of q env "check @ [a]"] g by simp
  moreover have "narrows q1 q2" using 2(1) [OF g [symmetric] refl] f by (auto split: if_splits)
  ultimately have q2: "narrows q q2" by (rule narrows_trans)
  have "narrows q2 (snd (snd (find_loop env check all' q2)))" if "sub \<noteq> LFG_COMPATIBLES_MATCH"
    using 2(2) [OF g [symmetric] refl f [symmetric] refl refl that] .
  then show ?case using q2 narrows_trans [OF q2] g f by (auto simp: Let_def)
qed simp

lemma FindNewGroups_narrows: "narrows q (snd (snd (FindNewGroups env check all q)))"
  using group_state_narrows [of q env check] narrows_trans [OF group_state_narrows find_loop_narrows]
  by (simp add: FindNewGroups_def Let_def split_beta)

function FindGroups_loop :: "lfg_env \<Rightarrow> uint8 \<Rightarrow> lfg_queue \<Rightarrow> uint8 \<times> lfg_queue" where
  "FindGroups_loop env count q =
     (case newToQueueStore q of
        [] \<Rightarrow> (count, q)
      | g # _ \<Rightarrow>
          let q1 = RemoveFromNewQueue g q;
              (c, _, q2) = FindNewGroups env [g] (currentQueueStore q1) q1
          in if c = LFG_COMPATIBLES_MATCH then FindGroups_loop env (count + 1) q2
             else FindGroups_loop env count (AddToCurrentQueue g q2))"
  by pat_completeness auto

lemma search_front_shrinks:
  assumes "newToQueueStore q = g # gs" "FindNewGroups env [g] all (RemoveFromNewQueue g q) = (c, r, q2)"
  shows "length (newToQueueStore q2) < length (newToQueueStore q)"
proof -
  have "length (newToQueueStore q2) \<le> length (newToQueueStore (RemoveFromNewQueue g q))"
    using FindNewGroups_narrows [of "RemoveFromNewQueue g q" env "[g]" all] assms(2) by (simp add: narrows_def)
  also have "\<dots> < length (newToQueueStore q)"
    using assms(1) length_removeAll_less_eq [of g gs] by (simp add: RemoveFromNewQueue_def less_Suc_eq_le)
  finally show ?thesis .
qed

termination FindGroups_loop
proof (relation "measure (\<lambda>(env, count, q). length (newToQueueStore q))", goal_cases)
  case (2 env count q g gs q1 p c p' r q2)
  then show ?case using search_front_shrinks [of q g gs env "currentQueueStore q1" c r q2] by simp
next
  case (3 env count q g gs q1 p c p' r q2)
  then show ?case using search_front_shrinks [of q g gs env "currentQueueStore q1" c r q2]
    by (simp add: AddToCurrentQueue_def)
qed simp

definition FindGroups :: "lfg_env \<Rightarrow> lfg_queue \<Rightarrow> uint8 \<times> lfg_queue" where
  "FindGroups env q = FindGroups_loop env 0 q"

section \<open>Queue timers\<close>

record role_numbers =
  currentDps :: uint32
  currentHealers :: uint32
  currentTanks :: uint32

record queue_status =
  qs_queueId :: uint8
  qs_dungeonId :: uint32
  qs_waitTime :: uint32
  qs_waitTimeAvg :: uint32
  qs_waitTimeTank :: uint32
  qs_waitTimeHealer :: uint32
  qs_waitTimeDps :: uint32
  qs_queuedTime :: uint32
  qs_tanks :: uint8
  qs_healers :: uint8
  qs_dps :: uint8

definition numbers_at :: "(uint32 \<Rightarrow> role_numbers option) \<Rightarrow> uint32 \<Rightarrow> role_numbers" where
  "numbers_at m d = (case m d of None \<Rightarrow> \<lparr>currentDps = 0, currentHealers = 0, currentTanks = 0\<rparr> | Some r \<Rightarrow> r)"

definition count_roles :: "uint8 \<Rightarrow> uint32 \<Rightarrow> (uint32 \<Rightarrow> role_numbers option) \<Rightarrow> uint32 \<Rightarrow> role_numbers option" where
  "count_roles role d m =
     (let m1 = (if role AND PLAYER_ROLE_TANK \<noteq> 0
                then m(d \<mapsto> (numbers_at m d)\<lparr>currentTanks := currentTanks (numbers_at m d) + 1\<rparr>) else m);
          m2 = (if role AND PLAYER_ROLE_HEALER \<noteq> 0
                then m1(d \<mapsto> (numbers_at m1 d)\<lparr>currentHealers := currentHealers (numbers_at m1 d) + 1\<rparr>) else m1)
      in if role AND PLAYER_ROLE_DAMAGE \<noteq> 0
         then m2(d \<mapsto> (numbers_at m2 d)\<lparr>currentDps := currentDps (numbers_at m2 d) + 1\<rparr>) else m2)"

definition entry_role :: "queue_data \<Rightarrow> uint8" where
  "entry_role d = fold (\<lambda>e r. r OR snd e) (qd_roles d) 0 AND NOT PLAYER_ROLE_LEADER"

text \<open>One entry: \<open>None\<close> when it has no dungeon and the code reads the first element of the empty set.\<close>

definition update_timer ::
  "lfg_env \<Rightarrow> uint8 \<Rightarrow> int \<Rightarrow> lfg_queue \<Rightarrow> guid \<Rightarrow> queue_data \<Rightarrow> (queue_data \<times> queue_status) option" where
  "update_timer env queueId currTime q g d =
     (if qd_dungeons d = {} then None
      else
        let dungeonId = Min (qd_dungeons d);
            role = entry_role d;
            wtTank = wt_time (wait_at (waitTimesTankStore q) dungeonId);
            wtHealer = wt_time (wait_at (waitTimesHealerStore q) dungeonId);
            wtDps = wt_time (wait_at (waitTimesDpsStore q) dungeonId);
            wtAvg = wt_time (wait_at (waitTimesAvgStore q) dungeonId);
            waitTime = (if role = 0 then - 1 else if role = PLAYER_ROLE_TANK then wtTank
                        else if role = PLAYER_ROLE_HEALER then wtHealer
                        else if role = PLAYER_ROLE_DAMAGE then wtDps else wtAvg);
            d1 = (if qd_bestCompatible d = '''' then FindBestCompatibleInQueue env g q d else d)
        in Some (d1, \<lparr>qs_queueId = queueId, qs_dungeonId = dungeonId, qs_waitTime = waitTime, qs_waitTimeAvg = wtAvg,
             qs_waitTimeTank = wtTank, qs_waitTimeHealer = wtHealer, qs_waitTimeDps = wtDps,
             qs_queuedTime = word_of_int (currTime - qd_joinTime d),
             qs_tanks = qd_tanks d1, qs_healers = qd_healers d1, qs_dps = qd_dps d1\<rparr>))"

text \<open>The whole pass: the numbers of waiting roles per dungeon, and a status for every player.\<close>

fun timer_loop ::
  "lfg_env \<Rightarrow> uint8 \<Rightarrow> int \<Rightarrow> lfg_queue \<Rightarrow> (guid, queue_data) omap \<Rightarrow> (uint32 \<Rightarrow> role_numbers option)
   \<Rightarrow> ((guid, queue_data) omap \<times> (uint32 \<Rightarrow> role_numbers option) \<times> (guid \<times> queue_status) list) option" where
  "timer_loop env queueId currTime q [] m = Some ([], m, [])"
| "timer_loop env queueId currTime q ((g, d) # es) m =
     (case update_timer env queueId currTime q g d of
        None \<Rightarrow> None
      | Some (d1, st) \<Rightarrow>
          (case timer_loop env queueId currTime q es (count_roles (entry_role d) (Min (qd_dungeons d)) m) of
             None \<Rightarrow> None
           | Some (es', m', sent) \<Rightarrow> Some ((g, d1) # es', m', map (\<lambda>e. (fst e, st)) (qd_roles d) @ sent)))"

definition UpdateQueueTimers ::
  "lfg_env \<Rightarrow> uint8 \<Rightarrow> int \<Rightarrow> (uint32 \<Rightarrow> role_numbers option) \<Rightarrow> lfg_queue
   \<Rightarrow> (lfg_queue \<times> (uint32 \<Rightarrow> role_numbers option) \<times> (guid \<times> queue_status) list) option" where
  "UpdateQueueTimers env queueId currTime m q =
     map_option (\<lambda>(es, m', sent). (q\<lparr>QueueDataStore := es\<rparr>, m', sent))
       (timer_loop env queueId currTime q (QueueDataStore q) m)"

end
