(* ===== verification/Lfg_Queue_Props.thy ===== *)
theory Lfg_Queue_Props
  imports Lfg_Queue
begin

text \<open>
  What the queue of the dungeon finder promises: a match is a full group for a dungeon everyone
  asked for, leaving the queue removes every trace, the search empties the list of new entries; and the
  inputs on which the code loses an entry or refuses a group it should match.
\<close>

section \<open>Leaving the queue\<close>

lemma show_digits_nonempty: "show_digits (Suc fuel) n \<noteq> ''''"
  by simp

lemma show_guid_nonempty [simp]: "show_guid g \<noteq> ''''"
  unfolding show_guid_def using show_digits_nonempty [of 19 "unat g"] by (simp add: numeral_eq_Suc)

lemma str_contains_empty [simp]: "\<not> str_contains (show_guid g) ''''"
  by simp

text \<open>What the search for the best set leaves alone.\<close>

definition same_request :: "queue_data \<Rightarrow> queue_data \<Rightarrow> bool" where
  "same_request d d' \<longleftrightarrow> qd_joinTime d' = qd_joinTime d \<and> qd_dungeons d' = qd_dungeons d \<and> qd_roles d' = qd_roles d"

lemma same_request_refl [simp, intro]: "same_request d d"
  by (simp add: same_request_def)

lemma same_request_trans [trans]: "same_request a b \<Longrightarrow> same_request b c \<Longrightarrow> same_request a c"
  by (simp add: same_request_def)

lemma setup_same [simp]:
  "qd_bestCompatible (InitializeGroupSetup env d) = qd_bestCompatible d" "same_request d (InitializeGroupSetup env d)"
  by (simp_all add: InitializeGroupSetup_def same_request_def split: option.split)

lemma slots_same [simp]:
  "qd_bestCompatible (fold (\<lambda>e. take_slot (snd e)) roles d) = qd_bestCompatible d"
  "same_request d' (fold (\<lambda>e. take_slot (snd e)) roles d) = same_request d' d"
  by (induction roles arbitrary: d) (simp_all add: take_slot_def same_request_def)

lemma update_best_same:
  "qd_bestCompatible (UpdateBestCompatibleInQueue env key roles d) \<in> {key, qd_bestCompatible d}"
  "same_request d (UpdateBestCompatibleInQueue env key roles d)"
proof -
  have "same_request d (InitializeGroupSetup env (d\<lparr>qd_bestCompatible := key\<rparr>))"
    using setup_same(2) [of "d\<lparr>qd_bestCompatible := key\<rparr>" env] by (simp add: same_request_def)
  then show "qd_bestCompatible (UpdateBestCompatibleInQueue env key roles d) \<in> {key, qd_bestCompatible d}"
    "same_request d (UpdateBestCompatibleInQueue env key roles d)"
    by (simp_all add: UpdateBestCompatibleInQueue_def Let_def)
qed

text \<open>The best set found for an entry is a key of the cache, or the one it had.\<close>

lemma fold_best:
  assumes "\<And>e d. qd_bestCompatible (F e d) \<in> {fst e, qd_bestCompatible d} \<and> same_request d (F e d)"
  shows "qd_bestCompatible (fold F m d) \<in> insert (qd_bestCompatible d) (fst ` set m) \<and> same_request d (fold F m d)"
proof (induction m arbitrary: d)
  case (Cons e m)
  have "same_request d (fold F m (F e d))"
    by (rule same_request_trans [of d "F e d"]) (use assms [of e d] Cons.IH [of "F e d"] in auto)
  then show ?case using conjunct1 [OF assms [of e d]] conjunct1 [OF Cons.IH [of "F e d"]]
    unfolding fold_simps list.set image_insert by (elim insertE) auto
qed simp

lemma find_best_same:
  "qd_bestCompatible (FindBestCompatibleInQueue env g q d) \<in> insert (qd_bestCompatible d) (fst ` set (CompatibleMapStore q))
   \<and> same_request d (FindBestCompatibleInQueue env g q d)"
  unfolding FindBestCompatibleInQueue_def
proof (rule fold_best)
  fix e :: "string \<times> compat_data" and d
  show "qd_bestCompatible ((case e of (key, cd) \<Rightarrow> \<lambda>d.
      if cd_compatibility cd = LFG_COMPATIBLES_WITH_LESS_PLAYERS \<and> str_contains (show_guid g) key
      then UpdateBestCompatibleInQueue env key (cd_roles cd) d else d) d) \<in> {fst e, qd_bestCompatible d} \<and>
    same_request d ((case e of (key, cd) \<Rightarrow> \<lambda>d.
      if cd_compatibility cd = LFG_COMPATIBLES_WITH_LESS_PLAYERS \<and> str_contains (show_guid g) key
      then UpdateBestCompatibleInQueue env key (cd_roles cd) d else d) d)"
    using update_best_same by (cases e) simp
qed

lemma om_find_map: "om_find k (map (\<lambda>(k, d). (k, h k d)) m) = map_option (h k) (om_find k m)"
  by (induction m) (auto simp: om_find_def)

text \<open>
  \<^bold>\<open>C22.\<close> After an entry left the queue nothing refers to it: it is in neither list, it has
  no queue data, no cached result and no best set of another entry mentions its number; and every
  other entry keeps its join time, dungeons and roles.
\<close>

theorem RemoveFromQueue_forgets:
  assumes "q' = RemoveFromQueue env g q"
  shows "g \<notin> set (newToQueueStore q') \<and> g \<notin> set (currentQueueStore q') \<and> om_find g (QueueDataStore q') = None
    \<and> (\<forall>key \<in> fst ` set (CompatibleMapStore q'). \<not> str_contains (show_guid g) key)
    \<and> (\<forall>k d'. om_find k (QueueDataStore q') = Some d' \<longrightarrow> \<not> str_contains (show_guid g) (qd_bestCompatible d'))
    \<and> (\<forall>k d. k \<noteq> g \<longrightarrow> om_find k (QueueDataStore q) = Some d \<longrightarrow>
         (\<exists>d'. om_find k (QueueDataStore q') = Some d' \<and> same_request d d'))"
proof -
  let ?q1 = "RemoveFromCompatibles g (RemoveFromCurrentQueue g (RemoveFromNewQueue g q))"
  define h where "h k d = (if k \<noteq> g \<and> str_contains (show_guid g) (qd_bestCompatible d)
               then FindBestCompatibleInQueue env k ?q1 (d\<lparr>qd_bestCompatible := ''''\<rparr>) else d)" for k d
  have sel: "QueueDataStore ?q1 = QueueDataStore q" "g \<notin> set (newToQueueStore ?q1)" "g \<notin> set (currentQueueStore ?q1)"
    by (simp_all add: RemoveFromCompatibles_def RemoveFromCurrentQueue_def RemoveFromNewQueue_def)
  have cache: "\<forall>key \<in> fst ` set (CompatibleMapStore ?q1). \<not> str_contains (show_guid g) key"
    by (auto simp: RemoveFromCompatibles_def)
  have at: "om_find k (QueueDataStore q') = (if k = g then None else map_option (h k) (om_find k (QueueDataStore q)))" for k
    by (simp add: assms RemoveFromQueue_def Let_def sel om_find_map flip: h_def)
  have h: "\<not> str_contains (show_guid g) (qd_bestCompatible (h k d)) \<and> same_request d (h k d)" if "k \<noteq> g" for k d
    using that cache find_best_same [of env k ?q1 "d\<lparr>qd_bestCompatible := ''''\<rparr>"] by (auto simp: h_def same_request_def)
  have "CompatibleMapStore q' = CompatibleMapStore ?q1" "newToQueueStore q' = newToQueueStore ?q1"
    "currentQueueStore q' = currentQueueStore ?q1"
    by (simp_all add: assms RemoveFromQueue_def Let_def)
  moreover have "\<not> str_contains (show_guid g) (qd_bestCompatible d')" if "om_find k (QueueDataStore q') = Some d'" for k d'
    using that h at [of k] by (auto split: if_splits)
  moreover have "\<exists>d'. om_find k (QueueDataStore q') = Some d' \<and> same_request d d'"
    if "k \<noteq> g" "om_find k (QueueDataStore q) = Some d" for k d
    using h [OF that(1), of d] at [of k] that by simp
  ultimately show ?thesis using cache sel at [of g] by simp
qed

section \<open>The search\<close>

declare FindGroups_loop.simps [simp del]

lemma FindGroups_loop_drains:
  "newToQueueStore (snd (FindGroups_loop env n q)) = []
   \<and> set (currentQueueStore (snd (FindGroups_loop env n q))) \<subseteq> set (currentQueueStore q) \<union> set (newToQueueStore q)
   \<and> (\<exists>ps. proposals (snd (FindGroups_loop env n q)) = proposals q @ ps)"
proof (induction env n q rule: FindGroups_loop.induct)
  case (1 env count q)
  show ?case
  proof (cases "newToQueueStore q")
    case Nil
    then show ?thesis by (subst (1 2 3) FindGroups_loop.simps) simp
  next
    case (Cons g gs)
    let ?q1 = "RemoveFromNewQueue g q"
    obtain c r q2 where f: "FindNewGroups env [g] (currentQueueStore ?q1) ?q1 = (c, r, q2)"
      by (metis prod_cases3)
    have n: "narrows ?q1 q2" using FindNewGroups_narrows [of ?q1 env "[g]" "currentQueueStore ?q1"] f by simp
    let ?q3 = "if c = LFG_COMPATIBLES_MATCH then q2 else AddToCurrentQueue g q2"
    have step: "FindGroups_loop env count q = FindGroups_loop env (if c = LFG_COMPATIBLES_MATCH then count + 1 else count) ?q3"
      by (subst FindGroups_loop.simps) (simp add: Cons f Let_def)
    have IH: "newToQueueStore (snd (FindGroups_loop env n' ?q3)) = []
       \<and> set (currentQueueStore (snd (FindGroups_loop env n' ?q3))) \<subseteq> set (currentQueueStore ?q3) \<union> set (newToQueueStore ?q3)
       \<and> (\<exists>ps. proposals (snd (FindGroups_loop env n' ?q3)) = proposals ?q3 @ ps)"
      if "n' = (if c = LFG_COMPATIBLES_MATCH then count + 1 else count)" for n'
      using 1(1) [OF Cons refl f [symmetric] refl] 1(2) [OF Cons refl f [symmetric] refl] that
      by (cases "c = LFG_COMPATIBLES_MATCH") simp_all
    have "set (currentQueueStore ?q3) \<union> set (newToQueueStore ?q3) \<subseteq> set (currentQueueStore q) \<union> set (newToQueueStore q)"
      using n Cons by (auto simp: narrows_def AddToCurrentQueue_def RemoveFromNewQueue_def)
    moreover obtain ps where "proposals ?q3 = proposals q @ ps"
      using n by (auto simp: narrows_def AddToCurrentQueue_def RemoveFromNewQueue_def)
    ultimately show ?thesis using IH [OF refl] unfolding step by auto
  qed
qed

text \<open>
  \<^bold>\<open>C23.\<close> The search for groups ends with no new entry left: whoever is then in the queue
  was in it or new before, and earlier proposals are kept.
\<close>

theorem FindGroups_drains:
  "newToQueueStore (snd (FindGroups env q)) = []
   \<and> set (currentQueueStore (snd (FindGroups env q))) \<subseteq> set (currentQueueStore q) \<union> set (newToQueueStore q)
   \<and> (\<exists>ps. proposals (snd (FindGroups env q)) = proposals q @ ps)"
  unfolding FindGroups_def by (rule FindGroups_loop_drains)

section \<open>Wait times\<close>

text \<open>
  \<^bold>\<open>C33.\<close> As long as the sum fits in 32 bits, the average wait time after an update is
  the weighted mean rounded down, and lies between the old average and the new wait.
\<close>

theorem update_wait_between:
  assumes "unat (wt_time wt) * unat (wt_number wt) + unat t < 2 ^ 32" "unat (wt_number wt) + 1 < 2 ^ 32"
  shows "unat (wt_number (update_wait t wt)) = unat (wt_number wt) + 1
    \<and> unat (wt_time (update_wait t wt)) = (unat (wt_time wt) * unat (wt_number wt) + unat t) div (unat (wt_number wt) + 1)
    \<and> min (unat (wt_time wt)) (unat t) \<le> unat (wt_time (update_wait t wt))
    \<and> unat (wt_time (update_wait t wt)) \<le> max (unat (wt_time wt)) (unat t)"
proof -
  let ?a = "unat (wt_time wt)" and ?n = "unat (wt_number wt)" and ?t = "unat t"
  have n: "unat (wt_number wt + 1) = ?n + 1" using assms(2) by (simp add: unat_word_ariths)
  have s: "unat (wt_time wt * wt_number wt + t) = ?a * ?n + ?t"
  proof -
    have "unat (wt_time wt * wt_number wt) = ?a * ?n" using assms(1) by (simp add: unat_word_ariths)
    then show ?thesis using assms(1) by (simp add: unat_word_ariths(1))
  qed
  have e: "unat (wt_time (update_wait t wt)) = (?a * ?n + ?t) div (?n + 1)"
    by (simp add: update_wait_def Let_def unat_div s n)
  have "min ?a ?t * ?n + min ?a ?t \<le> ?a * ?n + ?t" by (intro add_mono mult_le_mono1) simp_all
  then have "min ?a ?t * (?n + 1) \<le> ?a * ?n + ?t" by (simp add: distrib_left ac_simps)
  then have lo: "min ?a ?t \<le> (?a * ?n + ?t) div (?n + 1)" by (simp add: less_eq_div_iff_mult_less_eq)
  have "?a * ?n + ?t \<le> max ?a ?t * ?n + max ?a ?t" by (intro add_mono mult_le_mono1) simp_all
  then have "?a * ?n + ?t \<le> max ?a ?t * (?n + 1)" by (simp add: distrib_left ac_simps)
  then have "(?a * ?n + ?t) div (?n + 1) \<le> max ?a ?t * (?n + 1) div (?n + 1)" by (rule div_le_mono)
  also have "\<dots> = max ?a ?t" by (rule nonzero_mult_div_cancel_right) simp
  finally have hi: "(?a * ?n + ?t) div (?n + 1) \<le> max ?a ?t" .
  show ?thesis using lo hi n unfolding e by (simp add: update_wait_def Let_def)
qed

theorem update_wait_between_witness:
  "unat (wt_time (update_wait 90 \<lparr>wt_time = 60, wt_number = 2\<rparr>)) = 70"
  using update_wait_between [of "\<lparr>wt_time = 60, wt_number = 2\<rparr>" 90] by simp

section \<open>Entries the code loses\<close>

text \<open>
  \<^bold>\<open>C35.\<close> When the cached result of a new entry on its own is bad states and the entry is in
  order by now, the search reports a match and drops the entry from the list of new entries without
  making a proposal or queueing it again: it waits for ever.
\<close>

theorem bad_states_loses_entry:
  assumes "newToQueueStore q = [g]" "g \<notin> set (currentQueueStore q)"
    "GetCompatibles (ConcatenateGuids [g]) q = LFG_COMPATIBLES_BAD_STATES" "AllQueued env [g]"
  shows "fst (FindGroups env q) = 1 \<and> proposals (snd (FindGroups env q)) = proposals q
    \<and> g \<notin> set (newToQueueStore (snd (FindGroups env q))) \<union> set (currentQueueStore (snd (FindGroups env q)))"
proof -
  let ?q1 = "RemoveFromNewQueue g q"
  have "GetCompatibles (ConcatenateGuids [g]) ?q1 = LFG_COMPATIBLES_BAD_STATES"
    using assms(3) by (simp add: GetCompatibles_def RemoveFromNewQueue_def)
  then have "FindNewGroups env [g] (currentQueueStore ?q1) ?q1 =
      (LFG_COMPATIBLES_MATCH, currentQueueStore ?q1, SetCompatibles (ConcatenateGuids [g]) LFG_COMPATIBLES_MATCH ?q1)"
    using assms(4) by (simp add: FindNewGroups_def group_state_def Let_def)
  then have "FindGroups_loop env 0 q =
      FindGroups_loop env 1 (SetCompatibles (ConcatenateGuids [g]) LFG_COMPATIBLES_MATCH ?q1)"
    by (subst FindGroups_loop.simps) (simp add: assms(1))
  also have "\<dots> = (1, SetCompatibles (ConcatenateGuids [g]) LFG_COMPATIBLES_MATCH ?q1)"
    by (subst FindGroups_loop.simps) (simp add: assms(1) SetCompatibles_def RemoveFromNewQueue_def Let_def)
  finally show ?thesis
    using assms(1,2) by (simp add: FindGroups_def SetCompatibles_def RemoveFromNewQueue_def Let_def)
qed

text \<open>
  Checking an entry that has no queue data stores an empty entry for it, although
  the code means to report and remove such an entry; the next update of the queue timers then reads the first
  of its dungeons, of which there is none.
\<close>

theorem unknown_entry_is_stored:
  assumes "om_find g (QueueDataStore q) = None" "CheckCompatibility env [g] q = (c, q')"
  shows "c = LFG_INCOMPATIBLES_NO_DUNGEONS \<and> om_find g (QueueDataStore q') = Some (LfgQueueData_default env)
    \<and> UpdateQueueTimers env i t m q' = None"
proof -
  have d: "qd_dungeons (LfgQueueData_default env) = {}"
    by (simp add: LfgQueueData_default_def InitializeGroupSetup_def)
  have q': "c = LFG_INCOMPATIBLES_NO_DUNGEONS" "QueueDataStore q' = om_put g (LfgQueueData_default env) (QueueDataStore q)"
    using assms(1,2) d
    by (auto simp: check_set_def proposal_dungeons_def queue_at_def Let_def SetCompatibles_def)
  have "timer_loop env i t r es m = None" if "om_find g es = Some (LfgQueueData_default env)" for r es m
    using that by (induction es arbitrary: m) (auto simp: om_find_def update_timer_def d split: if_splits option.splits prod.splits)
  then show ?thesis using q' by (simp add: UpdateQueueTimers_def)
qed

definition wit_lfg_env :: lfg_env where
  "wit_lfg_env = \<lparr>GetLFGDungeon = (\<lambda>i. if i = 7 then Some wit_dungeon else None), AllQueued = (\<lambda>_. True),
     IsLfgGroup = IsGroup, HasIgnore = (\<lambda>_ _. False), GetOldState = (\<lambda>_. LFG_STATE_NONE), GameTime = 1000,
     random = (\<lambda>n. n)\<rparr>"

theorem RemoveFromQueue_forgets_witness:
  "om_find 5 (QueueDataStore (RemoveFromQueue wit_lfg_env 5
     (AddQueueData wit_lfg_env 6 10 {7} [(6, 2)] (AddQueueData wit_lfg_env 5 10 {7} [(5, 2)] lfg_queue_new)))) = None"
  using RemoveFromQueue_forgets [OF refl, where env = wit_lfg_env and g = 5] by blast

definition wit_bad_queue :: lfg_queue where
  "wit_bad_queue = SetCompatibles (ConcatenateGuids [5]) LFG_COMPATIBLES_BAD_STATES
     (AddQueueData wit_lfg_env 5 10 {7} [(5, 2)] lfg_queue_new)"

theorem bad_states_loses_entry_witness:
  "5 \<notin> set (newToQueueStore (snd (FindGroups wit_lfg_env wit_bad_queue)))
      \<union> set (currentQueueStore (snd (FindGroups wit_lfg_env wit_bad_queue)))"
proof -
  have "newToQueueStore wit_bad_queue = [5]" "5 \<notin> set (currentQueueStore wit_bad_queue)"
    "GetCompatibles (ConcatenateGuids [5]) wit_bad_queue = LFG_COMPATIBLES_BAD_STATES" "AllQueued wit_lfg_env [5]"
    by (simp_all add: wit_bad_queue_def SetCompatibles_def AddQueueData_def AddToQueue_def AddToNewQueue_def lfg_queue_new_def
        GetCompatibles_def om_find_def wit_lfg_env_def Let_def)
  from bad_states_loses_entry [OF this] show ?thesis by blast
qed

theorem unknown_entry_is_stored_witness:
  "UpdateQueueTimers wit_lfg_env 1 2000 Map.empty (snd (CheckCompatibility wit_lfg_env [5] lfg_queue_new)) = None"
  using unknown_entry_is_stored [where g = 5 and q = lfg_queue_new and env = wit_lfg_env, OF _ surjective_pairing]
  by (simp add: lfg_queue_new_def)

section \<open>What an entry asked for\<close>

text \<open>An entry without data reads as the empty one that \<^verbatim>\<open>operator[]\<close> stores.\<close>

definition entry_roles :: "lfg_queue \<Rightarrow> guid \<Rightarrow> roles_map" where
  "entry_roles q g = (case om_find g (QueueDataStore q) of None \<Rightarrow> [] | Some d \<Rightarrow> qd_roles d)"

definition entry_dungeons :: "lfg_queue \<Rightarrow> guid \<Rightarrow> uint32 set" where
  "entry_dungeons q g = (case om_find g (QueueDataStore q) of None \<Rightarrow> {} | Some d \<Rightarrow> qd_dungeons d)"

definition same_entries :: "lfg_queue \<Rightarrow> lfg_queue \<Rightarrow> bool" where
  "same_entries q q' \<longleftrightarrow> entry_roles q' = entry_roles q \<and> entry_dungeons q' = entry_dungeons q
     \<and> (\<forall>g. om_find g (QueueDataStore q) \<noteq> None \<longrightarrow> om_find g (QueueDataStore q') \<noteq> None)"

lemma same_entries_refl [simp, intro]: "same_entries q q"
  by (simp add: same_entries_def)

lemma same_entries_trans [trans]: "same_entries a b \<Longrightarrow> same_entries b c \<Longrightarrow> same_entries a c"
  by (simp add: same_entries_def)

lemma same_entriesD:
  "same_entries q q' \<Longrightarrow> entry_roles q' = entry_roles q" "same_entries q q' \<Longrightarrow> entry_dungeons q' = entry_dungeons q"
  by (simp_all add: same_entries_def)

lemma same_entries_cong: "QueueDataStore q'' = QueueDataStore q' \<Longrightarrow> same_entries q q'' = same_entries q q'"
  by (simp add: same_entries_def entry_roles_def entry_dungeons_def fun_eq_iff)

lemma default_data: "qd_roles (LfgQueueData_default env) = []" "qd_dungeons (LfgQueueData_default env) = {}"
  by (simp_all add: LfgQueueData_default_def InitializeGroupSetup_def)

lemma queue_at_entry:
  assumes "queue_at env g q = (d, q')"
  shows "qd_roles d = entry_roles q g" "qd_dungeons d = entry_dungeons q g" "same_entries q q'"
    "om_find g (QueueDataStore q') \<noteq> None" "draws q' = draws q"
  using assms
  by (auto simp: queue_at_def entry_roles_def entry_dungeons_def same_entries_def default_data Let_def fun_eq_iff
      split: option.splits if_splits)

lemma common_dungeons_entry:
  assumes "common_dungeons env gs acc q = (ds, q')"
  shows "ds = acc \<inter> (\<Inter>g \<in> set gs. entry_dungeons q g) \<and> same_entries q q'
    \<and> (\<forall>g \<in> set gs. om_find g (QueueDataStore q') \<noteq> None)"
  using assms
proof (induction gs arbitrary: acc q)
  case (Cons g gs)
  obtain d q1 where a: "queue_at env g q = (d, q1)" by (cases "queue_at env g q")
  note e = queue_at_entry [OF a]
  have "common_dungeons env gs (acc \<inter> qd_dungeons d) q1 = (ds, q')" using Cons.prems a by simp
  from Cons.IH [OF this] show ?case
    using e same_entries_trans [OF e(3)] same_entriesD [OF e(3)] by (auto simp: same_entries_def)
qed simp

lemma proposal_dungeons_entry:
  assumes "proposal_dungeons env check q = (ds, q')" "check \<noteq> []"
  shows "ds = (\<Inter>g \<in> set check. entry_dungeons q g)" "same_entries q q'"
    "\<forall>g \<in> set check. om_find g (QueueDataStore q') \<noteq> None"
proof -
  obtain g gs where c: "check = g # gs" using assms(2) by (cases check) auto
  obtain d q1 where a: "queue_at env g q = (d, q1)" by (cases "queue_at env g q")
  note e = queue_at_entry [OF a]
  have "common_dungeons env gs (qd_dungeons d) q1 = (ds, q')"
    using assms(1) a by (simp add: proposal_dungeons_def c)
  note m = common_dungeons_entry [OF this]
  show "ds = (\<Inter>g \<in> set check. entry_dungeons q g)" using m e same_entriesD [OF e(3)] by (simp add: c)
  show "same_entries q q'" using m same_entries_trans [OF e(3)] by blast
  show "\<forall>g \<in> set check. om_find g (QueueDataStore q') \<noteq> None" using m e(4) by (auto simp: c same_entries_def)
qed

lemma merge_roles_entry:
  assumes "merge_roles env gs acc q = (roles, q')"
  shows "roles = fold (\<lambda>g. fold (join_roles env) (entry_roles q g)) gs acc \<and> same_entries q q'"
  using assms
proof (induction gs arbitrary: acc q)
  case (Cons g gs)
  obtain d q1 where a: "queue_at env g q = (d, q1)" by (cases "queue_at env g q")
  note e = queue_at_entry [OF a]
  have "merge_roles env gs (fold (join_roles env) (qd_roles d) acc) q1 = (roles, q')" using Cons.prems a by simp
  from Cons.IH [OF this] show ?case
    using e(1) same_entries_trans [OF e(3)] same_entriesD [OF e(3)] by simp
qed simp

lemma pick_dungeon_in:
  "pick_dungeon env ds n = (Some (d, dg), n') \<Longrightarrow> d \<in> set ds \<and> GetLFGDungeon env d = Some dg"
proof (induction env ds n rule: pick_dungeon.induct)
  case (2 env d' ds n)
  let ?x = "(d' # ds) ! (random env n mod Suc (length ds))"
  have x: "?x \<in> set (d' # ds)" by (rule nth_mem) simp
  show ?case
  proof (cases "GetLFGDungeon env ?x")
    case None
    then show ?thesis using 2 set_remove1_subset [of ?x "d' # ds"] by (auto simp del: remove1.simps nth_Cons_Suc)
  next
    case (Some dg')
    then show ?thesis using 2(2) x by (simp del: nth_Cons_Suc set_simps)
  qed
qed simp

section \<open>Merging the players of several entries\<close>

lemma length_om_put:
  "om_ok m \<Longrightarrow> length (om_put k v m) = (if om_find k m = None then Suc (length m) else length m)"
proof (induction k v m rule: om_put.induct)
  case (2 k v k' v' m)
  have "om_find k m = None" if "k < k'"
    using 2(2) that by (force simp: om_find_def map_of_eq_None_iff)
  then show ?case using 2 by (auto simp: om_find_def)
qed (simp add: om_find_def)

lemma set_om_put: "set (om_put k v m) \<subseteq> insert (k, v) (set m)"
  by (induction k v m rule: om_put.induct) auto

lemma keys_om_put [simp]: "set (om_keys (om_put k v m)) = insert k (set (om_keys m))"
  using fst_set_om_put [of k v m] by (simp add: om_keys_def)

text \<open>Players who do not ignore each other are all taken.\<close>

lemma join_all:
  assumes "om_ok acc" "distinct (map fst es)" "fst ` set es \<inter> set (om_keys acc) = {}"
    "\<forall>a \<in> fst ` set es. \<forall>b \<in> fst ` set es \<union> set (om_keys acc). \<not> HasIgnore env a b"
  shows "om_ok (fold (join_roles env) es acc) \<and> length (fold (join_roles env) es acc) = length acc + length es
    \<and> set (om_keys (fold (join_roles env) es acc)) = fst ` set es \<union> set (om_keys acc)"
  using assms
proof (induction es arbitrary: acc)
  case (Cons e es)
  have j: "join_roles env e acc = om_put (fst e) (snd e) acc"
    using Cons.prems(4) by (auto simp: join_roles_def list_ex_iff)
  have new: "om_find (fst e) acc = None" using Cons.prems(3) om_keys_find [of "fst e" acc] by auto
  have "om_ok (om_put (fst e) (snd e) acc)" using Cons.prems(1) by simp
  moreover have "fst ` set es \<inter> set (om_keys (om_put (fst e) (snd e) acc)) = {}" using Cons.prems(2,3) by auto
  moreover have "\<forall>a \<in> fst ` set es. \<forall>b \<in> fst ` set es \<union> set (om_keys (om_put (fst e) (snd e) acc)). \<not> HasIgnore env a b"
    using Cons.prems(4) by auto
  ultimately show ?case
    using Cons.IH [of "om_put (fst e) (snd e) acc"] Cons.prems(1,2) new by (simp add: j length_om_put)
qed simp

text \<open>In general: no more players than the entries have, each from an entry, with a mask it selected.\<close>

lemma join_some:
  assumes "om_ok acc"
  shows "om_ok (fold (join_roles env) es acc) \<and> length (fold (join_roles env) es acc) \<le> length acc + length es
    \<and> set (fold (join_roles env) es acc) \<subseteq> set acc \<union> set es"
  using assms
proof (induction es arbitrary: acc)
  case (Cons e es)
  have "om_ok (join_roles env e acc)" using Cons.prems by (simp add: join_roles_def)
  moreover have "length (join_roles env e acc) \<le> Suc (length acc)" using Cons.prems by (simp add: join_roles_def length_om_put)
  moreover have "set (join_roles env e acc) \<subseteq> insert e (set acc)"
    using set_om_put [of "fst e" "snd e" acc] by (simp add: join_roles_def) blast
  ultimately show ?case using Cons.IH [of "join_roles env e acc"] by fastforce
qed simp

lemma merge_some:
  assumes "om_ok acc"
  shows "om_ok (fold (\<lambda>g. fold (join_roles env) (f g)) gs acc)
    \<and> length (fold (\<lambda>g. fold (join_roles env) (f g)) gs acc) \<le> length acc + (\<Sum>g\<leftarrow>gs. length (f g))
    \<and> set (fold (\<lambda>g. fold (join_roles env) (f g)) gs acc) \<subseteq> set acc \<union> (\<Union>g \<in> set gs. set (f g))"
  using assms
proof (induction gs arbitrary: acc)
  case (Cons g gs)
  then show ?case using join_some [OF Cons.prems, of env "f g"] Cons.IH [of "fold (join_roles env) (f g) acc"] by fastforce
qed simp

section \<open>A dungeon finder group before others\<close>

lemma om_find_entry: "om_find g (QueueDataStore q) \<noteq> None \<Longrightarrow> \<exists>d. om_find g (QueueDataStore q) = Some d \<and> qd_roles d = entry_roles q g"
  by (auto simp: entry_roles_def)

lemma check_set_picked:
  assumes "proposal_dungeons env check q = (ds, q1)" "pick_dungeon env (sorted_list_of_set ds) (draws q1) = (Some (did, dg), n)"
    "count_players env (GetMaxGroupSize dg) (q1\<lparr>draws := n\<rparr>) check \<lparr>pc_players = 0, pc_groups = 0, pc_map = [], pc_group = 0\<rparr> = Inr pc"
  shows "check_set env check q = (if unat (GetMaxGroupSize dg) < length check then (LFG_INCOMPATIBLES_WRONG_GROUP_SIZE, q1\<lparr>draws := n\<rparr>)
     else check_players env check did dg pc (q1\<lparr>draws := n\<rparr>))"
  unfolding check_set_def Let_def assms prod.case option.case sum.case ..

lemma check_players_multi:
  assumes "1 < length check" "merge_roles env check [] q = (roles, q1)"
  shows "check_players env check did dg pc q =
    (if 1 < pc_groups pc
     then (LFG_INCOMPATIBLES_MULTIPLE_LFG_GROUPS, SetCompatibles (ConcatenateGuids check) LFG_INCOMPATIBLES_MULTIPLE_LFG_GROUPS q)
     else if GetMaxGroupSize dg < ucast (pc_players pc)
     then (LFG_INCOMPATIBLES_TOO_MUCH_PLAYERS, SetCompatibles (ConcatenateGuids check) LFG_INCOMPATIBLES_TOO_MUCH_PLAYERS q)
     else if pc_players pc - of_nat (length roles) \<noteq> 0
     then (LFG_INCOMPATIBLES_HAS_IGNORES, SetCompatibles (ConcatenateGuids check) LFG_INCOMPATIBLES_HAS_IGNORES q1)
     else if \<not> fst (CheckGroupRoles dg roles)
     then (LFG_INCOMPATIBLES_NO_ROLES, SetCompatibles (ConcatenateGuids check) LFG_INCOMPATIBLES_NO_ROLES q1)
     else finish_check env check did dg pc (snd (CheckGroupRoles dg roles)) q1)"
  using assms by (simp add: check_players_def split_beta Let_def)


text \<open>A group of four with the identifier of a group, and a fifth player.\<close>

definition wit_group :: guid where
  "wit_group = guid_global HG_Group 1"

definition wit_pair_queue :: lfg_queue where
  "wit_pair_queue = AddQueueData wit_lfg_env 9 20 {7} [(9, 8)]
     (AddQueueData wit_lfg_env wit_group 10 {7} [(5, 2), (6, 4), (7, 8), (8, 8)] lfg_queue_new)"


section \<open>A match\<close>

lemma store_SetCompatibles [simp]:
  "QueueDataStore (SetCompatibles key c q) = QueueDataStore q" "proposals (SetCompatibles key c q) = proposals q"
  "newToQueueStore (SetCompatibles key c q) = newToQueueStore q" "currentQueueStore (SetCompatibles key c q) = currentQueueStore q"
  by (simp_all add: SetCompatibles_def Let_def)

lemma same_entries_store: "QueueDataStore q' = QueueDataStore q \<Longrightarrow> same_entries q q'"
  using same_entries_cong [of q' q q] by simp

lemma remove_all_effect:
  "QueueDataStore (fold (\<lambda>g q. RemoveFromCurrentQueue g (RemoveFromNewQueue g q)) gs q) = QueueDataStore q"
  "proposals (fold (\<lambda>g q. RemoveFromCurrentQueue g (RemoveFromNewQueue g q)) gs q) = proposals q"
  "set (newToQueueStore (fold (\<lambda>g q. RemoveFromCurrentQueue g (RemoveFromNewQueue g q)) gs q)) = set (newToQueueStore q) - set gs"
  "set (currentQueueStore (fold (\<lambda>g q. RemoveFromCurrentQueue g (RemoveFromNewQueue g q)) gs q)) = set (currentQueueStore q) - set gs"
  by (induction gs arbitrary: q) (auto simp: RemoveFromCurrentQueue_def RemoveFromNewQueue_def)

lemma modify_same_entries:
  assumes "\<And>d. same_request d (f d)"
  shows "same_entries q (q\<lparr>QueueDataStore := om_modify g f (QueueDataStore q)\<rparr>)"
  using assms
  by (auto simp: same_entries_def entry_roles_def entry_dungeons_def same_request_def fun_eq_iff split: option.splits if_splits)

lemma update_all_same_entries:
  "same_entries q (fold (\<lambda>g q. q\<lparr>QueueDataStore := om_modify g (UpdateBestCompatibleInQueue env key roles) (QueueDataStore q)\<rparr>) gs q)"
proof (induction gs arbitrary: q)
  case (Cons g gs)
  then show ?case using same_entries_trans [OF modify_same_entries [OF update_best_same(2)] Cons.IH] by simp
qed simp

lemma make_proposal_same: "same_entries q (snd (make_proposal env check did pc roles q))"
  by (rule same_entries_store) (simp add: make_proposal_def Let_def split_beta remove_all_effect)

lemma finish_check_same: "same_entries q (snd (finish_check env check did dg pc roles q))"
proof -
  let ?key = "ConcatenateGuids check"
  let ?q1 = "fold (\<lambda>g q. q\<lparr>QueueDataStore := om_modify g (UpdateBestCompatibleInQueue env ?key roles) (QueueDataStore q)\<rparr>) check q"
  have "same_entries q (SetCompatibilityData ?key d ?q1)" for d
    using same_entries_trans [OF update_all_same_entries same_entries_store] by (simp add: SetCompatibilityData_def)
  then show ?thesis by (simp add: finish_check_def Let_def make_proposal_same)
qed

lemma check_players_same: "same_entries q (snd (check_players env check did dg pc q))"
proof (cases "1 < length check")
  case True
  obtain roles q1 where m: "merge_roles env check [] q = (roles, q1)" by (cases "merge_roles env check [] q")
  have q1: "same_entries q q1" using merge_roles_entry [OF m] by blast
  then have "same_entries q (SetCompatibles key c q1)" for key c
    by (rule same_entries_trans) (rule same_entries_store, simp)
  then show ?thesis
    using same_entries_trans [OF q1 finish_check_same] check_players_multi [OF True m] by (simp add: same_entries_store)
next
  case False
  obtain d q1 where a: "queue_at env (hd check) q = (d, q1)" by (cases "queue_at env (hd check) q")
  show ?thesis
    using False a same_entries_trans [OF queue_at_entry(3) [OF a] finish_check_same]
    by (simp add: check_players_def Let_def same_entries_store)
qed

text \<open>Every entry of the checked set has data when the players are counted.\<close>

lemma count_players_total:
  "\<forall>g \<in> set gs. om_find g (QueueDataStore q) \<noteq> None \<Longrightarrow> \<exists>pc'. count_players env k q gs pc = Inr pc'"
  by (induction gs arbitrary: pc) (auto simp: Let_def)

lemma check_set_cases:
  assumes "check \<noteq> []"
  obtains (none) "fst (check_set env check q) < LFG_COMPATIBLES_WITH_LESS_PLAYERS" "same_entries q (snd (check_set env check q))"
  | (players) did dg pc q2 where "check_set env check q = check_players env check did dg pc q2" "same_entries q q2" "narrows q q2"
    "GetLFGDungeon env did = Some dg" "\<forall>g \<in> set check. did \<in> entry_dungeons q g"
proof -
  obtain ds q1 where pd: "proposal_dungeons env check q = (ds, q1)" by (cases "proposal_dungeons env check q")
  note e = proposal_dungeons_entry [OF pd assms]
  obtain picked n where pk: "pick_dungeon env (sorted_list_of_set ds) (draws q1) = (picked, n)"
    by (cases "pick_dungeon env (sorted_list_of_set ds) (draws q1)")
  let ?q2 = "q1\<lparr>draws := n\<rparr>"
  have se: "same_entries q ?q2" using e(2) same_entries_cong [of ?q2 q1 q] by simp
  have na: "narrows q ?q2" using proposal_dungeons_narrows [of q env check] pd by simp
  show ?thesis
  proof (cases picked)
    case None
    have "check_set env check q = (LFG_INCOMPATIBLES_NO_DUNGEONS, SetCompatibles (ConcatenateGuids check) LFG_INCOMPATIBLES_NO_DUNGEONS ?q2)"
      by (simp add: check_set_def Let_def pd pk None)
    then show ?thesis using none se same_entries_trans [OF se same_entries_store] by (simp add: less_lfg_compat_def)
  next
    case (Some x)
    obtain did dg where x: "x = (did, dg)" by (cases x)
    have "did \<in> set (sorted_list_of_set ds)" "GetLFGDungeon env did = Some dg"
      using pick_dungeon_in [of env "sorted_list_of_set ds" "draws q1" did dg n] pk Some x by simp_all
    then have d: "\<forall>g \<in> set check. did \<in> entry_dungeons q g" "GetLFGDungeon env did = Some dg"
      using e(1) by simp_all
    have "\<forall>g \<in> set check. om_find g (QueueDataStore ?q2) \<noteq> None" using e(3) by simp
    then obtain pc where cp: "count_players env (GetMaxGroupSize dg) ?q2 check \<lparr>pc_players = 0, pc_groups = 0, pc_map = [], pc_group = 0\<rparr> = Inr pc"
      using count_players_total by blast
    have eq: "check_set env check q = (if unat (GetMaxGroupSize dg) < length check then (LFG_INCOMPATIBLES_WRONG_GROUP_SIZE, ?q2)
       else check_players env check did dg pc ?q2)"
      using check_set_picked [OF pd _ cp] pk Some x by simp
    show ?thesis
    proof (cases "unat (GetMaxGroupSize dg) < length check")
      case True
      then show ?thesis using none eq se by (simp add: less_lfg_compat_def)
    next
      case False
      then show ?thesis using players [of did dg pc ?q2] eq se na d by simp
    qed
  qed
qed

lemma check_set_same: "check \<noteq> [] \<Longrightarrow> same_entries q (snd (check_set env check q))"
  by (rule check_set_cases [of check env q]) (auto intro: same_entries_trans check_players_same)

lemma CheckCompatibility_last:
  assumes "CheckCompatibility env check q = (c, q')" "LFG_COMPATIBLES_WITH_LESS_PLAYERS \<le> c"
  obtains q1 where "check \<noteq> []" "check_set env check q1 = (c, q')" "same_entries q q1" "narrows q q1"
proof -
  have "\<exists>q1. check \<noteq> [] \<and> check_set env check q1 = (c, q') \<and> same_entries q q1 \<and> narrows q q1"
    using assms
  proof (induction check arbitrary: c q')
    case Nil
    then show ?case by (auto simp: less_eq_lfg_compat_def)
  next
    case (Cons g rest)
    show ?case
    proof (cases "2 < length (g # rest)")
      case True
      obtain child q1 where ch: "CheckCompatibility env rest q = (child, q1)" by (cases "CheckCompatibility env rest q")
      show ?thesis
      proof (cases "child < LFG_COMPATIBLES_WITH_LESS_PLAYERS")
        case lt: True
        then have "c = child" using Cons.prems(1) True ch by simp
        then show ?thesis using lt Cons.prems(2) by simp
      next
        case False
        obtain q0 where q0: "rest \<noteq> []" "check_set env rest q0 = (child, q1)" "same_entries q q0"
          using Cons.IH [OF ch leI [OF False]] by blast
        have "same_entries q q1" using same_entries_trans [OF q0(3) check_set_same [OF q0(1), of q0 env]] q0(2) by simp
        moreover have "narrows q q1" using CheckCompatibility_narrows [of q env rest] ch by simp
        ultimately show ?thesis using Cons.prems(1) True ch False by auto
      qed
    next
      case False
      then have "check_set env (g # rest) q = (c, q')" using Cons.prems(1) by simp
      then show ?thesis by blast
    qed
  qed
  then show thesis using that by blast
qed

definition proposed_roles :: "lfg_proposal \<Rightarrow> roles_map" where
  "proposed_roles p = map (\<lambda>e. (fst e, pp_role (snd e))) (lp_players p)"

lemma proposed_roles_players [simp]:
  "map (\<lambda>e. (fst e, pp_role (snd e))) (proposal_players isNew grp groups roles) = roles"
  by (induction roles) (auto simp: proposal_players_def Let_def)

lemma finish_check_match:
  assumes "finish_check env check did dg pc roles q = (LFG_COMPATIBLES_MATCH, q')"
  shows "ucast (pc_players pc) = GetMaxGroupSize dg \<and> AllQueued env check
    \<and> (\<exists>p. proposals q' = proposals q @ [p] \<and> lp_queues p = check \<and> lp_dungeonId p = did \<and> proposed_roles p = roles)
    \<and> (\<forall>g \<in> set check. g \<notin> set (newToQueueStore q') \<union> set (currentQueueStore q'))"
proof -
  have 1: "ucast (pc_players pc) = GetMaxGroupSize dg" "AllQueued env check"
    using assms by (auto simp: finish_check_def make_proposal_def Let_def split_beta split: if_splits)
  then have "q' = snd (make_proposal env check did pc roles q)"
    using assms by (simp add: finish_check_def)
  then show ?thesis using 1
    by (auto simp: make_proposal_def Let_def split_beta remove_all_effect proposed_roles_def)
qed

text \<open>With as many players as the dungeon needs and one role each, every role is filled exactly.\<close>

lemma role_choice_full:
  assumes "role_choice dg g g'" "roles_known g" "length g = unat (GetMaxGroupSize dg)"
    "unat (requiredTanks dg) + unat (requiredHealers dg) + unat (requiredDamageDealers dg) < 2 ^ 32"
  shows "role_count PLAYER_ROLE_TANK g' = unat (requiredTanks dg)
    \<and> role_count PLAYER_ROLE_HEALER g' = unat (requiredHealers dg)
    \<and> role_count PLAYER_ROLE_DAMAGE g' = unat (requiredDamageDealers dg)"
proof -
  have one: "snd e' AND NOT PLAYER_ROLE_LEADER \<in> the_roles" if e': "e' \<in> set g'" for e'
  proof -
    obtain j where j: "j < length g'" "g' ! j = e'" using e' by (auto simp: in_set_conv_nth)
    then have "fits (snd (g ! j)) (snd e')" using assms(1) by (auto simp: role_choice_nth)
    then obtain s where "s \<in> the_roles" "snd e' = s OR (snd (g ! j) AND PLAYER_ROLE_LEADER)" by (auto simp: fits_def)
    moreover have "(s OR (a AND PLAYER_ROLE_LEADER)) AND NOT PLAYER_ROLE_LEADER = s AND NOT PLAYER_ROLE_LEADER" for s a :: uint8
      by (rule bit_word_eqI) (auto simp: bit_simps)
    ultimately show ?thesis using roles_disjoint(4) by simp
  qed
  have "role_count PLAYER_ROLE_TANK g' + role_count PLAYER_ROLE_HEALER g' + role_count PLAYER_ROLE_DAMAGE g' = length g'"
    using role_counts_eq [of g'] one by blast
  moreover have "length g' = length g" using assms(1) by (simp add: role_choice_nth)
  moreover have "unat (GetMaxGroupSize dg) = unat (requiredTanks dg) + unat (requiredHealers dg) + unat (requiredDamageDealers dg)"
    using assms(4) by (simp add: GetMaxGroupSize_def unat_word_ariths)
  moreover have "role_count PLAYER_ROLE_TANK g' \<le> unat (requiredTanks dg)" "role_count PLAYER_ROLE_HEALER g' \<le> unat (requiredHealers dg)"
    "role_count PLAYER_ROLE_DAMAGE g' \<le> unat (requiredDamageDealers dg)" using assms(1) by (simp_all add: role_choice_nth)
  ultimately show ?thesis using assms(3) by linarith
qed

lemma CheckGroupRoles_ok:
  assumes "roles_known g" "length g < 256" "fst (CheckGroupRoles dg g)"
  shows "role_choice dg g (snd (CheckGroupRoles dg g))"
proof -
  have "g \<noteq> []" using assms(3) by (auto simp: CheckGroupRoles_def)
  then show ?thesis using check_roles_answers [OF assms(1,2), of "Suc (role_weight g)" dg] assms(3)
    by (auto simp: answers_def CheckGroupRoles_def split: option.splits if_splits)
qed

text \<open>
  \<^bold>\<open>C4.\<close> A match of several entries makes a proposal for a dungeon that every one of them
  asked for and that the server knows, with exactly the tanks, healers and damage dealers the dungeon needs, each player
  taken from one of the entries in a role it selected; all entries were in the queued state and are in
  neither waiting list afterwards.
\<close>

theorem match_is_full_group:
  assumes "CheckCompatibility env check q = (LFG_COMPATIBLES_MATCH, q')" "1 < length check"
    "\<forall>g \<in> set check. roles_known (entry_roles q g)" "(\<Sum>g\<leftarrow>check. length (entry_roles q g)) < 256"
    "\<forall>i dg. GetLFGDungeon env i = Some dg \<longrightarrow>
       unat (requiredTanks dg) + unat (requiredHealers dg) + unat (requiredDamageDealers dg) < 2 ^ 32"
  shows "\<exists>ps p dg. proposals q' = proposals q @ ps @ [p] \<and> lp_queues p = check \<and> AllQueued env check
    \<and> GetLFGDungeon env (lp_dungeonId p) = Some dg \<and> (\<forall>g \<in> set check. lp_dungeonId p \<in> entry_dungeons q g)
    \<and> role_count PLAYER_ROLE_TANK (proposed_roles p) = unat (requiredTanks dg)
    \<and> role_count PLAYER_ROLE_HEALER (proposed_roles p) = unat (requiredHealers dg)
    \<and> role_count PLAYER_ROLE_DAMAGE (proposed_roles p) = unat (requiredDamageDealers dg)
    \<and> (\<forall>(k, r) \<in> set (proposed_roles p). \<exists>g \<in> set check. \<exists>a. (k, a) \<in> set (entry_roles q g) \<and> fits a r)
    \<and> (\<forall>g \<in> set check. g \<notin> set (newToQueueStore q') \<union> set (currentQueueStore q'))"
proof -
  obtain q1 where q1: "check \<noteq> []" "check_set env check q1 = (LFG_COMPATIBLES_MATCH, q')" "same_entries q q1" "narrows q q1"
    by (rule CheckCompatibility_last [OF assms(1)]) (auto simp: less_eq_lfg_compat_def)
  obtain did dg pc q2 where p: "check_players env check did dg pc q2 = (LFG_COMPATIBLES_MATCH, q')" "same_entries q1 q2" "narrows q1 q2"
    "GetLFGDungeon env did = Some dg" "\<forall>g \<in> set check. did \<in> entry_dungeons q1 g"
    by (rule check_set_cases [OF q1(1), of env q1]) (use q1(2) in \<open>auto simp: less_lfg_compat_def\<close>)
  have er: "entry_roles q2 = entry_roles q" "entry_dungeons q1 = entry_dungeons q"
    using same_entriesD p(2) q1(3) by (simp_all add: same_entriesD)
  obtain roles q3 where m: "merge_roles env check [] q2 = (roles, q3)" by (cases "merge_roles env check [] q2")
  note eq = check_players_multi [OF assms(2) m, of did dg pc]
  have conds: "pc_players pc - of_nat (length roles) = 0" "fst (CheckGroupRoles dg roles)"
    "finish_check env check did dg pc (snd (CheckGroupRoles dg roles)) q3 = (LFG_COMPATIBLES_MATCH, q')"
    using p(1) eq by (auto split: if_splits)
  have roles: "roles = fold (\<lambda>g. fold (join_roles env) (entry_roles q g)) check []"
    using merge_roles_entry [OF m] er by simp
  have ms: "length roles < 256" "set roles \<subseteq> (\<Union>g \<in> set check. set (entry_roles q g))"
    using merge_some [of "[]" env "entry_roles q" check] assms(4) unfolding roles by auto
  then have known: "roles_known roles" using assms(3) by (auto simp: roles_known_def)
  have ch: "role_choice dg roles (snd (CheckGroupRoles dg roles))" by (rule CheckGroupRoles_ok [OF known ms(1) conds(2)])
  note f = finish_check_match [OF conds(3)]
  have "length roles = unat (GetMaxGroupSize dg)"
  proof -
    have "pc_players pc = of_nat (length roles)" using conds(1) by simp
    then have "unat (ucast (of_nat (length roles) :: uint8) :: uint32) = unat (GetMaxGroupSize dg)" using f by simp
    then show ?thesis using ms(1) by (simp add: unsigned_ucast_eq unsigned_of_nat take_bit_nat_eq_self)
  qed
  note full = role_choice_full [OF ch known this] 
  obtain pr where pr: "proposals q' = proposals q3 @ [pr]" "lp_queues pr = check" "lp_dungeonId pr = did"
    "proposed_roles pr = snd (CheckGroupRoles dg roles)" using f by blast
  have "narrows q q3"
    using narrows_trans [OF narrows_trans [OF q1(4) p(3)]] merge_roles_narrows [of q2 env check "[]"] m by simp
  then obtain ps where "proposals q3 = proposals q @ ps" by (auto simp: narrows_def)
  moreover have "\<exists>g \<in> set check. \<exists>a. (k, a) \<in> set (entry_roles q g) \<and> fits a r" if kr: "(k, r) \<in> set (proposed_roles pr)" for k r
  proof -
    obtain j where j: "j < length roles" "snd (CheckGroupRoles dg roles) ! j = (k, r)"
      using kr ch by (auto simp: pr(4) in_set_conv_nth role_choice_nth)
    then have "fst (roles ! j) = k" "fits (snd (roles ! j)) r" using ch by (auto simp: role_choice_nth)
    then have e: "roles ! j = (k, snd (roles ! j))" "fits (snd (roles ! j)) r" by (cases "roles ! j"; simp)+
    have "roles ! j \<in> set roles" using j(1) by simp
    then obtain g where "g \<in> set check" "roles ! j \<in> set (entry_roles q g)" using ms(2) by blast
    then show ?thesis using e by (intro bexI [of _ g] exI [of _ "snd (roles ! j)"]) auto
  qed
  ultimately show ?thesis
    using pr f full p(4,5) er assms(5) by (intro exI [of _ ps] exI [of _ pr] exI [of _ dg]) auto
qed

lemma wit_group_eq: "wit_group = 0x1F50000000000001"
  by (simp add: wit_group_def guid_global_def high_shift_def high_guids)

lemma wit_pair_store:
  "QueueDataStore wit_pair_queue =
     [(9, \<lparr>qd_joinTime = 20, qd_tanks = 1, qd_healers = 1, qd_dps = 3, qd_dungeons = {7}, qd_roles = [(9, 8)], qd_bestCompatible = ''''\<rparr>),
      (0x1F50000000000001, \<lparr>qd_joinTime = 10, qd_tanks = 1, qd_healers = 1, qd_dps = 3, qd_dungeons = {7},
         qd_roles = [(5, 2), (6, 4), (7, 8), (8, 8)], qd_bestCompatible = ''''\<rparr>)]"
  "draws wit_pair_queue = 0" "proposals wit_pair_queue = []"
  by (simp_all add: wit_pair_queue_def AddQueueData_def AddToQueue_def AddToNewQueue_def lfg_queue_new_def
      LfgQueueData_def InitializeGroupSetup_def wit_lfg_env_def om_find_def wit_group_eq wit_dungeon_def)

lemma wit_groups: "IsGroup 0x1F50000000000001" "\<not> IsGroup 9"
  by code_simp+

lemma make_proposal_queued:
  "AllQueued env check \<Longrightarrow> fst (make_proposal env check did pc roles q) = LFG_COMPATIBLES_MATCH
    \<and> length (proposals (snd (make_proposal env check did pc roles q))) = Suc (length (proposals q))"
  by (simp add: make_proposal_def Let_def split_beta remove_all_effect)

lemma wit_match:
  "fst (CheckCompatibility wit_lfg_env [9, wit_group] wit_pair_queue) = LFG_COMPATIBLES_MATCH
   \<and> length (proposals (snd (CheckCompatibility wit_lfg_env [9, wit_group] wit_pair_queue))) = 1"
proof -
  let ?env = wit_lfg_env and ?c = "[9, wit_group]" and ?q = "wit_pair_queue\<lparr>draws := 1\<rparr>"
  let ?r = "[(5, 2), (6, 4), (7, 8), (8, 8), (9, 8)] :: roles_map"
  have pd: "proposal_dungeons ?env ?c wit_pair_queue = ({7}, wit_pair_queue)"
    by (simp add: proposal_dungeons_def queue_at_def om_find_def wit_pair_store wit_group_eq)
  have pk: "pick_dungeon ?env (sorted_list_of_set {7}) (draws wit_pair_queue) = (Some (7, wit_dungeon), 1)"
    by (simp add: wit_pair_store(2) wit_lfg_env_def)
  have mx: "GetMaxGroupSize wit_dungeon = 5" by (simp add: GetMaxGroupSize_def wit_dungeon_def)
  have lg: "IsLfgGroup ?env 0x1F50000000000001" "\<not> IsLfgGroup ?env 9" by (simp_all add: wit_lfg_env_def wit_groups)
  obtain pc where cp: "count_players ?env (GetMaxGroupSize wit_dungeon) ?q ?c \<lparr>pc_players = 0, pc_groups = 0, pc_map = [], pc_group = 0\<rparr> = Inr pc"
    and pc: "pc_players pc = 5" "pc_groups pc = 1"
    by (simp add: mx om_find_def wit_pair_store wit_group_eq wit_groups lg Let_def cong: option.case_cong)
  have mr: "merge_roles ?env ?c [] ?q = (?r, ?q)"
    by (simp add: queue_at_def om_find_def wit_pair_store wit_group_eq join_roles_def om_keys_def wit_lfg_env_def)
  have cg: "CheckGroupRoles wit_dungeon ?r = (True, ?r)" by code_simp
  have "check_players ?env ?c 7 wit_dungeon pc ?q = make_proposal ?env ?c 7 pc ?r ?q"
    using check_players_multi [OF _ mr, of 7 wit_dungeon pc] by (simp add: mx pc cg finish_check_def)
  then have "CheckCompatibility ?env ?c wit_pair_queue = make_proposal ?env ?c 7 pc ?r ?q"
    using check_set_picked [OF pd pk cp] by (simp add: mx)
  moreover have "AllQueued ?env ?c" by (simp add: wit_lfg_env_def)
  ultimately show ?thesis
    using make_proposal_queued [of ?env ?c 7 pc ?r ?q] by (simp add: wit_pair_store del: CheckCompatibility.simps)
qed

theorem match_is_full_group_witness:
  "\<exists>p. proposals (snd (CheckCompatibility wit_lfg_env [9, wit_group] wit_pair_queue)) = [p]
     \<and> role_count PLAYER_ROLE_TANK (proposed_roles p) = 1 \<and> role_count PLAYER_ROLE_DAMAGE (proposed_roles p) = 3"
proof -
  let ?r = "CheckCompatibility wit_lfg_env [9, wit_group] wit_pair_queue"
  have e: "entry_roles wit_pair_queue wit_group = [(5, 2), (6, 4), (7, 8), (8, 8)]" "entry_roles wit_pair_queue 9 = [(9, 8)]"
    by (simp_all add: entry_roles_def om_find_def wit_pair_store wit_group_eq)
  have h: "?r = (LFG_COMPATIBLES_MATCH, snd ?r)" "1 < length [9, wit_group]"
    "\<forall>g \<in> set [9, wit_group]. roles_known (entry_roles wit_pair_queue g)"
    "(\<Sum>g\<leftarrow>[9, wit_group]. length (entry_roles wit_pair_queue g)) < 256"
    "\<forall>i dg. GetLFGDungeon wit_lfg_env i = Some dg \<longrightarrow>
       unat (requiredTanks dg) + unat (requiredHealers dg) + unat (requiredDamageDealers dg) < 2 ^ 32"
    using wit_match by (simp_all add: prod_eq_iff e roles_known_def wit_lfg_env_def wit_dungeon_def del: CheckCompatibility.simps)
  obtain ps p dg where p: "proposals (snd ?r) = proposals wit_pair_queue @ ps @ [p]"
    "GetLFGDungeon wit_lfg_env (lp_dungeonId p) = Some dg"
    "role_count PLAYER_ROLE_TANK (proposed_roles p) = unat (requiredTanks dg)"
    "role_count PLAYER_ROLE_DAMAGE (proposed_roles p) = unat (requiredDamageDealers dg)"
    using match_is_full_group [OF h] by blast
  have "dg = wit_dungeon" using p(2) by (simp add: wit_lfg_env_def split: if_splits)
  then show ?thesis using p wit_match by (simp add: wit_dungeon_def wit_pair_store del: CheckCompatibility.simps)
qed

end
