(* ===== verification/Movement_Tables.thy ===== *)
theory Movement_Tables
  imports Prelude
begin

text \<open>
  The message layouts of \<^verbatim>\<open>src/src/server/game/Movement/MovementStructures.cpp\<close>: every movement
  packet is described by an array of \<^verbatim>\<open>MovementStatusElements\<close> ended by \<^verbatim>\<open>MSEEnd\<close>, and
  \<^verbatim>\<open>GetMovementStatusElementsSequence\<close> picks the array of an opcode. The four families of eight
  enumerators for the bytes of an identifier are constructors with the index of the byte, which is how
  the code uses them (\<^verbatim>\<open>element - MSEGuidByte0\<close>). The arrays are in the order of the file.
\<close>

section \<open>Elements\<close>

datatype mse =
    MSEHasGuidByte nat
  | MSEHasMovementFlags
  | MSEHasMovementFlags2
  | MSEHasTimestamp
  | MSEHasOrientation
  | MSEHasTransportData
  | MSEHasTransportGuidByte nat
  | MSEHasTransportTime2
  | MSEHasVehicleId
  | MSEHasPitch
  | MSEHasFallData
  | MSEHasFallDirection
  | MSEHasSplineElevation
  | MSEHasSpline
  | MSEHasHeightChangeFailed
  | MSEGuidByte nat
  | MSEMovementFlags
  | MSEMovementFlags2
  | MSETimestamp
  | MSEPositionX
  | MSEPositionY
  | MSEPositionZ
  | MSEOrientation
  | MSETransportGuidByte nat
  | MSETransportPositionX
  | MSETransportPositionY
  | MSETransportPositionZ
  | MSETransportOrientation
  | MSETransportSeat
  | MSETransportTime
  | MSETransportTime2
  | MSETransportVehicleId
  | MSEPitch
  | MSEFallTime
  | MSEFallVerticalSpeed
  | MSEFallCosAngle
  | MSEFallSinAngle
  | MSEFallHorizontalSpeed
  | MSESplineElevation
  | MSECounter
  | MSEZeroBit
  | MSEOneBit
  | MSEFlushBits
  | MSEEnd
  | MSEExtraElement
  | MSEExtraFloat
  | MSEExtraInt8
  | MSEExtraTwoBits

section \<open>Layouts\<close>

definition MovementUpdate :: "mse list" where
  "MovementUpdate =
    [MSEHasFallData, MSEHasGuidByte 3, MSEHasGuidByte 6, MSEHasMovementFlags2, MSEHasSpline,
     MSEHasTimestamp, MSEHasGuidByte 0, MSEHasGuidByte 1, MSEMovementFlags2, MSEHasGuidByte 7,
     MSEHasMovementFlags, MSEHasOrientation, MSEHasGuidByte 2, MSEHasSplineElevation,
     MSEHasHeightChangeFailed, MSEHasGuidByte 4, MSEHasFallDirection, MSEHasGuidByte 5,
     MSEHasTransportData, MSEMovementFlags, MSEHasTransportGuidByte 3, MSEHasVehicleId,
     MSEHasTransportGuidByte 6, MSEHasTransportGuidByte 1, MSEHasTransportGuidByte 7,
     MSEHasTransportGuidByte 0, MSEHasTransportGuidByte 4, MSEHasTransportTime2, MSEHasTransportGuidByte 5,
     MSEHasTransportGuidByte 2, MSEHasPitch, MSEFlushBits, MSEGuidByte 5, MSEFallHorizontalSpeed,
     MSEFallSinAngle, MSEFallCosAngle, MSEFallVerticalSpeed, MSEFallTime, MSESplineElevation,
     MSEGuidByte 7, MSEPositionY, MSEGuidByte 3, MSETransportVehicleId, MSETransportGuidByte 6,
     MSETransportSeat, MSETransportGuidByte 5, MSETransportPositionX, MSETransportGuidByte 1,
     MSETransportOrientation, MSETransportGuidByte 2, MSETransportTime2, MSETransportGuidByte 0,
     MSETransportPositionZ, MSETransportGuidByte 7, MSETransportGuidByte 4, MSETransportGuidByte 3,
     MSETransportPositionY, MSETransportTime, MSEGuidByte 4, MSEPositionX, MSEGuidByte 6, MSEPositionZ,
     MSETimestamp, MSEGuidByte 2, MSEPitch, MSEGuidByte 0, MSEOrientation, MSEGuidByte 1, MSEEnd]"

definition MovementFallLand :: "mse list" where
  "MovementFallLand =
    [MSEPositionX, MSEPositionY, MSEPositionZ, MSEHasTransportData, MSEHasGuidByte 7, MSEHasGuidByte 1,
     MSEHasMovementFlags2, MSEHasGuidByte 3, MSEHasSplineElevation, MSEHasOrientation, MSEHasGuidByte 6,
     MSEHasTimestamp, MSEZeroBit, MSEHasPitch, MSEHasGuidByte 4, MSEHasSpline, MSEHasGuidByte 5,
     MSEHasMovementFlags, MSEHasFallData, MSEHasGuidByte 0, MSEHasGuidByte 2, MSEHasTransportGuidByte 0,
     MSEHasTransportGuidByte 5, MSEHasTransportGuidByte 3, MSEHasTransportGuidByte 2, MSEHasVehicleId,
     MSEHasTransportTime2, MSEHasTransportGuidByte 6, MSEHasTransportGuidByte 4, MSEHasTransportGuidByte 1,
     MSEHasTransportGuidByte 7, MSEMovementFlags2, MSEMovementFlags, MSEHasFallDirection, MSEGuidByte 1,
     MSEGuidByte 7, MSEGuidByte 4, MSEGuidByte 3, MSEGuidByte 6, MSEGuidByte 0, MSEGuidByte 2,
     MSEGuidByte 5, MSETransportTime, MSETransportPositionZ, MSETransportPositionY, MSETransportPositionX,
     MSETransportGuidByte 5, MSETransportVehicleId, MSETransportGuidByte 1, MSETransportSeat,
     MSETransportTime2, MSETransportGuidByte 4, MSETransportOrientation, MSETransportGuidByte 0,
     MSETransportGuidByte 7, MSETransportGuidByte 3, MSETransportGuidByte 6, MSETransportGuidByte 2,
     MSEFallVerticalSpeed, MSEFallTime, MSEFallSinAngle, MSEFallHorizontalSpeed, MSEFallCosAngle,
     MSESplineElevation, MSETimestamp, MSEPitch, MSEOrientation, MSEEnd]"

definition MovementHeartBeat :: "mse list" where
  "MovementHeartBeat =
    [MSEPositionZ, MSEPositionX, MSEPositionY, MSEHasPitch, MSEHasTimestamp, MSEHasFallData,
     MSEHasMovementFlags2, MSEHasTransportData, MSEHasGuidByte 7, MSEHasGuidByte 1, MSEHasGuidByte 0,
     MSEHasGuidByte 4, MSEHasGuidByte 2, MSEHasOrientation, MSEHasGuidByte 5, MSEHasGuidByte 3,
     MSEHasSplineElevation, MSEHasSpline, MSEZeroBit, MSEHasGuidByte 6, MSEHasMovementFlags,
     MSEHasVehicleId, MSEHasTransportGuidByte 4, MSEHasTransportGuidByte 2, MSEHasTransportTime2,
     MSEHasTransportGuidByte 5, MSEHasTransportGuidByte 7, MSEHasTransportGuidByte 6,
     MSEHasTransportGuidByte 0, MSEHasTransportGuidByte 3, MSEHasTransportGuidByte 1, MSEHasFallDirection,
     MSEMovementFlags, MSEMovementFlags2, MSEGuidByte 3, MSEGuidByte 6, MSEGuidByte 1, MSEGuidByte 7,
     MSEGuidByte 2, MSEGuidByte 5, MSEGuidByte 0, MSEGuidByte 4, MSETransportPositionZ, MSETransportSeat,
     MSETransportOrientation, MSETransportGuidByte 4, MSETransportPositionY, MSETransportTime,
     MSETransportPositionX, MSETransportGuidByte 5, MSETransportGuidByte 1, MSETransportGuidByte 3,
     MSETransportGuidByte 7, MSETransportVehicleId, MSETransportTime2, MSETransportGuidByte 2,
     MSETransportGuidByte 0, MSETransportGuidByte 6, MSEOrientation, MSEFallVerticalSpeed, MSEFallTime,
     MSEFallHorizontalSpeed, MSEFallCosAngle, MSEFallSinAngle, MSEPitch, MSESplineElevation, MSETimestamp,
     MSEEnd]"

definition MovementJump :: "mse list" where
  "MovementJump =
    [MSEPositionY, MSEPositionX, MSEPositionZ, MSEHasTimestamp, MSEHasGuidByte 5, MSEHasMovementFlags,
     MSEHasGuidByte 4, MSEHasGuidByte 6, MSEHasMovementFlags2, MSEHasGuidByte 0, MSEHasTransportData,
     MSEHasGuidByte 3, MSEHasPitch, MSEHasGuidByte 7, MSEHasFallData, MSEHasSpline, MSEHasOrientation,
     MSEHasGuidByte 1, MSEHasSplineElevation, MSEZeroBit, MSEHasGuidByte 2, MSEHasTransportGuidByte 3,
     MSEHasTransportGuidByte 7, MSEHasTransportGuidByte 6, MSEHasTransportGuidByte 0,
     MSEHasTransportGuidByte 5, MSEHasTransportGuidByte 1, MSEHasTransportGuidByte 4, MSEHasVehicleId,
     MSEHasTransportTime2, MSEHasTransportGuidByte 2, MSEHasFallDirection, MSEMovementFlags,
     MSEMovementFlags2, MSEGuidByte 6, MSEGuidByte 5, MSEGuidByte 4, MSEGuidByte 0, MSEGuidByte 2,
     MSEGuidByte 3, MSEGuidByte 7, MSEGuidByte 1, MSETransportGuidByte 1, MSETransportGuidByte 7,
     MSETransportPositionX, MSETransportGuidByte 4, MSETransportVehicleId, MSETransportGuidByte 0,
     MSETransportOrientation, MSETransportTime2, MSETransportTime, MSETransportGuidByte 6,
     MSETransportPositionZ, MSETransportSeat, MSETransportPositionY, MSETransportGuidByte 3,
     MSETransportGuidByte 2, MSETransportGuidByte 5, MSEPitch, MSETimestamp, MSEFallSinAngle,
     MSEFallCosAngle, MSEFallHorizontalSpeed, MSEFallVerticalSpeed, MSEFallTime, MSESplineElevation,
     MSEOrientation, MSEEnd]"

definition MovementSetFacing :: "mse list" where
  "MovementSetFacing =
    [MSEPositionX, MSEPositionY, MSEPositionZ, MSEHasGuidByte 6, MSEHasTransportData, MSEHasGuidByte 4,
     MSEHasSpline, MSEHasGuidByte 0, MSEHasOrientation, MSEHasTimestamp, MSEHasPitch, MSEHasMovementFlags2,
     MSEHasGuidByte 5, MSEHasGuidByte 7, MSEHasGuidByte 2, MSEHasFallData, MSEHasSplineElevation,
     MSEHasMovementFlags, MSEHasGuidByte 3, MSEZeroBit, MSEHasGuidByte 1, MSEHasVehicleId,
     MSEHasTransportGuidByte 3, MSEHasTransportGuidByte 7, MSEHasTransportGuidByte 5,
     MSEHasTransportGuidByte 2, MSEHasTransportGuidByte 6, MSEHasTransportGuidByte 0, MSEHasTransportTime2,
     MSEHasTransportGuidByte 4, MSEHasTransportGuidByte 1, MSEHasFallDirection, MSEMovementFlags2,
     MSEMovementFlags, MSEGuidByte 6, MSEGuidByte 7, MSEGuidByte 2, MSEGuidByte 0, MSEGuidByte 4,
     MSEGuidByte 1, MSEGuidByte 5, MSEGuidByte 3, MSETransportGuidByte 0, MSETransportPositionX,
     MSETransportGuidByte 1, MSETransportTime2, MSETransportGuidByte 4, MSETransportPositionZ,
     MSETransportOrientation, MSETransportGuidByte 2, MSETransportVehicleId, MSETransportGuidByte 3,
     MSETransportSeat, MSETransportPositionY, MSETransportGuidByte 5, MSETransportGuidByte 6,
     MSETransportTime, MSETransportGuidByte 7, MSEFallHorizontalSpeed, MSEFallCosAngle, MSEFallSinAngle,
     MSEFallTime, MSEFallVerticalSpeed, MSESplineElevation, MSEOrientation, MSETimestamp, MSEPitch, MSEEnd]"

definition MovementSetPitch :: "mse list" where
  "MovementSetPitch =
    [MSEPositionX, MSEPositionZ, MSEPositionY, MSEHasFallData, MSEHasMovementFlags, MSEHasGuidByte 1,
     MSEHasOrientation, MSEHasGuidByte 7, MSEHasGuidByte 3, MSEHasMovementFlags2, MSEHasTransportData,
     MSEHasSplineElevation, MSEHasGuidByte 6, MSEHasPitch, MSEHasGuidByte 4, MSEHasSpline,
     MSEHasGuidByte 2, MSEZeroBit, MSEHasTimestamp, MSEHasGuidByte 0, MSEHasGuidByte 5,
     MSEHasTransportGuidByte 3, MSEHasTransportGuidByte 6, MSEHasTransportGuidByte 2,
     MSEHasTransportGuidByte 4, MSEHasTransportGuidByte 0, MSEHasTransportGuidByte 1,
     MSEHasTransportGuidByte 5, MSEHasVehicleId, MSEHasTransportGuidByte 7, MSEHasTransportTime2,
     MSEMovementFlags2, MSEMovementFlags, MSEHasFallDirection, MSEGuidByte 3, MSEGuidByte 7, MSEGuidByte 1,
     MSEGuidByte 6, MSEGuidByte 0, MSEGuidByte 5, MSEGuidByte 2, MSEGuidByte 4, MSETransportGuidByte 4,
     MSETransportGuidByte 3, MSETransportGuidByte 6, MSETransportOrientation, MSETransportGuidByte 1,
     MSETransportVehicleId, MSETransportTime, MSETransportGuidByte 2, MSETransportPositionZ,
     MSETransportGuidByte 0, MSETransportTime2, MSETransportPositionY, MSETransportGuidByte 5,
     MSETransportSeat, MSETransportGuidByte 7, MSETransportPositionX, MSEFallVerticalSpeed, MSEFallTime,
     MSEFallHorizontalSpeed, MSEFallSinAngle, MSEFallCosAngle, MSEPitch, MSESplineElevation, MSETimestamp,
     MSEOrientation, MSEEnd]"

definition MovementStartBackward :: "mse list" where
  "MovementStartBackward =
    [MSEPositionX, MSEPositionZ, MSEPositionY, MSEHasTransportData, MSEHasGuidByte 3, MSEHasGuidByte 0,
     MSEHasGuidByte 2, MSEHasTimestamp, MSEHasGuidByte 7, MSEHasPitch, MSEZeroBit, MSEHasMovementFlags,
     MSEHasOrientation, MSEHasSpline, MSEHasMovementFlags2, MSEHasFallData, MSEHasGuidByte 5,
     MSEHasGuidByte 1, MSEHasGuidByte 4, MSEHasGuidByte 6, MSEHasSplineElevation,
     MSEHasTransportGuidByte 3, MSEHasTransportGuidByte 1, MSEHasTransportTime2, MSEHasTransportGuidByte 2,
     MSEHasTransportGuidByte 7, MSEHasTransportGuidByte 0, MSEHasTransportGuidByte 6,
     MSEHasTransportGuidByte 5, MSEHasTransportGuidByte 4, MSEHasVehicleId, MSEMovementFlags,
     MSEMovementFlags2, MSEHasFallDirection, MSEGuidByte 6, MSEGuidByte 7, MSEGuidByte 4, MSEGuidByte 1,
     MSEGuidByte 5, MSEGuidByte 0, MSEGuidByte 2, MSEGuidByte 3, MSETransportPositionZ,
     MSETransportGuidByte 2, MSETransportVehicleId, MSETransportGuidByte 0, MSETransportGuidByte 5,
     MSETransportPositionY, MSETransportGuidByte 1, MSETransportPositionX, MSETransportTime2,
     MSETransportGuidByte 4, MSETransportOrientation, MSETransportSeat, MSETransportGuidByte 7,
     MSETransportTime, MSETransportGuidByte 6, MSETransportGuidByte 3, MSEPitch, MSETimestamp,
     MSEFallHorizontalSpeed, MSEFallCosAngle, MSEFallSinAngle, MSEFallVerticalSpeed, MSEFallTime,
     MSEOrientation, MSESplineElevation, MSEEnd]"

definition MovementStartForward :: "mse list" where
  "MovementStartForward =
    [MSEPositionY, MSEPositionZ, MSEPositionX, MSEHasGuidByte 5, MSEHasGuidByte 2, MSEHasGuidByte 0,
     MSEZeroBit, MSEHasMovementFlags, MSEHasGuidByte 7, MSEHasGuidByte 3, MSEHasGuidByte 1,
     MSEHasOrientation, MSEHasGuidByte 6, MSEHasSpline, MSEHasSplineElevation, MSEHasGuidByte 4,
     MSEHasTransportData, MSEHasTimestamp, MSEHasPitch, MSEHasMovementFlags2, MSEHasFallData,
     MSEMovementFlags, MSEHasTransportGuidByte 3, MSEHasTransportGuidByte 4, MSEHasTransportGuidByte 6,
     MSEHasTransportGuidByte 2, MSEHasTransportGuidByte 5, MSEHasTransportGuidByte 0,
     MSEHasTransportGuidByte 7, MSEHasTransportGuidByte 1, MSEHasVehicleId, MSEHasTransportTime2,
     MSEHasFallDirection, MSEMovementFlags2, MSEGuidByte 2, MSEGuidByte 4, MSEGuidByte 6, MSEGuidByte 1,
     MSEGuidByte 7, MSEGuidByte 3, MSEGuidByte 5, MSEGuidByte 0, MSEFallVerticalSpeed,
     MSEFallHorizontalSpeed, MSEFallSinAngle, MSEFallCosAngle, MSEFallTime, MSETransportGuidByte 3,
     MSETransportPositionY, MSETransportPositionZ, MSETransportGuidByte 1, MSETransportGuidByte 4,
     MSETransportGuidByte 7, MSETransportOrientation, MSETransportGuidByte 2, MSETransportPositionX,
     MSETransportGuidByte 5, MSETransportVehicleId, MSETransportTime, MSETransportGuidByte 6,
     MSETransportGuidByte 0, MSETransportSeat, MSETransportTime2, MSESplineElevation, MSEPitch,
     MSEOrientation, MSETimestamp, MSEEnd]"

definition MovementStartStrafeLeft :: "mse list" where
  "MovementStartStrafeLeft =
    [MSEPositionZ, MSEPositionX, MSEPositionY, MSEHasSplineElevation, MSEHasGuidByte 5, MSEHasPitch,
     MSEHasGuidByte 6, MSEHasTimestamp, MSEHasGuidByte 1, MSEZeroBit, MSEHasGuidByte 4, MSEHasGuidByte 0,
     MSEHasGuidByte 2, MSEHasFallData, MSEHasOrientation, MSEHasGuidByte 3, MSEHasMovementFlags2,
     MSEHasGuidByte 7, MSEHasSpline, MSEHasMovementFlags, MSEHasTransportData, MSEHasFallDirection,
     MSEHasTransportTime2, MSEHasTransportGuidByte 7, MSEHasVehicleId, MSEHasTransportGuidByte 3,
     MSEHasTransportGuidByte 1, MSEHasTransportGuidByte 6, MSEHasTransportGuidByte 5,
     MSEHasTransportGuidByte 2, MSEHasTransportGuidByte 4, MSEHasTransportGuidByte 0, MSEMovementFlags,
     MSEMovementFlags2, MSEGuidByte 2, MSEGuidByte 6, MSEGuidByte 3, MSEGuidByte 1, MSEGuidByte 0,
     MSEGuidByte 7, MSEGuidByte 4, MSEGuidByte 5, MSEFallCosAngle, MSEFallHorizontalSpeed, MSEFallSinAngle,
     MSEFallTime, MSEFallVerticalSpeed, MSETransportSeat, MSETransportGuidByte 2, MSETransportTime2,
     MSETransportGuidByte 3, MSETransportPositionZ, MSETransportVehicleId, MSETransportGuidByte 0,
     MSETransportGuidByte 7, MSETransportPositionY, MSETransportGuidByte 5, MSETransportGuidByte 1,
     MSETransportOrientation, MSETransportTime, MSETransportGuidByte 6, MSETransportGuidByte 4,
     MSETransportPositionX, MSETimestamp, MSEOrientation, MSEPitch, MSESplineElevation, MSEEnd]"

definition MovementStartStrafeRight :: "mse list" where
  "MovementStartStrafeRight =
    [MSEPositionY, MSEPositionX, MSEPositionZ, MSEHasPitch, MSEHasGuidByte 1, MSEHasOrientation,
     MSEHasGuidByte 4, MSEHasSpline, MSEZeroBit, MSEHasGuidByte 5, MSEHasFallData, MSEHasSplineElevation,
     MSEHasTimestamp, MSEHasMovementFlags, MSEHasGuidByte 2, MSEHasGuidByte 7, MSEHasGuidByte 6,
     MSEHasGuidByte 3, MSEHasMovementFlags2, MSEHasTransportData, MSEHasGuidByte 0,
     MSEHasTransportGuidByte 7, MSEHasTransportGuidByte 2, MSEHasTransportGuidByte 3,
     MSEHasTransportGuidByte 5, MSEHasTransportGuidByte 0, MSEHasTransportTime2, MSEHasTransportGuidByte 6,
     MSEHasTransportGuidByte 1, MSEHasTransportGuidByte 4, MSEHasVehicleId, MSEMovementFlags2,
     MSEMovementFlags, MSEHasFallDirection, MSEGuidByte 7, MSEGuidByte 5, MSEGuidByte 3, MSEGuidByte 1,
     MSEGuidByte 2, MSEGuidByte 4, MSEGuidByte 6, MSEGuidByte 0, MSETransportGuidByte 5,
     MSETransportGuidByte 1, MSETransportGuidByte 6, MSETransportPositionY, MSETransportOrientation,
     MSETransportGuidByte 0, MSETransportGuidByte 2, MSETransportSeat, MSETransportPositionX,
     MSETransportVehicleId, MSETransportTime, MSETransportGuidByte 4, MSETransportGuidByte 7,
     MSETransportTime2, MSETransportPositionZ, MSETransportGuidByte 3, MSEPitch, MSEOrientation,
     MSEFallSinAngle, MSEFallCosAngle, MSEFallHorizontalSpeed, MSEFallTime, MSEFallVerticalSpeed,
     MSETimestamp, MSESplineElevation, MSEEnd]"

definition MovementStartTurnLeft :: "mse list" where
  "MovementStartTurnLeft =
    [MSEPositionY, MSEPositionX, MSEPositionZ, MSEZeroBit, MSEHasGuidByte 1, MSEHasOrientation,
     MSEHasSpline, MSEHasMovementFlags, MSEHasGuidByte 4, MSEHasGuidByte 2, MSEHasMovementFlags2,
     MSEHasGuidByte 5, MSEHasGuidByte 7, MSEHasTransportData, MSEHasGuidByte 6, MSEHasSplineElevation,
     MSEHasGuidByte 0, MSEHasGuidByte 3, MSEHasPitch, MSEHasTimestamp, MSEHasFallData, MSEMovementFlags2,
     MSEHasTransportGuidByte 3, MSEHasTransportGuidByte 1, MSEHasTransportGuidByte 0, MSEHasTransportTime2,
     MSEHasTransportGuidByte 2, MSEHasVehicleId, MSEHasTransportGuidByte 4, MSEHasTransportGuidByte 7,
     MSEHasTransportGuidByte 5, MSEHasTransportGuidByte 6, MSEHasFallDirection, MSEMovementFlags,
     MSEGuidByte 0, MSEGuidByte 4, MSEGuidByte 7, MSEGuidByte 5, MSEGuidByte 6, MSEGuidByte 3,
     MSEGuidByte 2, MSEGuidByte 1, MSEFallCosAngle, MSEFallSinAngle, MSEFallHorizontalSpeed,
     MSEFallVerticalSpeed, MSEFallTime, MSETransportGuidByte 0, MSETransportPositionX, MSETransportTime,
     MSETransportSeat, MSETransportPositionZ, MSETransportGuidByte 4, MSETransportOrientation,
     MSETransportGuidByte 2, MSETransportGuidByte 6, MSETransportGuidByte 1, MSETransportGuidByte 3,
     MSETransportPositionY, MSETransportVehicleId, MSETransportTime2, MSETransportGuidByte 5,
     MSETransportGuidByte 7, MSETimestamp, MSEPitch, MSEOrientation, MSESplineElevation, MSEEnd]"

definition MovementStartTurnRight :: "mse list" where
  "MovementStartTurnRight =
    [MSEPositionX, MSEPositionZ, MSEPositionY, MSEHasGuidByte 3, MSEHasGuidByte 5, MSEHasMovementFlags,
     MSEHasSpline, MSEHasGuidByte 0, MSEHasOrientation, MSEHasTransportData, MSEHasGuidByte 7, MSEZeroBit,
     MSEHasMovementFlags2, MSEHasGuidByte 1, MSEHasTimestamp, MSEHasGuidByte 6, MSEHasGuidByte 2,
     MSEHasGuidByte 4, MSEHasSplineElevation, MSEHasPitch, MSEHasFallData, MSEHasTransportGuidByte 1,
     MSEHasTransportTime2, MSEHasTransportGuidByte 6, MSEHasTransportGuidByte 0, MSEHasTransportGuidByte 3,
     MSEHasTransportGuidByte 5, MSEHasTransportGuidByte 2, MSEHasTransportGuidByte 4,
     MSEHasTransportGuidByte 7, MSEHasVehicleId, MSEMovementFlags2, MSEMovementFlags, MSEHasFallDirection,
     MSEGuidByte 5, MSEGuidByte 0, MSEGuidByte 7, MSEGuidByte 3, MSEGuidByte 2, MSEGuidByte 1,
     MSEGuidByte 4, MSEGuidByte 6, MSETransportPositionY, MSETransportGuidByte 0, MSETransportGuidByte 4,
     MSETransportGuidByte 1, MSETransportGuidByte 6, MSETransportGuidByte 2, MSETransportSeat,
     MSETransportOrientation, MSETransportGuidByte 5, MSETransportVehicleId, MSETransportPositionZ,
     MSETransportPositionX, MSETransportTime, MSETransportGuidByte 7, MSETransportGuidByte 3,
     MSETransportTime2, MSEFallHorizontalSpeed, MSEFallCosAngle, MSEFallSinAngle, MSEFallTime,
     MSEFallVerticalSpeed, MSEPitch, MSEOrientation, MSESplineElevation, MSETimestamp, MSEEnd]"

definition MovementStop :: "mse list" where
  "MovementStop =
    [MSEPositionX, MSEPositionY, MSEPositionZ, MSEHasGuidByte 3, MSEHasGuidByte 6, MSEHasSplineElevation,
     MSEHasSpline, MSEHasOrientation, MSEHasGuidByte 7, MSEHasMovementFlags, MSEHasGuidByte 5,
     MSEHasFallData, MSEHasMovementFlags2, MSEHasTransportData, MSEHasTimestamp, MSEHasGuidByte 4,
     MSEHasGuidByte 1, MSEZeroBit, MSEHasGuidByte 2, MSEHasGuidByte 0, MSEHasPitch,
     MSEHasTransportGuidByte 7, MSEHasTransportGuidByte 4, MSEHasTransportGuidByte 1,
     MSEHasTransportGuidByte 5, MSEHasTransportTime2, MSEHasVehicleId, MSEHasTransportGuidByte 3,
     MSEHasTransportGuidByte 6, MSEHasTransportGuidByte 0, MSEHasTransportGuidByte 2, MSEMovementFlags,
     MSEMovementFlags2, MSEHasFallDirection, MSEGuidByte 6, MSEGuidByte 3, MSEGuidByte 0, MSEGuidByte 4,
     MSEGuidByte 2, MSEGuidByte 1, MSEGuidByte 5, MSEGuidByte 7, MSETransportGuidByte 4,
     MSETransportGuidByte 7, MSETransportTime, MSETransportSeat, MSETransportPositionZ,
     MSETransportVehicleId, MSETransportGuidByte 2, MSETransportGuidByte 0, MSETransportPositionY,
     MSETransportGuidByte 1, MSETransportGuidByte 3, MSETransportTime2, MSETransportPositionX,
     MSETransportOrientation, MSETransportGuidByte 5, MSETransportGuidByte 6, MSETimestamp, MSEOrientation,
     MSEPitch, MSESplineElevation, MSEFallSinAngle, MSEFallCosAngle, MSEFallHorizontalSpeed,
     MSEFallVerticalSpeed, MSEFallTime, MSEEnd]"

definition MovementStopStrafe :: "mse list" where
  "MovementStopStrafe =
    [MSEPositionY, MSEPositionZ, MSEPositionX, MSEHasPitch, MSEHasTimestamp, MSEHasGuidByte 2,
     MSEHasFallData, MSEHasGuidByte 7, MSEHasSplineElevation, MSEHasGuidByte 3, MSEHasOrientation,
     MSEHasMovementFlags2, MSEHasTransportData, MSEHasMovementFlags, MSEHasSpline, MSEHasGuidByte 0,
     MSEZeroBit, MSEHasGuidByte 6, MSEHasGuidByte 5, MSEHasGuidByte 1, MSEHasGuidByte 4,
     MSEHasTransportGuidByte 7, MSEHasTransportGuidByte 0, MSEHasTransportGuidByte 4,
     MSEHasTransportGuidByte 2, MSEHasTransportGuidByte 6, MSEHasTransportGuidByte 5, MSEHasTransportTime2,
     MSEHasTransportGuidByte 1, MSEHasTransportGuidByte 3, MSEHasVehicleId, MSEMovementFlags,
     MSEHasFallDirection, MSEMovementFlags2, MSEGuidByte 2, MSEGuidByte 7, MSEGuidByte 3, MSEGuidByte 4,
     MSEGuidByte 5, MSEGuidByte 6, MSEGuidByte 1, MSEGuidByte 0, MSETransportSeat, MSETransportGuidByte 6,
     MSETransportPositionZ, MSETransportVehicleId, MSETransportGuidByte 1, MSETransportGuidByte 3,
     MSETransportGuidByte 2, MSETransportGuidByte 4, MSETransportGuidByte 5, MSETransportTime,
     MSETransportOrientation, MSETransportPositionX, MSETransportGuidByte 0, MSETransportPositionY,
     MSETransportTime2, MSETransportGuidByte 7, MSEFallSinAngle, MSEFallHorizontalSpeed, MSEFallCosAngle,
     MSEFallTime, MSEFallVerticalSpeed, MSESplineElevation, MSEOrientation, MSEPitch, MSETimestamp, MSEEnd]"

definition MovementStopTurn :: "mse list" where
  "MovementStopTurn =
    [MSEPositionX, MSEPositionZ, MSEPositionY, MSEHasGuidByte 5, MSEHasGuidByte 4, MSEHasFallData,
     MSEZeroBit, MSEHasGuidByte 1, MSEHasGuidByte 0, MSEHasSpline, MSEHasMovementFlags, MSEHasGuidByte 2,
     MSEHasGuidByte 6, MSEHasPitch, MSEHasTransportData, MSEHasGuidByte 3, MSEHasSplineElevation,
     MSEHasTimestamp, MSEHasMovementFlags2, MSEHasOrientation, MSEHasGuidByte 7, MSEHasTransportGuidByte 2,
     MSEHasTransportGuidByte 7, MSEHasVehicleId, MSEHasTransportGuidByte 4, MSEHasTransportTime2,
     MSEHasTransportGuidByte 5, MSEHasTransportGuidByte 0, MSEHasTransportGuidByte 3,
     MSEHasTransportGuidByte 6, MSEHasTransportGuidByte 1, MSEHasFallDirection, MSEMovementFlags,
     MSEMovementFlags2, MSEGuidByte 3, MSEGuidByte 2, MSEGuidByte 6, MSEGuidByte 4, MSEGuidByte 0,
     MSEGuidByte 7, MSEGuidByte 1, MSEGuidByte 5, MSESplineElevation, MSETransportPositionX,
     MSETransportGuidByte 5, MSETransportSeat, MSETransportGuidByte 2, MSETransportGuidByte 3,
     MSETransportOrientation, MSETransportTime2, MSETransportVehicleId, MSETransportGuidByte 7,
     MSETransportGuidByte 1, MSETransportGuidByte 0, MSETransportGuidByte 4, MSETransportPositionY,
     MSETransportPositionZ, MSETransportTime, MSETransportGuidByte 6, MSEFallTime, MSEFallHorizontalSpeed,
     MSEFallSinAngle, MSEFallCosAngle, MSEFallVerticalSpeed, MSETimestamp, MSEPitch, MSEOrientation, MSEEnd]"

definition MovementStartAscend :: "mse list" where
  "MovementStartAscend =
    [MSEPositionX, MSEPositionY, MSEPositionZ, MSEHasGuidByte 0, MSEHasGuidByte 1, MSEHasGuidByte 7,
     MSEZeroBit, MSEHasGuidByte 5, MSEHasTransportData, MSEHasGuidByte 2, MSEHasSplineElevation,
     MSEHasFallData, MSEHasSpline, MSEHasGuidByte 3, MSEHasMovementFlags2, MSEHasGuidByte 6,
     MSEHasMovementFlags, MSEHasPitch, MSEHasTimestamp, MSEHasOrientation, MSEHasGuidByte 4,
     MSEMovementFlags, MSEHasTransportGuidByte 0, MSEHasTransportGuidByte 2, MSEHasVehicleId,
     MSEHasTransportGuidByte 6, MSEHasTransportGuidByte 1, MSEHasTransportGuidByte 4, MSEHasTransportTime2,
     MSEHasTransportGuidByte 5, MSEHasTransportGuidByte 3, MSEHasTransportGuidByte 7, MSEMovementFlags2,
     MSEHasFallDirection, MSEGuidByte 6, MSEGuidByte 3, MSEGuidByte 1, MSEGuidByte 4, MSEGuidByte 2,
     MSEGuidByte 0, MSEGuidByte 5, MSEGuidByte 7, MSETransportGuidByte 3, MSETransportGuidByte 5,
     MSETransportGuidByte 4, MSETransportSeat, MSETransportGuidByte 2, MSETransportOrientation,
     MSETransportPositionY, MSETransportGuidByte 7, MSETransportTime2, MSETransportPositionZ,
     MSETransportVehicleId, MSETransportGuidByte 6, MSETransportTime, MSETransportGuidByte 0,
     MSETransportGuidByte 1, MSETransportPositionX, MSEFallSinAngle, MSEFallCosAngle,
     MSEFallHorizontalSpeed, MSEFallTime, MSEFallVerticalSpeed, MSEOrientation, MSEPitch, MSETimestamp,
     MSESplineElevation, MSEEnd]"

definition MovementStartDescend :: "mse list" where
  "MovementStartDescend =
    [MSEPositionY, MSEPositionZ, MSEPositionX, MSEHasGuidByte 0, MSEHasPitch, MSEHasFallData,
     MSEHasGuidByte 4, MSEHasOrientation, MSEHasTimestamp, MSEHasMovementFlags2, MSEHasMovementFlags,
     MSEHasGuidByte 6, MSEZeroBit, MSEHasGuidByte 1, MSEHasTransportData, MSEHasSpline,
     MSEHasSplineElevation, MSEHasGuidByte 5, MSEHasGuidByte 3, MSEHasGuidByte 7, MSEHasGuidByte 2,
     MSEHasTransportGuidByte 0, MSEHasTransportGuidByte 1, MSEHasTransportGuidByte 2, MSEHasVehicleId,
     MSEHasTransportGuidByte 7, MSEHasTransportGuidByte 4, MSEHasTransportGuidByte 6, MSEHasTransportTime2,
     MSEHasTransportGuidByte 3, MSEHasTransportGuidByte 5, MSEMovementFlags2, MSEMovementFlags,
     MSEHasFallDirection, MSEGuidByte 2, MSEGuidByte 7, MSEGuidByte 6, MSEGuidByte 0, MSEGuidByte 1,
     MSEGuidByte 5, MSEGuidByte 4, MSEGuidByte 3, MSEPitch, MSETransportPositionZ, MSETransportSeat,
     MSETransportVehicleId, MSETransportGuidByte 6, MSETransportTime2, MSETransportGuidByte 1,
     MSETransportTime, MSETransportGuidByte 4, MSETransportPositionY, MSETransportPositionX,
     MSETransportGuidByte 7, MSETransportGuidByte 3, MSETransportGuidByte 5, MSETransportGuidByte 2,
     MSETransportOrientation, MSETransportGuidByte 0, MSEFallTime, MSEFallCosAngle, MSEFallSinAngle,
     MSEFallHorizontalSpeed, MSEFallVerticalSpeed, MSETimestamp, MSEOrientation, MSESplineElevation, MSEEnd]"

definition MovementStartSwim :: "mse list" where
  "MovementStartSwim =
    [MSEPositionZ, MSEPositionX, MSEPositionY, MSEHasGuidByte 3, MSEHasSplineElevation, MSEHasGuidByte 4,
     MSEHasGuidByte 7, MSEZeroBit, MSEHasPitch, MSEHasGuidByte 0, MSEHasOrientation, MSEHasMovementFlags,
     MSEHasFallData, MSEHasGuidByte 5, MSEHasTransportData, MSEHasMovementFlags2, MSEHasTimestamp,
     MSEHasGuidByte 6, MSEHasGuidByte 1, MSEHasSpline, MSEHasGuidByte 2, MSEHasTransportGuidByte 2,
     MSEHasTransportGuidByte 3, MSEHasTransportGuidByte 7, MSEHasTransportGuidByte 5,
     MSEHasTransportGuidByte 4, MSEHasTransportGuidByte 0, MSEHasTransportTime2, MSEHasTransportGuidByte 6,
     MSEHasTransportGuidByte 1, MSEHasVehicleId, MSEMovementFlags, MSEHasFallDirection, MSEMovementFlags2,
     MSEGuidByte 0, MSEGuidByte 2, MSEGuidByte 1, MSEGuidByte 5, MSEGuidByte 4, MSEGuidByte 6,
     MSEGuidByte 3, MSEGuidByte 7, MSEPitch, MSETransportTime2, MSETransportGuidByte 2,
     MSETransportPositionY, MSETransportGuidByte 3, MSETransportTime, MSETransportPositionX,
     MSETransportOrientation, MSETransportVehicleId, MSETransportGuidByte 6, MSETransportGuidByte 5,
     MSETransportGuidByte 4, MSETransportPositionZ, MSETransportGuidByte 1, MSETransportGuidByte 7,
     MSETransportGuidByte 0, MSETransportSeat, MSEFallSinAngle, MSEFallHorizontalSpeed, MSEFallCosAngle,
     MSEFallVerticalSpeed, MSEFallTime, MSEOrientation, MSETimestamp, MSESplineElevation, MSEEnd]"

definition MovementStopSwim :: "mse list" where
  "MovementStopSwim =
    [MSEPositionX, MSEPositionY, MSEPositionZ, MSEHasSpline, MSEHasPitch, MSEHasGuidByte 5,
     MSEHasGuidByte 3, MSEHasGuidByte 7, MSEHasSplineElevation, MSEHasMovementFlags, MSEHasGuidByte 4,
     MSEHasMovementFlags2, MSEHasGuidByte 2, MSEHasGuidByte 6, MSEHasTransportData, MSEHasOrientation,
     MSEZeroBit, MSEHasTimestamp, MSEHasGuidByte 1, MSEHasGuidByte 0, MSEHasFallData, MSEHasVehicleId,
     MSEHasTransportGuidByte 4, MSEHasTransportGuidByte 6, MSEHasTransportGuidByte 3,
     MSEHasTransportGuidByte 7, MSEHasTransportGuidByte 1, MSEHasTransportGuidByte 0, MSEHasTransportTime2,
     MSEHasTransportGuidByte 2, MSEHasTransportGuidByte 5, MSEMovementFlags, MSEMovementFlags2,
     MSEHasFallDirection, MSEGuidByte 0, MSEGuidByte 4, MSEGuidByte 3, MSEGuidByte 6, MSEGuidByte 7,
     MSEGuidByte 1, MSEGuidByte 5, MSEGuidByte 2, MSETransportVehicleId, MSETransportGuidByte 4,
     MSETransportTime, MSETransportPositionZ, MSETransportSeat, MSETransportGuidByte 3,
     MSETransportGuidByte 2, MSETransportPositionY, MSETransportGuidByte 7, MSETransportGuidByte 1,
     MSETransportGuidByte 6, MSETransportGuidByte 5, MSETransportTime2, MSETransportPositionX,
     MSETransportGuidByte 0, MSETransportOrientation, MSEFallVerticalSpeed, MSEFallSinAngle,
     MSEFallHorizontalSpeed, MSEFallCosAngle, MSEFallTime, MSETimestamp, MSEPitch, MSEOrientation,
     MSESplineElevation, MSEEnd]"

definition MovementStopAscend :: "mse list" where
  "MovementStopAscend =
    [MSEPositionZ, MSEPositionY, MSEPositionX, MSEHasGuidByte 3, MSEHasGuidByte 2, MSEHasFallData,
     MSEHasGuidByte 7, MSEHasOrientation, MSEHasPitch, MSEHasSpline, MSEZeroBit, MSEHasGuidByte 1,
     MSEHasGuidByte 4, MSEHasMovementFlags, MSEHasGuidByte 0, MSEHasGuidByte 6, MSEHasSplineElevation,
     MSEHasTransportData, MSEHasMovementFlags2, MSEHasTimestamp, MSEHasGuidByte 5, MSEHasTransportTime2,
     MSEHasVehicleId, MSEHasTransportGuidByte 1, MSEHasTransportGuidByte 3, MSEHasTransportGuidByte 2,
     MSEHasTransportGuidByte 5, MSEHasTransportGuidByte 7, MSEHasTransportGuidByte 4,
     MSEHasTransportGuidByte 6, MSEHasTransportGuidByte 0, MSEMovementFlags2, MSEMovementFlags,
     MSEHasFallDirection, MSEGuidByte 7, MSEGuidByte 5, MSEGuidByte 4, MSEGuidByte 3, MSEGuidByte 2,
     MSEGuidByte 1, MSEGuidByte 0, MSEGuidByte 6, MSETransportGuidByte 5, MSETransportPositionY,
     MSETransportGuidByte 7, MSETransportGuidByte 2, MSETransportGuidByte 6, MSETransportTime2,
     MSETransportVehicleId, MSETransportOrientation, MSETransportGuidByte 3, MSETransportGuidByte 4,
     MSETransportSeat, MSETransportGuidByte 1, MSETransportTime, MSETransportGuidByte 0,
     MSETransportPositionX, MSETransportPositionZ, MSEFallTime, MSEFallVerticalSpeed, MSEFallSinAngle,
     MSEFallCosAngle, MSEFallHorizontalSpeed, MSEPitch, MSESplineElevation, MSETimestamp, MSEOrientation,
     MSEEnd]"

definition MovementStopPitch :: "mse list" where
  "MovementStopPitch =
    [MSEPositionX, MSEPositionZ, MSEPositionY, MSEHasGuidByte 0, MSEHasGuidByte 5, MSEHasGuidByte 3,
     MSEHasFallData, MSEHasGuidByte 2, MSEHasGuidByte 4, MSEHasGuidByte 7, MSEHasPitch, MSEHasSpline,
     MSEHasOrientation, MSEZeroBit, MSEHasMovementFlags2, MSEHasSplineElevation, MSEHasGuidByte 6,
     MSEHasGuidByte 1, MSEHasTimestamp, MSEHasTransportData, MSEHasMovementFlags,
     MSEHasTransportGuidByte 7, MSEHasTransportGuidByte 0, MSEHasTransportGuidByte 5,
     MSEHasTransportGuidByte 2, MSEHasVehicleId, MSEHasTransportGuidByte 6, MSEHasTransportGuidByte 3,
     MSEHasTransportTime2, MSEHasTransportGuidByte 4, MSEHasTransportGuidByte 1, MSEHasFallDirection,
     MSEMovementFlags2, MSEMovementFlags, MSEGuidByte 1, MSEGuidByte 7, MSEGuidByte 0, MSEGuidByte 6,
     MSEGuidByte 4, MSEGuidByte 3, MSEGuidByte 5, MSEGuidByte 2, MSETimestamp, MSEFallHorizontalSpeed,
     MSEFallCosAngle, MSEFallSinAngle, MSEFallVerticalSpeed, MSEFallTime, MSETransportGuidByte 5,
     MSETransportGuidByte 2, MSETransportTime2, MSETransportPositionX, MSETransportOrientation,
     MSETransportGuidByte 6, MSETransportGuidByte 3, MSETransportGuidByte 1, MSETransportPositionZ,
     MSETransportVehicleId, MSETransportGuidByte 0, MSETransportGuidByte 4, MSETransportTime,
     MSETransportPositionY, MSETransportSeat, MSETransportGuidByte 7, MSESplineElevation, MSEOrientation,
     MSEPitch, MSEEnd]"

definition MovementStartPitchDown :: "mse list" where
  "MovementStartPitchDown =
    [MSEPositionX, MSEPositionZ, MSEPositionY, MSEHasMovementFlags, MSEHasGuidByte 7, MSEHasGuidByte 6,
     MSEHasPitch, MSEZeroBit, MSEHasGuidByte 1, MSEHasGuidByte 4, MSEHasTimestamp, MSEHasSplineElevation,
     MSEHasMovementFlags2, MSEHasTransportData, MSEHasGuidByte 0, MSEHasGuidByte 5, MSEHasGuidByte 3,
     MSEHasSpline, MSEHasOrientation, MSEHasFallData, MSEHasGuidByte 2, MSEHasTransportGuidByte 1,
     MSEHasTransportGuidByte 5, MSEHasVehicleId, MSEHasTransportGuidByte 7, MSEHasTransportGuidByte 4,
     MSEHasTransportGuidByte 6, MSEHasTransportTime2, MSEHasTransportGuidByte 0, MSEHasTransportGuidByte 3,
     MSEHasTransportGuidByte 2, MSEMovementFlags2, MSEHasFallDirection, MSEMovementFlags, MSEGuidByte 3,
     MSEGuidByte 7, MSEGuidByte 0, MSEGuidByte 5, MSEGuidByte 2, MSEGuidByte 6, MSEGuidByte 4,
     MSEGuidByte 1, MSETransportVehicleId, MSETransportGuidByte 3, MSETransportTime2,
     MSETransportGuidByte 5, MSETransportGuidByte 1, MSETransportPositionY, MSETransportGuidByte 6,
     MSETransportGuidByte 4, MSETransportTime, MSETransportPositionZ, MSETransportPositionX,
     MSETransportGuidByte 0, MSETransportSeat, MSETransportGuidByte 2, MSETransportGuidByte 7,
     MSETransportOrientation, MSEFallCosAngle, MSEFallHorizontalSpeed, MSEFallSinAngle,
     MSEFallVerticalSpeed, MSEFallTime, MSEPitch, MSEOrientation, MSESplineElevation, MSETimestamp, MSEEnd]"

definition MovementStartPitchUp :: "mse list" where
  "MovementStartPitchUp =
    [MSEPositionZ, MSEPositionY, MSEPositionX, MSEHasGuidByte 4, MSEHasMovementFlags, MSEHasMovementFlags2,
     MSEHasSpline, MSEHasGuidByte 2, MSEHasGuidByte 6, MSEHasGuidByte 3, MSEZeroBit, MSEHasSplineElevation,
     MSEHasFallData, MSEHasGuidByte 0, MSEHasTransportData, MSEHasGuidByte 1, MSEHasGuidByte 5,
     MSEHasPitch, MSEHasTimestamp, MSEHasOrientation, MSEHasGuidByte 7, MSEMovementFlags2,
     MSEHasTransportGuidByte 7, MSEHasTransportGuidByte 3, MSEHasTransportGuidByte 1, MSEHasTransportTime2,
     MSEHasTransportGuidByte 4, MSEHasVehicleId, MSEHasTransportGuidByte 0, MSEHasTransportGuidByte 6,
     MSEHasTransportGuidByte 5, MSEHasTransportGuidByte 2, MSEMovementFlags, MSEHasFallDirection,
     MSEGuidByte 0, MSEGuidByte 3, MSEGuidByte 4, MSEGuidByte 6, MSEGuidByte 7, MSEGuidByte 1,
     MSEGuidByte 5, MSEGuidByte 2, MSETransportPositionX, MSETransportGuidByte 1, MSETransportGuidByte 3,
     MSETransportGuidByte 2, MSETransportGuidByte 0, MSETransportTime, MSETransportPositionZ,
     MSETransportOrientation, MSETransportGuidByte 7, MSETransportTime2, MSETransportSeat,
     MSETransportGuidByte 6, MSETransportGuidByte 5, MSETransportVehicleId, MSETransportPositionY,
     MSETransportGuidByte 4, MSEFallTime, MSEFallSinAngle, MSEFallCosAngle, MSEFallHorizontalSpeed,
     MSEFallVerticalSpeed, MSEOrientation, MSESplineElevation, MSEPitch, MSETimestamp, MSEEnd]"

definition MoveChngTransport :: "mse list" where
  "MoveChngTransport =
    [MSEPositionY, MSEPositionX, MSEPositionZ, MSEHasGuidByte 4, MSEHasGuidByte 0, MSEHasGuidByte 2,
     MSEHasTransportData, MSEHasSpline, MSEHasOrientation, MSEHasGuidByte 6, MSEHasTimestamp,
     MSEHasGuidByte 5, MSEHasGuidByte 7, MSEHasPitch, MSEZeroBit, MSEHasGuidByte 3, MSEHasSplineElevation,
     MSEHasGuidByte 1, MSEHasFallData, MSEHasMovementFlags, MSEHasMovementFlags2,
     MSEHasTransportGuidByte 3, MSEHasVehicleId, MSEHasTransportGuidByte 4, MSEHasTransportGuidByte 1,
     MSEHasTransportGuidByte 6, MSEHasTransportGuidByte 2, MSEHasTransportTime2, MSEHasTransportGuidByte 0,
     MSEHasTransportGuidByte 7, MSEHasTransportGuidByte 5, MSEMovementFlags, MSEMovementFlags2,
     MSEHasFallDirection, MSEGuidByte 7, MSEGuidByte 5, MSEGuidByte 1, MSEGuidByte 2, MSEGuidByte 6,
     MSEGuidByte 4, MSEGuidByte 0, MSEGuidByte 3, MSETransportPositionY, MSETransportSeat,
     MSETransportGuidByte 1, MSETransportGuidByte 0, MSETransportGuidByte 2, MSETransportGuidByte 3,
     MSETransportGuidByte 6, MSETransportPositionZ, MSETransportPositionX, MSETransportVehicleId,
     MSETransportTime, MSETransportGuidByte 7, MSETransportGuidByte 5, MSETransportGuidByte 4,
     MSETransportOrientation, MSETransportTime2, MSEFallTime, MSEFallHorizontalSpeed, MSEFallSinAngle,
     MSEFallCosAngle, MSEFallVerticalSpeed, MSEOrientation, MSEPitch, MSESplineElevation, MSETimestamp,
     MSEEnd]"

definition MoveSplineDone :: "mse list" where
  "MoveSplineDone =
    [MSEPositionY, MSEPositionX, MSEPositionZ, MSEHasGuidByte 6, MSEHasOrientation, MSEHasFallData,
     MSEHasTimestamp, MSEHasGuidByte 2, MSEHasSplineElevation, MSEHasGuidByte 4, MSEHasTransportData,
     MSEHasGuidByte 3, MSEHasMovementFlags, MSEHasGuidByte 0, MSEZeroBit, MSEHasGuidByte 1,
     MSEHasGuidByte 5, MSEHasPitch, MSEHasSpline, MSEHasMovementFlags2, MSEHasGuidByte 7,
     MSEHasTransportGuidByte 1, MSEHasTransportGuidByte 7, MSEHasTransportGuidByte 5,
     MSEHasTransportGuidByte 3, MSEHasTransportGuidByte 4, MSEHasTransportGuidByte 6, MSEHasTransportTime2,
     MSEHasTransportGuidByte 2, MSEHasVehicleId, MSEHasTransportGuidByte 0, MSEHasFallDirection,
     MSEMovementFlags2, MSEMovementFlags, MSEGuidByte 7, MSEGuidByte 4, MSEGuidByte 5, MSEGuidByte 6,
     MSEGuidByte 0, MSEGuidByte 1, MSEGuidByte 2, MSEGuidByte 3, MSEFallVerticalSpeed, MSEFallCosAngle,
     MSEFallSinAngle, MSEFallHorizontalSpeed, MSEFallTime, MSEPitch, MSEOrientation,
     MSETransportGuidByte 1, MSETransportVehicleId, MSETransportGuidByte 7, MSETransportTime,
     MSETransportPositionY, MSETransportPositionX, MSETransportPositionZ, MSETransportSeat,
     MSETransportOrientation, MSETransportGuidByte 0, MSETransportTime2, MSETransportGuidByte 2,
     MSETransportGuidByte 3, MSETransportGuidByte 5, MSETransportGuidByte 6, MSETransportGuidByte 4,
     MSETimestamp, MSESplineElevation, MSEEnd]"

definition MoveNotActiveMover :: "mse list" where
  "MoveNotActiveMover =
    [MSEPositionZ, MSEPositionX, MSEPositionY, MSEHasMovementFlags2, MSEHasTransportData, MSEHasGuidByte 6,
     MSEHasSplineElevation, MSEHasGuidByte 3, MSEZeroBit, MSEHasTimestamp, MSEHasGuidByte 0,
     MSEHasOrientation, MSEHasGuidByte 5, MSEHasPitch, MSEHasGuidByte 1, MSEHasGuidByte 4,
     MSEHasGuidByte 7, MSEHasSpline, MSEHasGuidByte 2, MSEHasFallData, MSEHasMovementFlags,
     MSEHasTransportGuidByte 4, MSEHasTransportGuidByte 0, MSEHasTransportGuidByte 1,
     MSEHasTransportGuidByte 6, MSEHasTransportGuidByte 2, MSEHasVehicleId, MSEHasTransportGuidByte 5,
     MSEHasTransportGuidByte 7, MSEHasTransportTime2, MSEHasTransportGuidByte 3, MSEHasFallDirection,
     MSEMovementFlags, MSEMovementFlags2, MSEGuidByte 1, MSEGuidByte 0, MSEGuidByte 4, MSEGuidByte 2,
     MSEGuidByte 7, MSEGuidByte 5, MSEGuidByte 6, MSEGuidByte 3, MSEFallVerticalSpeed, MSEFallSinAngle,
     MSEFallCosAngle, MSEFallHorizontalSpeed, MSEFallTime, MSETransportVehicleId, MSETransportGuidByte 1,
     MSETransportTime2, MSETransportOrientation, MSETransportGuidByte 0, MSETransportSeat,
     MSETransportGuidByte 4, MSETransportGuidByte 6, MSETransportGuidByte 3, MSETransportGuidByte 5,
     MSETransportPositionY, MSETransportPositionX, MSETransportGuidByte 2, MSETransportPositionZ,
     MSETransportGuidByte 7, MSETransportTime, MSETimestamp, MSESplineElevation, MSEPitch, MSEOrientation,
     MSEEnd]"

definition DismissControlledVehicle :: "mse list" where
  "DismissControlledVehicle =
    [MSEPositionY, MSEPositionZ, MSEPositionX, MSEHasSplineElevation, MSEHasFallData, MSEHasTransportData,
     MSEHasGuidByte 4, MSEHasGuidByte 7, MSEHasMovementFlags2, MSEHasGuidByte 2, MSEHasOrientation,
     MSEHasGuidByte 0, MSEHasGuidByte 6, MSEHasPitch, MSEHasTimestamp, MSEHasGuidByte 1, MSEZeroBit,
     MSEHasSpline, MSEHasGuidByte 3, MSEHasMovementFlags, MSEHasGuidByte 5, MSEHasTransportGuidByte 5,
     MSEHasVehicleId, MSEHasTransportGuidByte 2, MSEHasTransportGuidByte 0, MSEHasTransportGuidByte 7,
     MSEHasTransportGuidByte 3, MSEHasTransportGuidByte 4, MSEHasTransportGuidByte 1,
     MSEHasTransportGuidByte 6, MSEHasTransportTime2, MSEMovementFlags2, MSEHasFallDirection,
     MSEMovementFlags, MSEGuidByte 6, MSEGuidByte 3, MSEGuidByte 1, MSEGuidByte 5, MSEGuidByte 2,
     MSEGuidByte 4, MSEGuidByte 7, MSEGuidByte 0, MSETimestamp, MSETransportVehicleId,
     MSETransportGuidByte 4, MSETransportGuidByte 7, MSETransportTime2, MSETransportGuidByte 6,
     MSETransportTime, MSETransportPositionZ, MSETransportGuidByte 0, MSETransportPositionX,
     MSETransportGuidByte 3, MSETransportSeat, MSETransportPositionY, MSETransportOrientation,
     MSETransportGuidByte 1, MSETransportGuidByte 5, MSETransportGuidByte 2, MSEFallTime,
     MSEFallHorizontalSpeed, MSEFallCosAngle, MSEFallSinAngle, MSEFallVerticalSpeed, MSEOrientation,
     MSESplineElevation, MSEPitch, MSEEnd]"

definition MovementSetRunMode :: "mse list" where
  "MovementSetRunMode =
    [MSEPositionY, MSEPositionX, MSEPositionZ, MSEHasTimestamp, MSEHasMovementFlags2, MSEHasGuidByte 1,
     MSEHasSpline, MSEHasMovementFlags, MSEHasGuidByte 7, MSEHasTransportData, MSEZeroBit,
     MSEHasGuidByte 0, MSEHasGuidByte 3, MSEHasSplineElevation, MSEHasGuidByte 5, MSEHasPitch,
     MSEHasGuidByte 6, MSEHasGuidByte 4, MSEHasFallData, MSEHasOrientation, MSEHasGuidByte 2,
     MSEHasTransportGuidByte 6, MSEHasTransportGuidByte 4, MSEHasVehicleId, MSEHasTransportGuidByte 5,
     MSEHasTransportGuidByte 3, MSEHasTransportGuidByte 1, MSEHasTransportTime2, MSEHasTransportGuidByte 7,
     MSEHasTransportGuidByte 0, MSEHasTransportGuidByte 2, MSEHasFallDirection, MSEMovementFlags2,
     MSEMovementFlags, MSEGuidByte 3, MSEGuidByte 6, MSEGuidByte 0, MSEGuidByte 7, MSEGuidByte 4,
     MSEGuidByte 1, MSEGuidByte 5, MSEGuidByte 2, MSEPitch, MSETransportTime2, MSETransportGuidByte 3,
     MSETransportPositionX, MSETransportSeat, MSETransportGuidByte 5, MSETransportGuidByte 1,
     MSETransportPositionZ, MSETransportGuidByte 2, MSETransportGuidByte 7, MSETransportOrientation,
     MSETransportGuidByte 4, MSETransportTime, MSETransportVehicleId, MSETransportGuidByte 0,
     MSETransportPositionY, MSETransportGuidByte 6, MSEFallSinAngle, MSEFallHorizontalSpeed,
     MSEFallCosAngle, MSEFallTime, MSEFallVerticalSpeed, MSESplineElevation, MSETimestamp, MSEOrientation,
     MSEEnd]"

definition MovementSetWalkMode :: "mse list" where
  "MovementSetWalkMode =
    [MSEPositionY, MSEPositionX, MSEPositionZ, MSEHasGuidByte 6, MSEHasSpline, MSEHasTimestamp,
     MSEHasGuidByte 0, MSEHasGuidByte 1, MSEHasMovementFlags, MSEHasPitch, MSEHasGuidByte 7,
     MSEHasSplineElevation, MSEHasGuidByte 4, MSEHasOrientation, MSEHasTransportData, MSEHasGuidByte 2,
     MSEHasGuidByte 5, MSEHasGuidByte 3, MSEZeroBit, MSEHasMovementFlags2, MSEHasFallData,
     MSEHasTransportGuidByte 2, MSEHasTransportGuidByte 0, MSEHasTransportGuidByte 6,
     MSEHasTransportGuidByte 1, MSEHasTransportGuidByte 3, MSEHasTransportTime2, MSEHasTransportGuidByte 5,
     MSEHasVehicleId, MSEHasTransportGuidByte 4, MSEHasTransportGuidByte 7, MSEHasFallDirection,
     MSEMovementFlags, MSEMovementFlags2, MSEGuidByte 5, MSEGuidByte 6, MSEGuidByte 4, MSEGuidByte 7,
     MSEGuidByte 3, MSEGuidByte 0, MSEGuidByte 2, MSEGuidByte 1, MSETransportGuidByte 2,
     MSETransportGuidByte 5, MSETransportSeat, MSETransportPositionZ, MSETransportGuidByte 3,
     MSETransportGuidByte 6, MSETransportGuidByte 0, MSETransportTime, MSETransportGuidByte 4,
     MSETransportTime2, MSETransportOrientation, MSETransportPositionX, MSETransportVehicleId,
     MSETransportGuidByte 7, MSETransportPositionY, MSETransportGuidByte 1, MSEFallCosAngle,
     MSEFallHorizontalSpeed, MSEFallSinAngle, MSEFallVerticalSpeed, MSEFallTime, MSESplineElevation,
     MSEPitch, MSETimestamp, MSEOrientation, MSEEnd]"

definition MovementSetCanFly :: "mse list" where
  "MovementSetCanFly =
    [MSEPositionZ, MSEPositionX, MSEPositionY, MSEHasTransportData, MSEHasGuidByte 1, MSEHasGuidByte 6,
     MSEHasGuidByte 4, MSEHasGuidByte 2, MSEHasFallData, MSEHasGuidByte 0, MSEHasMovementFlags,
     MSEHasGuidByte 3, MSEHasMovementFlags2, MSEHasGuidByte 5, MSEHasTimestamp, MSEHasSplineElevation,
     MSEHasSpline, MSEHasOrientation, MSEHasGuidByte 7, MSEZeroBit, MSEHasPitch, MSEHasTransportGuidByte 3,
     MSEHasTransportTime2, MSEHasTransportGuidByte 6, MSEHasTransportGuidByte 0, MSEHasTransportGuidByte 7,
     MSEHasTransportGuidByte 4, MSEHasVehicleId, MSEHasTransportGuidByte 1, MSEHasTransportGuidByte 2,
     MSEHasTransportGuidByte 5, MSEMovementFlags2, MSEHasFallDirection, MSEMovementFlags, MSEGuidByte 2,
     MSEGuidByte 0, MSEGuidByte 4, MSEGuidByte 7, MSEGuidByte 5, MSEGuidByte 1, MSEGuidByte 3,
     MSEGuidByte 6, MSETransportPositionZ, MSETransportGuidByte 3, MSETransportGuidByte 5,
     MSETransportGuidByte 4, MSETransportSeat, MSETransportPositionX, MSETransportGuidByte 2,
     MSETransportTime2, MSETransportPositionY, MSETransportGuidByte 1, MSETransportTime,
     MSETransportGuidByte 7, MSETransportGuidByte 0, MSETransportOrientation, MSETransportGuidByte 6,
     MSETransportVehicleId, MSESplineElevation, MSEFallSinAngle, MSEFallCosAngle, MSEFallHorizontalSpeed,
     MSEFallVerticalSpeed, MSEFallTime, MSEPitch, MSETimestamp, MSEOrientation, MSEEnd]"

definition MovementSetCanTransitionBetweenSwimAndFlyAck :: "mse list" where
  "MovementSetCanTransitionBetweenSwimAndFlyAck =
    [MSEPositionZ, MSEPositionY, MSECounter, MSEPositionX, MSEHasGuidByte 3, MSEHasOrientation,
     MSEHasTransportData, MSEHasMovementFlags, MSEHasMovementFlags2, MSEHasSplineElevation,
     MSEHasTimestamp, MSEHasSpline, MSEZeroBit, MSEHasFallData, MSEHasGuidByte 5, MSEHasGuidByte 0,
     MSEHasGuidByte 1, MSEHasGuidByte 4, MSEHasGuidByte 6, MSEHasGuidByte 2, MSEHasPitch, MSEHasGuidByte 7,
     MSEHasTransportGuidByte 4, MSEHasTransportGuidByte 2, MSEHasTransportTime2, MSEHasTransportGuidByte 0,
     MSEHasTransportGuidByte 3, MSEHasTransportGuidByte 6, MSEHasTransportGuidByte 5, MSEHasVehicleId,
     MSEHasTransportGuidByte 7, MSEHasTransportGuidByte 1, MSEMovementFlags2, MSEHasFallDirection,
     MSEMovementFlags, MSEGuidByte 3, MSEGuidByte 2, MSEGuidByte 0, MSEGuidByte 4, MSEGuidByte 1,
     MSEGuidByte 5, MSEGuidByte 7, MSEGuidByte 6, MSEFallTime, MSEFallHorizontalSpeed, MSEFallCosAngle,
     MSEFallSinAngle, MSEFallVerticalSpeed, MSETransportPositionY, MSETransportPositionZ,
     MSETransportGuidByte 5, MSETransportGuidByte 1, MSETransportGuidByte 4, MSETransportTime,
     MSETransportSeat, MSETransportGuidByte 3, MSETransportGuidByte 0, MSETransportGuidByte 2,
     MSETransportGuidByte 7, MSETransportPositionX, MSETransportTime2, MSETransportGuidByte 6,
     MSETransportOrientation, MSETransportVehicleId, MSEPitch, MSEOrientation, MSETimestamp,
     MSESplineElevation, MSEEnd]"

definition MovementUpdateSwimSpeed :: "mse list" where
  "MovementUpdateSwimSpeed =
    [MSEHasMovementFlags, MSEHasGuidByte 2, MSEHasSpline, MSEHasTimestamp, MSEMovementFlags,
     MSEHasFallData, MSEHasGuidByte 3, MSEHasTransportData, MSEZeroBit, MSEHasGuidByte 7,
     MSEHasFallDirection, MSEHasTransportGuidByte 4, MSEHasTransportGuidByte 5, MSEHasTransportGuidByte 3,
     MSEHasTransportTime2, MSEHasTransportGuidByte 2, MSEHasVehicleId, MSEHasTransportGuidByte 0,
     MSEHasTransportGuidByte 1, MSEHasTransportGuidByte 6, MSEHasTransportGuidByte 7, MSEHasMovementFlags2,
     MSEHasGuidByte 6, MSEHasSplineElevation, MSEHasGuidByte 0, MSEHasGuidByte 4, MSEHasGuidByte 5,
     MSEHasOrientation, MSEHasPitch, MSEMovementFlags2, MSEHasGuidByte 1, MSEFlushBits,
     MSETransportGuidByte 2, MSETransportPositionX, MSETransportVehicleId, MSETransportTime2,
     MSETransportGuidByte 6, MSETransportOrientation, MSETransportGuidByte 0, MSETransportGuidByte 4,
     MSETransportPositionY, MSETransportTime, MSETransportGuidByte 1, MSETransportGuidByte 7,
     MSETransportPositionZ, MSETransportSeat, MSETransportGuidByte 3, MSETransportGuidByte 5, MSEPositionX,
     MSEFallCosAngle, MSEFallHorizontalSpeed, MSEFallSinAngle, MSEFallTime, MSEFallVerticalSpeed,
     MSEGuidByte 7, MSETimestamp, MSEPositionY, MSESplineElevation, MSEPositionZ, MSEExtraElement,
     MSEGuidByte 4, MSEOrientation, MSEGuidByte 2, MSEGuidByte 3, MSEGuidByte 0, MSEGuidByte 6,
     MSEGuidByte 1, MSEGuidByte 5, MSEPitch, MSEEnd]"

definition MovementUpdateRunSpeed :: "mse list" where
  "MovementUpdateRunSpeed =
    [MSEPositionZ, MSEPositionX, MSEPositionY, MSEExtraElement, MSEHasGuidByte 6, MSEHasMovementFlags2,
     MSEHasPitch, MSEHasGuidByte 2, MSEHasGuidByte 5, MSEHasSplineElevation, MSEHasSpline,
     MSEHasMovementFlags, MSEHasTimestamp, MSEHasGuidByte 1, MSEMovementFlags2, MSEHasGuidByte 3,
     MSEMovementFlags, MSEHasGuidByte 7, MSEHasGuidByte 0, MSEHasOrientation, MSEHasTransportData,
     MSEHasTransportGuidByte 5, MSEHasTransportTime2, MSEHasVehicleId, MSEHasTransportGuidByte 7,
     MSEHasTransportGuidByte 4, MSEHasTransportGuidByte 2, MSEHasTransportGuidByte 3,
     MSEHasTransportGuidByte 6, MSEHasTransportGuidByte 1, MSEHasTransportGuidByte 0, MSEHasFallData,
     MSEHasFallDirection, MSEHasGuidByte 4, MSEZeroBit, MSEFlushBits, MSETransportGuidByte 4,
     MSETransportGuidByte 5, MSETransportPositionX, MSETransportOrientation, MSETransportGuidByte 1,
     MSETransportGuidByte 0, MSETransportGuidByte 6, MSETransportTime, MSETransportGuidByte 7,
     MSETransportSeat, MSETransportTime2, MSETransportPositionY, MSETransportGuidByte 3,
     MSETransportGuidByte 2, MSETransportVehicleId, MSETransportPositionZ, MSETimestamp, MSEFallCosAngle,
     MSEFallHorizontalSpeed, MSEFallSinAngle, MSEFallVerticalSpeed, MSEFallTime, MSEPitch, MSEGuidByte 6,
     MSESplineElevation, MSEGuidByte 5, MSEGuidByte 7, MSEGuidByte 4, MSEOrientation, MSEGuidByte 0,
     MSEGuidByte 3, MSEGuidByte 2, MSEGuidByte 1, MSEEnd]"

definition MovementUpdateFlightSpeed :: "mse list" where
  "MovementUpdateFlightSpeed =
    [MSEPositionY, MSEExtraElement, MSEPositionX, MSEPositionZ, MSEHasMovementFlags, MSEHasGuidByte 4,
     MSEZeroBit, MSEHasGuidByte 5, MSEHasGuidByte 1, MSEMovementFlags, MSEHasFallData, MSEHasGuidByte 2,
     MSEHasOrientation, MSEHasPitch, MSEHasSplineElevation, MSEHasGuidByte 7, MSEHasTimestamp,
     MSEHasTransportData, MSEHasTransportGuidByte 3, MSEHasTransportGuidByte 5, MSEHasTransportGuidByte 1,
     MSEHasTransportGuidByte 0, MSEHasTransportGuidByte 6, MSEHasTransportGuidByte 4,
     MSEHasTransportGuidByte 2, MSEHasVehicleId, MSEHasTransportGuidByte 7, MSEHasTransportTime2,
     MSEHasGuidByte 6, MSEHasGuidByte 3, MSEHasMovementFlags2, MSEHasSpline, MSEMovementFlags2,
     MSEHasFallDirection, MSEHasGuidByte 0, MSEFlushBits, MSESplineElevation, MSEPitch, MSEGuidByte 0,
     MSEGuidByte 5, MSETransportOrientation, MSETransportTime, MSETransportGuidByte 5,
     MSETransportGuidByte 4, MSETransportGuidByte 6, MSETransportPositionZ, MSETransportGuidByte 7,
     MSETransportGuidByte 0, MSETransportGuidByte 2, MSETransportGuidByte 3, MSETransportPositionY,
     MSETransportVehicleId, MSETransportTime2, MSETransportGuidByte 1, MSETransportSeat,
     MSETransportPositionX, MSEFallCosAngle, MSEFallHorizontalSpeed, MSEFallSinAngle, MSEFallVerticalSpeed,
     MSEFallTime, MSEGuidByte 1, MSEGuidByte 6, MSETimestamp, MSEGuidByte 7, MSEGuidByte 2, MSEGuidByte 4,
     MSEOrientation, MSEGuidByte 3, MSEEnd]"

definition MovementSetCollisionHeight :: "mse list" where
  "MovementSetCollisionHeight =
    [MSEExtraElement, MSEHasGuidByte 6, MSEHasGuidByte 1, MSEHasGuidByte 4, MSEHasGuidByte 7,
     MSEHasGuidByte 5, MSEHasGuidByte 2, MSEHasGuidByte 0, MSEHasGuidByte 3, MSEFlushBits, MSEGuidByte 6,
     MSEGuidByte 0, MSEGuidByte 4, MSEGuidByte 3, MSEGuidByte 5, MSECounter, MSEGuidByte 1, MSEGuidByte 2,
     MSEGuidByte 7, MSEExtraElement, MSEEnd]"

definition MovementUpdateCollisionHeight :: "mse list" where
  "MovementUpdateCollisionHeight =
    [MSEPositionZ, MSEExtraElement, MSEPositionX, MSEPositionY, MSEHasGuidByte 6, MSEHasGuidByte 7,
     MSEHasSplineElevation, MSEHasTransportData, MSEHasTransportGuidByte 6, MSEHasTransportGuidByte 4,
     MSEHasTransportGuidByte 3, MSEHasTransportGuidByte 7, MSEHasTransportGuidByte 5, MSEHasVehicleId,
     MSEHasTransportGuidByte 1, MSEHasTransportGuidByte 0, MSEHasTransportGuidByte 2, MSEHasTransportTime2,
     MSEHasGuidByte 3, MSEHasOrientation, MSEHasGuidByte 4, MSEHasGuidByte 5, MSEHasTimestamp,
     MSEHasFallData, MSEHasGuidByte 0, MSEHasPitch, MSEHasHeightChangeFailed, MSEHasGuidByte 2,
     MSEHasMovementFlags, MSEHasFallDirection, MSEHasGuidByte 1, MSEHasMovementFlags2, MSEHasSpline,
     MSEMovementFlags2, MSEMovementFlags, MSEFlushBits, MSEGuidByte 3, MSETransportGuidByte 7,
     MSETransportTime, MSETransportGuidByte 4, MSETransportVehicleId, MSETransportTime2,
     MSETransportGuidByte 5, MSETransportOrientation, MSETransportPositionX, MSETransportGuidByte 6,
     MSETransportGuidByte 0, MSETransportPositionY, MSETransportGuidByte 2, MSETransportPositionZ,
     MSETransportGuidByte 3, MSETransportGuidByte 1, MSETransportSeat, MSEPitch, MSEGuidByte 6,
     MSEFallCosAngle, MSEFallSinAngle, MSEFallHorizontalSpeed, MSEFallVerticalSpeed, MSEFallTime,
     MSEGuidByte 7, MSEOrientation, MSEGuidByte 0, MSEGuidByte 5, MSEGuidByte 4, MSESplineElevation,
     MSETimestamp, MSEGuidByte 2, MSEGuidByte 1, MSEEnd]"

definition MovementForceRunSpeedChangeAck :: "mse list" where
  "MovementForceRunSpeedChangeAck =
    [MSECounter, MSEPositionX, MSEExtraElement, MSEPositionZ, MSEPositionY, MSEHasGuidByte 2,
     MSEHasGuidByte 4, MSEHasGuidByte 1, MSEHasGuidByte 7, MSEHasOrientation, MSEHasFallData,
     MSEHasGuidByte 0, MSEHasSpline, MSEHasTransportData, MSEHasTimestamp, MSEHasMovementFlags2,
     MSEHasGuidByte 6, MSEZeroBit, MSEHasSplineElevation, MSEHasPitch, MSEHasGuidByte 5,
     MSEHasMovementFlags, MSEHasGuidByte 3, MSEHasVehicleId, MSEHasTransportGuidByte 5,
     MSEHasTransportTime2, MSEHasTransportGuidByte 3, MSEHasTransportGuidByte 2, MSEHasTransportGuidByte 0,
     MSEHasTransportGuidByte 7, MSEHasTransportGuidByte 6, MSEHasTransportGuidByte 1,
     MSEHasTransportGuidByte 4, MSEMovementFlags, MSEHasFallDirection, MSEMovementFlags2, MSEGuidByte 6,
     MSEGuidByte 4, MSEGuidByte 1, MSEGuidByte 3, MSEGuidByte 5, MSEGuidByte 2, MSEGuidByte 7,
     MSEGuidByte 0, MSETransportPositionZ, MSETransportGuidByte 6, MSETransportGuidByte 1,
     MSETransportPositionY, MSETransportGuidByte 0, MSETransportGuidByte 5, MSETransportTime2,
     MSETransportPositionX, MSETransportTime, MSETransportGuidByte 7, MSETransportOrientation,
     MSETransportGuidByte 3, MSETransportVehicleId, MSETransportGuidByte 2, MSETransportSeat,
     MSETransportGuidByte 4, MSEFallVerticalSpeed, MSEFallHorizontalSpeed, MSEFallSinAngle,
     MSEFallCosAngle, MSEFallTime, MSESplineElevation, MSEPitch, MSETimestamp, MSEOrientation, MSEEnd]"

definition MovementSetCollisionHeightAck :: "mse list" where
  "MovementSetCollisionHeightAck =
    [MSEExtraElement, MSEPositionX, MSEPositionZ, MSECounter, MSEPositionY, MSEHasGuidByte 6,
     MSEHasGuidByte 4, MSEExtraElement, MSEHasPitch, MSEHasGuidByte 5, MSEHasHeightChangeFailed,
     MSEHasGuidByte 2, MSEHasGuidByte 1, MSEHasFallData, MSEHasGuidByte 3, MSEHasSpline, MSEHasGuidByte 7,
     MSEHasMovementFlags, MSEHasTransportData, MSEHasTimestamp, MSEHasSplineElevation,
     MSEHasMovementFlags2, MSEHasOrientation, MSEHasGuidByte 0, MSEHasTransportGuidByte 4,
     MSEHasTransportGuidByte 3, MSEHasTransportTime2, MSEHasVehicleId, MSEHasTransportGuidByte 5,
     MSEHasTransportGuidByte 1, MSEHasTransportGuidByte 7, MSEHasTransportGuidByte 2,
     MSEHasTransportGuidByte 6, MSEHasTransportGuidByte 0, MSEMovementFlags2, MSEMovementFlags,
     MSEHasFallDirection, MSEGuidByte 0, MSEGuidByte 3, MSEGuidByte 1, MSEGuidByte 5, MSEGuidByte 7,
     MSEGuidByte 6, MSEGuidByte 2, MSEGuidByte 4, MSETransportPositionX, MSETransportGuidByte 4,
     MSETransportTime2, MSETransportGuidByte 0, MSETransportOrientation, MSETransportPositionY,
     MSETransportGuidByte 7, MSETransportSeat, MSETransportGuidByte 5, MSETransportGuidByte 2,
     MSETransportTime, MSETransportGuidByte 6, MSETransportGuidByte 3, MSETransportGuidByte 1,
     MSETransportVehicleId, MSETransportPositionZ, MSEFallVerticalSpeed, MSEFallTime, MSEFallCosAngle,
     MSEFallSinAngle, MSEFallHorizontalSpeed, MSETimestamp, MSESplineElevation, MSEOrientation, MSEPitch,
     MSEEnd]"

definition MovementForceFlightSpeedChangeAck :: "mse list" where
  "MovementForceFlightSpeedChangeAck =
    [MSECounter, MSEPositionZ, MSEPositionX, MSEPositionY, MSEExtraElement, MSEHasGuidByte 4,
     MSEHasGuidByte 5, MSEZeroBit, MSEHasMovementFlags, MSEHasSplineElevation, MSEHasGuidByte 3,
     MSEHasMovementFlags2, MSEHasGuidByte 7, MSEHasTransportData, MSEHasGuidByte 0, MSEHasFallData,
     MSEHasTimestamp, MSEHasPitch, MSEHasSpline, MSEHasOrientation, MSEHasGuidByte 6, MSEHasGuidByte 2,
     MSEHasGuidByte 1, MSEHasTransportGuidByte 6, MSEHasTransportGuidByte 1, MSEHasTransportGuidByte 7,
     MSEHasTransportTime2, MSEHasTransportGuidByte 0, MSEHasVehicleId, MSEHasTransportGuidByte 3,
     MSEHasTransportGuidByte 2, MSEHasTransportGuidByte 5, MSEHasTransportGuidByte 4, MSEHasFallDirection,
     MSEMovementFlags2, MSEMovementFlags, MSEGuidByte 5, MSEGuidByte 6, MSEGuidByte 1, MSEGuidByte 7,
     MSEGuidByte 3, MSEGuidByte 0, MSEGuidByte 2, MSEGuidByte 4, MSETransportGuidByte 6,
     MSETransportGuidByte 0, MSETransportSeat, MSETransportTime2, MSETransportOrientation,
     MSETransportGuidByte 1, MSETransportGuidByte 5, MSETransportVehicleId, MSETransportGuidByte 2,
     MSETransportPositionZ, MSETransportGuidByte 7, MSETransportGuidByte 3, MSETransportGuidByte 4,
     MSETransportPositionX, MSETransportTime, MSETransportPositionY, MSETimestamp, MSESplineElevation,
     MSEFallSinAngle, MSEFallCosAngle, MSEFallHorizontalSpeed, MSEFallTime, MSEFallVerticalSpeed, MSEPitch,
     MSEOrientation, MSEEnd]"

definition MovementSetCanFlyAck :: "mse list" where
  "MovementSetCanFlyAck =
    [MSEPositionY, MSECounter, MSEPositionX, MSEPositionZ, MSEHasGuidByte 3, MSEHasTimestamp,
     MSEHasGuidByte 4, MSEHasGuidByte 0, MSEHasOrientation, MSEHasFallData, MSEHasGuidByte 2,
     MSEHasGuidByte 5, MSEHasSplineElevation, MSEHasMovementFlags2, MSEZeroBit, MSEHasGuidByte 7,
     MSEHasSpline, MSEHasGuidByte 6, MSEHasGuidByte 1, MSEHasMovementFlags, MSEHasTransportData,
     MSEHasPitch, MSEHasTransportGuidByte 3, MSEHasTransportGuidByte 1, MSEHasTransportGuidByte 2,
     MSEHasVehicleId, MSEHasTransportTime2, MSEHasTransportGuidByte 0, MSEHasTransportGuidByte 5,
     MSEHasTransportGuidByte 7, MSEHasTransportGuidByte 4, MSEHasTransportGuidByte 6, MSEMovementFlags2,
     MSEMovementFlags, MSEHasFallDirection, MSEGuidByte 1, MSEGuidByte 0, MSEGuidByte 2, MSEGuidByte 3,
     MSEGuidByte 7, MSEGuidByte 6, MSEGuidByte 4, MSEGuidByte 5, MSETransportTime2, MSETransportGuidByte 6,
     MSETransportTime, MSETransportVehicleId, MSETransportGuidByte 7, MSETransportPositionZ,
     MSETransportGuidByte 3, MSETransportPositionY, MSETransportGuidByte 5, MSETransportPositionX,
     MSETransportGuidByte 2, MSETransportOrientation, MSETransportSeat, MSETransportGuidByte 1,
     MSETransportGuidByte 0, MSETransportGuidByte 4, MSEFallTime, MSEFallSinAngle, MSEFallHorizontalSpeed,
     MSEFallCosAngle, MSEFallVerticalSpeed, MSEPitch, MSEOrientation, MSETimestamp, MSESplineElevation,
     MSEEnd]"

definition MoveForceSwimBackSpeedChangeAck :: "mse list" where
  "MoveForceSwimBackSpeedChangeAck =
    [MSEExtraElement, MSEPositionX, MSEPositionZ, MSEPositionY, MSECounter, MSEHasGuidByte 7,
     MSEHasTransportData, MSEHasGuidByte 6, MSEHasPitch, MSEHasOrientation, MSEHasGuidByte 2,
     MSEHasMovementFlags, MSEHasGuidByte 0, MSEHasGuidByte 5, MSEHasGuidByte 3, MSEHasSpline,
     MSEHasTimestamp, MSEZeroBit, MSEHasMovementFlags2, MSEHasGuidByte 4, MSEHasGuidByte 1,
     MSEHasSplineElevation, MSEHasFallData, MSEHasTransportGuidByte 6, MSEHasTransportGuidByte 3,
     MSEHasTransportGuidByte 4, MSEHasTransportGuidByte 7, MSEHasVehicleId, MSEHasTransportGuidByte 1,
     MSEHasTransportGuidByte 0, MSEHasTransportTime2, MSEHasTransportGuidByte 5, MSEHasTransportGuidByte 2,
     MSEMovementFlags, MSEMovementFlags2, MSEHasFallDirection, MSEGuidByte 0, MSEGuidByte 7, MSEGuidByte 4,
     MSEGuidByte 6, MSEGuidByte 1, MSEGuidByte 2, MSEGuidByte 5, MSEGuidByte 3, MSEFallSinAngle,
     MSEFallCosAngle, MSEFallHorizontalSpeed, MSEFallVerticalSpeed, MSEFallTime, MSETransportGuidByte 4,
     MSETransportGuidByte 6, MSETransportGuidByte 1, MSETransportPositionY, MSETransportOrientation,
     MSETransportPositionZ, MSETransportGuidByte 7, MSETransportVehicleId, MSETransportTime,
     MSETransportGuidByte 3, MSETransportGuidByte 2, MSETransportSeat, MSETransportGuidByte 0,
     MSETransportTime2, MSETransportPositionX, MSETransportGuidByte 5, MSETimestamp, MSESplineElevation,
     MSEPitch, MSEOrientation, MSEEnd]"

definition MoveForceFlightBackSpeedChangeAck :: "mse list" where
  "MoveForceFlightBackSpeedChangeAck =
    [MSEPositionY, MSEPositionZ, MSECounter, MSEPositionX, MSEExtraElement, MSEHasSplineElevation,
     MSEHasPitch, MSEHasFallData, MSEHasSpline, MSEHasGuidByte 7, MSEHasGuidByte 4, MSEZeroBit,
     MSEHasGuidByte 1, MSEHasOrientation, MSEHasMovementFlags, MSEHasGuidByte 5, MSEHasGuidByte 3,
     MSEHasTransportData, MSEHasGuidByte 6, MSEHasMovementFlags2, MSEHasGuidByte 2, MSEHasGuidByte 0,
     MSEHasTimestamp, MSEHasTransportGuidByte 2, MSEHasTransportGuidByte 5, MSEHasTransportGuidByte 1,
     MSEHasVehicleId, MSEHasTransportGuidByte 0, MSEHasTransportGuidByte 7, MSEHasTransportGuidByte 6,
     MSEHasTransportGuidByte 3, MSEHasTransportTime2, MSEHasTransportGuidByte 4, MSEMovementFlags2,
     MSEMovementFlags, MSEHasFallDirection, MSEGuidByte 7, MSEGuidByte 0, MSEGuidByte 5, MSEGuidByte 6,
     MSEGuidByte 3, MSEGuidByte 2, MSEGuidByte 4, MSEGuidByte 1, MSETransportGuidByte 2,
     MSETransportGuidByte 0, MSETransportTime, MSETransportGuidByte 3, MSETransportOrientation,
     MSETransportGuidByte 1, MSETransportPositionX, MSETransportPositionZ, MSETransportGuidByte 4,
     MSETransportGuidByte 7, MSETransportVehicleId, MSETransportGuidByte 5, MSETransportTime2,
     MSETransportPositionY, MSETransportSeat, MSETransportGuidByte 6, MSEFallCosAngle, MSEFallSinAngle,
     MSEFallHorizontalSpeed, MSEFallVerticalSpeed, MSEFallTime, MSETimestamp, MSEPitch, MSEOrientation,
     MSESplineElevation, MSEEnd]"

definition MovementForceSwimSpeedChangeAck :: "mse list" where
  "MovementForceSwimSpeedChangeAck =
    [MSEPositionX, MSECounter, MSEExtraElement, MSEPositionY, MSEPositionZ, MSEHasGuidByte 4,
     MSEHasOrientation, MSEHasPitch, MSEHasTransportData, MSEHasMovementFlags, MSEHasMovementFlags2,
     MSEHasGuidByte 1, MSEHasGuidByte 3, MSEHasFallData, MSEHasGuidByte 2, MSEHasGuidByte 7,
     MSEHasTimestamp, MSEZeroBit, MSEHasGuidByte 5, MSEHasGuidByte 6, MSEHasSplineElevation, MSEHasSpline,
     MSEHasGuidByte 0, MSEHasTransportGuidByte 1, MSEHasTransportGuidByte 4, MSEHasTransportGuidByte 0,
     MSEHasTransportGuidByte 5, MSEHasTransportGuidByte 7, MSEHasTransportGuidByte 3, MSEHasTransportTime2,
     MSEHasVehicleId, MSEHasTransportGuidByte 6, MSEHasTransportGuidByte 2, MSEMovementFlags2,
     MSEHasFallDirection, MSEMovementFlags, MSEGuidByte 2, MSEGuidByte 0, MSEGuidByte 6, MSEGuidByte 5,
     MSEGuidByte 1, MSEGuidByte 3, MSEGuidByte 4, MSEGuidByte 7, MSETransportGuidByte 0,
     MSETransportVehicleId, MSETransportTime2, MSETransportPositionX, MSETransportGuidByte 7,
     MSETransportSeat, MSETransportPositionY, MSETransportGuidByte 5, MSETransportPositionZ,
     MSETransportOrientation, MSETransportTime, MSETransportGuidByte 2, MSETransportGuidByte 6,
     MSETransportGuidByte 3, MSETransportGuidByte 1, MSETransportGuidByte 4, MSEFallTime, MSEFallSinAngle,
     MSEFallCosAngle, MSEFallHorizontalSpeed, MSEFallVerticalSpeed, MSEOrientation, MSEPitch,
     MSESplineElevation, MSETimestamp, MSEEnd]"

definition MovementForceWalkSpeedChangeAck :: "mse list" where
  "MovementForceWalkSpeedChangeAck =
    [MSEPositionZ, MSEPositionY, MSEExtraElement, MSEPositionX, MSECounter, MSEHasGuidByte 0,
     MSEHasMovementFlags2, MSEHasTimestamp, MSEHasGuidByte 4, MSEHasGuidByte 5, MSEHasGuidByte 2,
     MSEHasMovementFlags, MSEHasFallData, MSEHasOrientation, MSEHasSpline, MSEZeroBit, MSEHasGuidByte 3,
     MSEHasGuidByte 1, MSEHasSplineElevation, MSEHasTransportData, MSEHasGuidByte 7, MSEHasGuidByte 6,
     MSEHasPitch, MSEHasTransportTime2, MSEHasTransportGuidByte 5, MSEHasTransportGuidByte 1,
     MSEHasTransportGuidByte 6, MSEHasVehicleId, MSEHasTransportGuidByte 2, MSEHasTransportGuidByte 0,
     MSEHasTransportGuidByte 4, MSEHasTransportGuidByte 7, MSEHasTransportGuidByte 3, MSEMovementFlags,
     MSEMovementFlags2, MSEHasFallDirection, MSEGuidByte 5, MSEGuidByte 6, MSEGuidByte 7, MSEGuidByte 2,
     MSEGuidByte 1, MSEGuidByte 3, MSEGuidByte 4, MSEGuidByte 0, MSEFallVerticalSpeed, MSEFallCosAngle,
     MSEFallHorizontalSpeed, MSEFallSinAngle, MSEFallTime, MSETransportPositionZ, MSETransportGuidByte 7,
     MSETransportGuidByte 5, MSETransportPositionX, MSETransportGuidByte 0, MSETransportTime,
     MSETransportVehicleId, MSETransportPositionY, MSETransportGuidByte 2, MSETransportGuidByte 4,
     MSETransportGuidByte 1, MSETransportGuidByte 3, MSETransportOrientation, MSETransportSeat,
     MSETransportGuidByte 6, MSETransportTime2, MSESplineElevation, MSETimestamp, MSEOrientation, MSEPitch,
     MSEEnd]"

definition MovementForceRunBackSpeedChangeAck :: "mse list" where
  "MovementForceRunBackSpeedChangeAck =
    [MSEExtraElement, MSECounter, MSEPositionX, MSEPositionZ, MSEPositionY, MSEHasGuidByte 2,
     MSEHasGuidByte 4, MSEHasTimestamp, MSEHasTransportData, MSEHasGuidByte 1, MSEHasGuidByte 0,
     MSEHasGuidByte 5, MSEHasGuidByte 3, MSEHasOrientation, MSEHasFallData, MSEHasMovementFlags2,
     MSEHasMovementFlags, MSEHasGuidByte 7, MSEHasSpline, MSEHasPitch, MSEHasGuidByte 6,
     MSEHasSplineElevation, MSEZeroBit, MSEHasTransportGuidByte 3, MSEHasTransportTime2,
     MSEHasTransportGuidByte 7, MSEHasTransportGuidByte 0, MSEHasTransportGuidByte 2,
     MSEHasTransportGuidByte 1, MSEHasVehicleId, MSEHasTransportGuidByte 4, MSEHasTransportGuidByte 6,
     MSEHasTransportGuidByte 5, MSEMovementFlags, MSEMovementFlags2, MSEHasFallDirection, MSEGuidByte 0,
     MSEGuidByte 7, MSEGuidByte 2, MSEGuidByte 4, MSEGuidByte 3, MSEGuidByte 6, MSEGuidByte 5,
     MSEGuidByte 1, MSEFallTime, MSEFallHorizontalSpeed, MSEFallSinAngle, MSEFallCosAngle,
     MSEFallVerticalSpeed, MSETransportGuidByte 5, MSETransportSeat, MSETransportGuidByte 6,
     MSETransportGuidByte 1, MSETransportGuidByte 0, MSETransportGuidByte 2, MSETransportPositionY,
     MSETransportVehicleId, MSETransportPositionX, MSETransportOrientation, MSETransportGuidByte 3,
     MSETransportTime, MSETransportTime2, MSETransportGuidByte 4, MSETransportPositionZ,
     MSETransportGuidByte 7, MSETimestamp, MSESplineElevation, MSEOrientation, MSEPitch, MSEEnd]"

definition MovementUpdateRunBackSpeed :: "mse list" where
  "MovementUpdateRunBackSpeed =
    [MSEHasGuidByte 1, MSEHasGuidByte 2, MSEHasGuidByte 4, MSEHasGuidByte 3, MSEHasGuidByte 6,
     MSEHasGuidByte 0, MSEZeroBit, MSEHasMovementFlags, MSEHasGuidByte 5, MSEHasOrientation,
     MSEMovementFlags, MSEHasFallDirection, MSEHasTransportGuidByte 5, MSEHasTransportGuidByte 3,
     MSEHasTransportGuidByte 1, MSEHasTransportGuidByte 6, MSEHasTransportGuidByte 7,
     MSEHasTransportGuidByte 2, MSEHasTransportGuidByte 4, MSEHasTransportGuidByte 0, MSEHasGuidByte 7,
     MSEFlushBits, MSETransportPositionX, MSETransportGuidByte 2, MSETransportGuidByte 5,
     MSETransportGuidByte 4, MSETransportGuidByte 6, MSETransportGuidByte 0, MSETransportGuidByte 3,
     MSETransportPositionY, MSETransportGuidByte 7, MSETransportPositionZ, MSETransportTime,
     MSETransportSeat, MSETransportGuidByte 1, MSETransportOrientation, MSEGuidByte 4, MSEFallTime,
     MSEFallHorizontalSpeed, MSEFallSinAngle, MSEFallCosAngle, MSEFallVerticalSpeed, MSETimestamp,
     MSEGuidByte 1, MSEOrientation, MSEGuidByte 0, MSEGuidByte 5, MSEGuidByte 3, MSEPositionX,
     MSEPositionY, MSEPitch, MSEGuidByte 7, MSEExtraElement, MSEGuidByte 2, MSEGuidByte 6, MSEPositionZ,
     MSEEnd]"

definition MovementUpdateWalkSpeed :: "mse list" where
  "MovementUpdateWalkSpeed =
    [MSEHasOrientation, MSEZeroBit, MSEHasGuidByte 3, MSEHasGuidByte 2, MSEHasTransportGuidByte 6,
     MSEHasTransportGuidByte 3, MSEHasTransportGuidByte 2, MSEHasTransportGuidByte 0,
     MSEHasTransportGuidByte 4, MSEHasTransportGuidByte 7, MSEHasTransportGuidByte 1,
     MSEHasTransportGuidByte 5, MSEHasGuidByte 7, MSEHasGuidByte 5, MSEHasGuidByte 1, MSEHasGuidByte 0,
     MSEHasMovementFlags, MSEHasGuidByte 6, MSEHasFallDirection, MSEMovementFlags, MSEHasGuidByte 4,
     MSEFlushBits, MSEPitch, MSETransportGuidByte 6, MSETransportGuidByte 0, MSETransportGuidByte 4,
     MSETransportGuidByte 2, MSETransportPositionX, MSETransportGuidByte 7, MSETransportTime,
     MSETransportPositionZ, MSETransportSeat, MSETransportGuidByte 5, MSETransportOrientation,
     MSETransportGuidByte 1, MSETransportPositionY, MSETransportGuidByte 3, MSEFallVerticalSpeed,
     MSEFallHorizontalSpeed, MSEFallSinAngle, MSEFallCosAngle, MSEFallTime, MSEGuidByte 1, MSEGuidByte 4,
     MSEGuidByte 2, MSEGuidByte 6, MSEGuidByte 7, MSETimestamp, MSEOrientation, MSEPositionY,
     MSEGuidByte 0, MSEPositionZ, MSEPositionX, MSEGuidByte 3, MSEGuidByte 5, MSEExtraElement, MSEEnd]"

definition ForceMoveRootAck :: "mse list" where
  "ForceMoveRootAck =
    [MSEPositionY, MSEPositionZ, MSECounter, MSEPositionX, MSEHasGuidByte 3, MSEHasTimestamp,
     MSEHasTransportData, MSEHasPitch, MSEHasGuidByte 2, MSEHasOrientation, MSEHasSplineElevation,
     MSEHasFallData, MSEHasSpline, MSEHasGuidByte 4, MSEHasGuidByte 0, MSEHasGuidByte 6, MSEHasGuidByte 1,
     MSEHasGuidByte 7, MSEHasMovementFlags2, MSEHasMovementFlags, MSEZeroBit, MSEHasGuidByte 5,
     MSEHasTransportGuidByte 6, MSEHasTransportGuidByte 0, MSEHasTransportGuidByte 7,
     MSEHasTransportGuidByte 3, MSEHasTransportGuidByte 1, MSEHasTransportGuidByte 2, MSEHasTransportTime2,
     MSEHasTransportGuidByte 4, MSEHasVehicleId, MSEHasTransportGuidByte 5, MSEMovementFlags2,
     MSEMovementFlags, MSEHasFallDirection, MSEGuidByte 5, MSEGuidByte 3, MSEGuidByte 1, MSEGuidByte 7,
     MSEGuidByte 4, MSEGuidByte 0, MSEGuidByte 6, MSEGuidByte 2, MSETransportGuidByte 5,
     MSETransportGuidByte 4, MSETransportOrientation, MSETransportPositionZ, MSETransportVehicleId,
     MSETransportTime2, MSETransportGuidByte 7, MSETransportGuidByte 2, MSETransportGuidByte 0,
     MSETransportTime, MSETransportGuidByte 6, MSETransportGuidByte 3, MSETransportPositionX,
     MSETransportGuidByte 1, MSETransportPositionY, MSETransportSeat, MSETimestamp, MSEFallVerticalSpeed,
     MSEFallHorizontalSpeed, MSEFallCosAngle, MSEFallSinAngle, MSEFallTime, MSEOrientation,
     MSESplineElevation, MSEPitch, MSEEnd]"

definition ForceMoveUnrootAck :: "mse list" where
  "ForceMoveUnrootAck =
    [MSECounter, MSEPositionZ, MSEPositionY, MSEPositionX, MSEHasGuidByte 7, MSEHasSplineElevation,
     MSEHasSpline, MSEHasGuidByte 5, MSEHasGuidByte 4, MSEZeroBit, MSEHasTimestamp, MSEHasMovementFlags,
     MSEHasOrientation, MSEHasPitch, MSEHasGuidByte 3, MSEHasGuidByte 1, MSEHasTransportData,
     MSEHasMovementFlags2, MSEHasGuidByte 2, MSEHasGuidByte 0, MSEHasFallData, MSEHasGuidByte 6,
     MSEHasFallDirection, MSEHasTransportGuidByte 0, MSEHasVehicleId, MSEHasTransportGuidByte 6,
     MSEHasTransportTime2, MSEHasTransportGuidByte 3, MSEHasTransportGuidByte 5, MSEHasTransportGuidByte 7,
     MSEHasTransportGuidByte 2, MSEHasTransportGuidByte 4, MSEHasTransportGuidByte 1, MSEMovementFlags2,
     MSEMovementFlags, MSEGuidByte 7, MSEGuidByte 1, MSEGuidByte 0, MSEGuidByte 6, MSEGuidByte 2,
     MSEGuidByte 4, MSEGuidByte 5, MSEGuidByte 3, MSETransportGuidByte 6, MSETransportPositionZ,
     MSETransportGuidByte 2, MSETransportGuidByte 3, MSETransportPositionY, MSETransportVehicleId,
     MSETransportGuidByte 5, MSETransportSeat, MSETransportGuidByte 0, MSETransportTime, MSETransportTime2,
     MSETransportGuidByte 4, MSETransportOrientation, MSETransportPositionX, MSETransportGuidByte 1,
     MSETransportGuidByte 7, MSEFallSinAngle, MSEFallHorizontalSpeed, MSEFallCosAngle,
     MSEFallVerticalSpeed, MSEFallTime, MSETimestamp, MSESplineElevation, MSEOrientation, MSEPitch, MSEEnd]"

definition MoveUpdateSwimBackSpeed :: "mse list" where
  "MoveUpdateSwimBackSpeed =
    [MSEHasGuidByte 7, MSEHasGuidByte 2, MSEHasTransportData, MSEHasGuidByte 1, MSEHasTransportGuidByte 2,
     MSEHasTransportGuidByte 1, MSEHasTransportGuidByte 0, MSEHasTransportGuidByte 7,
     MSEHasTransportGuidByte 3, MSEHasTransportGuidByte 4, MSEHasTransportGuidByte 6, MSEHasTransportTime2,
     MSEHasTransportGuidByte 5, MSEHasVehicleId, MSEHasPitch, MSEHasOrientation, MSEZeroBit,
     MSEHasGuidByte 5, MSEHasGuidByte 3, MSEHasGuidByte 6, MSEHasGuidByte 4, MSEHasSpline,
     MSEHasMovementFlags, MSEHasGuidByte 0, MSEHasFallData, MSEHasFallDirection, MSEMovementFlags,
     MSEHasTimestamp, MSEHasSplineElevation, MSEHasMovementFlags2, MSEMovementFlags2, MSEFlushBits,
     MSEGuidByte 0, MSEGuidByte 4, MSEPositionY, MSETransportGuidByte 7, MSETransportVehicleId,
     MSETransportGuidByte 6, MSETransportGuidByte 4, MSETransportGuidByte 2, MSETransportGuidByte 3,
     MSETransportOrientation, MSETransportGuidByte 5, MSETransportTime, MSETransportGuidByte 0,
     MSETransportGuidByte 1, MSETransportPositionX, MSETransportPositionZ, MSETransportTime2,
     MSETransportPositionY, MSETransportSeat, MSEFallSinAngle, MSEFallCosAngle, MSEFallHorizontalSpeed,
     MSEFallVerticalSpeed, MSEFallTime, MSEPitch, MSEGuidByte 2, MSEGuidByte 7, MSEExtraElement,
     MSESplineElevation, MSEPositionZ, MSEGuidByte 3, MSEPositionX, MSETimestamp, MSEGuidByte 5,
     MSEOrientation, MSEGuidByte 6, MSEGuidByte 1, MSEEnd]"

definition MovementFallReset :: "mse list" where
  "MovementFallReset =
    [MSEPositionZ, MSEPositionX, MSEPositionY, MSEHasGuidByte 1, MSEHasTimestamp, MSEHasMovementFlags,
     MSEZeroBit, MSEHasGuidByte 6, MSEHasSplineElevation, MSEHasPitch, MSEHasGuidByte 3,
     MSEHasTransportData, MSEHasGuidByte 2, MSEHasMovementFlags2, MSEHasOrientation, MSEHasGuidByte 4,
     MSEHasGuidByte 5, MSEHasSpline, MSEHasGuidByte 7, MSEHasGuidByte 0, MSEHasFallData,
     MSEHasTransportGuidByte 0, MSEHasTransportGuidByte 1, MSEHasTransportGuidByte 5,
     MSEHasTransportGuidByte 4, MSEHasTransportTime2, MSEHasTransportGuidByte 2, MSEHasVehicleId,
     MSEHasTransportGuidByte 6, MSEHasTransportGuidByte 7, MSEHasTransportGuidByte 3, MSEHasFallDirection,
     MSEMovementFlags2, MSEMovementFlags, MSEGuidByte 4, MSEGuidByte 0, MSEGuidByte 1, MSEGuidByte 7,
     MSEGuidByte 5, MSEGuidByte 2, MSEGuidByte 3, MSEGuidByte 6, MSETransportPositionX,
     MSETransportGuidByte 7, MSETransportGuidByte 2, MSETransportGuidByte 3, MSETransportGuidByte 5,
     MSETransportPositionY, MSETransportPositionZ, MSETransportSeat, MSETransportTime2,
     MSETransportGuidByte 6, MSETransportVehicleId, MSETransportTime, MSETransportGuidByte 0,
     MSETransportOrientation, MSETransportGuidByte 4, MSETransportGuidByte 1, MSEFallVerticalSpeed,
     MSEFallSinAngle, MSEFallCosAngle, MSEFallHorizontalSpeed, MSEFallTime, MSEOrientation, MSETimestamp,
     MSESplineElevation, MSEPitch, MSEEnd]"

definition MovementFeatherFallAck :: "mse list" where
  "MovementFeatherFallAck =
    [MSEPositionZ, MSECounter, MSEPositionY, MSEPositionX, MSEZeroBit, MSEHasGuidByte 3,
     MSEHasSplineElevation, MSEHasGuidByte 1, MSEHasPitch, MSEHasGuidByte 2, MSEHasSpline, MSEHasTimestamp,
     MSEHasGuidByte 5, MSEHasFallData, MSEHasOrientation, MSEHasTransportData, MSEHasGuidByte 7,
     MSEHasMovementFlags2, MSEHasGuidByte 6, MSEHasMovementFlags, MSEHasGuidByte 0, MSEHasGuidByte 4,
     MSEHasTransportGuidByte 6, MSEHasVehicleId, MSEHasTransportGuidByte 2, MSEHasTransportGuidByte 4,
     MSEHasTransportGuidByte 7, MSEHasTransportGuidByte 3, MSEHasTransportGuidByte 5, MSEHasTransportTime2,
     MSEHasTransportGuidByte 1, MSEHasTransportGuidByte 0, MSEHasFallDirection, MSEMovementFlags2,
     MSEMovementFlags, MSEGuidByte 6, MSEGuidByte 1, MSEGuidByte 7, MSEGuidByte 0, MSEGuidByte 5,
     MSEGuidByte 4, MSEGuidByte 3, MSEGuidByte 2, MSETransportVehicleId, MSETransportOrientation,
     MSETransportPositionZ, MSETransportGuidByte 7, MSETransportGuidByte 5, MSETransportGuidByte 2,
     MSETransportPositionX, MSETransportGuidByte 1, MSETransportGuidByte 6, MSETransportTime2,
     MSETransportTime, MSETransportPositionY, MSETransportGuidByte 4, MSETransportGuidByte 0,
     MSETransportSeat, MSETransportGuidByte 3, MSETimestamp, MSESplineElevation, MSEOrientation,
     MSEFallVerticalSpeed, MSEFallSinAngle, MSEFallHorizontalSpeed, MSEFallCosAngle, MSEFallTime, MSEPitch,
     MSEEnd]"

definition MovementGravityDisableAck :: "mse list" where
  "MovementGravityDisableAck =
    [MSEPositionZ, MSEPositionY, MSECounter, MSEPositionX, MSEHasGuidByte 3, MSEHasTransportData,
     MSEHasGuidByte 4, MSEHasGuidByte 5, MSEHasMovementFlags, MSEHasOrientation, MSEHasSpline,
     MSEHasGuidByte 6, MSEHasGuidByte 0, MSEHasGuidByte 7, MSEHasSplineElevation, MSEHasTimestamp,
     MSEHasPitch, MSEHasMovementFlags2, MSEZeroBit, MSEHasGuidByte 2, MSEHasFallData, MSEHasGuidByte 1,
     MSEHasTransportGuidByte 2, MSEHasVehicleId, MSEHasTransportGuidByte 0, MSEHasTransportGuidByte 1,
     MSEHasTransportGuidByte 5, MSEHasTransportGuidByte 3, MSEHasTransportGuidByte 7,
     MSEHasTransportGuidByte 6, MSEHasTransportGuidByte 4, MSEHasTransportTime2, MSEMovementFlags,
     MSEMovementFlags2, MSEHasFallDirection, MSEGuidByte 0, MSEGuidByte 2, MSEGuidByte 1, MSEGuidByte 3,
     MSEGuidByte 5, MSEGuidByte 7, MSEGuidByte 4, MSEGuidByte 6, MSETransportPositionZ,
     MSETransportGuidByte 2, MSETransportGuidByte 5, MSETransportGuidByte 3, MSETransportGuidByte 4,
     MSETransportPositionY, MSETransportTime, MSETransportSeat, MSETransportGuidByte 6,
     MSETransportGuidByte 1, MSETransportGuidByte 0, MSETransportOrientation, MSETransportTime2,
     MSETransportPositionX, MSETransportGuidByte 7, MSETransportVehicleId, MSEFallSinAngle,
     MSEFallCosAngle, MSEFallHorizontalSpeed, MSEFallTime, MSEFallVerticalSpeed, MSEOrientation,
     MSESplineElevation, MSETimestamp, MSEPitch, MSEEnd]"

definition MovementGravityEnableAck :: "mse list" where
  "MovementGravityEnableAck =
    [MSEPositionZ, MSEPositionX, MSECounter, MSEPositionY, MSEHasSplineElevation, MSEHasMovementFlags2,
     MSEHasGuidByte 6, MSEHasOrientation, MSEZeroBit, MSEHasGuidByte 5, MSEHasSpline, MSEHasGuidByte 3,
     MSEHasTransportData, MSEHasPitch, MSEHasGuidByte 1, MSEHasTimestamp, MSEHasGuidByte 2,
     MSEHasGuidByte 4, MSEHasGuidByte 7, MSEHasMovementFlags, MSEHasFallData, MSEHasGuidByte 0,
     MSEHasVehicleId, MSEHasTransportGuidByte 0, MSEHasTransportGuidByte 1, MSEHasTransportGuidByte 3,
     MSEHasTransportGuidByte 7, MSEHasTransportGuidByte 2, MSEHasTransportGuidByte 5, MSEHasTransportTime2,
     MSEHasTransportGuidByte 4, MSEHasTransportGuidByte 6, MSEHasFallDirection, MSEMovementFlags,
     MSEMovementFlags2, MSEGuidByte 5, MSEGuidByte 4, MSEGuidByte 1, MSEGuidByte 7, MSEGuidByte 0,
     MSEGuidByte 2, MSEGuidByte 3, MSEGuidByte 6, MSEFallTime, MSEFallHorizontalSpeed, MSEFallCosAngle,
     MSEFallSinAngle, MSEFallVerticalSpeed, MSETransportGuidByte 1, MSETransportPositionX,
     MSETransportVehicleId, MSETransportOrientation, MSETransportGuidByte 2, MSETransportGuidByte 0,
     MSETransportGuidByte 7, MSETransportGuidByte 6, MSETransportSeat, MSETransportGuidByte 3,
     MSETransportGuidByte 4, MSETransportPositionZ, MSETransportTime2, MSETransportGuidByte 5,
     MSETransportTime, MSETransportPositionY, MSESplineElevation, MSEOrientation, MSEPitch, MSETimestamp,
     MSEEnd]"

definition MovementHoverAck :: "mse list" where
  "MovementHoverAck =
    [MSECounter, MSEPositionZ, MSEPositionY, MSEPositionX, MSEHasGuidByte 4, MSEHasTransportData,
     MSEHasGuidByte 2, MSEHasTimestamp, MSEHasSpline, MSEHasMovementFlags, MSEHasGuidByte 1, MSEHasPitch,
     MSEHasGuidByte 0, MSEHasGuidByte 6, MSEHasGuidByte 7, MSEHasGuidByte 5, MSEZeroBit, MSEHasFallData,
     MSEHasMovementFlags2, MSEHasSplineElevation, MSEHasOrientation, MSEHasGuidByte 3,
     MSEHasTransportGuidByte 4, MSEHasTransportGuidByte 6, MSEHasVehicleId, MSEHasTransportGuidByte 1,
     MSEHasTransportGuidByte 0, MSEHasTransportGuidByte 3, MSEHasTransportGuidByte 2,
     MSEHasTransportGuidByte 5, MSEHasTransportGuidByte 7, MSEHasTransportTime2, MSEMovementFlags,
     MSEMovementFlags2, MSEHasFallDirection, MSEGuidByte 1, MSEGuidByte 4, MSEGuidByte 7, MSEGuidByte 2,
     MSEGuidByte 5, MSEGuidByte 6, MSEGuidByte 3, MSEGuidByte 0, MSETimestamp, MSEFallSinAngle,
     MSEFallCosAngle, MSEFallHorizontalSpeed, MSEFallTime, MSEFallVerticalSpeed, MSEOrientation,
     MSETransportGuidByte 1, MSETransportVehicleId, MSETransportGuidByte 2, MSETransportGuidByte 7,
     MSETransportGuidByte 3, MSETransportGuidByte 4, MSETransportSeat, MSETransportPositionX,
     MSETransportPositionZ, MSETransportOrientation, MSETransportTime, MSETransportGuidByte 0,
     MSETransportPositionY, MSETransportGuidByte 5, MSETransportTime2, MSETransportGuidByte 6,
     MSESplineElevation, MSEPitch, MSEEnd]"

definition MovementKnockBackAck :: "mse list" where
  "MovementKnockBackAck =
    [MSEPositionY, MSEPositionZ, MSECounter, MSEPositionX, MSEHasGuidByte 6, MSEHasOrientation,
     MSEHasPitch, MSEHasSplineElevation, MSEHasGuidByte 3, MSEHasGuidByte 4, MSEHasGuidByte 1,
     MSEHasGuidByte 2, MSEHasSpline, MSEHasGuidByte 7, MSEZeroBit, MSEHasMovementFlags2, MSEHasTimestamp,
     MSEHasGuidByte 0, MSEHasMovementFlags, MSEHasTransportData, MSEHasGuidByte 5, MSEHasFallData,
     MSEMovementFlags, MSEHasTransportGuidByte 4, MSEHasTransportGuidByte 1, MSEHasTransportTime2,
     MSEHasTransportGuidByte 0, MSEHasVehicleId, MSEHasTransportGuidByte 6, MSEHasTransportGuidByte 2,
     MSEHasTransportGuidByte 3, MSEHasTransportGuidByte 5, MSEHasTransportGuidByte 7, MSEMovementFlags2,
     MSEHasFallDirection, MSEGuidByte 4, MSEGuidByte 5, MSEGuidByte 1, MSEGuidByte 6, MSEGuidByte 0,
     MSEGuidByte 3, MSEGuidByte 2, MSEGuidByte 7, MSEFallSinAngle, MSEFallHorizontalSpeed, MSEFallCosAngle,
     MSEFallTime, MSEFallVerticalSpeed, MSETimestamp, MSETransportPositionY, MSETransportGuidByte 4,
     MSETransportTime2, MSETransportGuidByte 7, MSETransportOrientation, MSETransportGuidByte 6,
     MSETransportTime, MSETransportGuidByte 3, MSETransportGuidByte 1, MSETransportVehicleId,
     MSETransportGuidByte 2, MSETransportPositionZ, MSETransportGuidByte 0, MSETransportGuidByte 5,
     MSETransportPositionX, MSETransportSeat, MSEPitch, MSESplineElevation, MSEOrientation, MSEEnd]"

definition MovementWaterWalkAck :: "mse list" where
  "MovementWaterWalkAck =
    [MSEPositionY, MSEPositionZ, MSECounter, MSEPositionX, MSEHasTimestamp, MSEHasPitch, MSEHasGuidByte 5,
     MSEHasGuidByte 0, MSEHasGuidByte 7, MSEHasOrientation, MSEHasGuidByte 1, MSEHasMovementFlags2,
     MSEHasGuidByte 2, MSEHasMovementFlags, MSEHasGuidByte 3, MSEHasTransportData, MSEHasGuidByte 6,
     MSEHasFallData, MSEHasGuidByte 4, MSEZeroBit, MSEHasSplineElevation, MSEHasSpline,
     MSEHasTransportGuidByte 0, MSEHasTransportGuidByte 1, MSEHasTransportGuidByte 6,
     MSEHasTransportGuidByte 2, MSEHasTransportGuidByte 7, MSEHasTransportGuidByte 5, MSEHasTransportTime2,
     MSEHasTransportGuidByte 3, MSEHasVehicleId, MSEHasTransportGuidByte 4, MSEMovementFlags,
     MSEHasFallDirection, MSEMovementFlags2, MSEGuidByte 2, MSEGuidByte 7, MSEGuidByte 3, MSEGuidByte 5,
     MSEGuidByte 6, MSEGuidByte 0, MSEGuidByte 4, MSEGuidByte 1, MSETransportPositionX,
     MSETransportGuidByte 1, MSETransportVehicleId, MSETransportGuidByte 0, MSETransportOrientation,
     MSETransportGuidByte 7, MSETransportPositionY, MSETransportTime2, MSETransportTime,
     MSETransportGuidByte 5, MSETransportSeat, MSETransportPositionZ, MSETransportGuidByte 3,
     MSETransportGuidByte 2, MSETransportGuidByte 6, MSETransportGuidByte 4, MSESplineElevation,
     MSEFallCosAngle, MSEFallHorizontalSpeed, MSEFallSinAngle, MSEFallVerticalSpeed, MSEFallTime,
     MSEOrientation, MSETimestamp, MSEPitch, MSEEnd]"

definition MovementUpdateKnockBack :: "mse list" where
  "MovementUpdateKnockBack =
    [MSEZeroBit, MSEHasGuidByte 4, MSEHasMovementFlags, MSEHasGuidByte 1, MSEHasGuidByte 0,
     MSEHasGuidByte 3, MSEHasGuidByte 2, MSEHasGuidByte 7, MSEHasTransportGuidByte 7,
     MSEHasTransportGuidByte 5, MSEHasTransportGuidByte 1, MSEHasTransportGuidByte 6,
     MSEHasTransportGuidByte 2, MSEHasTransportGuidByte 4, MSEHasTransportGuidByte 0,
     MSEHasTransportGuidByte 3, MSEHasGuidByte 5, MSEHasGuidByte 6, MSEMovementFlags, MSEHasFallDirection,
     MSEHasOrientation, MSEFlushBits, MSEOrientation, MSEFallSinAngle, MSEFallHorizontalSpeed,
     MSEFallCosAngle, MSEFallTime, MSEFallVerticalSpeed, MSEGuidByte 3, MSETransportGuidByte 5,
     MSETransportGuidByte 7, MSETransportSeat, MSETransportGuidByte 3, MSETransportGuidByte 6,
     MSETransportPositionZ, MSETransportGuidByte 1, MSETransportPositionY, MSETransportPositionX,
     MSETransportGuidByte 2, MSETransportGuidByte 0, MSETransportOrientation, MSETransportTime,
     MSETransportGuidByte 4, MSEPitch, MSEPositionZ, MSETimestamp, MSEPositionX, MSEGuidByte 4,
     MSEGuidByte 6, MSEGuidByte 7, MSEGuidByte 2, MSEGuidByte 1, MSEPositionY, MSEGuidByte 0,
     MSEGuidByte 5, MSEEnd]"

definition SplineMoveSetWalkSpeed :: "mse list" where
  "SplineMoveSetWalkSpeed =
    [MSEHasGuidByte 0, MSEHasGuidByte 6, MSEHasGuidByte 7, MSEHasGuidByte 3, MSEHasGuidByte 5,
     MSEHasGuidByte 1, MSEHasGuidByte 2, MSEHasGuidByte 4, MSEGuidByte 0, MSEGuidByte 4, MSEGuidByte 7,
     MSEGuidByte 1, MSEGuidByte 5, MSEGuidByte 3, MSEExtraElement, MSEGuidByte 6, MSEGuidByte 2, MSEEnd]"

definition SplineMoveSetRunSpeed :: "mse list" where
  "SplineMoveSetRunSpeed =
    [MSEHasGuidByte 4, MSEHasGuidByte 0, MSEHasGuidByte 5, MSEHasGuidByte 7, MSEHasGuidByte 6,
     MSEHasGuidByte 3, MSEHasGuidByte 1, MSEHasGuidByte 2, MSEGuidByte 0, MSEGuidByte 7, MSEGuidByte 6,
     MSEGuidByte 5, MSEGuidByte 3, MSEGuidByte 4, MSEExtraElement, MSEGuidByte 2, MSEGuidByte 1, MSEEnd]"

definition SplineMoveSetRunBackSpeed :: "mse list" where
  "SplineMoveSetRunBackSpeed =
    [MSEHasGuidByte 1, MSEHasGuidByte 2, MSEHasGuidByte 6, MSEHasGuidByte 0, MSEHasGuidByte 3,
     MSEHasGuidByte 7, MSEHasGuidByte 5, MSEHasGuidByte 4, MSEGuidByte 1, MSEExtraElement, MSEGuidByte 2,
     MSEGuidByte 4, MSEGuidByte 0, MSEGuidByte 3, MSEGuidByte 6, MSEGuidByte 5, MSEGuidByte 7, MSEEnd]"

definition SplineMoveSetSwimSpeed :: "mse list" where
  "SplineMoveSetSwimSpeed =
    [MSEHasGuidByte 4, MSEHasGuidByte 2, MSEHasGuidByte 5, MSEHasGuidByte 0, MSEHasGuidByte 7,
     MSEHasGuidByte 6, MSEHasGuidByte 3, MSEHasGuidByte 1, MSEGuidByte 5, MSEGuidByte 6, MSEGuidByte 1,
     MSEGuidByte 0, MSEGuidByte 2, MSEGuidByte 4, MSEExtraElement, MSEGuidByte 7, MSEGuidByte 3, MSEEnd]"

definition SplineMoveSetSwimBackSpeed :: "mse list" where
  "SplineMoveSetSwimBackSpeed =
    [MSEHasGuidByte 0, MSEHasGuidByte 1, MSEHasGuidByte 3, MSEHasGuidByte 6, MSEHasGuidByte 4,
     MSEHasGuidByte 5, MSEHasGuidByte 7, MSEHasGuidByte 2, MSEGuidByte 5, MSEGuidByte 3, MSEGuidByte 1,
     MSEGuidByte 0, MSEGuidByte 7, MSEGuidByte 6, MSEExtraElement, MSEGuidByte 4, MSEGuidByte 2, MSEEnd]"

definition SplineMoveSetTurnRate :: "mse list" where
  "SplineMoveSetTurnRate =
    [MSEHasGuidByte 2, MSEHasGuidByte 4, MSEHasGuidByte 6, MSEHasGuidByte 1, MSEHasGuidByte 3,
     MSEHasGuidByte 5, MSEHasGuidByte 7, MSEHasGuidByte 0, MSEExtraElement, MSEGuidByte 1, MSEGuidByte 5,
     MSEGuidByte 3, MSEGuidByte 2, MSEGuidByte 7, MSEGuidByte 4, MSEGuidByte 6, MSEGuidByte 0, MSEEnd]"

definition SplineMoveSetFlightSpeed :: "mse list" where
  "SplineMoveSetFlightSpeed =
    [MSEHasGuidByte 7, MSEHasGuidByte 4, MSEHasGuidByte 0, MSEHasGuidByte 1, MSEHasGuidByte 3,
     MSEHasGuidByte 6, MSEHasGuidByte 5, MSEHasGuidByte 2, MSEGuidByte 0, MSEGuidByte 5, MSEGuidByte 4,
     MSEGuidByte 7, MSEGuidByte 3, MSEGuidByte 2, MSEGuidByte 1, MSEGuidByte 6, MSEExtraElement, MSEEnd]"

definition SplineMoveSetFlightBackSpeed :: "mse list" where
  "SplineMoveSetFlightBackSpeed =
    [MSEHasGuidByte 2, MSEHasGuidByte 1, MSEHasGuidByte 6, MSEHasGuidByte 5, MSEHasGuidByte 0,
     MSEHasGuidByte 3, MSEHasGuidByte 4, MSEHasGuidByte 7, MSEGuidByte 5, MSEExtraElement, MSEGuidByte 6,
     MSEGuidByte 1, MSEGuidByte 0, MSEGuidByte 2, MSEGuidByte 3, MSEGuidByte 7, MSEGuidByte 4, MSEEnd]"

definition SplineMoveSetPitchRate :: "mse list" where
  "SplineMoveSetPitchRate =
    [MSEHasGuidByte 3, MSEHasGuidByte 5, MSEHasGuidByte 6, MSEHasGuidByte 1, MSEHasGuidByte 0,
     MSEHasGuidByte 4, MSEHasGuidByte 7, MSEHasGuidByte 2, MSEGuidByte 1, MSEGuidByte 5, MSEGuidByte 7,
     MSEGuidByte 0, MSEGuidByte 6, MSEGuidByte 3, MSEGuidByte 2, MSEExtraElement, MSEGuidByte 4, MSEEnd]"

definition MoveSetWalkSpeed :: "mse list" where
  "MoveSetWalkSpeed =
    [MSEHasGuidByte 0, MSEHasGuidByte 4, MSEHasGuidByte 5, MSEHasGuidByte 2, MSEHasGuidByte 3,
     MSEHasGuidByte 1, MSEHasGuidByte 6, MSEHasGuidByte 7, MSEGuidByte 6, MSEGuidByte 1, MSEGuidByte 5,
     MSEExtraElement, MSEGuidByte 2, MSECounter, MSEGuidByte 4, MSEGuidByte 0, MSEGuidByte 7,
     MSEGuidByte 3, MSEEnd]"

definition MoveSetRunSpeed :: "mse list" where
  "MoveSetRunSpeed =
    [MSEHasGuidByte 6, MSEHasGuidByte 1, MSEHasGuidByte 5, MSEHasGuidByte 2, MSEHasGuidByte 7,
     MSEHasGuidByte 0, MSEHasGuidByte 3, MSEHasGuidByte 4, MSEGuidByte 5, MSEGuidByte 3, MSEGuidByte 1,
     MSEGuidByte 4, MSECounter, MSEExtraElement, MSEGuidByte 6, MSEGuidByte 0, MSEGuidByte 7,
     MSEGuidByte 2, MSEEnd]"

definition MoveSetRunBackSpeed :: "mse list" where
  "MoveSetRunBackSpeed =
    [MSEHasGuidByte 0, MSEHasGuidByte 6, MSEHasGuidByte 2, MSEHasGuidByte 1, MSEHasGuidByte 3,
     MSEHasGuidByte 4, MSEHasGuidByte 5, MSEHasGuidByte 7, MSEGuidByte 5, MSECounter, MSEExtraElement,
     MSEGuidByte 0, MSEGuidByte 4, MSEGuidByte 7, MSEGuidByte 3, MSEGuidByte 1, MSEGuidByte 2,
     MSEGuidByte 6, MSEEnd]"

definition MoveSetSwimSpeed :: "mse list" where
  "MoveSetSwimSpeed =
    [MSEHasGuidByte 5, MSEHasGuidByte 4, MSEHasGuidByte 7, MSEHasGuidByte 3, MSEHasGuidByte 2,
     MSEHasGuidByte 0, MSEHasGuidByte 1, MSEHasGuidByte 6, MSEGuidByte 0, MSECounter, MSEGuidByte 6,
     MSEGuidByte 3, MSEGuidByte 5, MSEGuidByte 2, MSEExtraElement, MSEGuidByte 1, MSEGuidByte 7,
     MSEGuidByte 4, MSEEnd]"

definition MoveSetSwimBackSpeed :: "mse list" where
  "MoveSetSwimBackSpeed =
    [MSEHasGuidByte 4, MSEHasGuidByte 2, MSEHasGuidByte 3, MSEHasGuidByte 6, MSEHasGuidByte 5,
     MSEHasGuidByte 1, MSEHasGuidByte 0, MSEHasGuidByte 7, MSECounter, MSEGuidByte 0, MSEGuidByte 3,
     MSEGuidByte 4, MSEGuidByte 6, MSEGuidByte 5, MSEGuidByte 1, MSEExtraElement, MSEGuidByte 7,
     MSEGuidByte 2, MSEEnd]"

definition MoveSetTurnRate :: "mse list" where
  "MoveSetTurnRate =
    [MSEHasGuidByte 7, MSEHasGuidByte 2, MSEHasGuidByte 1, MSEHasGuidByte 0, MSEHasGuidByte 4,
     MSEHasGuidByte 5, MSEHasGuidByte 6, MSEHasGuidByte 3, MSEGuidByte 5, MSEGuidByte 7, MSEGuidByte 2,
     MSEExtraElement, MSEGuidByte 3, MSEGuidByte 1, MSEGuidByte 0, MSECounter, MSEGuidByte 6,
     MSEGuidByte 4, MSEEnd]"

definition MoveSetFlightSpeed :: "mse list" where
  "MoveSetFlightSpeed =
    [MSEHasGuidByte 0, MSEHasGuidByte 5, MSEHasGuidByte 1, MSEHasGuidByte 6, MSEHasGuidByte 3,
     MSEHasGuidByte 2, MSEHasGuidByte 7, MSEHasGuidByte 4, MSEGuidByte 0, MSEGuidByte 1, MSEGuidByte 7,
     MSEGuidByte 5, MSEExtraElement, MSECounter, MSEGuidByte 2, MSEGuidByte 6, MSEGuidByte 3,
     MSEGuidByte 4, MSEEnd]"

definition MoveSetFlightBackSpeed :: "mse list" where
  "MoveSetFlightBackSpeed =
    [MSEHasGuidByte 1, MSEHasGuidByte 2, MSEHasGuidByte 6, MSEHasGuidByte 4, MSEHasGuidByte 7,
     MSEHasGuidByte 3, MSEHasGuidByte 0, MSEHasGuidByte 5, MSEGuidByte 3, MSECounter, MSEGuidByte 6,
     MSEExtraElement, MSEGuidByte 1, MSEGuidByte 2, MSEGuidByte 4, MSEGuidByte 0, MSEGuidByte 5,
     MSEGuidByte 7, MSEEnd]"

definition MoveSetPitchRate :: "mse list" where
  "MoveSetPitchRate =
    [MSEHasGuidByte 1, MSEHasGuidByte 2, MSEHasGuidByte 6, MSEHasGuidByte 7, MSEHasGuidByte 0,
     MSEHasGuidByte 3, MSEHasGuidByte 5, MSEHasGuidByte 4, MSEExtraElement, MSEGuidByte 6, MSEGuidByte 4,
     MSEGuidByte 0, MSECounter, MSEGuidByte 1, MSEGuidByte 2, MSEGuidByte 7, MSEGuidByte 3, MSEGuidByte 5,
     MSEEnd]"

definition SplineMoveSetWalkMode :: "mse list" where
  "SplineMoveSetWalkMode =
    [MSEHasGuidByte 7, MSEHasGuidByte 6, MSEHasGuidByte 5, MSEHasGuidByte 1, MSEHasGuidByte 3,
     MSEHasGuidByte 4, MSEHasGuidByte 2, MSEHasGuidByte 0, MSEGuidByte 4, MSEGuidByte 2, MSEGuidByte 1,
     MSEGuidByte 6, MSEGuidByte 5, MSEGuidByte 0, MSEGuidByte 7, MSEGuidByte 3, MSEEnd]"

definition SplineMoveSetRunMode :: "mse list" where
  "SplineMoveSetRunMode =
    [MSEHasGuidByte 5, MSEHasGuidByte 6, MSEHasGuidByte 3, MSEHasGuidByte 7, MSEHasGuidByte 2,
     MSEHasGuidByte 0, MSEHasGuidByte 4, MSEHasGuidByte 1, MSEGuidByte 7, MSEGuidByte 0, MSEGuidByte 4,
     MSEGuidByte 6, MSEGuidByte 5, MSEGuidByte 1, MSEGuidByte 2, MSEGuidByte 3, MSEEnd]"

definition SplineMoveGravityDisable :: "mse list" where
  "SplineMoveGravityDisable =
    [MSEHasGuidByte 7, MSEHasGuidByte 3, MSEHasGuidByte 4, MSEHasGuidByte 2, MSEHasGuidByte 5,
     MSEHasGuidByte 1, MSEHasGuidByte 0, MSEHasGuidByte 6, MSEGuidByte 7, MSEGuidByte 1, MSEGuidByte 3,
     MSEGuidByte 4, MSEGuidByte 6, MSEGuidByte 2, MSEGuidByte 5, MSEGuidByte 0, MSEEnd]"

definition SplineMoveGravityEnable :: "mse list" where
  "SplineMoveGravityEnable =
    [MSEHasGuidByte 5, MSEHasGuidByte 4, MSEHasGuidByte 7, MSEHasGuidByte 1, MSEHasGuidByte 3,
     MSEHasGuidByte 6, MSEHasGuidByte 2, MSEHasGuidByte 0, MSEGuidByte 7, MSEGuidByte 3, MSEGuidByte 4,
     MSEGuidByte 2, MSEGuidByte 1, MSEGuidByte 6, MSEGuidByte 0, MSEGuidByte 5, MSEEnd]"

definition SplineMoveSetHover :: "mse list" where
  "SplineMoveSetHover =
    [MSEHasGuidByte 3, MSEHasGuidByte 7, MSEHasGuidByte 0, MSEHasGuidByte 1, MSEHasGuidByte 4,
     MSEHasGuidByte 6, MSEHasGuidByte 2, MSEHasGuidByte 5, MSEGuidByte 2, MSEGuidByte 4, MSEGuidByte 3,
     MSEGuidByte 1, MSEGuidByte 7, MSEGuidByte 0, MSEGuidByte 5, MSEGuidByte 6, MSEEnd]"

definition SplineMoveUnsetHover :: "mse list" where
  "SplineMoveUnsetHover =
    [MSEHasGuidByte 6, MSEHasGuidByte 7, MSEHasGuidByte 4, MSEHasGuidByte 0, MSEHasGuidByte 3,
     MSEHasGuidByte 1, MSEHasGuidByte 5, MSEHasGuidByte 2, MSEGuidByte 4, MSEGuidByte 5, MSEGuidByte 3,
     MSEGuidByte 0, MSEGuidByte 2, MSEGuidByte 7, MSEGuidByte 6, MSEGuidByte 1, MSEEnd]"

definition SplineMoveStartSwim :: "mse list" where
  "SplineMoveStartSwim =
    [MSEHasGuidByte 1, MSEHasGuidByte 6, MSEHasGuidByte 0, MSEHasGuidByte 7, MSEHasGuidByte 3,
     MSEHasGuidByte 5, MSEHasGuidByte 2, MSEHasGuidByte 4, MSEGuidByte 3, MSEGuidByte 7, MSEGuidByte 2,
     MSEGuidByte 5, MSEGuidByte 6, MSEGuidByte 4, MSEGuidByte 1, MSEGuidByte 0, MSEEnd]"

definition SplineMoveStopSwim :: "mse list" where
  "SplineMoveStopSwim =
    [MSEHasGuidByte 4, MSEHasGuidByte 1, MSEHasGuidByte 5, MSEHasGuidByte 3, MSEHasGuidByte 0,
     MSEHasGuidByte 7, MSEHasGuidByte 2, MSEHasGuidByte 6, MSEGuidByte 6, MSEGuidByte 0, MSEGuidByte 7,
     MSEGuidByte 2, MSEGuidByte 3, MSEGuidByte 1, MSEGuidByte 5, MSEGuidByte 4, MSEEnd]"

definition SplineMoveSetFlying :: "mse list" where
  "SplineMoveSetFlying =
    [MSEHasGuidByte 0, MSEHasGuidByte 4, MSEHasGuidByte 1, MSEHasGuidByte 6, MSEHasGuidByte 7,
     MSEHasGuidByte 2, MSEHasGuidByte 3, MSEHasGuidByte 5, MSEGuidByte 7, MSEGuidByte 0, MSEGuidByte 5,
     MSEGuidByte 6, MSEGuidByte 4, MSEGuidByte 1, MSEGuidByte 3, MSEGuidByte 2, MSEEnd]"

definition SplineMoveUnsetFlying :: "mse list" where
  "SplineMoveUnsetFlying =
    [MSEHasGuidByte 5, MSEHasGuidByte 0, MSEHasGuidByte 4, MSEHasGuidByte 7, MSEHasGuidByte 2,
     MSEHasGuidByte 3, MSEHasGuidByte 1, MSEHasGuidByte 6, MSEGuidByte 7, MSEGuidByte 2, MSEGuidByte 3,
     MSEGuidByte 4, MSEGuidByte 5, MSEGuidByte 1, MSEGuidByte 6, MSEGuidByte 0, MSEEnd]"

definition SplineMoveSetWaterWalk :: "mse list" where
  "SplineMoveSetWaterWalk =
    [MSEHasGuidByte 6, MSEHasGuidByte 1, MSEHasGuidByte 4, MSEHasGuidByte 2, MSEHasGuidByte 3,
     MSEHasGuidByte 7, MSEHasGuidByte 5, MSEHasGuidByte 0, MSEGuidByte 0, MSEGuidByte 6, MSEGuidByte 3,
     MSEGuidByte 7, MSEGuidByte 4, MSEGuidByte 2, MSEGuidByte 5, MSEGuidByte 1, MSEEnd]"

definition SplineMoveSetLandWalk :: "mse list" where
  "SplineMoveSetLandWalk =
    [MSEHasGuidByte 5, MSEHasGuidByte 0, MSEHasGuidByte 4, MSEHasGuidByte 6, MSEHasGuidByte 7,
     MSEHasGuidByte 2, MSEHasGuidByte 3, MSEHasGuidByte 1, MSEGuidByte 5, MSEGuidByte 7, MSEGuidByte 3,
     MSEGuidByte 4, MSEGuidByte 1, MSEGuidByte 2, MSEGuidByte 0, MSEGuidByte 6, MSEEnd]"

definition SplineMoveSetFeatherFall :: "mse list" where
  "SplineMoveSetFeatherFall =
    [MSEHasGuidByte 3, MSEHasGuidByte 2, MSEHasGuidByte 7, MSEHasGuidByte 5, MSEHasGuidByte 4,
     MSEHasGuidByte 6, MSEHasGuidByte 1, MSEHasGuidByte 0, MSEGuidByte 1, MSEGuidByte 4, MSEGuidByte 7,
     MSEGuidByte 6, MSEGuidByte 2, MSEGuidByte 0, MSEGuidByte 5, MSEGuidByte 3, MSEEnd]"

definition SplineMoveSetNormalFall :: "mse list" where
  "SplineMoveSetNormalFall =
    [MSEHasGuidByte 3, MSEHasGuidByte 5, MSEHasGuidByte 1, MSEHasGuidByte 0, MSEHasGuidByte 7,
     MSEHasGuidByte 6, MSEHasGuidByte 2, MSEHasGuidByte 4, MSEGuidByte 7, MSEGuidByte 6, MSEGuidByte 2,
     MSEGuidByte 0, MSEGuidByte 5, MSEGuidByte 4, MSEGuidByte 3, MSEGuidByte 1, MSEEnd]"

definition SplineMoveRoot :: "mse list" where
  "SplineMoveRoot =
    [MSEHasGuidByte 5, MSEHasGuidByte 4, MSEHasGuidByte 6, MSEHasGuidByte 1, MSEHasGuidByte 3,
     MSEHasGuidByte 7, MSEHasGuidByte 2, MSEHasGuidByte 0, MSEGuidByte 2, MSEGuidByte 1, MSEGuidByte 7,
     MSEGuidByte 3, MSEGuidByte 5, MSEGuidByte 0, MSEGuidByte 6, MSEGuidByte 4, MSEEnd]"

definition SplineMoveUnroot :: "mse list" where
  "SplineMoveUnroot =
    [MSEHasGuidByte 0, MSEHasGuidByte 1, MSEHasGuidByte 6, MSEHasGuidByte 5, MSEHasGuidByte 3,
     MSEHasGuidByte 2, MSEHasGuidByte 7, MSEHasGuidByte 4, MSEGuidByte 6, MSEGuidByte 3, MSEGuidByte 1,
     MSEGuidByte 5, MSEGuidByte 2, MSEGuidByte 0, MSEGuidByte 7, MSEGuidByte 4, MSEEnd]"

definition MoveSetCanFly :: "mse list" where
  "MoveSetCanFly =
    [MSEHasGuidByte 1, MSEHasGuidByte 6, MSEHasGuidByte 5, MSEHasGuidByte 0, MSEHasGuidByte 7,
     MSEHasGuidByte 4, MSEHasGuidByte 2, MSEHasGuidByte 3, MSEGuidByte 6, MSEGuidByte 3, MSECounter,
     MSEGuidByte 2, MSEGuidByte 1, MSEGuidByte 4, MSEGuidByte 7, MSEGuidByte 0, MSEGuidByte 5, MSEEnd]"

definition MoveUnsetCanFly :: "mse list" where
  "MoveUnsetCanFly =
    [MSEHasGuidByte 1, MSEHasGuidByte 4, MSEHasGuidByte 2, MSEHasGuidByte 5, MSEHasGuidByte 0,
     MSEHasGuidByte 3, MSEHasGuidByte 6, MSEHasGuidByte 7, MSEGuidByte 4, MSEGuidByte 6, MSECounter,
     MSEGuidByte 1, MSEGuidByte 0, MSEGuidByte 2, MSEGuidByte 3, MSEGuidByte 5, MSEGuidByte 7, MSEEnd]"

definition MoveSetHover :: "mse list" where
  "MoveSetHover =
    [MSEHasGuidByte 1, MSEHasGuidByte 4, MSEHasGuidByte 2, MSEHasGuidByte 3, MSEHasGuidByte 0,
     MSEHasGuidByte 5, MSEHasGuidByte 6, MSEHasGuidByte 7, MSEGuidByte 5, MSEGuidByte 4, MSEGuidByte 1,
     MSEGuidByte 2, MSEGuidByte 3, MSEGuidByte 6, MSEGuidByte 0, MSEGuidByte 7, MSECounter, MSEEnd]"

definition MoveUnsetHover :: "mse list" where
  "MoveUnsetHover =
    [MSEHasGuidByte 4, MSEHasGuidByte 6, MSEHasGuidByte 3, MSEHasGuidByte 1, MSEHasGuidByte 2,
     MSEHasGuidByte 7, MSEHasGuidByte 5, MSEHasGuidByte 0, MSEGuidByte 4, MSEGuidByte 5, MSEGuidByte 3,
     MSEGuidByte 6, MSEGuidByte 7, MSEGuidByte 1, MSEGuidByte 2, MSEGuidByte 0, MSECounter, MSEEnd]"

definition MoveWaterWalk :: "mse list" where
  "MoveWaterWalk =
    [MSEHasGuidByte 4, MSEHasGuidByte 7, MSEHasGuidByte 6, MSEHasGuidByte 0, MSEHasGuidByte 1,
     MSEHasGuidByte 3, MSEHasGuidByte 5, MSEHasGuidByte 2, MSEGuidByte 0, MSEGuidByte 5, MSEGuidByte 2,
     MSECounter, MSEGuidByte 7, MSEGuidByte 3, MSEGuidByte 4, MSEGuidByte 1, MSEGuidByte 6, MSEEnd]"

definition MoveLandWalk :: "mse list" where
  "MoveLandWalk =
    [MSEHasGuidByte 5, MSEHasGuidByte 1, MSEHasGuidByte 6, MSEHasGuidByte 2, MSEHasGuidByte 3,
     MSEHasGuidByte 4, MSEHasGuidByte 0, MSEHasGuidByte 7, MSEGuidByte 6, MSEGuidByte 1, MSEGuidByte 7,
     MSEGuidByte 5, MSEGuidByte 4, MSEGuidByte 0, MSEGuidByte 3, MSEGuidByte 2, MSECounter, MSEEnd]"

definition MoveFeatherFall :: "mse list" where
  "MoveFeatherFall =
    [MSEHasGuidByte 3, MSEHasGuidByte 1, MSEHasGuidByte 7, MSEHasGuidByte 0, MSEHasGuidByte 4,
     MSEHasGuidByte 2, MSEHasGuidByte 5, MSEHasGuidByte 6, MSEGuidByte 5, MSEGuidByte 7, MSEGuidByte 2,
     MSECounter, MSEGuidByte 0, MSEGuidByte 3, MSEGuidByte 4, MSEGuidByte 1, MSEGuidByte 6, MSEEnd]"

definition MoveNormalFall :: "mse list" where
  "MoveNormalFall =
    [MSECounter, MSEHasGuidByte 3, MSEHasGuidByte 0, MSEHasGuidByte 1, MSEHasGuidByte 5, MSEHasGuidByte 7,
     MSEHasGuidByte 4, MSEHasGuidByte 6, MSEHasGuidByte 2, MSEGuidByte 2, MSEGuidByte 7, MSEGuidByte 1,
     MSEGuidByte 4, MSEGuidByte 5, MSEGuidByte 0, MSEGuidByte 3, MSEGuidByte 6, MSEEnd]"

definition MoveRoot :: "mse list" where
  "MoveRoot =
    [MSEHasGuidByte 2, MSEHasGuidByte 7, MSEHasGuidByte 6, MSEHasGuidByte 0, MSEHasGuidByte 5,
     MSEHasGuidByte 4, MSEHasGuidByte 1, MSEHasGuidByte 3, MSEGuidByte 1, MSEGuidByte 0, MSEGuidByte 2,
     MSEGuidByte 5, MSECounter, MSEGuidByte 3, MSEGuidByte 4, MSEGuidByte 7, MSEGuidByte 6, MSEEnd]"

definition MoveUnroot :: "mse list" where
  "MoveUnroot =
    [MSEHasGuidByte 0, MSEHasGuidByte 1, MSEHasGuidByte 3, MSEHasGuidByte 7, MSEHasGuidByte 5,
     MSEHasGuidByte 2, MSEHasGuidByte 4, MSEHasGuidByte 6, MSEGuidByte 3, MSEGuidByte 6, MSEGuidByte 1,
     MSECounter, MSEGuidByte 2, MSEGuidByte 0, MSEGuidByte 7, MSEGuidByte 4, MSEGuidByte 5, MSEEnd]"

definition ChangeSeatsOnControlledVehicle :: "mse list" where
  "ChangeSeatsOnControlledVehicle =
    [MSEPositionY, MSEPositionX, MSEPositionZ, MSEExtraElement, MSEHasMovementFlags, MSEHasTransportData,
     MSEHasGuidByte 2, MSEHasGuidByte 6, MSEHasGuidByte 4, MSEExtraElement, MSEExtraElement,
     MSEHasOrientation, MSEZeroBit, MSEExtraElement, MSEHasGuidByte 7, MSEExtraElement, MSEHasTimestamp,
     MSEHasSplineElevation, MSEHasGuidByte 5, MSEExtraElement, MSEHasMovementFlags2, MSEHasPitch,
     MSEExtraElement, MSEHasGuidByte 0, MSEExtraElement, MSEHasFallData, MSEHasGuidByte 1, MSEHasSpline,
     MSEMovementFlags, MSEExtraElement, MSEHasGuidByte 3, MSEHasTransportGuidByte 3,
     MSEHasTransportGuidByte 0, MSEHasTransportGuidByte 7, MSEHasTransportGuidByte 5, MSEHasVehicleId,
     MSEHasTransportGuidByte 1, MSEHasTransportGuidByte 2, MSEHasTransportTime2, MSEHasTransportGuidByte 4,
     MSEHasTransportGuidByte 6, MSEMovementFlags2, MSEHasFallDirection, MSEExtraElement, MSEGuidByte 7,
     MSEGuidByte 5, MSEExtraElement, MSEExtraElement, MSEGuidByte 6, MSEExtraElement, MSEExtraElement,
     MSEGuidByte 3, MSEExtraElement, MSEGuidByte 0, MSEExtraElement, MSEGuidByte 4, MSEGuidByte 1,
     MSEExtraElement, MSEGuidByte 2, MSEPitch, MSEFallCosAngle, MSEFallSinAngle, MSEFallHorizontalSpeed,
     MSEFallTime, MSEFallVerticalSpeed, MSETransportGuidByte 2, MSETransportTime2, MSETransportVehicleId,
     MSETransportGuidByte 0, MSETransportTime, MSETransportSeat, MSETransportPositionX,
     MSETransportOrientation, MSETransportGuidByte 7, MSETransportGuidByte 4, MSETransportGuidByte 3,
     MSETransportGuidByte 5, MSETransportPositionZ, MSETransportGuidByte 1, MSETransportGuidByte 6,
     MSETransportPositionY, MSESplineElevation, MSEOrientation, MSETimestamp, MSEEnd]"

definition CastSpellEmbeddedMovement :: "mse list" where
  "CastSpellEmbeddedMovement =
    [MSEPositionZ, MSEPositionY, MSEPositionX, MSEHasFallData, MSEHasTimestamp, MSEHasOrientation,
     MSEZeroBit, MSEHasSpline, MSEHasGuidByte 6, MSEHasGuidByte 4, MSEHasMovementFlags2, MSEHasGuidByte 3,
     MSEHasGuidByte 5, MSEHasSplineElevation, MSEHasPitch, MSEHasGuidByte 7, MSEHasTransportData,
     MSEHasGuidByte 2, MSEHasMovementFlags, MSEHasGuidByte 1, MSEHasGuidByte 0, MSEHasTransportGuidByte 6,
     MSEHasTransportGuidByte 2, MSEHasTransportGuidByte 5, MSEHasTransportTime2, MSEHasTransportGuidByte 7,
     MSEHasTransportGuidByte 4, MSEHasVehicleId, MSEHasTransportGuidByte 0, MSEHasTransportGuidByte 1,
     MSEHasTransportGuidByte 3, MSEMovementFlags2, MSEMovementFlags, MSEHasFallDirection, MSEGuidByte 1,
     MSEGuidByte 4, MSEGuidByte 7, MSEGuidByte 3, MSEGuidByte 0, MSEGuidByte 2, MSEGuidByte 5,
     MSEGuidByte 6, MSETransportSeat, MSETransportOrientation, MSETransportTime, MSETransportGuidByte 6,
     MSETransportGuidByte 5, MSETransportVehicleId, MSETransportPositionX, MSETransportGuidByte 4,
     MSETransportPositionZ, MSETransportGuidByte 2, MSETransportGuidByte 0, MSETransportTime2,
     MSETransportGuidByte 1, MSETransportGuidByte 3, MSETransportPositionY, MSETransportGuidByte 7,
     MSEOrientation, MSESplineElevation, MSEFallTime, MSEFallHorizontalSpeed, MSEFallSinAngle,
     MSEFallCosAngle, MSEFallVerticalSpeed, MSETimestamp, MSEPitch, MSEEnd]"

definition MoveGravityDisable :: "mse list" where
  "MoveGravityDisable =
    [MSEHasGuidByte 0, MSEHasGuidByte 1, MSEHasGuidByte 5, MSEHasGuidByte 7, MSEHasGuidByte 6,
     MSEHasGuidByte 4, MSEHasGuidByte 3, MSEHasGuidByte 2, MSEGuidByte 7, MSEGuidByte 2, MSEGuidByte 0,
     MSECounter, MSEGuidByte 5, MSEGuidByte 1, MSEGuidByte 3, MSEGuidByte 4, MSEGuidByte 6, MSEEnd]"

definition MoveGravityEnable :: "mse list" where
  "MoveGravityEnable =
    [MSEHasGuidByte 1, MSEHasGuidByte 4, MSEHasGuidByte 7, MSEHasGuidByte 5, MSEHasGuidByte 2,
     MSEHasGuidByte 0, MSEHasGuidByte 3, MSEHasGuidByte 6, MSEGuidByte 3, MSECounter, MSEGuidByte 7,
     MSEGuidByte 6, MSEGuidByte 4, MSEGuidByte 0, MSEGuidByte 1, MSEGuidByte 5, MSEGuidByte 2, MSEEnd]"

definition MoveUpdateFlightBackSpeed :: "mse list" where
  "MoveUpdateFlightBackSpeed =
    [MSEPositionY, MSEExtraElement, MSEPositionX, MSEPositionZ, MSEHasGuidByte 6, MSEHasGuidByte 4,
     MSEHasPitch, MSEHasGuidByte 7, MSEHasGuidByte 1, MSEHasTransportData, MSEHasVehicleId,
     MSEHasTransportGuidByte 4, MSEHasTransportGuidByte 7, MSEHasTransportGuidByte 6,
     MSEHasTransportGuidByte 0, MSEOneBit, MSEHasTransportGuidByte 2, MSEHasTransportGuidByte 3,
     MSEHasTransportGuidByte 5, MSEHasTransportTime2, MSEHasTransportGuidByte 1, MSEHasGuidByte 5,
     MSEHasGuidByte 0, MSEHasTimestamp, MSEHasMovementFlags, MSEMovementFlags, MSEHasGuidByte 3,
     MSEHasMovementFlags2, MSEZeroBit, MSEHasSplineElevation, MSEMovementFlags2, MSEHasGuidByte 2,
     MSEHasFallData, MSEHasOrientation, MSEHasFallDirection, MSEFlushBits, MSEFallCosAngle,
     MSEFallSinAngle, MSEFallVerticalSpeed, MSEFallTime, MSEFallHorizontalSpeed, MSETransportPositionX,
     MSETransportTime, MSETransportOrientation, MSETransportGuidByte 5, MSETransportPositionZ,
     MSETransportVehicleId, MSETransportGuidByte 7, MSETransportGuidByte 1, MSETransportGuidByte 3,
     MSETransportGuidByte 6, MSETransportGuidByte 0, MSETransportGuidByte 2, MSETransportPositionY,
     MSETransportGuidByte 4, MSEGuidByte 1, MSEGuidByte 4, MSEOrientation, MSEGuidByte 5, MSETimestamp,
     MSESplineElevation, MSEGuidByte 6, MSEPitch, MSEGuidByte 3, MSEGuidByte 2, MSEGuidByte 0,
     MSEGuidByte 7, MSEEnd]"

definition MoveSetCanTransitionBetweenSwimAndFly :: "mse list" where
  "MoveSetCanTransitionBetweenSwimAndFly =
    [MSEHasGuidByte 4, MSEHasGuidByte 5, MSEHasGuidByte 7, MSEHasGuidByte 0, MSEHasGuidByte 2,
     MSEHasGuidByte 6, MSEHasGuidByte 1, MSEHasGuidByte 3, MSEGuidByte 0, MSEGuidByte 6, MSEGuidByte 1,
     MSEGuidByte 2, MSEGuidByte 5, MSEGuidByte 4, MSEGuidByte 7, MSECounter, MSEGuidByte 3, MSEEnd]"

definition MoveUnsetCanTransitionBetweenSwimAndFly :: "mse list" where
  "MoveUnsetCanTransitionBetweenSwimAndFly =
    [MSEHasGuidByte 3, MSEHasGuidByte 4, MSEHasGuidByte 7, MSEHasGuidByte 0, MSEHasGuidByte 6,
     MSEHasGuidByte 1, MSEHasGuidByte 5, MSEHasGuidByte 2, MSEGuidByte 5, MSEGuidByte 2, MSEGuidByte 7,
     MSEGuidByte 0, MSECounter, MSEGuidByte 6, MSEGuidByte 4, MSEGuidByte 3, MSEGuidByte 1, MSEEnd]"

section \<open>Opcodes\<close>

abbreviation MSG_MOVE_FALL_LAND :: uint32 where "MSG_MOVE_FALL_LAND \<equiv> 0x380A"
abbreviation MSG_MOVE_HEARTBEAT :: uint32 where "MSG_MOVE_HEARTBEAT \<equiv> 0x3914"
abbreviation MSG_MOVE_JUMP :: uint32 where "MSG_MOVE_JUMP \<equiv> 0x7A06"
abbreviation MSG_MOVE_SET_FACING :: uint32 where "MSG_MOVE_SET_FACING \<equiv> 0x7914"
abbreviation MSG_MOVE_SET_PITCH :: uint32 where "MSG_MOVE_SET_PITCH \<equiv> 0x7312"
abbreviation MSG_MOVE_START_ASCEND :: uint32 where "MSG_MOVE_START_ASCEND \<equiv> 0x390A"
abbreviation MSG_MOVE_START_BACKWARD :: uint32 where "MSG_MOVE_START_BACKWARD \<equiv> 0x330A"
abbreviation MSG_MOVE_START_DESCEND :: uint32 where "MSG_MOVE_START_DESCEND \<equiv> 0x3800"
abbreviation MSG_MOVE_START_FORWARD :: uint32 where "MSG_MOVE_START_FORWARD \<equiv> 0x7814"
abbreviation MSG_MOVE_START_PITCH_DOWN :: uint32 where "MSG_MOVE_START_PITCH_DOWN \<equiv> 0x3908"
abbreviation MSG_MOVE_START_PITCH_UP :: uint32 where "MSG_MOVE_START_PITCH_UP \<equiv> 0x3304"
abbreviation MSG_MOVE_START_STRAFE_LEFT :: uint32 where "MSG_MOVE_START_STRAFE_LEFT \<equiv> 0x3A16"
abbreviation MSG_MOVE_START_STRAFE_RIGHT :: uint32 where "MSG_MOVE_START_STRAFE_RIGHT \<equiv> 0x3A02"
abbreviation MSG_MOVE_START_SWIM :: uint32 where "MSG_MOVE_START_SWIM \<equiv> 0x3206"
abbreviation MSG_MOVE_START_TURN_LEFT :: uint32 where "MSG_MOVE_START_TURN_LEFT \<equiv> 0x700C"
abbreviation MSG_MOVE_START_TURN_RIGHT :: uint32 where "MSG_MOVE_START_TURN_RIGHT \<equiv> 0x7000"
abbreviation MSG_MOVE_STOP :: uint32 where "MSG_MOVE_STOP \<equiv> 0x320A"
abbreviation MSG_MOVE_STOP_ASCEND :: uint32 where "MSG_MOVE_STOP_ASCEND \<equiv> 0x7B00"
abbreviation MSG_MOVE_STOP_PITCH :: uint32 where "MSG_MOVE_STOP_PITCH \<equiv> 0x7216"
abbreviation MSG_MOVE_STOP_STRAFE :: uint32 where "MSG_MOVE_STOP_STRAFE \<equiv> 0x3002"
abbreviation MSG_MOVE_STOP_SWIM :: uint32 where "MSG_MOVE_STOP_SWIM \<equiv> 0x3802"
abbreviation MSG_MOVE_STOP_TURN :: uint32 where "MSG_MOVE_STOP_TURN \<equiv> 0x331E"
abbreviation CMSG_MOVE_CHNG_TRANSPORT :: uint32 where "CMSG_MOVE_CHNG_TRANSPORT \<equiv> 0x3102"
abbreviation CMSG_MOVE_SPLINE_DONE :: uint32 where "CMSG_MOVE_SPLINE_DONE \<equiv> 0x790E"
abbreviation CMSG_MOVE_NOT_ACTIVE_MOVER :: uint32 where "CMSG_MOVE_NOT_ACTIVE_MOVER \<equiv> 0x7A1A"
abbreviation CMSG_DISMISS_CONTROLLED_VEHICLE :: uint32 where "CMSG_DISMISS_CONTROLLED_VEHICLE \<equiv> 0x3218"
abbreviation CMSG_FORCE_MOVE_ROOT_ACK :: uint32 where "CMSG_FORCE_MOVE_ROOT_ACK \<equiv> 0x701E"
abbreviation CMSG_FORCE_MOVE_UNROOT_ACK :: uint32 where "CMSG_FORCE_MOVE_UNROOT_ACK \<equiv> 0x7808"
abbreviation CMSG_MOVE_FALL_RESET :: uint32 where "CMSG_MOVE_FALL_RESET \<equiv> 0x310A"
abbreviation CMSG_MOVE_FEATHER_FALL_ACK :: uint32 where "CMSG_MOVE_FEATHER_FALL_ACK \<equiv> 0x3110"
abbreviation CMSG_MOVE_FORCE_FLIGHT_SPEED_CHANGE_ACK :: uint32 where "CMSG_MOVE_FORCE_FLIGHT_SPEED_CHANGE_ACK \<equiv> 0x7314"
abbreviation CMSG_MOVE_FORCE_RUN_BACK_SPEED_CHANGE_ACK :: uint32 where "CMSG_MOVE_FORCE_RUN_BACK_SPEED_CHANGE_ACK \<equiv> 0x3216"
abbreviation CMSG_MOVE_FORCE_RUN_SPEED_CHANGE_ACK :: uint32 where "CMSG_MOVE_FORCE_RUN_SPEED_CHANGE_ACK \<equiv> 0x7818"
abbreviation CMSG_MOVE_FORCE_SWIM_SPEED_CHANGE_ACK :: uint32 where "CMSG_MOVE_FORCE_SWIM_SPEED_CHANGE_ACK \<equiv> 0x7A10"
abbreviation CMSG_MOVE_FORCE_SWIM_BACK_SPEED_CHANGE_ACK :: uint32 where "CMSG_MOVE_FORCE_SWIM_BACK_SPEED_CHANGE_ACK \<equiv> 0x7A16"
abbreviation CMSG_MOVE_FORCE_FLIGHT_BACK_SPEED_CHANGE_ACK :: uint32 where "CMSG_MOVE_FORCE_FLIGHT_BACK_SPEED_CHANGE_ACK \<equiv> 0x310E"
abbreviation CMSG_MOVE_FORCE_WALK_SPEED_CHANGE_ACK :: uint32 where "CMSG_MOVE_FORCE_WALK_SPEED_CHANGE_ACK \<equiv> 0x7210"
abbreviation CMSG_MOVE_GRAVITY_DISABLE_ACK :: uint32 where "CMSG_MOVE_GRAVITY_DISABLE_ACK \<equiv> 0x3118"
abbreviation CMSG_MOVE_GRAVITY_ENABLE_ACK :: uint32 where "CMSG_MOVE_GRAVITY_ENABLE_ACK \<equiv> 0x700A"
abbreviation CMSG_MOVE_HOVER_ACK :: uint32 where "CMSG_MOVE_HOVER_ACK \<equiv> 0x3318"
abbreviation CMSG_MOVE_KNOCK_BACK_ACK :: uint32 where "CMSG_MOVE_KNOCK_BACK_ACK \<equiv> 0x721C"
abbreviation CMSG_MOVE_SET_CAN_FLY :: uint32 where "CMSG_MOVE_SET_CAN_FLY \<equiv> 0x720E"
abbreviation CMSG_MOVE_SET_CAN_FLY_ACK :: uint32 where "CMSG_MOVE_SET_CAN_FLY_ACK \<equiv> 0x790C"
abbreviation CMSG_MOVE_SET_CAN_TRANSITION_BETWEEN_SWIM_AND_FLY_ACK :: uint32 where "CMSG_MOVE_SET_CAN_TRANSITION_BETWEEN_SWIM_AND_FLY_ACK \<equiv> 0x3014"
abbreviation CMSG_MOVE_SET_COLLISION_HEIGHT_ACK :: uint32 where "CMSG_MOVE_SET_COLLISION_HEIGHT_ACK \<equiv> 0x7114"
abbreviation SMSG_MOVE_SET_COLLISION_HEIGHT :: uint32 where "SMSG_MOVE_SET_COLLISION_HEIGHT \<equiv> 0x11B0"
abbreviation SMSG_MOVE_UPDATE_COLLISION_HEIGHT :: uint32 where "SMSG_MOVE_UPDATE_COLLISION_HEIGHT \<equiv> 0x59A3"
abbreviation CMSG_MOVE_WATER_WALK_ACK :: uint32 where "CMSG_MOVE_WATER_WALK_ACK \<equiv> 0x3B00"
abbreviation MSG_MOVE_SET_RUN_MODE :: uint32 where "MSG_MOVE_SET_RUN_MODE \<equiv> 0x791A"
abbreviation MSG_MOVE_SET_WALK_MODE :: uint32 where "MSG_MOVE_SET_WALK_MODE \<equiv> 0x7002"
abbreviation SMSG_MOVE_UPDATE :: uint32 where "SMSG_MOVE_UPDATE \<equiv> 0x79A2"
abbreviation SMSG_MOVE_UPDATE_FLIGHT_SPEED :: uint32 where "SMSG_MOVE_UPDATE_FLIGHT_SPEED \<equiv> 0x30B1"
abbreviation SMSG_MOVE_UPDATE_RUN_SPEED :: uint32 where "SMSG_MOVE_UPDATE_RUN_SPEED \<equiv> 0x14A6"
abbreviation SMSG_MOVE_UPDATE_KNOCK_BACK :: uint32 where "SMSG_MOVE_UPDATE_KNOCK_BACK \<equiv> 0x3DB2"
abbreviation SMSG_MOVE_UPDATE_RUN_BACK_SPEED :: uint32 where "SMSG_MOVE_UPDATE_RUN_BACK_SPEED \<equiv> 0x3DA6"
abbreviation SMSG_MOVE_UPDATE_SWIM_SPEED :: uint32 where "SMSG_MOVE_UPDATE_SWIM_SPEED \<equiv> 0x59B5"
abbreviation SMSG_MOVE_UPDATE_SWIM_BACK_SPEED :: uint32 where "SMSG_MOVE_UPDATE_SWIM_BACK_SPEED \<equiv> 0x30B5"
abbreviation SMSG_MOVE_UPDATE_WALK_SPEED :: uint32 where "SMSG_MOVE_UPDATE_WALK_SPEED \<equiv> 0x54A2"
abbreviation SMSG_SPLINE_MOVE_SET_WALK_SPEED :: uint32 where "SMSG_SPLINE_MOVE_SET_WALK_SPEED \<equiv> 0x34A5"
abbreviation SMSG_SPLINE_MOVE_SET_RUN_SPEED :: uint32 where "SMSG_SPLINE_MOVE_SET_RUN_SPEED \<equiv> 0x51B7"
abbreviation SMSG_SPLINE_MOVE_SET_RUN_BACK_SPEED :: uint32 where "SMSG_SPLINE_MOVE_SET_RUN_BACK_SPEED \<equiv> 0x3DB3"
abbreviation SMSG_SPLINE_MOVE_SET_SWIM_SPEED :: uint32 where "SMSG_SPLINE_MOVE_SET_SWIM_SPEED \<equiv> 0x39A4"
abbreviation SMSG_SPLINE_MOVE_SET_SWIM_BACK_SPEED :: uint32 where "SMSG_SPLINE_MOVE_SET_SWIM_BACK_SPEED \<equiv> 0x59A1"
abbreviation SMSG_SPLINE_MOVE_SET_TURN_RATE :: uint32 where "SMSG_SPLINE_MOVE_SET_TURN_RATE \<equiv> 0x78B5"
abbreviation SMSG_SPLINE_MOVE_SET_FLIGHT_SPEED :: uint32 where "SMSG_SPLINE_MOVE_SET_FLIGHT_SPEED \<equiv> 0x39A0"
abbreviation SMSG_SPLINE_MOVE_SET_FLIGHT_BACK_SPEED :: uint32 where "SMSG_SPLINE_MOVE_SET_FLIGHT_BACK_SPEED \<equiv> 0x38B3"
abbreviation SMSG_SPLINE_MOVE_SET_PITCH_RATE :: uint32 where "SMSG_SPLINE_MOVE_SET_PITCH_RATE \<equiv> 0x14B0"
abbreviation SMSG_MOVE_SET_WALK_SPEED :: uint32 where "SMSG_MOVE_SET_WALK_SPEED \<equiv> 0x1DA4"
abbreviation SMSG_MOVE_SET_RUN_SPEED :: uint32 where "SMSG_MOVE_SET_RUN_SPEED \<equiv> 0x3DB5"
abbreviation SMSG_MOVE_SET_RUN_BACK_SPEED :: uint32 where "SMSG_MOVE_SET_RUN_BACK_SPEED \<equiv> 0x71B1"
abbreviation SMSG_MOVE_SET_SWIM_SPEED :: uint32 where "SMSG_MOVE_SET_SWIM_SPEED \<equiv> 0x15A7"
abbreviation SMSG_MOVE_SET_SWIM_BACK_SPEED :: uint32 where "SMSG_MOVE_SET_SWIM_BACK_SPEED \<equiv> 0x5CA6"
abbreviation SMSG_MOVE_SET_TURN_RATE :: uint32 where "SMSG_MOVE_SET_TURN_RATE \<equiv> 0x30A5"
abbreviation SMSG_MOVE_SET_FLIGHT_SPEED :: uint32 where "SMSG_MOVE_SET_FLIGHT_SPEED \<equiv> 0x71A6"
abbreviation SMSG_MOVE_SET_FLIGHT_BACK_SPEED :: uint32 where "SMSG_MOVE_SET_FLIGHT_BACK_SPEED \<equiv> 0x30A2"
abbreviation SMSG_MOVE_SET_PITCH_RATE :: uint32 where "SMSG_MOVE_SET_PITCH_RATE \<equiv> 0x75B0"
abbreviation SMSG_SPLINE_MOVE_SET_WALK_MODE :: uint32 where "SMSG_SPLINE_MOVE_SET_WALK_MODE \<equiv> 0x54B6"
abbreviation SMSG_SPLINE_MOVE_SET_RUN_MODE :: uint32 where "SMSG_SPLINE_MOVE_SET_RUN_MODE \<equiv> 0x75A7"
abbreviation SMSG_SPLINE_MOVE_GRAVITY_DISABLE :: uint32 where "SMSG_SPLINE_MOVE_GRAVITY_DISABLE \<equiv> 0x5DB5"
abbreviation SMSG_SPLINE_MOVE_GRAVITY_ENABLE :: uint32 where "SMSG_SPLINE_MOVE_GRAVITY_ENABLE \<equiv> 0x3CA6"
abbreviation SMSG_SPLINE_MOVE_SET_HOVER :: uint32 where "SMSG_SPLINE_MOVE_SET_HOVER \<equiv> 0x14B6"
abbreviation SMSG_SPLINE_MOVE_UNSET_HOVER :: uint32 where "SMSG_SPLINE_MOVE_UNSET_HOVER \<equiv> 0x7DA5"
abbreviation SMSG_SPLINE_MOVE_START_SWIM :: uint32 where "SMSG_SPLINE_MOVE_START_SWIM \<equiv> 0x31A5"
abbreviation SMSG_SPLINE_MOVE_STOP_SWIM :: uint32 where "SMSG_SPLINE_MOVE_STOP_SWIM \<equiv> 0x1DA2"
abbreviation SMSG_SPLINE_MOVE_SET_FLYING :: uint32 where "SMSG_SPLINE_MOVE_SET_FLYING \<equiv> 0x31B5"
abbreviation SMSG_SPLINE_MOVE_UNSET_FLYING :: uint32 where "SMSG_SPLINE_MOVE_UNSET_FLYING \<equiv> 0x58A6"
abbreviation SMSG_SPLINE_MOVE_SET_WATER_WALK :: uint32 where "SMSG_SPLINE_MOVE_SET_WATER_WALK \<equiv> 0x50A2"
abbreviation SMSG_SPLINE_MOVE_SET_LAND_WALK :: uint32 where "SMSG_SPLINE_MOVE_SET_LAND_WALK \<equiv> 0x3DA7"
abbreviation SMSG_SPLINE_MOVE_SET_FEATHER_FALL :: uint32 where "SMSG_SPLINE_MOVE_SET_FEATHER_FALL \<equiv> 0x3DA5"
abbreviation SMSG_SPLINE_MOVE_SET_NORMAL_FALL :: uint32 where "SMSG_SPLINE_MOVE_SET_NORMAL_FALL \<equiv> 0x38B2"
abbreviation SMSG_SPLINE_MOVE_ROOT :: uint32 where "SMSG_SPLINE_MOVE_ROOT \<equiv> 0x51B4"
abbreviation SMSG_SPLINE_MOVE_UNROOT :: uint32 where "SMSG_SPLINE_MOVE_UNROOT \<equiv> 0x75B6"
abbreviation SMSG_MOVE_SET_CAN_FLY :: uint32 where "SMSG_MOVE_SET_CAN_FLY \<equiv> 0x3DA1"
abbreviation SMSG_MOVE_UNSET_CAN_FLY :: uint32 where "SMSG_MOVE_UNSET_CAN_FLY \<equiv> 0x15A2"
abbreviation SMSG_MOVE_SET_HOVER :: uint32 where "SMSG_MOVE_SET_HOVER \<equiv> 0x5CB3"
abbreviation SMSG_MOVE_UNSET_HOVER :: uint32 where "SMSG_MOVE_UNSET_HOVER \<equiv> 0x51B3"
abbreviation SMSG_MOVE_WATER_WALK :: uint32 where "SMSG_MOVE_WATER_WALK \<equiv> 0x75B1"
abbreviation SMSG_MOVE_LAND_WALK :: uint32 where "SMSG_MOVE_LAND_WALK \<equiv> 0x34B7"
abbreviation SMSG_MOVE_FEATHER_FALL :: uint32 where "SMSG_MOVE_FEATHER_FALL \<equiv> 0x79B0"
abbreviation SMSG_MOVE_NORMAL_FALL :: uint32 where "SMSG_MOVE_NORMAL_FALL \<equiv> 0x51B6"
abbreviation SMSG_MOVE_ROOT :: uint32 where "SMSG_MOVE_ROOT \<equiv> 0x7DA0"
abbreviation SMSG_MOVE_UNROOT :: uint32 where "SMSG_MOVE_UNROOT \<equiv> 0x7DB4"
abbreviation CMSG_CHANGE_SEATS_ON_CONTROLLED_VEHICLE :: uint32 where "CMSG_CHANGE_SEATS_ON_CONTROLLED_VEHICLE \<equiv> 0x7310"
abbreviation CMSG_CAST_SPELL :: uint32 where "CMSG_CAST_SPELL \<equiv> 0x4C07"
abbreviation CMSG_PET_CAST_SPELL :: uint32 where "CMSG_PET_CAST_SPELL \<equiv> 0x6337"
abbreviation CMSG_USE_ITEM :: uint32 where "CMSG_USE_ITEM \<equiv> 0x2C06"
abbreviation SMSG_MOVE_GRAVITY_DISABLE :: uint32 where "SMSG_MOVE_GRAVITY_DISABLE \<equiv> 0x75B2"
abbreviation SMSG_MOVE_GRAVITY_ENABLE :: uint32 where "SMSG_MOVE_GRAVITY_ENABLE \<equiv> 0x30B3"
abbreviation SMSG_MOVE_UPDATE_FLIGHT_BACK_SPEED :: uint32 where "SMSG_MOVE_UPDATE_FLIGHT_BACK_SPEED \<equiv> 0x74A0"
abbreviation SMSG_MOVE_SET_CAN_TRANSITION_BETWEEN_SWIM_AND_FLY :: uint32 where "SMSG_MOVE_SET_CAN_TRANSITION_BETWEEN_SWIM_AND_FLY \<equiv> 0x59A2"
abbreviation SMSG_MOVE_UNSET_CAN_TRANSITION_BETWEEN_SWIM_AND_FLY :: uint32 where "SMSG_MOVE_UNSET_CAN_TRANSITION_BETWEEN_SWIM_AND_FLY \<equiv> 0x7DB2"
abbreviation SMSG_MOVE_UPDATE_TURN_RATE :: uint32 where "SMSG_MOVE_UPDATE_TURN_RATE \<equiv> 0x5DA1"
abbreviation SMSG_MOVE_UPDATE_PITCH_RATE :: uint32 where "SMSG_MOVE_UPDATE_PITCH_RATE \<equiv> 0x1DB5"
abbreviation CMSG_MOVE_FORCE_TURN_RATE_CHANGE_ACK :: uint32 where "CMSG_MOVE_FORCE_TURN_RATE_CHANGE_ACK \<equiv> 0x7316"
abbreviation CMSG_MOVE_FORCE_PITCH_RATE_CHANGE_ACK :: uint32 where "CMSG_MOVE_FORCE_PITCH_RATE_CHANGE_ACK \<equiv> 0x3100"

section \<open>The layout of an opcode\<close>

text \<open>The switch over the opcode as a table from case labels to results.\<close>

definition sequence_table :: "(uint32 \<times> mse list) list" where
  "sequence_table =
    [(MSG_MOVE_FALL_LAND, MovementFallLand),
     (MSG_MOVE_HEARTBEAT, MovementHeartBeat),
     (MSG_MOVE_JUMP, MovementJump),
     (MSG_MOVE_SET_FACING, MovementSetFacing),
     (MSG_MOVE_SET_PITCH, MovementSetPitch),
     (MSG_MOVE_START_ASCEND, MovementStartAscend),
     (MSG_MOVE_START_BACKWARD, MovementStartBackward),
     (MSG_MOVE_START_DESCEND, MovementStartDescend),
     (MSG_MOVE_START_FORWARD, MovementStartForward),
     (MSG_MOVE_START_PITCH_DOWN, MovementStartPitchDown),
     (MSG_MOVE_START_PITCH_UP, MovementStartPitchUp),
     (MSG_MOVE_START_STRAFE_LEFT, MovementStartStrafeLeft),
     (MSG_MOVE_START_STRAFE_RIGHT, MovementStartStrafeRight),
     (MSG_MOVE_START_SWIM, MovementStartSwim),
     (MSG_MOVE_START_TURN_LEFT, MovementStartTurnLeft),
     (MSG_MOVE_START_TURN_RIGHT, MovementStartTurnRight),
     (MSG_MOVE_STOP, MovementStop),
     (MSG_MOVE_STOP_ASCEND, MovementStopAscend),
     (MSG_MOVE_STOP_PITCH, MovementStopPitch),
     (MSG_MOVE_STOP_STRAFE, MovementStopStrafe),
     (MSG_MOVE_STOP_SWIM, MovementStopSwim),
     (MSG_MOVE_STOP_TURN, MovementStopTurn),
     (CMSG_MOVE_CHNG_TRANSPORT, MoveChngTransport),
     (CMSG_MOVE_SPLINE_DONE, MoveSplineDone),
     (CMSG_MOVE_NOT_ACTIVE_MOVER, MoveNotActiveMover),
     (CMSG_DISMISS_CONTROLLED_VEHICLE, DismissControlledVehicle),
     (CMSG_FORCE_MOVE_ROOT_ACK, ForceMoveRootAck),
     (CMSG_FORCE_MOVE_UNROOT_ACK, ForceMoveUnrootAck),
     (CMSG_MOVE_FALL_RESET, MovementFallReset),
     (CMSG_MOVE_FEATHER_FALL_ACK, MovementFeatherFallAck),
     (CMSG_MOVE_FORCE_FLIGHT_SPEED_CHANGE_ACK, MovementForceFlightSpeedChangeAck),
     (CMSG_MOVE_FORCE_RUN_BACK_SPEED_CHANGE_ACK, MovementForceRunBackSpeedChangeAck),
     (CMSG_MOVE_FORCE_RUN_SPEED_CHANGE_ACK, MovementForceRunSpeedChangeAck),
     (CMSG_MOVE_FORCE_SWIM_SPEED_CHANGE_ACK, MovementForceSwimSpeedChangeAck),
     (CMSG_MOVE_FORCE_SWIM_BACK_SPEED_CHANGE_ACK, MoveForceSwimBackSpeedChangeAck),
     (CMSG_MOVE_FORCE_FLIGHT_BACK_SPEED_CHANGE_ACK, MoveForceFlightBackSpeedChangeAck),
     (CMSG_MOVE_FORCE_WALK_SPEED_CHANGE_ACK, MovementForceWalkSpeedChangeAck),
     (CMSG_MOVE_GRAVITY_DISABLE_ACK, MovementGravityDisableAck),
     (CMSG_MOVE_GRAVITY_ENABLE_ACK, MovementGravityEnableAck),
     (CMSG_MOVE_HOVER_ACK, MovementHoverAck),
     (CMSG_MOVE_KNOCK_BACK_ACK, MovementKnockBackAck),
     (CMSG_MOVE_SET_CAN_FLY, MovementSetCanFly),
     (CMSG_MOVE_SET_CAN_FLY_ACK, MovementSetCanFlyAck),
     (CMSG_MOVE_SET_CAN_TRANSITION_BETWEEN_SWIM_AND_FLY_ACK, MovementSetCanTransitionBetweenSwimAndFlyAck),
     (CMSG_MOVE_SET_COLLISION_HEIGHT_ACK, MovementSetCollisionHeightAck),
     (SMSG_MOVE_SET_COLLISION_HEIGHT, MovementSetCollisionHeight),
     (SMSG_MOVE_UPDATE_COLLISION_HEIGHT, MovementUpdateCollisionHeight),
     (CMSG_MOVE_WATER_WALK_ACK, MovementWaterWalkAck),
     (MSG_MOVE_SET_RUN_MODE, MovementSetRunMode),
     (MSG_MOVE_SET_WALK_MODE, MovementSetWalkMode),
     (SMSG_MOVE_UPDATE, MovementUpdate),
     (SMSG_MOVE_UPDATE_FLIGHT_SPEED, MovementUpdateFlightSpeed),
     (SMSG_MOVE_UPDATE_RUN_SPEED, MovementUpdateRunSpeed),
     (SMSG_MOVE_UPDATE_KNOCK_BACK, MovementUpdateKnockBack),
     (SMSG_MOVE_UPDATE_RUN_BACK_SPEED, MovementUpdateRunBackSpeed),
     (SMSG_MOVE_UPDATE_SWIM_SPEED, MovementUpdateSwimSpeed),
     (SMSG_MOVE_UPDATE_SWIM_BACK_SPEED, MoveUpdateSwimBackSpeed),
     (SMSG_MOVE_UPDATE_WALK_SPEED, MovementUpdateWalkSpeed),
     (SMSG_SPLINE_MOVE_SET_WALK_SPEED, SplineMoveSetWalkSpeed),
     (SMSG_SPLINE_MOVE_SET_RUN_SPEED, SplineMoveSetRunSpeed),
     (SMSG_SPLINE_MOVE_SET_RUN_BACK_SPEED, SplineMoveSetRunBackSpeed),
     (SMSG_SPLINE_MOVE_SET_SWIM_SPEED, SplineMoveSetSwimSpeed),
     (SMSG_SPLINE_MOVE_SET_SWIM_BACK_SPEED, SplineMoveSetSwimBackSpeed),
     (SMSG_SPLINE_MOVE_SET_TURN_RATE, SplineMoveSetTurnRate),
     (SMSG_SPLINE_MOVE_SET_FLIGHT_SPEED, SplineMoveSetFlightSpeed),
     (SMSG_SPLINE_MOVE_SET_FLIGHT_BACK_SPEED, SplineMoveSetFlightBackSpeed),
     (SMSG_SPLINE_MOVE_SET_PITCH_RATE, SplineMoveSetPitchRate),
     (SMSG_MOVE_SET_WALK_SPEED, MoveSetWalkSpeed),
     (SMSG_MOVE_SET_RUN_SPEED, MoveSetRunSpeed),
     (SMSG_MOVE_SET_RUN_BACK_SPEED, MoveSetRunBackSpeed),
     (SMSG_MOVE_SET_SWIM_SPEED, MoveSetSwimSpeed),
     (SMSG_MOVE_SET_SWIM_BACK_SPEED, MoveSetSwimBackSpeed),
     (SMSG_MOVE_SET_TURN_RATE, MoveSetTurnRate),
     (SMSG_MOVE_SET_FLIGHT_SPEED, MoveSetFlightSpeed),
     (SMSG_MOVE_SET_FLIGHT_BACK_SPEED, MoveSetFlightBackSpeed),
     (SMSG_MOVE_SET_PITCH_RATE, MoveSetPitchRate),
     (SMSG_SPLINE_MOVE_SET_WALK_MODE, SplineMoveSetWalkMode),
     (SMSG_SPLINE_MOVE_SET_RUN_MODE, SplineMoveSetRunMode),
     (SMSG_SPLINE_MOVE_GRAVITY_DISABLE, SplineMoveGravityDisable),
     (SMSG_SPLINE_MOVE_GRAVITY_ENABLE, SplineMoveGravityEnable),
     (SMSG_SPLINE_MOVE_SET_HOVER, SplineMoveSetHover),
     (SMSG_SPLINE_MOVE_UNSET_HOVER, SplineMoveUnsetHover),
     (SMSG_SPLINE_MOVE_START_SWIM, SplineMoveStartSwim),
     (SMSG_SPLINE_MOVE_STOP_SWIM, SplineMoveStopSwim),
     (SMSG_SPLINE_MOVE_SET_FLYING, SplineMoveSetFlying),
     (SMSG_SPLINE_MOVE_UNSET_FLYING, SplineMoveUnsetFlying),
     (SMSG_SPLINE_MOVE_SET_WATER_WALK, SplineMoveSetWaterWalk),
     (SMSG_SPLINE_MOVE_SET_LAND_WALK, SplineMoveSetLandWalk),
     (SMSG_SPLINE_MOVE_SET_FEATHER_FALL, SplineMoveSetFeatherFall),
     (SMSG_SPLINE_MOVE_SET_NORMAL_FALL, SplineMoveSetNormalFall),
     (SMSG_SPLINE_MOVE_ROOT, SplineMoveRoot),
     (SMSG_SPLINE_MOVE_UNROOT, SplineMoveUnroot),
     (SMSG_MOVE_SET_CAN_FLY, MoveSetCanFly),
     (SMSG_MOVE_UNSET_CAN_FLY, MoveUnsetCanFly),
     (SMSG_MOVE_SET_HOVER, MoveSetHover),
     (SMSG_MOVE_UNSET_HOVER, MoveUnsetHover),
     (SMSG_MOVE_WATER_WALK, MoveWaterWalk),
     (SMSG_MOVE_LAND_WALK, MoveLandWalk),
     (SMSG_MOVE_FEATHER_FALL, MoveFeatherFall),
     (SMSG_MOVE_NORMAL_FALL, MoveNormalFall),
     (SMSG_MOVE_ROOT, MoveRoot),
     (SMSG_MOVE_UNROOT, MoveUnroot),
     (CMSG_CHANGE_SEATS_ON_CONTROLLED_VEHICLE, ChangeSeatsOnControlledVehicle),
     (CMSG_CAST_SPELL, CastSpellEmbeddedMovement),
     (CMSG_PET_CAST_SPELL, CastSpellEmbeddedMovement),
     (CMSG_USE_ITEM, CastSpellEmbeddedMovement),
     (SMSG_MOVE_GRAVITY_DISABLE, MoveGravityDisable),
     (SMSG_MOVE_GRAVITY_ENABLE, MoveGravityEnable),
     (SMSG_MOVE_UPDATE_FLIGHT_BACK_SPEED, MoveUpdateFlightBackSpeed),
     (SMSG_MOVE_SET_CAN_TRANSITION_BETWEEN_SWIM_AND_FLY, MoveSetCanTransitionBetweenSwimAndFly),
     (SMSG_MOVE_UNSET_CAN_TRANSITION_BETWEEN_SWIM_AND_FLY, MoveUnsetCanTransitionBetweenSwimAndFly)]"

definition GetMovementStatusElementsSequence :: "uint32 \<Rightarrow> mse list option" where
  "GetMovementStatusElementsSequence opcode = map_of sequence_table opcode"

end
