(* ===== verification/Packet_Tokens.thy ===== *)
theory Packet_Tokens
  imports Byte_Buffer
begin

text \<open>
  Packets that mix single bits and whole bytes. The writer of \<^verbatim>\<open>ByteBuffer.h\<close> pads a started
  byte of bits before it appends bytes; the reader does not drop the rest of a started byte, so bits
  may follow bytes only when no byte of bits has been started before. A packet that keeps to that
  order (bytes, then bits, then bytes) is read back as it was written. The layouts of the movement
  packets rest on the facts of this theory.
\<close>

section \<open>What a writer puts into a packet\<close>

datatype tok = TBit bool | TBytes "uint8 list"

fun write_tok :: "tok \<Rightarrow> unit bb" where
  "write_tok (TBit x) = bind (WriteBit (if x then 1 else 0)) (\<lambda>_. ret ())"
| "write_tok (TBytes bs) = append_bytes bs"

fun write_toks :: "tok list \<Rightarrow> unit bb" where
  "write_toks [] = ret ()"
| "write_toks (t # ts) = bind (write_tok t) (\<lambda>_. write_toks ts)"

definition pad8 :: "bool list \<Rightarrow> bool list" where
  "pad8 s = s @ replicate ((8 - length s mod 8) mod 8) False"

fun add_tok :: "bool list \<Rightarrow> tok \<Rightarrow> bool list" where
  "add_tok s (TBit x) = s @ [x]"
| "add_tok s (TBytes bs) = pad8 s @ bits_of bs"

definition stream :: "bool list \<Rightarrow> tok list \<Rightarrow> bool list" where
  "stream s ts = foldl add_tok s ts"

fun tok_ok :: "tok \<Rightarrow> bool" where
  "tok_ok (TBit x) \<longleftrightarrow> True"
| "tok_ok (TBytes bs) \<longleftrightarrow> bs \<noteq> [] \<and> length bs \<le> 8"

lemma stream_simps [simp]:
  "stream s [] = s" "stream s (t # ts) = stream (add_tok s t) ts"
  "stream s (ts @ us) = stream (stream s ts) us"
  by (simp_all add: stream_def)

lemma stream_bits: "stream s (map TBit xs) = s @ xs"
  by (induction xs arbitrary: s) simp_all

lemma write_toks_append: "write_toks (ts @ us) = bind (write_toks ts) (\<lambda>_. write_toks us)"
  by (induction ts) (simp_all add: bind_assoc)

lemma pad_amount:
  fixes q r :: nat
  assumes "r < 8"
  shows "(8 - (8 * q + r) mod 8) mod 8 = (if r = 0 then 0 else 8 - r)"
    "8 * q + r + (if r = 0 then 0 else 8 - r) = 8 * ((8 * q + r + 7) div 8)"
proof -
  show "(8 - (8 * q + r) mod 8) mod 8 = (if r = 0 then 0 else 8 - r)" using assms by auto
  have "(8 * q + r + 7) div 8 = (if r = 0 then q else Suc q)"
    using assms by (intro div_nat_eqI) auto
  then show "8 * q + r + (if r = 0 then 0 else 8 - r) = 8 * ((8 * q + r + 7) div 8)" using assms by auto
qed

lemma length_pad8: "length (pad8 s) = 8 * ((length s + 7) div 8)"
proof -
  have "length s = 8 * (length s div 8) + length s mod 8" by simp
  then show ?thesis
    using pad_amount [of "length s mod 8" "length s div 8"] by (simp add: pad8_def)
qed

lemma pad8_aligned [simp]: "length s mod 8 = 0 \<Longrightarrow> pad8 s = s"
  by (simp add: pad8_def)

lemma add_tok_prefix: "\<exists>r. add_tok s t = s @ r"
  by (cases t) (simp_all add: pad8_def)

lemma stream_prefix: "\<exists>r. stream s ts = s @ r"
proof (induction ts arbitrary: s)
  case Nil
  then show ?case by simp
next
  case (Cons t ts)
  obtain r where "add_tok s t = s @ r" using add_tok_prefix by blast
  then show ?case using Cons.IH [of "add_tok s t"] by auto
qed

section \<open>Writing\<close>

lemma wbits_length: "wr_ok b \<Longrightarrow> length (wbits b) = 8 * length (storage b) + (8 - bitpos b)"
  by (simp add: wbits_def wr_ok_def)

lemma append_bytes_wbits:
  assumes "wr_ok b" "length (storage b) < 9999999" "bs \<noteq> []" "length bs \<le> 8"
  shows "\<exists>b'. append_bytes bs b = (Inr (), b') \<and> wr_ok b' \<and> wbits b' = pad8 (wbits b) @ bits_of bs"
proof -
  obtain b1 where b1: "FlushBits b = (Inr (), b1)" "wr_ok b1" "bitpos b1 = 8"
    "wbits b1 = wbits b @ replicate (if bitpos b = 8 then 0 else bitpos b) False"
    "length (storage b1) = length (storage b) + (if bitpos b = 8 then 0 else 1)"
    using FlushBits_wbits [OF assms(1)] assms(2) by auto
  have l: "length (wbits b) = 8 * length (storage b) + (8 - bitpos b)" "1 \<le> bitpos b" "bitpos b \<le> 8"
    using wbits_length [OF assms(1)] assms(1) by (simp_all add: wr_ok_def)
  then have "(8 - length (wbits b) mod 8) mod 8 = (if bitpos b = 8 then 0 else bitpos b)"
    using pad_amount(1) [of "8 - bitpos b" "length (storage b)"] by simp
  then have pad: "wbits b1 = pad8 (wbits b)" using b1(4) by (simp add: pad8_def)
  have "append_aligned bs b1 = (Inr (), b1\<lparr>storage := storage b1 @ bs, wpos := length (storage b1) + length bs\<rparr>)"
    using b1(2,5) assms(2,4) by (intro append_aligned_end) (auto simp: wr_ok_def)
  moreover have "append_bytes bs b = append_aligned bs b1"
    using assms(2,3) b1(1) by (simp add: append_bytes_def bb_size_def)
  moreover have "wbits b1 = bits_of (storage b1)" using b1(3) by (simp add: wbits_def)
  ultimately show ?thesis
    using b1(2,3) pad by (auto simp: wr_ok_def wbits_def)
qed

text \<open>A packet of at most a few thousand tokens stays far below the size limit of the buffer.\<close>

lemma write_tok_stream:
  assumes "wr_ok b" "length (wbits b) < 79000000" "tok_ok t"
  shows "\<exists>b'. write_tok t b = (Inr (), b') \<and> wr_ok b' \<and> wbits b' = add_tok (wbits b) t \<and>
    length (wbits b') \<le> length (wbits b) + 72"
proof (cases t)
  case (TBit x)
  have "length (storage b) < 10000000" using wbits_length [OF assms(1)] assms(2) by simp
  from WriteBit_wbits [OF assms(1) this, of "if x then 1 else 0"] TBit show ?thesis by auto
next
  case (TBytes bs)
  have "length (storage b) < 9999999" using wbits_length [OF assms(1)] assms(2) by simp
  moreover have "length (pad8 (wbits b)) \<le> length (wbits b) + 8" by (simp add: length_pad8)
  ultimately show ?thesis
    using append_bytes_wbits [OF assms(1), of bs] assms(3) TBytes by fastforce
qed

lemma write_toks_stream:
  assumes "wr_ok b" "length (wbits b) + 72 * length ts < 79000000" "\<forall>t \<in> set ts. tok_ok t"
  shows "\<exists>b'. write_toks ts b = (Inr (), b') \<and> wr_ok b' \<and> wbits b' = stream (wbits b) ts \<and>
    length (wbits b') \<le> length (wbits b) + 72 * length ts"
  using assms
proof (induction ts arbitrary: b)
  case Nil
  then show ?case by simp
next
  case (Cons t ts)
  then obtain b1 where b1: "write_tok t b = (Inr (), b1)" "wr_ok b1" "wbits b1 = add_tok (wbits b) t"
    "length (wbits b1) \<le> length (wbits b) + 72"
    using write_tok_stream [of b t] by auto
  then show ?case using Cons.IH [of b1] Cons.prems by force
qed

section \<open>Reading\<close>

text \<open>
  Where a reader stands in a message \<open>m\<close> after the stream \<open>s\<close>: ready for the next bit, or only
  ready for the next byte.
\<close>

definition bit_at :: "uint8 list \<Rightarrow> bool list \<Rightarrow> byte_buffer \<Rightarrow> bool" where
  "bit_at m s b \<longleftrightarrow> storage b = m \<and> rd_ok b \<and> length s \<le> 8 * length m \<and> rbits b = drop (length s) (bits_of m)"

definition byte_at :: "uint8 list \<Rightarrow> bool list \<Rightarrow> byte_buffer \<Rightarrow> bool" where
  "byte_at m s b \<longleftrightarrow> storage b = m \<and> rd_ok b \<and> 8 * rpos b = length (pad8 s)"

lemma byte_bits_inject: "byte_bits x = byte_bits y \<longleftrightarrow> x = y"
proof
  assume e: "byte_bits x = byte_bits y"
  show "x = y"
  proof (rule bit_word_eqI)
    fix n assume "n < LENGTH(8)"
    then show "bit x n = bit y n"
      using nth_byte_bits [of "7 - n" x] nth_byte_bits [of "7 - n" y] e by simp
  qed
qed simp

lemma bits_of_append_eq:
  "bits_of xs @ r = bits_of ys \<Longrightarrow> take (length xs) ys = xs \<and> r = bits_of (drop (length xs) ys)"
proof (induction xs arbitrary: ys)
  case Nil
  then show ?case by simp
next
  case (Cons x xs)
  then obtain y ys' where ys: "ys = y # ys'" by (cases ys) (auto simp: byte_bits_def)
  then have "byte_bits x = byte_bits y" "bits_of xs @ r = bits_of ys'"
    using Cons.prems append_eq_append_conv [of "byte_bits x" "byte_bits y"] by auto
  then show ?case using Cons.IH [of ys'] ys by (simp add: byte_bits_inject)
qed

lemma drop_bits_of: "drop (8 * k) (bits_of xs) = bits_of (drop k xs)"
proof (induction xs arbitrary: k)
  case (Cons x xs)
  then show ?case by (cases k) simp_all
qed simp

lemma bit_at_byte_at: "bit_at m s b \<Longrightarrow> byte_at m s b"
proof -
  assume a: "bit_at m s b"
  then have l: "length (rbits b) = 8 * length m - length s" "length s \<le> 8 * length m" by (simp_all add: bit_at_def)
  have r: "rpos b \<le> length m" "storage b = m" using a by (auto simp: bit_at_def rd_ok_def)
  define k where "k = 8 - Suc (bitpos b)"
  have "length (rbits b) = k + 8 * (length m - rpos b)"
    using r by (simp add: rbits_def k_def)
  then have e: "length s + k = 8 * rpos b" using l r(1) by (simp add: diff_mult_distrib2)
  have "k < 8" by (simp add: k_def)
  then have "(length s + 7) div 8 = rpos b" using e by (intro div_nat_eqI) auto
  then show "byte_at m s b" using a by (simp add: byte_at_def bit_at_def length_pad8)
qed

lemma ReadBit_storage: "storage (snd (ReadBit b)) = storage b"
  by (auto simp: ReadBit_def Let_def bind_def read_value_def read_bytes_def split: sum.splits prod.splits)

lemma read_bit_at:
  assumes "bit_at m s b" "bits_of m = (s @ [x]) @ r"
  shows "\<exists>b'. ReadBit b = (Inr x, b') \<and> bit_at m (s @ [x]) b'"
proof -
  have "rbits b = x # r" "rd_ok b" using assms by (auto simp: bit_at_def)
  then obtain b' where b': "ReadBit b = (Inr x, b')" "rd_ok b'" "rbits b' = r"
    using ReadBit_rbits [of b x r] by auto
  moreover have "storage b' = m" using b'(1) ReadBit_storage [of b] assms(1) by (simp add: bit_at_def)
  moreover have "length (s @ [x]) \<le> 8 * length m" using assms(2) length_bits_of [of m] by (metis length_append le_add1)
  moreover have "r = drop (length (s @ [x])) (bits_of m)" unfolding assms(2) by simp
  ultimately show ?thesis by (auto simp: bit_at_def)
qed

lemma read_bytes_at:
  assumes "byte_at m s b" "bits_of m = (pad8 s @ bits_of bs) @ r" "bs \<noteq> []"
  shows "read_bytes (length bs) b = (Inr bs, b\<lparr>rpos := rpos b + length bs\<rparr>)"
    "byte_at m (pad8 s @ bits_of bs) (b\<lparr>rpos := rpos b + length bs\<rparr>)"
proof -
  have p: "8 * rpos b = length (pad8 s)" "storage b = m" "rd_ok b" using assms(1) by (auto simp: byte_at_def)
  have "bits_of bs @ r = bits_of (drop (rpos b) m)"
    unfolding drop_bits_of [symmetric] p(1) assms(2) by simp
  from bits_of_append_eq [OF this] have t: "take (length bs) (drop (rpos b) m) = bs" by simp
  then have l: "rpos b + length bs \<le> length m" using assms(3)
    by (metis le_diff_conv2 length_drop length_take min_def nat_le_linear add.commute take_all_iff drop_eq_Nil2 take_Nil)
  then show "read_bytes (length bs) b = (Inr bs, b\<lparr>rpos := rpos b + length bs\<rparr>)"
    using read_bytes_ok [of b "length bs"] t p by (simp add: rd_ok_def)
  have "length (pad8 s) mod 8 = 0" by (simp add: length_pad8)
  then show "byte_at m (pad8 s @ bits_of bs) (b\<lparr>rpos := rpos b + length bs\<rparr>)"
    using p l by (simp add: byte_at_def rd_ok_def)
qed

text \<open>Bytes at the start of a packet leave the reader ready for bits.\<close>

lemma bytes_then_bits:
  assumes "bit_at m s b" "bitpos b = 8" "byte_at m (pad8 s @ bits_of bs) (b\<lparr>rpos := rpos b + length bs\<rparr>)"
  shows "bit_at m (pad8 s @ bits_of bs) (b\<lparr>rpos := rpos b + length bs\<rparr>)"
proof -
  let ?b = "b\<lparr>rpos := rpos b + length bs\<rparr>" and ?s = "pad8 s @ bits_of bs"
  have "length ?s mod 8 = 0" by (simp add: length_pad8)
  then have e: "8 * rpos ?b = length ?s" using assms(3) by (simp add: byte_at_def del: length_append)
  have "rbits ?b = bits_of (drop (rpos ?b) m)" using assms(1,2) by (simp add: rbits_def bit_at_def)
  also have "\<dots> = drop (length ?s) (bits_of m)" unfolding e [symmetric] by (rule drop_bits_of [symmetric])
  finally show ?thesis using assms(1,3) e by (simp add: bit_at_def byte_at_def rd_ok_def)
qed

lemma ReadBits_storage: "storage (snd (ReadBits n b)) = storage b"
proof -
  have "storage (snd (ReadBits_loop n v b)) = storage b" for v
  proof (induction n arbitrary: v b)
    case (Suc n)
    obtain r b1 where r: "ReadBit b = (r, b1)" by (cases "ReadBit b")
    then have "storage b1 = storage b" using ReadBit_storage [of b] by simp
    then show ?case using Suc.IH r by (cases r) (auto simp: bind_def)
  qed simp
  then show ?thesis by (simp add: ReadBits_def)
qed

lemma read_bits_at:
  assumes "bit_at m s b" "bits_of m = (s @ value_bits v n) @ r" "n \<le> 32"
  shows "\<exists>b'. ReadBits n b = (Inr (take_bit n v), b') \<and> bit_at m (s @ value_bits v n) b'"
proof -
  have "rbits b = value_bits v n @ r" "rd_ok b" using assms(1,2) by (auto simp: bit_at_def)
  then obtain b' where b': "ReadBits n b = (Inr (take_bit n v), b')" "rd_ok b'" "rbits b' = r"
    using ReadBits_rbits [OF assms(3), of b v r] by auto
  moreover have "storage b' = m" using b'(1) ReadBits_storage [of n b] assms(1) by (simp add: bit_at_def)
  moreover have "length (s @ value_bits v n) \<le> 8 * length m"
    using assms(2) length_bits_of [of m] by (metis length_append le_add1)
  moreover have "r = drop (length (s @ value_bits v n)) (bits_of m)" unfolding assms(2) by simp
  ultimately show ?thesis by (auto simp: bit_at_def)
qed

definition bytes_step :: "uint8 list \<Rightarrow> bool list \<Rightarrow> bool list \<Rightarrow> byte_buffer \<Rightarrow> byte_buffer \<Rightarrow> bool" where
  "bytes_step m s s' b b' \<longleftrightarrow> byte_at m s' b' \<and> (bit_at m s b \<and> bitpos b = 8 \<longrightarrow> bit_at m s' b' \<and> bitpos b' = 8)"

lemma bytes_step_refl: "byte_at m s b \<Longrightarrow> bytes_step m s s b b"
  by (simp add: bytes_step_def)

lemma read_value_at:
  fixes v :: "'a::len word"
  assumes "byte_at m s b" "bits_of m = (pad8 s @ bits_of (le_bytes v)) @ r" "8 dvd LENGTH('a)"
  shows "\<exists>b'. read_value b = (Inr v, b') \<and> bytes_step m s (pad8 s @ bits_of (le_bytes v)) b b'"
proof -
  have ne: "le_bytes v \<noteq> []" using assms(3) len_gt_0 [where ?'a = 'a] by (auto simp: le_bytes_def simp del: len_gt_0 elim!: dvdE)
  let ?b = "b\<lparr>rpos := rpos b + length (le_bytes v)\<rparr>"
  have "read_value b = (Inr v, ?b)"
    using read_bytes_at(1) [OF assms(1,2) ne] by (simp add: read_value_def le_value_le_bytes [OF assms(3)])
  moreover have "bytes_step m s (pad8 s @ bits_of (le_bytes v)) b ?b"
    using read_bytes_at(2) [OF assms(1,2) ne] bytes_then_bits [of m s b "le_bytes v"] by (auto simp: bytes_step_def)
  ultimately show ?thesis by blast
qed

section \<open>The contract of a table-driven layout\<close>

text \<open>
  A packet is a sequence of elements. The writer emits for each element a fixed list of tokens; the
  reader folds the same sequence over a state. When every element is read back to the state the
  writer's value determines, given the elements before it, the whole packet is.
\<close>

datatype phase = PStart | PBits | PBytes

fun next_phase :: "bool \<Rightarrow> phase \<Rightarrow> phase option" where
  "next_phase True PBytes = None"
| "next_phase True ph = Some PBits"
| "next_phase False PStart = Some PStart"
| "next_phase False ph = Some PBytes"

fun reader_at :: "phase \<Rightarrow> uint8 list \<Rightarrow> bool list \<Rightarrow> byte_buffer \<Rightarrow> bool" where
  "reader_at PStart m s b \<longleftrightarrow> bit_at m s b \<and> bitpos b = 8"
| "reader_at PBits m s b \<longleftrightarrow> bit_at m s b"
| "reader_at PBytes m s b \<longleftrightarrow> byte_at m s b"

fun layout_ok :: "('e \<Rightarrow> bool) \<Rightarrow> ('e list \<Rightarrow> 'e \<Rightarrow> bool) \<Rightarrow> phase \<Rightarrow> 'e list \<Rightarrow> 'e list \<Rightarrow> bool" where
  "layout_ok bits good ph seen [] \<longleftrightarrow> True"
| "layout_ok bits good ph seen (e # es) \<longleftrightarrow>
     good seen e \<and> (case next_phase (bits e) ph of
        None \<Rightarrow> False | Some ph' \<Rightarrow> layout_ok bits good ph' (e # seen) es)"

fun run_elements :: "('e \<Rightarrow> 'r \<Rightarrow> 'r bb) \<Rightarrow> 'e list \<Rightarrow> 'r \<Rightarrow> 'r bb" where
  "run_elements rd [] r = ret r"
| "run_elements rd (e # es) r = bind (rd e r) (run_elements rd es)"

locale layout_codec =
  fixes toks :: "'e \<Rightarrow> tok list"
    and bits :: "'e \<Rightarrow> bool"
    and rd :: "'e \<Rightarrow> 'r \<Rightarrow> 'r bb"
    and good :: "'e list \<Rightarrow> 'e \<Rightarrow> bool"
    and image :: "'e list \<Rightarrow> 'r"
  assumes toks_ok: "t \<in> set (toks e) \<Longrightarrow> tok_ok t"
    and toks_few: "length (toks e) \<le> 32"
    and read_bit_element: "good seen e \<Longrightarrow> bits e \<Longrightarrow> bit_at m s b \<Longrightarrow>
      bits_of m = stream s (toks e) @ r \<Longrightarrow>
      \<exists>b'. rd e (image seen) b = (Inr (image (e # seen)), b') \<and> bit_at m (stream s (toks e)) b'"
    and read_byte_element: "good seen e \<Longrightarrow> \<not> bits e \<Longrightarrow> byte_at m s b \<Longrightarrow>
      bits_of m = stream s (toks e) @ r \<Longrightarrow>
      \<exists>b'. rd e (image seen) b = (Inr (image (e # seen)), b') \<and> bytes_step m s (stream s (toks e)) b b'"
begin

lemma read_element_at:
  assumes "good seen e" "next_phase (bits e) ph = Some ph'" "reader_at ph m s b"
    "bits_of m = stream s (toks e) @ r"
  shows "\<exists>b'. rd e (image seen) b = (Inr (image (e # seen)), b') \<and> reader_at ph' m (stream s (toks e)) b'"
proof (cases "bits e")
  case True
  then have "bit_at m s b" "ph' = PBits" using assms(2,3) by (cases ph; auto)+
  then show ?thesis using read_bit_element [OF assms(1) True _ assms(4)] by auto
next
  case False
  have "byte_at m s b" using assms(3) bit_at_byte_at by (cases ph) auto
  from read_byte_element [OF assms(1) False this assms(4)] obtain b' where
    b': "rd e (image seen) b = (Inr (image (e # seen)), b')" "bytes_step m s (stream s (toks e)) b b'" by auto
  have "reader_at ph' m (stream s (toks e)) b'"
    using b'(2) assms(2,3) False by (cases ph) (auto simp: bytes_step_def)
  then show ?thesis using b'(1) by blast
qed

lemma read_elements:
  assumes "layout_ok bits good ph seen es" "reader_at ph m s b"
    "bits_of m = stream s (concat (map toks es)) @ r"
  shows "\<exists>b'. run_elements rd es (image seen) b = (Inr (image (rev es @ seen)), b')"
  using assms
proof (induction es arbitrary: ph seen s b)
  case Nil
  then show ?case by simp
next
  case (Cons e es)
  then obtain ph' where ph': "next_phase (bits e) ph = Some ph'" "layout_ok bits good ph' (e # seen) es" "good seen e"
    by (auto split: option.splits)
  obtain r' where "bits_of m = stream s (toks e) @ r'"
    using stream_prefix [of "stream s (toks e)" "concat (map toks es)"] Cons.prems(3) by auto
  from read_element_at [OF ph'(3,1) Cons.prems(2) this] obtain b1 where b1:
    "rd e (image seen) b = (Inr (image (e # seen)), b1)" "reader_at ph' m (stream s (toks e)) b1" by auto
  from Cons.IH [OF ph'(2) b1(2)] Cons.prems(3) b1(1) show ?case by auto
qed

lemma toks_size: "length (concat (map toks es)) \<le> 32 * length es"
proof (induction es)
  case (Cons e es)
  then show ?case using toks_few [of e] by simp
qed simp

theorem layout_roundtrip:
  assumes "layout_ok bits good PStart [] es" "length es \<le> 1000"
  shows "\<exists>b b'. write_toks (concat (map toks es)) bb_new = (Inr (), b) \<and>
    run_elements rd es (image []) (transmit b) = (Inr (image (rev es)), b')"
proof -
  let ?ts = "concat (map toks es)"
  have new: "wr_ok bb_new" "wbits bb_new = []" by (simp_all add: wr_ok_def wbits_def bb_new_def InitialBitPos_def)
  have len: "72 * length ?ts < 79000000" using toks_size [of es] assms(2) by simp
  have "\<forall>t \<in> set ?ts. tok_ok t" using toks_ok by auto
  with write_toks_stream [OF new(1), of ?ts] len obtain b where
    b: "write_toks ?ts bb_new = (Inr (), b)" "wr_ok b" "wbits b = stream [] ?ts" "length (wbits b) \<le> 72 * length ?ts"
    by (auto simp: new(2))
  then have "room_for b 0" using len by (simp add: room_for_def)
  from transmit_bits [OF this] obtain k where k: "rd_ok (transmit b)" "rbits (transmit b) = stream [] ?ts @ replicate k False"
    by (auto simp: b(3))
  define m where "m = storage (transmit b)"
  have t: "transmit b = bb_of_message m" by (simp add: m_def transmit_def bb_of_message_def bb_new_def)
  have "bits_of m = stream [] ?ts @ replicate k False" using k(2) by (simp add: t rbits_message)
  moreover have "reader_at PStart m [] (transmit b)"
    using k(1) by (simp add: t bit_at_def rbits_message) (simp add: bb_of_message_def bb_new_def InitialBitPos_def)
  ultimately show ?thesis using read_elements [OF assms(1)] b(1) by fastforce
qed

end

end
