(* ===== verification/Movement_Info.thy ===== *)
theory Movement_Info
  imports Movement_Tables Packet_Tokens
begin

text \<open>
  Movement packets: the state of a mover (\<^verbatim>\<open>src/src/server/game/Entities/Object/MovementInfo.h\<close>),
  writing it (\<^verbatim>\<open>Unit::WriteMovementInfo\<close> in \<^verbatim>\<open>Entities/Unit/Unit.cpp\<close>), reading it
  (\<^verbatim>\<open>Player::ReadMovementInfo\<close> and \<^verbatim>\<open>Player::ValidateMovementInfo\<close> in
  \<^verbatim>\<open>Entities/Player/Player.cpp\<close>) and the extra elements of \<^verbatim>\<open>Movement/MovementStructures.cpp\<close>.
  Both directions interpret the layouts of \<open>Movement_Tables\<close> over the buffer of \<open>Byte_Buffer\<close>.
  A \<^verbatim>\<open>float\<close> is its 32-bit pattern; the floating-point functions the code calls on it are
  parameters.
\<close>

section \<open>Data\<close>

text \<open>\<^verbatim>\<open>Position::NormalizeOrientation\<close>, \<^verbatim>\<open>G3D::wrap\<close> to the interval from \<open>-pi\<close> to
  \<open>pi\<close>, and \<^verbatim>\<open>G3D::fuzzyEq\<close> with zero.\<close>

record float_ops =
  NormalizeOrientation :: "uint32 \<Rightarrow> uint32"
  wrap_pi :: "uint32 \<Rightarrow> uint32"
  fuzzy_zero :: "uint32 \<Rightarrow> bool"

record position =
  positionX :: uint32
  positionY :: uint32
  positionZ :: uint32
  orientation :: uint32

definition Relocate :: "float_ops \<Rightarrow> uint32 \<Rightarrow> uint32 \<Rightarrow> uint32 \<Rightarrow> uint32 \<Rightarrow> position" where
  "Relocate fl x y z o' = \<lparr>positionX = x, positionY = y, positionZ = z, orientation = NormalizeOrientation fl o'\<rparr>"

record transport_info =
  t_guid :: guid
  t_pos :: position
  t_seat :: uint8
  t_time :: uint32
  t_time2 :: uint32
  t_vehicleId :: uint32

definition transport_Reset :: "float_ops \<Rightarrow> transport_info" where
  "transport_Reset fl = \<lparr>t_guid = 0, t_pos = Relocate fl 0 0 0 0, t_seat = -1, t_time = 0, t_time2 = 0, t_vehicleId = 0\<rparr>"

record jump_info =
  fallTime :: uint32
  zspeed :: uint32
  sinAngle :: uint32
  cosAngle :: uint32
  xyspeed :: uint32

definition jump_Reset :: jump_info where
  "jump_Reset = \<lparr>fallTime = 0, zspeed = 0, sinAngle = 0, cosAngle = 0, xyspeed = 0\<rparr>"

record movement_info =
  mi_guid :: guid
  mi_flags :: uint32
  mi_flags2 :: uint16
  mi_pos :: position
  mi_time :: uint32
  mi_counter :: uint32
  mi_transport :: transport_info
  mi_pitch :: uint32
  mi_jump :: jump_info
  mi_splineElevation :: uint32
  mi_heightChangeFailed :: bool

definition MovementInfo_new :: "float_ops \<Rightarrow> movement_info" where
  "MovementInfo_new fl =
     \<lparr>mi_guid = 0, mi_flags = 0, mi_flags2 = 0, mi_pos = Relocate fl 0 0 0 0, mi_time = 0, mi_counter = 0,
      mi_transport = transport_Reset fl, mi_pitch = 0, mi_jump = jump_Reset, mi_splineElevation = 0,
      mi_heightChangeFailed = False\<rparr>"

definition HasMovementFlag :: "uint32 \<Rightarrow> movement_info \<Rightarrow> bool" where
  "HasMovementFlag f mi \<longleftrightarrow> mi_flags mi AND f \<noteq> 0"

definition AddMovementFlag :: "uint32 \<Rightarrow> movement_info \<Rightarrow> movement_info" where
  "AddMovementFlag f mi = mi\<lparr>mi_flags := mi_flags mi OR f\<rparr>"

definition RemoveMovementFlag :: "uint32 \<Rightarrow> movement_info \<Rightarrow> movement_info" where
  "RemoveMovementFlag f mi = mi\<lparr>mi_flags := mi_flags mi AND NOT f\<rparr>"

text \<open>\<^verbatim>\<open>Movement::ExtraMovementStatusElement\<close>; \<open>x_guid\<close> are the eight bytes of its identifier.\<close>

record extra_element =
  x_elements :: "mse list"
  x_index :: nat
  x_guid :: "uint8 list"
  x_float :: uint32
  x_byte :: uint8

definition extra_new :: "mse list \<Rightarrow> extra_element" where
  "extra_new es = \<lparr>x_elements = es, x_index = 0, x_guid = replicate 8 0, x_float = 0, x_byte = 0\<rparr>"

definition ResetIndex :: "extra_element \<Rightarrow> extra_element" where
  "ResetIndex x = x\<lparr>x_index := 0\<rparr>"

section \<open>Extra elements\<close>

definition read_extra :: "mse \<Rightarrow> extra_element \<Rightarrow> extra_element bb" where
  "read_extra e x =
     (case e of
        MSEHasGuidByte i \<Rightarrow>
          if i < 8 then bind ReadBit (\<lambda>v. ret (x\<lparr>x_guid := (x_guid x)[i := of_bool v]\<rparr>)) else throw AssertFailed
      | MSEGuidByte i \<Rightarrow>
          if i < 8 then bind (ReadByteSeq (x_guid x ! i)) (\<lambda>v. ret (x\<lparr>x_guid := (x_guid x)[i := v]\<rparr>))
          else throw AssertFailed
      | MSEExtraFloat \<Rightarrow> bind read_float (\<lambda>v. ret (x\<lparr>x_float := v\<rparr>))
      | MSEExtraInt8 \<Rightarrow> bind read_value (\<lambda>v. ret (x\<lparr>x_byte := v\<rparr>))
      | MSEExtraTwoBits \<Rightarrow> bind (ReadBits 2) (\<lambda>v. ret (x\<lparr>x_byte := ucast v\<rparr>))
      | _ \<Rightarrow> throw AssertFailed)"

definition ReadNextElement :: "extra_element \<Rightarrow> extra_element bb" where
  "ReadNextElement x =
     (if x_index x < length (x_elements x)
      then read_extra (x_elements x ! x_index x) (x\<lparr>x_index := Suc (x_index x)\<rparr>)
      else throw UndefinedBehaviour)"

definition write_extra :: "mse \<Rightarrow> extra_element \<Rightarrow> unit bb" where
  "write_extra e x =
     (case e of
        MSEHasGuidByte i \<Rightarrow>
          if i < 8 then bind (WriteBit (ucast (x_guid x ! i))) (\<lambda>_. ret ()) else throw AssertFailed
      | MSEGuidByte i \<Rightarrow> if i < 8 then WriteByteSeq (x_guid x ! i) else throw AssertFailed
      | MSEExtraFloat \<Rightarrow> append_value (x_float x)
      | MSEExtraInt8 \<Rightarrow> append_value (x_byte x)
      | MSEExtraTwoBits \<Rightarrow> WriteBits (scast (x_byte x)) 2
      | _ \<Rightarrow> throw AssertFailed)"

definition WriteNextElement :: "extra_element \<Rightarrow> extra_element bb" where
  "WriteNextElement x =
     (if x_index x < length (x_elements x)
      then bind (write_extra (x_elements x ! x_index x) x) (\<lambda>_. ret (x\<lparr>x_index := Suc (x_index x)\<rparr>))
      else throw UndefinedBehaviour)"

section \<open>Writing\<close>

text \<open>What \<^verbatim>\<open>Unit::WriteMovementInfo\<close> reads of the unit: its identifier, the identifier of its
  vehicle or transport, its position, its movement information and whether a spline is running.\<close>

record mover =
  u_guid :: guid
  u_transguid :: guid
  u_pos :: position
  u_info :: movement_info
  u_spline :: bool

definition MOVEMENTFLAG_FALLING :: uint32 where "MOVEMENTFLAG_FALLING = 0x00000800"

definition MOVEMENTFLAG_SWIMMING :: uint32 where "MOVEMENTFLAG_SWIMMING = 0x00100000"

definition MOVEMENTFLAG_FLYING :: uint32 where "MOVEMENTFLAG_FLYING = 0x01000000"

definition MOVEMENTFLAG_SPLINE_ELEVATION :: uint32 where "MOVEMENTFLAG_SPLINE_ELEVATION = 0x02000000"

definition MOVEMENTFLAG2_ALWAYS_ALLOW_PITCHING :: uint16 where "MOVEMENTFLAG2_ALWAYS_ALLOW_PITCHING = 0x10"

definition hasMovementFlags :: "mover \<Rightarrow> bool" where
  "hasMovementFlags u \<longleftrightarrow> mi_flags (u_info u) \<noteq> 0"

definition hasMovementFlags2 :: "mover \<Rightarrow> bool" where
  "hasMovementFlags2 u \<longleftrightarrow> mi_flags2 (u_info u) \<noteq> 0"

definition hasOrientation :: "float_ops \<Rightarrow> mover \<Rightarrow> bool" where
  "hasOrientation fl u \<longleftrightarrow> \<not> fuzzy_zero fl (orientation (u_pos u))"

definition hasTransportData :: "mover \<Rightarrow> bool" where
  "hasTransportData u \<longleftrightarrow> u_transguid u \<noteq> 0"

definition hasTransportTime2 :: "mover \<Rightarrow> bool" where
  "hasTransportTime2 u \<longleftrightarrow> hasTransportData u \<and> t_time2 (mi_transport (u_info u)) \<noteq> 0"

definition hasTransportVehicleId :: "mover \<Rightarrow> bool" where
  "hasTransportVehicleId u \<longleftrightarrow> hasTransportData u \<and> t_vehicleId (mi_transport (u_info u)) \<noteq> 0"

definition hasPitch :: "mover \<Rightarrow> bool" where
  "hasPitch u \<longleftrightarrow> HasMovementFlag (MOVEMENTFLAG_SWIMMING OR MOVEMENTFLAG_FLYING) (u_info u)
     \<or> mi_flags2 (u_info u) AND MOVEMENTFLAG2_ALWAYS_ALLOW_PITCHING \<noteq> 0"

definition hasFallDirection :: "mover \<Rightarrow> bool" where
  "hasFallDirection u \<longleftrightarrow> HasMovementFlag MOVEMENTFLAG_FALLING (u_info u)"

definition hasFallData :: "mover \<Rightarrow> bool" where
  "hasFallData u \<longleftrightarrow> hasFallDirection u \<or> fallTime (mi_jump (u_info u)) \<noteq> 0"

definition hasSplineElevation :: "mover \<Rightarrow> bool" where
  "hasSplineElevation u \<longleftrightarrow> HasMovementFlag MOVEMENTFLAG_SPLINE_ELEVATION (u_info u)"

definition write_flag :: "bool \<Rightarrow> unit bb" where
  "write_flag v = bind (WriteBit (if v then 1 else 0)) (\<lambda>_. ret ())"

definition if_has :: "bool \<Rightarrow> unit bb \<Rightarrow> unit bb" where
  "if_has c act = (if c then act else ret ())"

text \<open>The cases of the switch, the extra element apart. \<^verbatim>\<open>hasTimestamp\<close> is the constant true; a
  missing movement counter is written as zero.\<close>

fun write_element :: "float_ops \<Rightarrow> mover \<Rightarrow> uint32 option \<Rightarrow> mse \<Rightarrow> unit bb" where
  "write_element fl u cnt (MSEHasGuidByte i) =
     (if i < 8 then bind (WriteBit (ucast (le_bytes (u_guid u) ! i))) (\<lambda>_. ret ()) else throw AssertFailed)"
| "write_element fl u cnt (MSEHasTransportGuidByte i) =
     if_has (hasTransportData u)
       (if i < 8 then bind (WriteBit (ucast (le_bytes (u_transguid u) ! i))) (\<lambda>_. ret ()) else throw AssertFailed)"
| "write_element fl u cnt (MSEGuidByte i) =
     (if i < 8 then WriteByteSeq (le_bytes (u_guid u) ! i) else throw AssertFailed)"
| "write_element fl u cnt (MSETransportGuidByte i) =
     if_has (hasTransportData u) (if i < 8 then WriteByteSeq (le_bytes (u_transguid u) ! i) else throw AssertFailed)"
| "write_element fl u cnt MSEHasMovementFlags = write_flag (\<not> hasMovementFlags u)"
| "write_element fl u cnt MSEHasMovementFlags2 = write_flag (\<not> hasMovementFlags2 u)"
| "write_element fl u cnt MSEHasTimestamp = write_flag (\<not> True)"
| "write_element fl u cnt MSEHasOrientation = write_flag (\<not> hasOrientation fl u)"
| "write_element fl u cnt MSEHasTransportData = write_flag (hasTransportData u)"
| "write_element fl u cnt MSEHasTransportTime2 = if_has (hasTransportData u) (write_flag (hasTransportTime2 u))"
| "write_element fl u cnt MSEHasVehicleId = if_has (hasTransportData u) (write_flag (hasTransportVehicleId u))"
| "write_element fl u cnt MSEHasPitch = write_flag (\<not> hasPitch u)"
| "write_element fl u cnt MSEHasFallData = write_flag (hasFallData u)"
| "write_element fl u cnt MSEHasFallDirection = if_has (hasFallData u) (write_flag (hasFallDirection u))"
| "write_element fl u cnt MSEHasSplineElevation = write_flag (\<not> hasSplineElevation u)"
| "write_element fl u cnt MSEHasSpline = write_flag (u_spline u)"
| "write_element fl u cnt MSEHasHeightChangeFailed = write_flag (mi_heightChangeFailed (u_info u))"
| "write_element fl u cnt MSEMovementFlags = if_has (hasMovementFlags u) (WriteBits (mi_flags (u_info u)) 30)"
| "write_element fl u cnt MSEMovementFlags2 = if_has (hasMovementFlags2 u) (WriteBits (ucast (mi_flags2 (u_info u))) 12)"
| "write_element fl u cnt MSETimestamp = append_value (mi_time (u_info u))"
| "write_element fl u cnt MSEPositionX = append_value (positionX (u_pos u))"
| "write_element fl u cnt MSEPositionY = append_value (positionY (u_pos u))"
| "write_element fl u cnt MSEPositionZ = append_value (positionZ (u_pos u))"
| "write_element fl u cnt MSEOrientation = if_has (hasOrientation fl u) (append_value (orientation (u_pos u)))"
| "write_element fl u cnt MSETransportPositionX =
     if_has (hasTransportData u) (append_value (positionX (t_pos (mi_transport (u_info u)))))"
| "write_element fl u cnt MSETransportPositionY =
     if_has (hasTransportData u) (append_value (positionY (t_pos (mi_transport (u_info u)))))"
| "write_element fl u cnt MSETransportPositionZ =
     if_has (hasTransportData u) (append_value (positionZ (t_pos (mi_transport (u_info u)))))"
| "write_element fl u cnt MSETransportOrientation =
     if_has (hasTransportData u) (append_value (orientation (t_pos (mi_transport (u_info u)))))"
| "write_element fl u cnt MSETransportSeat = if_has (hasTransportData u) (append_value (t_seat (mi_transport (u_info u))))"
| "write_element fl u cnt MSETransportTime = if_has (hasTransportData u) (append_value (t_time (mi_transport (u_info u))))"
| "write_element fl u cnt MSETransportTime2 =
     if_has (hasTransportData u \<and> hasTransportTime2 u) (append_value (t_time2 (mi_transport (u_info u))))"
| "write_element fl u cnt MSETransportVehicleId =
     if_has (hasTransportData u \<and> hasTransportVehicleId u) (append_value (t_vehicleId (mi_transport (u_info u))))"
| "write_element fl u cnt MSEPitch = if_has (hasPitch u) (append_value (mi_pitch (u_info u)))"
| "write_element fl u cnt MSEFallTime = if_has (hasFallData u) (append_value (fallTime (mi_jump (u_info u))))"
| "write_element fl u cnt MSEFallVerticalSpeed = if_has (hasFallData u) (append_value (zspeed (mi_jump (u_info u))))"
| "write_element fl u cnt MSEFallCosAngle =
     if_has (hasFallData u \<and> hasFallDirection u) (append_value (cosAngle (mi_jump (u_info u))))"
| "write_element fl u cnt MSEFallSinAngle =
     if_has (hasFallData u \<and> hasFallDirection u) (append_value (sinAngle (mi_jump (u_info u))))"
| "write_element fl u cnt MSEFallHorizontalSpeed =
     if_has (hasFallData u \<and> hasFallDirection u) (append_value (xyspeed (mi_jump (u_info u))))"
| "write_element fl u cnt MSESplineElevation = if_has (hasSplineElevation u) (append_value (mi_splineElevation (u_info u)))"
| "write_element fl u cnt MSECounter = append_value (case cnt of None \<Rightarrow> 0 | Some c \<Rightarrow> c)"
| "write_element fl u cnt MSEZeroBit = write_flag False"
| "write_element fl u cnt MSEOneBit = write_flag True"
| "write_element fl u cnt MSEFlushBits = FlushBits"
| "write_element fl u cnt MSEEnd = throw AssertFailed"
| "write_element fl u cnt MSEExtraElement = throw AssertFailed"
| "write_element fl u cnt MSEExtraFloat = throw AssertFailed"
| "write_element fl u cnt MSEExtraInt8 = throw AssertFailed"
| "write_element fl u cnt MSEExtraTwoBits = throw AssertFailed"

text \<open>The loop up to \<^verbatim>\<open>MSEEnd\<close>; an extra element without an \<^verbatim>\<open>extras\<close> object would
  dereference a null pointer.\<close>

fun write_sequence ::
  "float_ops \<Rightarrow> mover \<Rightarrow> uint32 option \<Rightarrow> mse list \<Rightarrow> extra_element option \<Rightarrow> extra_element option bb" where
  "write_sequence fl u cnt [] x = throw UndefinedBehaviour"
| "write_sequence fl u cnt (e # es) x =
     (if e = MSEEnd then ret x
      else if e = MSEExtraElement then
        (case x of
           None \<Rightarrow> throw UndefinedBehaviour
         | Some x0 \<Rightarrow> bind (WriteNextElement x0) (\<lambda>x1. write_sequence fl u cnt es (Some x1)))
      else bind (write_element fl u cnt e) (\<lambda>_. write_sequence fl u cnt es x))"

definition WriteMovementInfo ::
  "float_ops \<Rightarrow> mover \<Rightarrow> uint32 \<Rightarrow> extra_element option \<Rightarrow> uint32 option \<Rightarrow> extra_element option bb" where
  "WriteMovementInfo fl u opcode x cnt =
     (case GetMovementStatusElementsSequence opcode of
        None \<Rightarrow> ret x
      | Some sequence \<Rightarrow> write_sequence fl u cnt sequence x)"

section \<open>Reading\<close>

text \<open>The local variables of \<^verbatim>\<open>Player::ReadMovementInfo\<close>: the flags read so far, the bytes of the two
  identifiers, the information filled in and the extras.\<close>

record reader =
  r_hasMovementFlags :: bool
  r_hasMovementFlags2 :: bool
  r_hasTimestamp :: bool
  r_hasOrientation :: bool
  r_hasTransportData :: bool
  r_hasTransportTime2 :: bool
  r_hasTransportVehicleId :: bool
  r_hasPitch :: bool
  r_hasFallData :: bool
  r_hasFallDirection :: bool
  r_hasSplineElevation :: bool
  r_guid :: "uint8 list"
  r_tguid :: "uint8 list"
  r_mi :: movement_info
  r_extras :: "extra_element option"

definition reader_new :: "movement_info \<Rightarrow> extra_element option \<Rightarrow> reader" where
  "reader_new mi x =
     \<lparr>r_hasMovementFlags = False, r_hasMovementFlags2 = False, r_hasTimestamp = False, r_hasOrientation = False,
      r_hasTransportData = False, r_hasTransportTime2 = False, r_hasTransportVehicleId = False,
      r_hasPitch = False, r_hasFallData = False, r_hasFallDirection = False, r_hasSplineElevation = False,
      r_guid = replicate 8 0, r_tguid = replicate 8 0, r_mi = mi, r_extras = x\<rparr>"

definition set_mi :: "(movement_info \<Rightarrow> movement_info) \<Rightarrow> reader \<Rightarrow> reader" where
  "set_mi f r = r\<lparr>r_mi := f (r_mi r)\<rparr>"

definition set_transport :: "(transport_info \<Rightarrow> transport_info) \<Rightarrow> reader \<Rightarrow> reader" where
  "set_transport f = set_mi (\<lambda>mi. mi\<lparr>mi_transport := f (mi_transport mi)\<rparr>)"

definition set_jump :: "(jump_info \<Rightarrow> jump_info) \<Rightarrow> reader \<Rightarrow> reader" where
  "set_jump f = set_mi (\<lambda>mi. mi\<lparr>mi_jump := f (mi_jump mi)\<rparr>)"

definition set_pos :: "(position \<Rightarrow> position) \<Rightarrow> reader \<Rightarrow> reader" where
  "set_pos f = set_mi (\<lambda>mi. mi\<lparr>mi_pos := f (mi_pos mi)\<rparr>)"

definition set_tpos :: "(position \<Rightarrow> position) \<Rightarrow> reader \<Rightarrow> reader" where
  "set_tpos f = set_transport (\<lambda>t. t\<lparr>t_pos := f (t_pos t)\<rparr>)"

text \<open>\<open>read_into c act f r\<close>: when \<open>c\<close> holds, read a value with \<open>act\<close> and store it with \<open>f\<close>.\<close>

definition read_into :: "bool \<Rightarrow> 'a bb \<Rightarrow> ('a \<Rightarrow> reader \<Rightarrow> reader) \<Rightarrow> reader \<Rightarrow> reader bb" where
  "read_into c act f r = (if c then bind act (\<lambda>v. ret (f v r)) else ret r)"

definition read_i :: "nat \<Rightarrow> bool \<Rightarrow> 'a bb \<Rightarrow> ('a \<Rightarrow> reader \<Rightarrow> reader) \<Rightarrow> reader \<Rightarrow> reader bb" where
  "read_i i c act f r = (if c \<and> \<not> i < 8 then throw AssertFailed else read_into c act f r)"

fun read_element :: "float_ops \<Rightarrow> mse \<Rightarrow> reader \<Rightarrow> reader bb" where
  "read_element fl (MSEHasGuidByte i) r =
     read_i i True ReadBit (\<lambda>v r. r\<lparr>r_guid := (r_guid r)[i := of_bool v]\<rparr>) r"
| "read_element fl (MSEHasTransportGuidByte i) r =
     read_i i (r_hasTransportData r) ReadBit (\<lambda>v r. r\<lparr>r_tguid := (r_tguid r)[i := of_bool v]\<rparr>) r"
| "read_element fl (MSEGuidByte i) r =
     read_i i True (ReadByteSeq (r_guid r ! i)) (\<lambda>v r. r\<lparr>r_guid := (r_guid r)[i := v]\<rparr>) r"
| "read_element fl (MSETransportGuidByte i) r =
     read_i i (r_hasTransportData r) (ReadByteSeq (r_tguid r ! i)) (\<lambda>v r. r\<lparr>r_tguid := (r_tguid r)[i := v]\<rparr>) r"
| "read_element fl MSEHasMovementFlags r = read_into True ReadBit (\<lambda>v r. r\<lparr>r_hasMovementFlags := \<not> v\<rparr>) r"
| "read_element fl MSEHasMovementFlags2 r = read_into True ReadBit (\<lambda>v r. r\<lparr>r_hasMovementFlags2 := \<not> v\<rparr>) r"
| "read_element fl MSEHasTimestamp r = read_into True ReadBit (\<lambda>v r. r\<lparr>r_hasTimestamp := \<not> v\<rparr>) r"
| "read_element fl MSEHasOrientation r = read_into True ReadBit (\<lambda>v r. r\<lparr>r_hasOrientation := \<not> v\<rparr>) r"
| "read_element fl MSEHasTransportData r = read_into True ReadBit (\<lambda>v r. r\<lparr>r_hasTransportData := v\<rparr>) r"
| "read_element fl MSEHasTransportTime2 r =
     read_into (r_hasTransportData r) ReadBit (\<lambda>v r. r\<lparr>r_hasTransportTime2 := v\<rparr>) r"
| "read_element fl MSEHasVehicleId r =
     read_into (r_hasTransportData r) ReadBit (\<lambda>v r. r\<lparr>r_hasTransportVehicleId := v\<rparr>) r"
| "read_element fl MSEHasPitch r = read_into True ReadBit (\<lambda>v r. r\<lparr>r_hasPitch := \<not> v\<rparr>) r"
| "read_element fl MSEHasFallData r = read_into True ReadBit (\<lambda>v r. r\<lparr>r_hasFallData := v\<rparr>) r"
| "read_element fl MSEHasFallDirection r =
     read_into (r_hasFallData r) ReadBit (\<lambda>v r. r\<lparr>r_hasFallDirection := v\<rparr>) r"
| "read_element fl MSEHasSplineElevation r = read_into True ReadBit (\<lambda>v r. r\<lparr>r_hasSplineElevation := \<not> v\<rparr>) r"
| "read_element fl MSEHasSpline r = read_into True ReadBit (\<lambda>v r. r) r"
| "read_element fl MSEHasHeightChangeFailed r = read_into True ReadBit (\<lambda>v r. r) r"
| "read_element fl MSEMovementFlags r =
     read_into (r_hasMovementFlags r) (ReadBits 30) (\<lambda>v. set_mi (\<lambda>mi. mi\<lparr>mi_flags := v\<rparr>)) r"
| "read_element fl MSEMovementFlags2 r =
     read_into (r_hasMovementFlags2 r) (ReadBits 12) (\<lambda>v. set_mi (\<lambda>mi. mi\<lparr>mi_flags2 := ucast v\<rparr>)) r"
| "read_element fl MSETimestamp r =
     read_into (r_hasTimestamp r) read_value (\<lambda>v. set_mi (\<lambda>mi. mi\<lparr>mi_time := v\<rparr>)) r"
| "read_element fl MSEPositionX r = read_into True read_float (\<lambda>v. set_pos (\<lambda>p. p\<lparr>positionX := v\<rparr>)) r"
| "read_element fl MSEPositionY r = read_into True read_float (\<lambda>v. set_pos (\<lambda>p. p\<lparr>positionY := v\<rparr>)) r"
| "read_element fl MSEPositionZ r = read_into True read_float (\<lambda>v. set_pos (\<lambda>p. p\<lparr>positionZ := v\<rparr>)) r"
| "read_element fl MSEOrientation r =
     read_into (r_hasOrientation r) read_value (\<lambda>v. set_pos (\<lambda>p. p\<lparr>orientation := NormalizeOrientation fl v\<rparr>)) r"
| "read_element fl MSETransportPositionX r =
     read_into (r_hasTransportData r) read_float (\<lambda>v. set_tpos (\<lambda>p. p\<lparr>positionX := v\<rparr>)) r"
| "read_element fl MSETransportPositionY r =
     read_into (r_hasTransportData r) read_float (\<lambda>v. set_tpos (\<lambda>p. p\<lparr>positionY := v\<rparr>)) r"
| "read_element fl MSETransportPositionZ r =
     read_into (r_hasTransportData r) read_float (\<lambda>v. set_tpos (\<lambda>p. p\<lparr>positionZ := v\<rparr>)) r"
| "read_element fl MSETransportOrientation r =
     read_into (r_hasTransportData r) read_value (\<lambda>v. set_tpos (\<lambda>p. p\<lparr>orientation := NormalizeOrientation fl v\<rparr>)) r"
| "read_element fl MSETransportSeat r =
     read_into (r_hasTransportData r) read_value (\<lambda>v. set_transport (\<lambda>t. t\<lparr>t_seat := v\<rparr>)) r"
| "read_element fl MSETransportTime r =
     read_into (r_hasTransportData r) read_value (\<lambda>v. set_transport (\<lambda>t. t\<lparr>t_time := v\<rparr>)) r"
| "read_element fl MSETransportTime2 r =
     read_into (r_hasTransportData r \<and> r_hasTransportTime2 r) read_value (\<lambda>v. set_transport (\<lambda>t. t\<lparr>t_time2 := v\<rparr>)) r"
| "read_element fl MSETransportVehicleId r =
     read_into (r_hasTransportData r \<and> r_hasTransportVehicleId r) read_value
       (\<lambda>v. set_transport (\<lambda>t. t\<lparr>t_vehicleId := v\<rparr>)) r"
| "read_element fl MSEPitch r =
     read_into (r_hasPitch r) read_value (\<lambda>v. set_mi (\<lambda>mi. mi\<lparr>mi_pitch := wrap_pi fl v\<rparr>)) r"
| "read_element fl MSEFallTime r =
     read_into (r_hasFallData r) read_value (\<lambda>v. set_jump (\<lambda>j. j\<lparr>fallTime := v\<rparr>)) r"
| "read_element fl MSEFallVerticalSpeed r =
     read_into (r_hasFallData r) read_float (\<lambda>v. set_jump (\<lambda>j. j\<lparr>zspeed := v\<rparr>)) r"
| "read_element fl MSEFallCosAngle r =
     read_into (r_hasFallData r \<and> r_hasFallDirection r) read_float (\<lambda>v. set_jump (\<lambda>j. j\<lparr>cosAngle := v\<rparr>)) r"
| "read_element fl MSEFallSinAngle r =
     read_into (r_hasFallData r \<and> r_hasFallDirection r) read_float (\<lambda>v. set_jump (\<lambda>j. j\<lparr>sinAngle := v\<rparr>)) r"
| "read_element fl MSEFallHorizontalSpeed r =
     read_into (r_hasFallData r \<and> r_hasFallDirection r) read_float (\<lambda>v. set_jump (\<lambda>j. j\<lparr>xyspeed := v\<rparr>)) r"
| "read_element fl MSESplineElevation r =
     read_into (r_hasSplineElevation r) read_float (\<lambda>v. set_mi (\<lambda>mi. mi\<lparr>mi_splineElevation := v\<rparr>)) r"
| "read_element fl MSECounter r = read_into True read_value (\<lambda>v. set_mi (\<lambda>mi. mi\<lparr>mi_counter := v\<rparr>)) r"
| "read_element fl MSEZeroBit r = read_into True ReadBit (\<lambda>v r. r) r"
| "read_element fl MSEOneBit r = read_into True ReadBit (\<lambda>v r. r) r"
| "read_element fl MSEExtraElement r =
     (case r_extras r of
        None \<Rightarrow> throw UndefinedBehaviour
      | Some x \<Rightarrow> read_into True (ReadNextElement x) (\<lambda>x r. r\<lparr>r_extras := Some x\<rparr>) r)"
| "read_element fl MSEFlushBits r = throw AssertFailed"
| "read_element fl MSEEnd r = throw AssertFailed"
| "read_element fl MSEExtraFloat r = throw AssertFailed"
| "read_element fl MSEExtraInt8 r = throw AssertFailed"
| "read_element fl MSEExtraTwoBits r = throw AssertFailed"

fun read_sequence :: "float_ops \<Rightarrow> mse list \<Rightarrow> reader \<Rightarrow> reader bb" where
  "read_sequence fl [] r = throw UndefinedBehaviour"
| "read_sequence fl (e # es) r =
     (if e = MSEEnd then ret r else bind (read_element fl e r) (read_sequence fl es))"

section \<open>Validation\<close>

datatype aura =
  AURA_HOVER | AURA_WATER_WALK | AURA_GHOST | AURA_FEATHER_FALL | AURA_FLY | AURA_MOUNTED_FLIGHT_SPEED

text \<open>What \<^verbatim>\<open>ValidateMovementInfo\<close> asks of the world: the identifier of the unit the player controls,
  the units the object accessor finds, their auras, the vehicle the controlled unit sits in (\<open>None\<close>
  for none, otherwise whether it has \<^verbatim>\<open>VEHICLE_FLAG_FIXED_POSITION\<close>) and whether the account is
  an ordinary player's.\<close>

record move_env =
  charmed_or_self :: guid
  unit_exists :: "guid \<Rightarrow> bool"
  has_aura :: "guid \<Rightarrow> aura \<Rightarrow> bool"
  vehicle_fixed :: "bool option"
  is_player_account :: bool

definition MOVEMENTFLAG_FORWARD :: uint32 where "MOVEMENTFLAG_FORWARD = 0x1"

definition MOVEMENTFLAG_BACKWARD :: uint32 where "MOVEMENTFLAG_BACKWARD = 0x2"

definition MOVEMENTFLAG_STRAFE_LEFT :: uint32 where "MOVEMENTFLAG_STRAFE_LEFT = 0x4"

definition MOVEMENTFLAG_STRAFE_RIGHT :: uint32 where "MOVEMENTFLAG_STRAFE_RIGHT = 0x8"

definition MOVEMENTFLAG_LEFT :: uint32 where "MOVEMENTFLAG_LEFT = 0x10"

definition MOVEMENTFLAG_RIGHT :: uint32 where "MOVEMENTFLAG_RIGHT = 0x20"

definition MOVEMENTFLAG_PITCH_UP :: uint32 where "MOVEMENTFLAG_PITCH_UP = 0x40"

definition MOVEMENTFLAG_PITCH_DOWN :: uint32 where "MOVEMENTFLAG_PITCH_DOWN = 0x80"

definition MOVEMENTFLAG_DISABLE_GRAVITY :: uint32 where "MOVEMENTFLAG_DISABLE_GRAVITY = 0x200"

definition MOVEMENTFLAG_ROOT :: uint32 where "MOVEMENTFLAG_ROOT = 0x400"

definition MOVEMENTFLAG_FALLING_FAR :: uint32 where "MOVEMENTFLAG_FALLING_FAR = 0x1000"

definition MOVEMENTFLAG_ASCENDING :: uint32 where "MOVEMENTFLAG_ASCENDING = 0x200000"

definition MOVEMENTFLAG_DESCENDING :: uint32 where "MOVEMENTFLAG_DESCENDING = 0x400000"

definition MOVEMENTFLAG_CAN_FLY :: uint32 where "MOVEMENTFLAG_CAN_FLY = 0x800000"

definition MOVEMENTFLAG_WATERWALKING :: uint32 where "MOVEMENTFLAG_WATERWALKING = 0x4000000"

definition MOVEMENTFLAG_FALLING_SLOW :: uint32 where "MOVEMENTFLAG_FALLING_SLOW = 0x8000000"

definition MOVEMENTFLAG_HOVER :: uint32 where "MOVEMENTFLAG_HOVER = 0x10000000"

definition MOVEMENTFLAG_MASK_MOVING :: uint32 where
  "MOVEMENTFLAG_MASK_MOVING =
     MOVEMENTFLAG_FORWARD OR MOVEMENTFLAG_BACKWARD OR MOVEMENTFLAG_STRAFE_LEFT OR MOVEMENTFLAG_STRAFE_RIGHT OR
     MOVEMENTFLAG_FALLING OR MOVEMENTFLAG_FALLING_FAR OR MOVEMENTFLAG_ASCENDING OR MOVEMENTFLAG_DESCENDING OR
     MOVEMENTFLAG_SPLINE_ELEVATION"

definition REMOVE_VIOLATING_FLAGS :: "(movement_info \<Rightarrow> bool) \<Rightarrow> uint32 \<Rightarrow> movement_info \<Rightarrow> movement_info" where
  "REMOVE_VIOLATING_FLAGS check maskToRemove mi = (if check mi then RemoveMovementFlag maskToRemove mi else mi)"

text \<open>The checks in the order of the code, as the list of the conditions and the masks they remove.\<close>

definition violations :: "float_ops \<Rightarrow> move_env \<Rightarrow> guid \<Rightarrow> ((movement_info \<Rightarrow> bool) \<times> uint32) list" where
  "violations fl env m =
    [(\<lambda>mi. vehicle_fixed env \<noteq> Some True \<and> HasMovementFlag MOVEMENTFLAG_ROOT mi, MOVEMENTFLAG_ROOT),
     (\<lambda>mi. HasMovementFlag MOVEMENTFLAG_ROOT mi \<and> HasMovementFlag MOVEMENTFLAG_MASK_MOVING mi, MOVEMENTFLAG_MASK_MOVING),
     (\<lambda>mi. HasMovementFlag MOVEMENTFLAG_HOVER mi \<and> \<not> has_aura env m AURA_HOVER, MOVEMENTFLAG_HOVER),
     (\<lambda>mi. HasMovementFlag MOVEMENTFLAG_ASCENDING mi \<and> HasMovementFlag MOVEMENTFLAG_DESCENDING mi,
      MOVEMENTFLAG_ASCENDING OR MOVEMENTFLAG_DESCENDING),
     (\<lambda>mi. HasMovementFlag MOVEMENTFLAG_LEFT mi \<and> HasMovementFlag MOVEMENTFLAG_RIGHT mi,
      MOVEMENTFLAG_LEFT OR MOVEMENTFLAG_RIGHT),
     (\<lambda>mi. HasMovementFlag MOVEMENTFLAG_STRAFE_LEFT mi \<and> HasMovementFlag MOVEMENTFLAG_STRAFE_RIGHT mi,
      MOVEMENTFLAG_STRAFE_LEFT OR MOVEMENTFLAG_STRAFE_RIGHT),
     (\<lambda>mi. HasMovementFlag MOVEMENTFLAG_PITCH_UP mi \<and> HasMovementFlag MOVEMENTFLAG_PITCH_DOWN mi,
      MOVEMENTFLAG_PITCH_UP OR MOVEMENTFLAG_PITCH_DOWN),
     (\<lambda>mi. HasMovementFlag MOVEMENTFLAG_FORWARD mi \<and> HasMovementFlag MOVEMENTFLAG_BACKWARD mi,
      MOVEMENTFLAG_FORWARD OR MOVEMENTFLAG_BACKWARD),
     (\<lambda>mi. HasMovementFlag MOVEMENTFLAG_WATERWALKING mi \<and> \<not> has_aura env m AURA_WATER_WALK
        \<and> \<not> has_aura env m AURA_GHOST, MOVEMENTFLAG_WATERWALKING),
     (\<lambda>mi. HasMovementFlag MOVEMENTFLAG_FALLING_SLOW mi \<and> \<not> has_aura env (charmed_or_self env) AURA_FEATHER_FALL,
      MOVEMENTFLAG_FALLING_SLOW),
     (\<lambda>mi. HasMovementFlag (MOVEMENTFLAG_FLYING OR MOVEMENTFLAG_CAN_FLY) mi \<and> is_player_account env
        \<and> \<not> has_aura env m AURA_FLY \<and> \<not> has_aura env m AURA_MOUNTED_FLIGHT_SPEED,
      MOVEMENTFLAG_FLYING OR MOVEMENTFLAG_CAN_FLY),
     (\<lambda>mi. HasMovementFlag (MOVEMENTFLAG_DISABLE_GRAVITY OR MOVEMENTFLAG_CAN_FLY) mi
        \<and> HasMovementFlag MOVEMENTFLAG_FALLING mi, MOVEMENTFLAG_FALLING),
     (\<lambda>mi. HasMovementFlag MOVEMENTFLAG_SPLINE_ELEVATION mi \<and> fuzzy_zero fl (mi_splineElevation mi),
      MOVEMENTFLAG_SPLINE_ELEVATION)]"

definition ValidateMovementInfo :: "float_ops \<Rightarrow> move_env \<Rightarrow> movement_info \<Rightarrow> movement_info" where
  "ValidateMovementInfo fl env mi =
     (if mi_guid mi = 0 then mi
      else if \<not> (charmed_or_self env = mi_guid mi \<or> unit_exists env (mi_guid mi)) then mi
      else
        let mi1 = fold (\<lambda>(check, mask). REMOVE_VIOLATING_FLAGS check mask) (violations fl env (mi_guid mi)) mi
        in if \<not> fuzzy_zero fl (mi_splineElevation mi1) then AddMovementFlag MOVEMENTFLAG_SPLINE_ELEVATION mi1 else mi1)"

definition ReadMovementInfo ::
  "float_ops \<Rightarrow> move_env \<Rightarrow> uint32 \<Rightarrow> movement_info \<Rightarrow> extra_element option
   \<Rightarrow> (movement_info \<times> extra_element option) bb" where
  "ReadMovementInfo fl env opcode mi x =
     (case GetMovementStatusElementsSequence opcode of
        None \<Rightarrow> ret (mi, x)
      | Some sequence \<Rightarrow>
          bind (read_sequence fl sequence (reader_new mi x))
            (\<lambda>r. let mi1 = (r_mi r)\<lparr>mi_guid := le_value (r_guid r)\<rparr>;
                     mi2 = mi1\<lparr>mi_transport := (mi_transport mi1)\<lparr>t_guid := le_value (r_tguid r)\<rparr>\<rparr>
                 in ret (ValidateMovementInfo fl env mi2, r_extras r)))"

end
