(* ===== verification/Movement_Codec.thy ===== *)
theory Movement_Codec
  imports Movement_Info
begin

text \<open>
  Reading inverts writing. A layout is resolved against the extra elements of its handler into a list
  of elements; \<open>toks\<close> is what the writer emits for each of them, \<open>image\<close> what a reader knows after some
  of them, and \<open>fits\<close> the order in which a reader can make sense of them. The contract
  \<open>layout_codec\<close> is interpreted on these, for every mover, and gives the round trip of every layout
  that keeps to the order.
\<close>

section \<open>Elements in order\<close>

datatype xel = Plain mse | Extra mse

fun resolve :: "mse list \<Rightarrow> mse list \<Rightarrow> xel list option" where
  "resolve [] xs = None"
| "resolve (e # es) xs =
     (if e = MSEEnd then Some []
      else if e = MSEExtraElement then
        (case xs of [] \<Rightarrow> None | x # xs' \<Rightarrow> map_option ((#) (Extra x)) (resolve es xs'))
      else map_option ((#) (Plain e)) (resolve es xs))"

text \<open>The elements a reader must have seen before one, and \<open>None\<close> for those it refuses.\<close>

fun needs :: "mse \<Rightarrow> mse list option" where
  "needs (MSEHasGuidByte i) = (if i < 8 then Some [] else None)"
| "needs (MSEGuidByte i) = (if i < 8 then Some [MSEHasGuidByte i] else None)"
| "needs (MSEHasTransportGuidByte i) = (if i < 8 then Some [MSEHasTransportData] else None)"
| "needs (MSETransportGuidByte i) = (if i < 8 then Some [MSEHasTransportData, MSEHasTransportGuidByte i] else None)"
| "needs MSEHasTransportTime2 = Some [MSEHasTransportData]"
| "needs MSEHasVehicleId = Some [MSEHasTransportData]"
| "needs MSEHasFallDirection = Some [MSEHasFallData]"
| "needs MSEMovementFlags = Some [MSEHasMovementFlags]"
| "needs MSEMovementFlags2 = Some [MSEHasMovementFlags2]"
| "needs MSETimestamp = Some [MSEHasTimestamp]"
| "needs MSEOrientation = Some [MSEHasOrientation]"
| "needs MSETransportPositionX = Some [MSEHasTransportData]"
| "needs MSETransportPositionY = Some [MSEHasTransportData]"
| "needs MSETransportPositionZ = Some [MSEHasTransportData]"
| "needs MSETransportOrientation = Some [MSEHasTransportData]"
| "needs MSETransportSeat = Some [MSEHasTransportData]"
| "needs MSETransportTime = Some [MSEHasTransportData]"
| "needs MSETransportTime2 = Some [MSEHasTransportData, MSEHasTransportTime2]"
| "needs MSETransportVehicleId = Some [MSEHasTransportData, MSEHasVehicleId]"
| "needs MSEPitch = Some [MSEHasPitch]"
| "needs MSEFallTime = Some [MSEHasFallData]"
| "needs MSEFallVerticalSpeed = Some [MSEHasFallData]"
| "needs MSEFallCosAngle = Some [MSEHasFallData, MSEHasFallDirection]"
| "needs MSEFallSinAngle = Some [MSEHasFallData, MSEHasFallDirection]"
| "needs MSEFallHorizontalSpeed = Some [MSEHasFallData, MSEHasFallDirection]"
| "needs MSESplineElevation = Some [MSEHasSplineElevation]"
| "needs MSEFlushBits = None"
| "needs MSEEnd = None"
| "needs MSEExtraElement = None"
| "needs MSEExtraFloat = None"
| "needs MSEExtraInt8 = None"
| "needs MSEExtraTwoBits = None"
| "needs e = Some []"

fun xneeds :: "mse \<Rightarrow> mse list option" where
  "xneeds (MSEHasGuidByte i) = (if i < 8 then Some [] else None)"
| "xneeds (MSEGuidByte i) = (if i < 8 then Some [MSEHasGuidByte i] else None)"
| "xneeds MSEExtraFloat = Some []"
| "xneeds MSEExtraInt8 = Some []"
| "xneeds MSEExtraTwoBits = Some []"
| "xneeds e = None"

text \<open>The elements a reader must not have seen before one: a constant bit may be repeated, and the mark
  of an identifier byte may not come after the byte.\<close>

fun blocks :: "mse \<Rightarrow> mse list" where
  "blocks (MSEHasGuidByte i) = [MSEHasGuidByte i, MSEGuidByte i]"
| "blocks (MSEHasTransportGuidByte i) = [MSEHasTransportGuidByte i, MSETransportGuidByte i]"
| "blocks MSEExtraInt8 = [MSEExtraInt8, MSEExtraTwoBits]"
| "blocks MSEExtraTwoBits = [MSEExtraInt8, MSEExtraTwoBits]"
| "blocks MSEZeroBit = []"
| "blocks MSEOneBit = []"
| "blocks e = [e]"

fun fits :: "xel list \<Rightarrow> xel \<Rightarrow> bool" where
  "fits seen (Plain e) \<longleftrightarrow>
     list_all (\<lambda>n. Plain n \<notin> set seen) (blocks e)
     \<and> (case needs e of None \<Rightarrow> False | Some ns \<Rightarrow> list_all (\<lambda>n. Plain n \<in> set seen) ns)"
| "fits seen (Extra e) \<longleftrightarrow>
     list_all (\<lambda>n. Extra n \<notin> set seen) (blocks e)
     \<and> (case xneeds e of None \<Rightarrow> False | Some ns \<Rightarrow> list_all (\<lambda>n. Extra n \<in> set seen) ns)"

fun bit_element :: "mse \<Rightarrow> bool" where
  "bit_element (MSEHasGuidByte i) = True"
| "bit_element (MSEHasTransportGuidByte i) = True"
| "bit_element MSEHasMovementFlags = True"
| "bit_element MSEHasMovementFlags2 = True"
| "bit_element MSEHasTimestamp = True"
| "bit_element MSEHasOrientation = True"
| "bit_element MSEHasTransportData = True"
| "bit_element MSEHasTransportTime2 = True"
| "bit_element MSEHasVehicleId = True"
| "bit_element MSEHasPitch = True"
| "bit_element MSEHasFallData = True"
| "bit_element MSEHasFallDirection = True"
| "bit_element MSEHasSplineElevation = True"
| "bit_element MSEHasSpline = True"
| "bit_element MSEHasHeightChangeFailed = True"
| "bit_element MSEMovementFlags = True"
| "bit_element MSEMovementFlags2 = True"
| "bit_element MSEZeroBit = True"
| "bit_element MSEOneBit = True"
| "bit_element MSEExtraTwoBits = True"
| "bit_element e = False"

fun bit_xel :: "xel \<Rightarrow> bool" where
  "bit_xel (Plain e) = bit_element e"
| "bit_xel (Extra e) = bit_element e"

section \<open>What the writer emits\<close>

definition tbit :: "bool \<Rightarrow> tok list" where "tbit x = [TBit x]"

definition tbits :: "uint32 \<Rightarrow> nat \<Rightarrow> tok list" where "tbits v n = map TBit (value_bits v n)"

definition tval :: "'a::len word \<Rightarrow> tok list" where "tval v = [TBytes (le_bytes v)]"

definition tseq :: "uint8 \<Rightarrow> tok list" where "tseq x = (if x = 0 then [] else tval (x XOR 1))"

definition tif :: "bool \<Rightarrow> tok list \<Rightarrow> tok list" where "tif c ts = (if c then ts else [])"

fun toks_of :: "float_ops \<Rightarrow> mover \<Rightarrow> uint32 option \<Rightarrow> mse \<Rightarrow> tok list" where
  "toks_of fl u cnt (MSEHasGuidByte i) = tif (i < 8) (tbit (le_bytes (u_guid u) ! i \<noteq> 0))"
| "toks_of fl u cnt (MSEHasTransportGuidByte i) =
     tif (hasTransportData u \<and> i < 8) (tbit (le_bytes (u_transguid u) ! i \<noteq> 0))"
| "toks_of fl u cnt (MSEGuidByte i) = tif (i < 8) (tseq (le_bytes (u_guid u) ! i))"
| "toks_of fl u cnt (MSETransportGuidByte i) = tif (hasTransportData u \<and> i < 8) (tseq (le_bytes (u_transguid u) ! i))"
| "toks_of fl u cnt MSEHasMovementFlags = tbit (\<not> hasMovementFlags u)"
| "toks_of fl u cnt MSEHasMovementFlags2 = tbit (\<not> hasMovementFlags2 u)"
| "toks_of fl u cnt MSEHasTimestamp = tbit False"
| "toks_of fl u cnt MSEHasOrientation = tbit (\<not> hasOrientation fl u)"
| "toks_of fl u cnt MSEHasTransportData = tbit (hasTransportData u)"
| "toks_of fl u cnt MSEHasTransportTime2 = tif (hasTransportData u) (tbit (hasTransportTime2 u))"
| "toks_of fl u cnt MSEHasVehicleId = tif (hasTransportData u) (tbit (hasTransportVehicleId u))"
| "toks_of fl u cnt MSEHasPitch = tbit (\<not> hasPitch u)"
| "toks_of fl u cnt MSEHasFallData = tbit (hasFallData u)"
| "toks_of fl u cnt MSEHasFallDirection = tif (hasFallData u) (tbit (hasFallDirection u))"
| "toks_of fl u cnt MSEHasSplineElevation = tbit (\<not> hasSplineElevation u)"
| "toks_of fl u cnt MSEHasSpline = tbit (u_spline u)"
| "toks_of fl u cnt MSEHasHeightChangeFailed = tbit (mi_heightChangeFailed (u_info u))"
| "toks_of fl u cnt MSEMovementFlags = tif (hasMovementFlags u) (tbits (mi_flags (u_info u)) 30)"
| "toks_of fl u cnt MSEMovementFlags2 = tif (hasMovementFlags2 u) (tbits (ucast (mi_flags2 (u_info u))) 12)"
| "toks_of fl u cnt MSETimestamp = tval (mi_time (u_info u))"
| "toks_of fl u cnt MSEPositionX = tval (positionX (u_pos u))"
| "toks_of fl u cnt MSEPositionY = tval (positionY (u_pos u))"
| "toks_of fl u cnt MSEPositionZ = tval (positionZ (u_pos u))"
| "toks_of fl u cnt MSEOrientation = tif (hasOrientation fl u) (tval (orientation (u_pos u)))"
| "toks_of fl u cnt MSETransportPositionX = tif (hasTransportData u) (tval (positionX (t_pos (mi_transport (u_info u)))))"
| "toks_of fl u cnt MSETransportPositionY = tif (hasTransportData u) (tval (positionY (t_pos (mi_transport (u_info u)))))"
| "toks_of fl u cnt MSETransportPositionZ = tif (hasTransportData u) (tval (positionZ (t_pos (mi_transport (u_info u)))))"
| "toks_of fl u cnt MSETransportOrientation = tif (hasTransportData u) (tval (orientation (t_pos (mi_transport (u_info u)))))"
| "toks_of fl u cnt MSETransportSeat = tif (hasTransportData u) (tval (t_seat (mi_transport (u_info u))))"
| "toks_of fl u cnt MSETransportTime = tif (hasTransportData u) (tval (t_time (mi_transport (u_info u))))"
| "toks_of fl u cnt MSETransportTime2 = tif (hasTransportTime2 u) (tval (t_time2 (mi_transport (u_info u))))"
| "toks_of fl u cnt MSETransportVehicleId = tif (hasTransportVehicleId u) (tval (t_vehicleId (mi_transport (u_info u))))"
| "toks_of fl u cnt MSEPitch = tif (hasPitch u) (tval (mi_pitch (u_info u)))"
| "toks_of fl u cnt MSEFallTime = tif (hasFallData u) (tval (fallTime (mi_jump (u_info u))))"
| "toks_of fl u cnt MSEFallVerticalSpeed = tif (hasFallData u) (tval (zspeed (mi_jump (u_info u))))"
| "toks_of fl u cnt MSEFallCosAngle = tif (hasFallDirection u) (tval (cosAngle (mi_jump (u_info u))))"
| "toks_of fl u cnt MSEFallSinAngle = tif (hasFallDirection u) (tval (sinAngle (mi_jump (u_info u))))"
| "toks_of fl u cnt MSEFallHorizontalSpeed = tif (hasFallDirection u) (tval (xyspeed (mi_jump (u_info u))))"
| "toks_of fl u cnt MSESplineElevation = tif (hasSplineElevation u) (tval (mi_splineElevation (u_info u)))"
| "toks_of fl u cnt MSECounter = tval (case cnt of None \<Rightarrow> 0 | Some c \<Rightarrow> c)"
| "toks_of fl u cnt MSEZeroBit = tbit False"
| "toks_of fl u cnt MSEOneBit = tbit True"
| "toks_of fl u cnt e = []"

fun toks_extra :: "extra_element \<Rightarrow> mse \<Rightarrow> tok list" where
  "toks_extra x (MSEHasGuidByte i) = tif (i < 8) (tbit (x_guid x ! i \<noteq> 0))"
| "toks_extra x (MSEGuidByte i) = tif (i < 8) (tseq (x_guid x ! i))"
| "toks_extra x MSEExtraFloat = tval (x_float x)"
| "toks_extra x MSEExtraInt8 = tval (x_byte x)"
| "toks_extra x MSEExtraTwoBits = tbits (scast (x_byte x)) 2"
| "toks_extra x e = []"

fun toks :: "float_ops \<Rightarrow> mover \<Rightarrow> uint32 option \<Rightarrow> extra_element \<Rightarrow> xel \<Rightarrow> tok list" where
  "toks fl u cnt x (Plain e) = toks_of fl u cnt e"
| "toks fl u cnt x (Extra e) = toks_extra x e"

section \<open>What a reader knows after some elements\<close>

definition pick :: "bool \<Rightarrow> 'a \<Rightarrow> 'a \<Rightarrow> 'a" where
  "pick c a b = (if c then a else b)"

definition seq_bytes :: "(nat \<Rightarrow> bool) \<Rightarrow> (nat \<Rightarrow> bool) \<Rightarrow> bool \<Rightarrow> uint8 list \<Rightarrow> uint8 list" where
  "seq_bytes marked full present bs =
     map (\<lambda>i. if present \<and> full i then bs ! i else if present \<and> marked i then of_bool (bs ! i \<noteq> 0) else 0) [0..<8]"

definition image_mi :: "float_ops \<Rightarrow> mover \<Rightarrow> uint32 option \<Rightarrow> movement_info \<Rightarrow> (mse \<Rightarrow> bool) \<Rightarrow> movement_info" where
  "image_mi fl u cnt mi S =
     (let i = u_info u; t = mi_transport i; t0 = mi_transport mi; j = mi_jump i; j0 = mi_jump mi;
          td = hasTransportData u; fd = hasFallData u; dir = hasFallDirection u
      in \<lparr>mi_guid = mi_guid mi,
          mi_flags = pick (S MSEMovementFlags \<and> hasMovementFlags u) (take_bit 30 (mi_flags i)) (mi_flags mi),
          mi_flags2 = pick (S MSEMovementFlags2 \<and> hasMovementFlags2 u) (take_bit 12 (mi_flags2 i)) (mi_flags2 mi),
          mi_pos =
            \<lparr>positionX = pick (S MSEPositionX) (positionX (u_pos u)) (positionX (mi_pos mi)),
             positionY = pick (S MSEPositionY) (positionY (u_pos u)) (positionY (mi_pos mi)),
             positionZ = pick (S MSEPositionZ) (positionZ (u_pos u)) (positionZ (mi_pos mi)),
             orientation = pick (S MSEOrientation \<and> hasOrientation fl u)
               (NormalizeOrientation fl (orientation (u_pos u))) (orientation (mi_pos mi))\<rparr>,
          mi_time = pick (S MSETimestamp) (mi_time i) (mi_time mi),
          mi_counter = pick (S MSECounter) (case cnt of None \<Rightarrow> 0 | Some c \<Rightarrow> c) (mi_counter mi),
          mi_transport =
            \<lparr>t_guid = t_guid t0,
             t_pos =
               \<lparr>positionX = pick (S MSETransportPositionX \<and> td) (positionX (t_pos t)) (positionX (t_pos t0)),
                positionY = pick (S MSETransportPositionY \<and> td) (positionY (t_pos t)) (positionY (t_pos t0)),
                positionZ = pick (S MSETransportPositionZ \<and> td) (positionZ (t_pos t)) (positionZ (t_pos t0)),
                orientation = pick (S MSETransportOrientation \<and> td)
                  (NormalizeOrientation fl (orientation (t_pos t))) (orientation (t_pos t0))\<rparr>,
             t_seat = pick (S MSETransportSeat \<and> td) (t_seat t) (t_seat t0),
             t_time = pick (S MSETransportTime \<and> td) (t_time t) (t_time t0),
             t_time2 = pick (S MSETransportTime2 \<and> hasTransportTime2 u) (t_time2 t) (t_time2 t0),
             t_vehicleId = pick (S MSETransportVehicleId \<and> hasTransportVehicleId u) (t_vehicleId t) (t_vehicleId t0)\<rparr>,
          mi_pitch = pick (S MSEPitch \<and> hasPitch u) (wrap_pi fl (mi_pitch i)) (mi_pitch mi),
          mi_jump =
            \<lparr>fallTime = pick (S MSEFallTime \<and> fd) (fallTime j) (fallTime j0),
             zspeed = pick (S MSEFallVerticalSpeed \<and> fd) (zspeed j) (zspeed j0),
             sinAngle = pick (S MSEFallSinAngle \<and> dir) (sinAngle j) (sinAngle j0),
             cosAngle = pick (S MSEFallCosAngle \<and> dir) (cosAngle j) (cosAngle j0),
             xyspeed = pick (S MSEFallHorizontalSpeed \<and> dir) (xyspeed j) (xyspeed j0)\<rparr>,
          mi_splineElevation =
            pick (S MSESplineElevation \<and> hasSplineElevation u) (mi_splineElevation i) (mi_splineElevation mi),
          mi_heightChangeFailed = mi_heightChangeFailed mi\<rparr>)"

definition image_extra :: "extra_element \<Rightarrow> extra_element \<Rightarrow> xel list \<Rightarrow> extra_element" where
  "image_extra x x0 seen =
     (let S = (\<lambda>e. Extra e \<in> set seen) in
      x0\<lparr>x_index := length (filter (\<lambda>e. case e of Plain _ \<Rightarrow> False | Extra _ \<Rightarrow> True) seen),
         x_guid := seq_bytes (\<lambda>i. S (MSEHasGuidByte i)) (\<lambda>i. S (MSEGuidByte i)) True (x_guid x),
         x_float := pick (S MSEExtraFloat) (x_float x) (x_float x0),
         x_byte := pick (S MSEExtraInt8) (x_byte x) (pick (S MSEExtraTwoBits) (x_byte x AND 3) (x_byte x0))\<rparr>)"

definition image ::
  "float_ops \<Rightarrow> mover \<Rightarrow> uint32 option \<Rightarrow> extra_element \<Rightarrow> movement_info \<Rightarrow> extra_element option \<Rightarrow> xel list \<Rightarrow> reader" where
  "image fl u cnt x mi x0 seen =
     (let S = (\<lambda>e. Plain e \<in> set seen)
      in \<lparr>r_hasMovementFlags = (S MSEHasMovementFlags \<and> hasMovementFlags u),
          r_hasMovementFlags2 = (S MSEHasMovementFlags2 \<and> hasMovementFlags2 u),
          r_hasTimestamp = S MSEHasTimestamp,
          r_hasOrientation = (S MSEHasOrientation \<and> hasOrientation fl u),
          r_hasTransportData = (S MSEHasTransportData \<and> hasTransportData u),
          r_hasTransportTime2 = (S MSEHasTransportTime2 \<and> hasTransportTime2 u),
          r_hasTransportVehicleId = (S MSEHasVehicleId \<and> hasTransportVehicleId u),
          r_hasPitch = (S MSEHasPitch \<and> hasPitch u),
          r_hasFallData = (S MSEHasFallData \<and> hasFallData u),
          r_hasFallDirection = (S MSEHasFallDirection \<and> hasFallDirection u),
          r_hasSplineElevation = (S MSEHasSplineElevation \<and> hasSplineElevation u),
          r_guid = seq_bytes (\<lambda>i. S (MSEHasGuidByte i)) (\<lambda>i. S (MSEGuidByte i)) True (le_bytes (u_guid u)),
          r_tguid = seq_bytes (\<lambda>i. S (MSEHasTransportGuidByte i)) (\<lambda>i. S (MSETransportGuidByte i))
            (hasTransportData u) (le_bytes (u_transguid u)),
          r_mi = image_mi fl u cnt mi S,
          r_extras = map_option (\<lambda>x0. image_extra x x0 seen) x0\<rparr>)"

fun rd :: "float_ops \<Rightarrow> xel \<Rightarrow> reader \<Rightarrow> reader bb" where
  "rd fl (Plain e) r = read_element fl e r"
| "rd fl (Extra e) r =
     (case r_extras r of
        None \<Rightarrow> throw UndefinedBehaviour
      | Some x \<Rightarrow> read_into True (read_extra e (x\<lparr>x_index := Suc (x_index x)\<rparr>)) (\<lambda>x r. r\<lparr>r_extras := Some x\<rparr>) r)"

section \<open>Reading one element\<close>

lemma tif_simps [simp]: "tif True ts = ts" "tif False ts = []"
  by (simp_all add: tif_def)

lemma rd_bit:
  assumes "bit_at m s b" "bits_of m = stream s (tif c' (tbit v)) @ r" "c = c'" "R = (if c' then f v r0 else r0)"
  shows "\<exists>b'. read_into c ReadBit f r0 b = (Inr R, b') \<and> bit_at m (stream s (tif c' (tbit v))) b'"
proof (cases c')
  case True
  then show ?thesis using read_bit_at [OF assms(1), of v r] assms by (auto simp: read_into_def tbit_def)
qed (use assms in \<open>auto simp: read_into_def\<close>)

lemma rd_bits:
  assumes "bit_at m s b" "bits_of m = stream s (tif c' (tbits v n)) @ r" "c = c'" "n \<le> 32"
    "R = (if c' then f (take_bit n v) r0 else r0)"
  shows "\<exists>b'. read_into c (ReadBits n) f r0 b = (Inr R, b') \<and> bit_at m (stream s (tif c' (tbits v n))) b'"
proof (cases c')
  case True
  then show ?thesis using read_bits_at [OF assms(1), of v n r] assms by (auto simp: read_into_def tbits_def stream_bits)
qed (use assms in \<open>auto simp: read_into_def\<close>)

lemma rd_val:
  fixes v :: "'a::len word"
  assumes "byte_at m s b" "bits_of m = stream s (tif c' (tval v)) @ r" "c = c'" "8 dvd LENGTH('a)"
    "R = (if c' then f v r0 else r0)"
  shows "\<exists>b'. read_into c read_value f r0 b = (Inr R, b') \<and> bytes_step m s (stream s (tif c' (tval v))) b b'"
proof (cases c')
  case True
  then show ?thesis using read_value_at [OF assms(1) _ assms(4), of v r] assms by (auto simp: read_into_def tval_def)
qed (use assms bytes_step_refl in \<open>auto simp: read_into_def\<close>)

lemma read_float_at:
  assumes "byte_at m s b" "bits_of m = (pad8 s @ bits_of (le_bytes v)) @ r" "isfinite_float v"
  shows "\<exists>b'. read_float b = (Inr v, b') \<and> bytes_step m s (pad8 s @ bits_of (le_bytes v)) b b'"
  using read_value_at [OF assms(1,2)] assms(3) by (auto simp: read_float_def)

lemma rd_float:
  assumes "byte_at m s b" "bits_of m = stream s (tif c' (tval v)) @ r" "c = c'" "isfinite_float v"
    "R = (if c' then f v r0 else r0)"
  shows "\<exists>b'. read_into c read_float f r0 b = (Inr R, b') \<and> bytes_step m s (stream s (tif c' (tval v))) b b'"
proof (cases c')
  case True
  then show ?thesis using read_float_at [OF assms(1) _ assms(4), of r] assms by (auto simp: read_into_def tval_def)
qed (use assms bytes_step_refl in \<open>auto simp: read_into_def\<close>)

lemma xor_1_back: "1 XOR (x XOR 1) = (x :: uint8)"
  by (metis xor.assoc xor.commute xor_self_eq xor.left_neutral)

lemma read_seq_at:
  assumes "byte_at m s b" "bits_of m = stream s (tseq v) @ r" "mk = of_bool (v \<noteq> 0)"
  shows "\<exists>b'. ReadByteSeq mk b = (Inr v, b') \<and> bytes_step m s (stream s (tseq v)) b b'"
proof (cases "v = 0")
  case False
  then have "bits_of m = (pad8 s @ bits_of (le_bytes (v XOR 1))) @ r" using assms(2) by (simp add: tseq_def tval_def)
  from read_value_at [OF assms(1) this] show ?thesis
    using False assms(3) by (auto simp: ReadByteSeq_def tseq_def tval_def xor_1_back)
qed (use assms bytes_step_refl [OF assms(1)] in \<open>auto simp: ReadByteSeq_def tseq_def\<close>)

lemma rd_seq:
  assumes "byte_at m s b" "bits_of m = stream s (tif c' (tseq v)) @ r" "c = c'" "c' \<Longrightarrow> mk = of_bool (v \<noteq> 0)"
    "R = (if c' then f v r0 else r0)"
  shows "\<exists>b'. read_into c (ReadByteSeq mk) f r0 b = (Inr R, b') \<and> bytes_step m s (stream s (tif c' (tseq v))) b b'"
proof (cases c')
  case True
  then show ?thesis using read_seq_at [OF assms(1), of v r mk] assms(2-5) by (auto simp: read_into_def)
qed (use assms bytes_step_refl in \<open>auto simp: read_into_def\<close>)

definition finite_mover :: "mover \<Rightarrow> bool" where
  "finite_mover u \<longleftrightarrow>
     isfinite_float (positionX (u_pos u)) \<and> isfinite_float (positionY (u_pos u)) \<and> isfinite_float (positionZ (u_pos u))
     \<and> isfinite_float (positionX (t_pos (mi_transport (u_info u))))
     \<and> isfinite_float (positionY (t_pos (mi_transport (u_info u))))
     \<and> isfinite_float (positionZ (t_pos (mi_transport (u_info u))))
     \<and> isfinite_float (zspeed (mi_jump (u_info u))) \<and> isfinite_float (cosAngle (mi_jump (u_info u)))
     \<and> isfinite_float (sinAngle (mi_jump (u_info u))) \<and> isfinite_float (xyspeed (mi_jump (u_info u)))
     \<and> isfinite_float (mi_splineElevation (u_info u))"

definition good :: "mover \<Rightarrow> extra_element \<Rightarrow> extra_element option \<Rightarrow> xel list \<Rightarrow> xel \<Rightarrow> bool" where
  "good u x x0 seen e \<longleftrightarrow> fits seen e \<and> finite_mover u \<and> isfinite_float (x_float x) \<and> length (x_guid x) = 8
     \<and> (\<forall>y. e = Extra y \<longrightarrow> x0 \<noteq> None)"

lemma length_seq_bytes [simp]: "length (seq_bytes mk full p bs) = 8"
  by (simp add: seq_bytes_def)

lemma nth_seq_bytes:
  "i < 8 \<Longrightarrow> seq_bytes mk full p bs ! i =
     (if p \<and> full i then bs ! i else if p \<and> mk i then of_bool (bs ! i \<noteq> 0) else 0)"
  by (simp add: seq_bytes_def)

lemma seq_bytes_mark:
  assumes "i < 8" "\<not> full i" "p"
  shows "(seq_bytes mk full p bs)[i := of_bool (bs ! i \<noteq> 0)] = seq_bytes (\<lambda>j. j = i \<or> mk j) full p bs"
  using assms by (intro nth_equalityI) (auto simp: nth_seq_bytes nth_list_update)

lemma seq_bytes_full:
  assumes "i < 8" "p"
  shows "(seq_bytes mk full p bs)[i := bs ! i] = seq_bytes mk (\<lambda>j. j = i \<or> full j) p bs"
  using assms by (intro nth_equalityI) (auto simp: nth_seq_bytes nth_list_update)

lemma seq_bytes_absent: "seq_bytes mk full False bs = replicate 8 0"
  by (intro nth_equalityI) (auto simp: nth_seq_bytes)

lemmas set_defs = set_mi_def set_transport_def set_jump_def set_pos_def set_tpos_def

lemmas image_defs = image_def image_mi_def Let_def pick_def set_defs

lemma two_bits: "ucast (take_bit 2 (scast (v :: uint8) :: uint32)) = v AND 3"
proof -
  have "(3 :: uint8) = mask 2" by (simp add: mask_eq_exp_minus_1)
  then have "v AND 3 = take_bit 2 v" by (simp only: take_bit_eq_mask)
  then show ?thesis by (simp only:) (rule bit_word_eqI, auto simp: bit_simps)
qed

lemma twelve_bits: "ucast (take_bit 12 (ucast (v :: uint16) :: uint32)) = take_bit 12 v"
  by (rule bit_word_eqI) (auto simp: bit_simps)

lemmas rd_bit_always = rd_bit [where c' = True, unfolded tif_simps if_True]

lemmas rd_val_always = rd_val [where c' = True, unfolded tif_simps if_True]

lemmas rd_float_always = rd_float [where c' = True, unfolded tif_simps if_True]

lemma rd_bit_i:
  assumes "bit_at m s b" "bits_of m = stream s (tif c' (tbit v)) @ r" "c = c'" "i < 8" "R = (if c' then f v r0 else r0)"
  shows "\<exists>b'. read_i i c ReadBit f r0 b = (Inr R, b') \<and> bit_at m (stream s (tif c' (tbit v))) b'"
  using rd_bit [where f = f, OF assms(1-3,5)] assms(4) by (simp add: read_i_def)

lemma rd_seq_i:
  assumes "byte_at m s b" "bits_of m = stream s (tif c' (tseq v)) @ r" "c = c'" "c' \<Longrightarrow> mk = of_bool (v \<noteq> 0)"
    "i < 8" "R = (if c' then f v r0 else r0)"
  shows "\<exists>b'. read_i i c (ReadByteSeq mk) f r0 b = (Inr R, b') \<and> bytes_step m s (stream s (tif c' (tseq v))) b b'"
  using rd_seq [where f = f, OF assms(1-4,6)] assms(5) by (simp add: read_i_def)

lemma image_extra_Plain [simp]: "image_extra x x0 (Plain e # seen) = image_extra x x0 seen"
  by (simp add: image_extra_def)

fun in_info :: "mse \<Rightarrow> bool" where
  "in_info MSEMovementFlags = True"
| "in_info MSEMovementFlags2 = True"
| "in_info (MSEGuidByte i) = False"
| "in_info (MSETransportGuidByte i) = False"
| "in_info e = (\<not> bit_element e)"

lemma image_mi_cong:
  assumes "\<And>e. in_info e \<Longrightarrow> S e = S' e"
  shows "image_mi fl u cnt mi S = image_mi fl u cnt mi S'"
  unfolding image_mi_def by (simp only: assms in_info.simps bit_element.simps not_False_eq_True)

lemma image_mi_other:
  "\<not> in_info X \<Longrightarrow> image_mi fl u cnt mi (\<lambda>e. e = X \<or> S e) = image_mi fl u cnt mi S"
  by (rule image_mi_cong) auto

lemmas image_flag = image_def Let_def image_mi_other seq_bytes_mark seq_bytes_full seq_bytes_absent

lemma set_mi_image [simp]: "set_mi f (image fl u cnt x mi x0 seen) = (image fl u cnt x mi x0 seen)\<lparr>r_mi := f (r_mi (image fl u cnt x mi x0 seen))\<rparr>"
  by (simp add: set_mi_def)


lemma has_conj [simp]:
  "hasTransportData u \<and> hasTransportTime2 u \<longleftrightarrow> hasTransportTime2 u"
  "hasTransportData u \<and> hasTransportVehicleId u \<longleftrightarrow> hasTransportVehicleId u"
  "hasFallData u \<and> hasFallDirection u \<longleftrightarrow> hasFallDirection u"
  by (auto simp: hasTransportTime2_def hasTransportVehicleId_def hasFallData_def)

lemma has_not:
  "\<not> hasTransportData u \<Longrightarrow> \<not> hasTransportTime2 u \<and> \<not> hasTransportVehicleId u"
  "\<not> hasFallData u \<Longrightarrow> \<not> hasFallDirection u"
  by (auto simp: hasTransportTime2_def hasTransportVehicleId_def hasFallData_def)

lemma read_plain_bit:
  assumes "fits seen (Plain e)" "bit_element e" "bit_at m s b"
    "bits_of m = stream s (toks_of fl u cnt e) @ r" "\<not> in_info e"
  shows "\<exists>b'. read_element fl e (image fl u cnt x mi x0 seen) b =
      (Inr (image fl u cnt x mi x0 (Plain e # seen)), b') \<and> bit_at m (stream s (toks_of fl u cnt e)) b'"
proof (cases e)
  case (MSEHasGuidByte i)
  show ?thesis using assms(1,3,4) unfolding MSEHasGuidByte read_element.simps toks_of.simps
    by - (rule rd_bit_i; (assumption | (simp add: image_flag split: if_splits split del: split_of_bool; fail)))
next
  case MSEExtraTwoBits
  then show ?thesis using assms(1) by simp
next
  case (MSEHasTransportGuidByte i)
  show ?thesis using assms(1,3,4) unfolding MSEHasTransportGuidByte read_element.simps toks_of.simps
    by - (rule rd_bit_i; (assumption | (simp add: image_flag split: if_splits split del: split_of_bool; fail)))
qed (insert assms, (simp only: bit_element.simps read_element.simps toks_of.simps in_info.simps simp_thms;
    rule rd_bit_always rd_bit rd_bits; (assumption | (simp add: image_flag has_not; fail)))+)

lemma pick_simps [simp]: "pick True a b = a" "pick False a b = b"
  by (simp_all add: pick_def)

lemma image_in_info:
  assumes "in_info X"
  shows "image fl u cnt x mi x0 (Plain X # seen) =
    (image fl u cnt x mi x0 seen)\<lparr>r_mi := image_mi fl u cnt mi (\<lambda>e. e = X \<or> Plain e \<in> set seen)\<rparr>"
proof -
  have "e \<noteq> X" if "\<not> in_info e" for e using assms that by blast
  then show ?thesis by (simp add: image_def Let_def)
qed

lemma image_has [simp]:
  "r_mi (image fl u cnt x mi x0 seen) = image_mi fl u cnt mi (\<lambda>e. Plain e \<in> set seen)"
  "r_hasMovementFlags (image fl u cnt x mi x0 seen) = (Plain MSEHasMovementFlags \<in> set seen \<and> hasMovementFlags u)"
  "r_hasMovementFlags2 (image fl u cnt x mi x0 seen) = (Plain MSEHasMovementFlags2 \<in> set seen \<and> hasMovementFlags2 u)"
  "r_hasTimestamp (image fl u cnt x mi x0 seen) = (Plain MSEHasTimestamp \<in> set seen)"
  "r_hasOrientation (image fl u cnt x mi x0 seen) = (Plain MSEHasOrientation \<in> set seen \<and> hasOrientation fl u)"
  "r_hasTransportData (image fl u cnt x mi x0 seen) = (Plain MSEHasTransportData \<in> set seen \<and> hasTransportData u)"
  "r_hasTransportTime2 (image fl u cnt x mi x0 seen) = (Plain MSEHasTransportTime2 \<in> set seen \<and> hasTransportTime2 u)"
  "r_hasTransportVehicleId (image fl u cnt x mi x0 seen) = (Plain MSEHasVehicleId \<in> set seen \<and> hasTransportVehicleId u)"
  "r_hasPitch (image fl u cnt x mi x0 seen) = (Plain MSEHasPitch \<in> set seen \<and> hasPitch u)"
  "r_hasFallData (image fl u cnt x mi x0 seen) = (Plain MSEHasFallData \<in> set seen \<and> hasFallData u)"
  "r_hasFallDirection (image fl u cnt x mi x0 seen) = (Plain MSEHasFallDirection \<in> set seen \<and> hasFallDirection u)"
  "r_hasSplineElevation (image fl u cnt x mi x0 seen) = (Plain MSEHasSplineElevation \<in> set seen \<and> hasSplineElevation u)"
  by (simp_all add: image_def Let_def)

lemma set_mi_eq [simp]:
  "(r\<lparr>r_mi := M\<rparr> = r\<lparr>r_mi := M'\<rparr>) \<longleftrightarrow> M = M'" "(r\<lparr>r_mi := M\<rparr> = r) \<longleftrightarrow> M = r_mi r"
  for r :: reader
  by (cases r; simp add: eq_commute)+

lemmas image_data = image_in_info set_defs image_mi_def Let_def

lemma read_plain_flags:
  assumes "fits seen (Plain e)" "bit_element e" "bit_at m s b"
    "bits_of m = stream s (toks_of fl u cnt e) @ r" "in_info e"
  shows "\<exists>b'. read_element fl e (image fl u cnt x mi x0 seen) b =
      (Inr (image fl u cnt x mi x0 (Plain e # seen)), b') \<and> bit_at m (stream s (toks_of fl u cnt e)) b'"
proof (cases e)
  case MSEMovementFlags
  show ?thesis using assms(1,3,4) unfolding MSEMovementFlags read_element.simps toks_of.simps
    by - (rule rd_bits; (assumption | (simp add: image_data; fail)))
next
  case MSEMovementFlags2
  show ?thesis using assms(1,3,4) unfolding MSEMovementFlags2 read_element.simps toks_of.simps
    by - (rule rd_bits; (assumption | (simp add: image_data twelve_bits; fail)))
qed (insert assms, simp_all)

lemma read_plain_byte:
  assumes "fits seen (Plain e)" "\<not> bit_element e" "byte_at m s b"
    "bits_of m = stream s (toks_of fl u cnt e) @ r" "finite_mover u"
  shows "\<exists>b'. read_element fl e (image fl u cnt x mi x0 seen) b =
      (Inr (image fl u cnt x mi x0 (Plain e # seen)), b') \<and> bytes_step m s (stream s (toks_of fl u cnt e)) b b'"
proof (cases e)
  case (MSEGuidByte i)
  show ?thesis using assms(1,3,4) unfolding MSEGuidByte read_element.simps toks_of.simps
    by - (rule rd_seq_i; (assumption | (simp add: image_flag nth_seq_bytes split: if_splits split del: split_of_bool; fail)))
next
  case (MSETransportGuidByte i)
  show ?thesis using assms(1,3,4) unfolding MSETransportGuidByte read_element.simps toks_of.simps
    by - (rule rd_seq_i; (assumption | (simp add: image_flag nth_seq_bytes split: if_splits split del: split_of_bool; fail)))
next
  case (MSEHasGuidByte i)
  then show ?thesis using assms(2) by simp
next
  case (MSEHasTransportGuidByte i)
  then show ?thesis using assms(2) by simp
next
  case MSEFlushBits
  then show ?thesis using assms(1) by simp
next
  case MSEEnd
  then show ?thesis using assms(1) by simp
next
  case MSEExtraElement
  then show ?thesis using assms(1) by simp
next
  case MSEExtraFloat
  then show ?thesis using assms(1) by simp
next
  case MSEExtraInt8
  then show ?thesis using assms(1) by simp
qed (insert assms, (simp only: bit_element.simps read_element.simps toks_of.simps simp_thms;
    rule rd_val_always rd_val rd_float_always rd_float; (assumption | (simp add: image_data finite_mover_def; fail)))+)

lemma read_extra_bit:
  assumes "fits seen (Extra e)" "bit_element e" "bit_at m s b"
    "bits_of m = stream s (toks_extra x e) @ r" "x0 = Some y" "length (x_guid x) = 8"
  shows "\<exists>b'. rd fl (Extra e) (image fl u cnt x mi x0 seen) b =
      (Inr (image fl u cnt x mi x0 (Extra e # seen)), b') \<and> bit_at m (stream s (toks_extra x e)) b'"
proof (cases e)
  case (MSEHasGuidByte i)
  then have i: "i < 8" "Extra (MSEGuidByte i) \<notin> set seen" "bits_of m = stream s (tbit (x_guid x ! i \<noteq> 0)) @ r"
    using assms(1,4) by (auto split: if_splits)
  from read_bit_at [OF assms(3), of "x_guid x ! i \<noteq> 0" r] i(3) obtain b' where
    b': "ReadBit b = (Inr (x_guid x ! i \<noteq> 0), b')" "bit_at m (s @ [x_guid x ! i \<noteq> 0]) b'" by (auto simp: tbit_def)
  then show ?thesis using i(1,2) MSEHasGuidByte assms(5)
    by (simp add: image_def Let_def read_into_def read_extra_def image_extra_def tbit_def seq_bytes_mark split del: split_of_bool)
next
  case MSEExtraTwoBits
  then have "Extra MSEExtraInt8 \<notin> set seen" "bits_of m = (s @ value_bits (scast (x_byte x)) 2) @ r"
    using assms(1,4) by (auto simp: tbits_def stream_bits)
  moreover from read_bits_at [OF assms(3) this(2)] obtain b' where
    "ReadBits 2 b = (Inr (take_bit 2 (scast (x_byte x))), b')" "bit_at m (s @ value_bits (scast (x_byte x)) 2) b'" by auto
  ultimately show ?thesis using MSEExtraTwoBits assms(5)
    by (simp add: image_def Let_def read_into_def read_extra_def image_extra_def tbits_def stream_bits two_bits)
qed (insert assms, simp_all)

lemma read_extra_byte:
  assumes "fits seen (Extra e)" "\<not> bit_element e" "byte_at m s b"
    "bits_of m = stream s (toks_extra x e) @ r" "x0 = Some y" "length (x_guid x) = 8" "isfinite_float (x_float x)"
  shows "\<exists>b'. rd fl (Extra e) (image fl u cnt x mi x0 seen) b =
      (Inr (image fl u cnt x mi x0 (Extra e # seen)), b') \<and> bytes_step m s (stream s (toks_extra x e)) b b'"
proof (cases e)
  case (MSEGuidByte i)
  then have i: "i < 8" "Extra (MSEGuidByte i) \<notin> set seen" "Extra (MSEHasGuidByte i) \<in> set seen"
    using assms(1) by (auto split: if_splits)
  have mk: "seq_bytes (\<lambda>i. Extra (MSEHasGuidByte i) \<in> set seen) (\<lambda>i. Extra (MSEGuidByte i) \<in> set seen) True (x_guid x) ! i
      = of_bool (x_guid x ! i \<noteq> 0)"
    using i by (simp add: nth_seq_bytes)
  have "bits_of m = stream s (tseq (x_guid x ! i)) @ r" using assms(4) MSEGuidByte i(1) by simp
  from read_seq_at [OF assms(3) this refl] show ?thesis using i(1,2) MSEGuidByte assms(5) mk
    by (auto simp add: image_def Let_def read_into_def read_extra_def image_extra_def seq_bytes_full split del: split_of_bool)
next
  case MSEExtraFloat
  then have "bits_of m = (pad8 s @ bits_of (le_bytes (x_float x))) @ r" using assms(4) by (simp add: tval_def)
  from read_float_at [OF assms(3) this assms(7)] MSEExtraFloat assms(5) show ?thesis
    by (auto simp: image_def Let_def read_into_def read_extra_def image_extra_def tval_def)
next
  case MSEExtraInt8
  then have "bits_of m = (pad8 s @ bits_of (le_bytes (x_byte x))) @ r" using assms(4) by (simp add: tval_def)
  from read_value_at [OF assms(3) this] MSEExtraInt8 assms(5) show ?thesis
    by (auto simp: image_def Let_def read_into_def read_extra_def image_extra_def tval_def)
qed (insert assms, simp_all)


section \<open>The contract holds\<close>

lemma tok_ok_simps [simp]:
  "t \<in> set (tbit v) \<Longrightarrow> tok_ok t" "t \<in> set (tbits w n) \<Longrightarrow> tok_ok t"
  "t \<in> set (tval (v32 :: uint32)) \<Longrightarrow> tok_ok t" "t \<in> set (tval (v8 :: uint8)) \<Longrightarrow> tok_ok t" "t \<in> set (tseq v8) \<Longrightarrow> tok_ok t"
  by (auto simp: tbit_def tbits_def tval_def tseq_def le_bytes_def split: if_splits)

lemma length_tok_simps [simp]:
  "length (tbit b) = 1" "length (tbits w n) = n" "length (tval v) = 1" "length (tseq v8) \<le> 32"
  by (simp_all add: tbit_def tbits_def tval_def tseq_def)

lemma toks_of_ok: "t \<in> set (toks_of fl u cnt e) \<Longrightarrow> tok_ok t" "length (toks_of fl u cnt e) \<le> 32"
  by (cases e; auto simp: tif_def split: if_splits)+

lemma toks_extra_ok: "t \<in> set (toks_extra x e) \<Longrightarrow> tok_ok t" "length (toks_extra x e) \<le> 32"
  by (cases e; auto simp: tif_def split: if_splits)+

interpretation movement: layout_codec "toks fl u cnt x" bit_xel "rd fl" "good u x x0" "image fl u cnt x mi x0"
  for fl u cnt x mi x0
proof
  show "tok_ok t" if "t \<in> set (toks fl u cnt x e)" for t e
    using that toks_of_ok(1) toks_extra_ok(1) by (cases e) auto
  show "length (toks fl u cnt x e) \<le> 32" for e
    using toks_of_ok(2) toks_extra_ok(2) by (cases e) auto
  show "\<exists>b'. rd fl e (image fl u cnt x mi x0 seen) b = (Inr (image fl u cnt x mi x0 (e # seen)), b')
      \<and> bit_at m (stream s (toks fl u cnt x e)) b'"
    if g: "good u x x0 seen e" and bt: "bit_xel e" and at: "bit_at m s b" and m: "bits_of m = stream s (toks fl u cnt x e) @ r"
    for seen e m s b r
  proof (cases e)
    case (Plain y)
    then show ?thesis
      using read_plain_bit [of seen y m s b fl u cnt r x mi x0] read_plain_flags [of seen y m s b fl u cnt r x mi x0] g bt at m
      by (cases "in_info y") (auto simp: good_def simp del: fits.simps)
  next
    case (Extra y)
    then show ?thesis using read_extra_bit [of seen y m s b x r x0] g bt at m by (auto simp: good_def simp del: fits.simps rd.simps)
  qed
  show "\<exists>b'. rd fl e (image fl u cnt x mi x0 seen) b = (Inr (image fl u cnt x mi x0 (e # seen)), b')
      \<and> bytes_step m s (stream s (toks fl u cnt x e)) b b'"
    if g: "good u x x0 seen e" and bt: "\<not> bit_xel e" and at: "byte_at m s b" and m: "bits_of m = stream s (toks fl u cnt x e) @ r"
    for seen e m s b r
  proof (cases e)
    case (Plain y)
    then show ?thesis
      using read_plain_byte [of seen y m s b fl u cnt r x mi x0] g bt at m by (auto simp: good_def simp del: fits.simps)
  next
    case (Extra y)
    then show ?thesis using read_extra_byte [of seen y m s b x r x0] g bt at m by (auto simp: good_def simp del: fits.simps rd.simps)
  qed
qed

end
