(* ===== verification/Movement_Layouts.thy ===== *)
theory Movement_Layouts
  imports Movement_Codec
begin

text \<open>
  The movement messages a client may send, with the layouts the server reads them by, and the check
  that every one of these layouts keeps to the order the reader needs and carries the whole movement
  information. From the contract \<open>layout_codec\<close> follows the round trip of each of them.
\<close>

section \<open>The messages of a client\<close>

text \<open>The extra elements the handlers pass (\<^verbatim>\<open>Handlers/MovementHandler.cpp\<close> and
  \<^verbatim>\<open>Handlers/VehicleHandler.cpp\<close>) and the opcodes they are registered for in
  \<^verbatim>\<open>Server/Protocol/Opcodes.cpp\<close>.\<close>

definition speedElement :: "mse list" where
  "speedElement = [MSEExtraFloat]"

definition extraElements :: "mse list" where
  "extraElements = [MSEExtraFloat, MSEExtraTwoBits]"

definition accessoryGuid :: "mse list" where
  "accessoryGuid =
     [MSEExtraInt8, MSEHasGuidByte 2, MSEHasGuidByte 4, MSEHasGuidByte 7, MSEHasGuidByte 6, MSEHasGuidByte 5,
      MSEHasGuidByte 0, MSEHasGuidByte 1, MSEHasGuidByte 3, MSEGuidByte 6, MSEGuidByte 1, MSEGuidByte 2, MSEGuidByte 5,
      MSEGuidByte 3, MSEGuidByte 0, MSEGuidByte 4, MSEGuidByte 7]"

definition msg_handlers :: "uint32 list" where
  "msg_handlers =
     [MSG_MOVE_FALL_LAND, MSG_MOVE_HEARTBEAT, MSG_MOVE_JUMP, MSG_MOVE_SET_FACING, MSG_MOVE_SET_PITCH,
      MSG_MOVE_SET_RUN_MODE, MSG_MOVE_SET_WALK_MODE, MSG_MOVE_START_ASCEND, MSG_MOVE_START_BACKWARD,
      MSG_MOVE_START_DESCEND, MSG_MOVE_START_FORWARD, MSG_MOVE_START_PITCH_DOWN, MSG_MOVE_START_PITCH_UP,
      MSG_MOVE_START_STRAFE_LEFT, MSG_MOVE_START_STRAFE_RIGHT, MSG_MOVE_START_SWIM, MSG_MOVE_START_TURN_LEFT,
      MSG_MOVE_START_TURN_RIGHT, MSG_MOVE_STOP, MSG_MOVE_STOP_ASCEND, MSG_MOVE_STOP_PITCH, MSG_MOVE_STOP_STRAFE,
      MSG_MOVE_STOP_SWIM, MSG_MOVE_STOP_TURN]"

definition cmsg_handlers :: "(uint32 \<times> mse list) list" where
  "cmsg_handlers =
     [(CMSG_MOVE_CHNG_TRANSPORT, []), (CMSG_MOVE_FALL_RESET, []), (CMSG_MOVE_FEATHER_FALL_ACK, []),
      (CMSG_MOVE_FORCE_FLIGHT_BACK_SPEED_CHANGE_ACK, speedElement), (CMSG_MOVE_FORCE_FLIGHT_SPEED_CHANGE_ACK, speedElement),
      (CMSG_MOVE_FORCE_PITCH_RATE_CHANGE_ACK, speedElement), (CMSG_MOVE_FORCE_RUN_BACK_SPEED_CHANGE_ACK, speedElement),
      (CMSG_MOVE_FORCE_RUN_SPEED_CHANGE_ACK, speedElement), (CMSG_MOVE_FORCE_SWIM_BACK_SPEED_CHANGE_ACK, speedElement),
      (CMSG_MOVE_FORCE_SWIM_SPEED_CHANGE_ACK, speedElement), (CMSG_MOVE_FORCE_TURN_RATE_CHANGE_ACK, speedElement),
      (CMSG_MOVE_FORCE_WALK_SPEED_CHANGE_ACK, speedElement), (CMSG_MOVE_GRAVITY_DISABLE_ACK, []),
      (CMSG_MOVE_GRAVITY_ENABLE_ACK, []), (CMSG_MOVE_HOVER_ACK, []), (CMSG_MOVE_KNOCK_BACK_ACK, []),
      (CMSG_MOVE_NOT_ACTIVE_MOVER, []), (CMSG_MOVE_SET_CAN_FLY, []), (CMSG_MOVE_SET_CAN_FLY_ACK, []),
      (CMSG_MOVE_SET_CAN_TRANSITION_BETWEEN_SWIM_AND_FLY_ACK, []), (CMSG_MOVE_SET_COLLISION_HEIGHT_ACK, extraElements),
      (CMSG_MOVE_SPLINE_DONE, []), (CMSG_MOVE_WATER_WALK_ACK, []), (CMSG_FORCE_MOVE_ROOT_ACK, []),
      (CMSG_FORCE_MOVE_UNROOT_ACK, []), (CMSG_DISMISS_CONTROLLED_VEHICLE, []),
      (CMSG_CHANGE_SEATS_ON_CONTROLLED_VEHICLE, accessoryGuid)]"

definition client_messages :: "(uint32 \<times> mse list) list" where
  "client_messages = map (\<lambda>op. (op, [])) msg_handlers @ cmsg_handlers"

section \<open>Checking a layout\<close>

definition codec_ok :: "mse list \<Rightarrow> mse list \<Rightarrow> bool" where
  "codec_ok seq xs =
     (case resolve seq xs of
        None \<Rightarrow> False
      | Some es \<Rightarrow> layout_ok bit_xel fits PStart [] es \<and> length es \<le> 1000 \<and> list_all (\<lambda>y. Extra y \<in> set es) xs)"

text \<open>A layout that carries the whole movement information.\<close>

definition whole_info :: "mse list" where
  "whole_info =
     [MSEMovementFlags, MSEMovementFlags2, MSEPositionX, MSEPositionY, MSEPositionZ, MSEOrientation, MSETimestamp,
      MSETransportPositionX, MSETransportPositionY, MSETransportPositionZ, MSETransportOrientation, MSETransportSeat,
      MSETransportTime, MSETransportTime2, MSETransportVehicleId, MSEPitch, MSEFallTime, MSEFallVerticalSpeed,
      MSEFallSinAngle, MSEFallCosAngle, MSEFallHorizontalSpeed, MSESplineElevation]
     @ map MSEGuidByte [0..<8] @ map MSETransportGuidByte [0..<8]"

definition complete :: "mse list \<Rightarrow> bool" where
  "complete seq \<longleftrightarrow> list_all (\<lambda>e. e \<in> set seq) whole_info"

section \<open>A loop over a layout as a run over its elements\<close>

lemma read_into_eq:
  "read_into c act f r b = (Inr r', b') \<longleftrightarrow>
     (if c then \<exists>v. act b = (Inr v, b') \<and> r' = f v r else r' = r \<and> b' = b)"
  by (auto simp: read_into_def bind_eq_Inr)

lemma read_i_eq:
  "read_i i c act f r b = (Inr r', b') \<longleftrightarrow> (c \<longrightarrow> i < 8) \<and> read_into c act f r b = (Inr r', b')"
  by (auto simp: read_i_def)

lemma read_element_extras:
  assumes "read_element fl e r b = (Inr r', b')" "e \<noteq> MSEExtraElement"
  shows "r_extras r' = r_extras r"
  using assms by (cases e) (auto simp: read_i_eq read_into_eq set_defs split: if_splits)

lemma read_extra_keeps:
  assumes "read_extra e y b = (Inr y', b')"
  shows "x_index y' = x_index y \<and> x_elements y' = x_elements y"
  using assms by (cases e) (auto simp: read_extra_def bind_eq_Inr split: if_splits)

fun extras_left :: "extra_element option \<Rightarrow> mse list \<Rightarrow> bool" where
  "extras_left None xs \<longleftrightarrow> xs = []"
| "extras_left (Some y) xs \<longleftrightarrow> drop (x_index y) (x_elements y) = xs"

lemma drop_Cons_conv: "drop i xs = y # ys \<Longrightarrow> i < length xs \<and> xs ! i = y \<and> drop (Suc i) xs = ys"
  by (metis Cons_nth_drop_Suc drop_all list.distinct(1) list.inject not_le)

lemma bind_cong: "(\<And>a s'. m s = (Inr a, s') \<Longrightarrow> f a s' = g a s') \<Longrightarrow> bind m f s = bind m g s"
  by (auto simp: bind_def split: prod.splits sum.splits)

lemma read_sequence_resolve:
  "resolve seq xs = Some es \<Longrightarrow> extras_left (r_extras r) xs \<Longrightarrow>
    read_sequence fl seq r b = run_elements (rd fl) es r b"
proof (induction seq arbitrary: xs es r b)
  case Nil
  then show ?case by simp
next
  case (Cons e seq)
  show ?case
  proof (cases "e = MSEEnd \<or> e \<noteq> MSEExtraElement")
    case True
    show ?thesis
    proof (cases "e = MSEEnd")
      case True
      then show ?thesis using Cons.prems by auto
    next
      case False
      with True Cons.prems(1) obtain es' where es: "resolve seq xs = Some es'" "es = Plain e # es'" by auto
      show ?thesis using False True es(2) Cons.IH [OF es(1)] Cons.prems(2)
        by (auto intro!: bind_cong dest!: read_element_extras)
    qed
  next
    case False
    then have e: "e = MSEExtraElement" by simp
    then obtain x' xs' es' where es: "xs = x' # xs'" "resolve seq xs' = Some es'" "es = Extra x' # es'"
      using Cons.prems(1) by (auto split: list.splits)
    then obtain y where y: "r_extras r = Some y" "drop (x_index y) (x_elements y) = x' # xs'"
      using Cons.prems(2) by (cases "r_extras r") auto
    from drop_Cons_conv [OF y(2)] have d: "x_index y < length (x_elements y)" "x_elements y ! x_index y = x'"
      "drop (Suc (x_index y)) (x_elements y) = xs'" by auto
    have "read_element fl MSEExtraElement r = rd fl (Extra x') r"
      using y(1) d by (simp add: ReadNextElement_def)
    then show ?thesis using e es(3) y(1) d(3) Cons.IH [OF es(2)]
      by (auto intro!: bind_cong simp: read_into_eq dest!: read_extra_keeps)
  qed
qed

section \<open>The writer emits the tokens\<close>

lemma WriteBit_nonzero: "WriteBit v = WriteBit (if v \<noteq> 0 then 1 else 0)"
  by (rule ext) (simp add: WriteBit_def Let_def)

lemma bind_ret_right [simp]: "bind m ret = m" "bind m' (\<lambda>_. ret ()) = m'"
  by (rule ext, auto simp: bind_def split: prod.splits sum.splits)+

lemma write_tbit: "write_toks (tbit v) = write_flag v"
  by (simp add: tbit_def write_flag_def del: ret_apply)

lemma write_tval: "write_toks (tval v) = append_value v"
  by (simp add: tval_def append_value_def)

lemma write_tseq: "write_toks (tseq v) = WriteByteSeq v"
  by (simp add: tseq_def WriteByteSeq_def write_tval)

lemma write_tbits: "n \<le> 32 \<Longrightarrow> write_toks (tbits v n) = WriteBits v n"
proof (induction n)
  case (Suc n)
  have "WriteBit (drop_bit n v AND 1) = WriteBit (if bit v n then 1 else 0)"
    by (subst WriteBit_nonzero) (simp add: and_1_bit)
  then show ?case using Suc by (simp add: tbits_def bind_assoc)
qed (simp add: tbits_def)

lemma write_byte_bit: "bind (WriteBit (ucast (v :: uint8))) (\<lambda>_. ret ()) = write_flag (v \<noteq> 0)"
proof -
  have "(ucast (ucast v :: uint32) :: uint8) = v" by (rule bit_word_eqI) (simp add: bit_simps)
  then have "(ucast v :: uint32) \<noteq> 0 \<longleftrightarrow> v \<noteq> 0" by (metis ucast_0)
  then show ?thesis by (subst WriteBit_nonzero) (simp add: write_flag_def)
qed

lemma write_tif: "write_toks (tif c ts) = if_has c (write_toks ts)"
  by (simp add: tif_def if_has_def)

lemmas write_tok_simps = write_tif write_tbit write_tval write_tseq write_tbits write_byte_bit

lemma if_has_simps [simp]: "if_has True a = a" "if_has False a = ret ()"
  by (simp_all add: if_has_def)

lemma write_element_toks:
  assumes "needs e \<noteq> None"
  shows "write_element fl u cnt e = write_toks (toks_of fl u cnt e)"
  using assms by (cases e) (auto simp: write_tok_simps split: if_splits)

lemma write_extra_toks:
  assumes "xneeds e \<noteq> None"
  shows "write_extra e x = write_toks (toks_extra x e)"
  using assms by (cases e) (auto simp: write_tok_simps write_extra_def split: if_splits)


section \<open>The round trip of a layout\<close>

definition extras_done :: "xel list \<Rightarrow> extra_element option \<Rightarrow> extra_element option" where
  "extras_done es x =
     map_option (\<lambda>y. y\<lparr>x_index := x_index y + length (filter (\<lambda>e. case e of Plain _ \<Rightarrow> False | Extra _ \<Rightarrow> True) es)\<rparr>) x"

lemma extras_done_simps [simp]:
  "extras_done [] x = x" "extras_done (Plain e # es) x = extras_done es x"
  "extras_done (Extra e # es) (Some y) = extras_done es (Some (y\<lparr>x_index := Suc (x_index y)\<rparr>))"
  by (cases x; simp add: extras_done_def)+

lemma toks_index [simp]: "toks fl u cnt (y\<lparr>x_index := k\<rparr>) e = toks fl u cnt y e"
proof (cases e)
  case (Extra e')
  then show ?thesis by (cases e') simp_all
qed simp

fun known :: "xel \<Rightarrow> bool" where
  "known (Plain e) \<longleftrightarrow> needs e \<noteq> None"
| "known (Extra e) \<longleftrightarrow> xneeds e \<noteq> None"

lemma write_sequence_resolve:
  "resolve seq xs = Some es \<Longrightarrow> extras_left x xs \<Longrightarrow> (\<And>z. x = Some z \<Longrightarrow> \<exists>k. z = y\<lparr>x_index := k\<rparr>) \<Longrightarrow> list_all known es \<Longrightarrow>
    write_sequence fl u cnt seq x = bind (write_toks (concat (map (toks fl u cnt y) es))) (\<lambda>_. ret (extras_done es x))"
proof (induction seq arbitrary: xs es x)
  case Nil
  then show ?case by simp
next
  case (Cons e seq)
  show ?case
  proof (cases "e = MSEEnd \<or> e \<noteq> MSEExtraElement")
    case True
    show ?thesis
    proof (cases "e = MSEEnd")
      case True
      then show ?thesis using Cons.prems(1) by auto
    next
      case False
      with True Cons.prems(1) obtain es' where es: "resolve seq xs = Some es'" "es = Plain e # es'" by auto
      then have "needs e \<noteq> None" "list_all known es'" using Cons.prems(4) by simp_all
      then show ?thesis using False True es(2) Cons.IH [OF es(1) Cons.prems(2,3)] write_element_toks [of e fl u cnt]
        by (simp add: write_toks_append bind_assoc)
    qed
  next
    case False
    then have e: "e = MSEExtraElement" by simp
    then obtain x' xs' es' where es: "xs = x' # xs'" "resolve seq xs' = Some es'" "es = Extra x' # es'"
      using Cons.prems(1) by (auto split: list.splits)
    then obtain z where z: "x = Some z" "drop (x_index z) (x_elements z) = x' # xs'"
      using Cons.prems(2) by (cases x) auto
    obtain k where k: "z = y\<lparr>x_index := k\<rparr>" using Cons.prems(3) z(1) by blast
    from drop_Cons_conv [OF z(2)] have d: "x_index z < length (x_elements z)" "x_elements z ! x_index z = x'"
      "drop (Suc (x_index z)) (x_elements z) = xs'" by auto
    have kn: "xneeds x' \<noteq> None" "list_all known es'" using Cons.prems(4) es(3) by simp_all
    let ?z = "z\<lparr>x_index := Suc (x_index z)\<rparr>"
    have "write_sequence fl u cnt seq (Some ?z) = bind (write_toks (concat (map (toks fl u cnt y) es'))) (\<lambda>_. ret (extras_done es' (Some ?z)))"
      using d(3) k kn(2) by (intro Cons.IH [OF es(2)]) auto
    moreover have "WriteNextElement z = bind (write_toks (toks fl u cnt y (Extra x'))) (\<lambda>_. ret ?z)"
      using d(1,2) write_extra_toks [OF kn(1), of z] k toks_index [where y = y and k = k and e = "Extra x'"] by (simp add: WriteNextElement_def)
    ultimately show ?thesis using e es(3) z(1) by (simp add: bind_assoc write_toks_append del: ret_apply)
  qed
qed


lemma layout_ok_good:
  assumes "layout_ok bit_xel fits ph seen es" "finite_mover u" "isfinite_float (x_float x)" "length (x_guid x) = 8"
    "x0 = None \<Longrightarrow> \<forall>e \<in> set es. \<exists>y. e = Plain y"
  shows "layout_ok bit_xel (good u x x0) ph seen es"
  using assms
proof (induction es arbitrary: ph seen)
  case (Cons e es)
  then show ?case by (auto simp: good_def simp del: fits.simps split: option.splits)
qed simp

lemma layout_ok_known: "layout_ok bit_xel fits ph seen es \<Longrightarrow> list_all known es"
proof (induction es arbitrary: ph seen)
  case (Cons e es)
  then have "fits seen e" "list_all known es" by (auto split: option.splits)
  then show ?case by (cases e) (auto split: option.splits)
qed simp

lemma resolve_Plain: "resolve seq [] = Some es \<Longrightarrow> \<forall>e \<in> set es. \<exists>y. e = Plain y"
  by (induction seq arbitrary: es) (auto split: if_splits)

lemma resolve_set:
  "resolve seq xs = Some es \<Longrightarrow> e \<in> set seq \<Longrightarrow> list_all (\<lambda>y. y \<noteq> MSEEnd) (butlast seq) \<Longrightarrow> e \<noteq> MSEEnd \<Longrightarrow> e \<noteq> MSEExtraElement
    \<Longrightarrow> Plain e \<in> set es"
proof (induction seq arbitrary: xs es)
  case (Cons y seq)
  show ?case
  proof (cases "seq = []")
    case True
    then show ?thesis using Cons.prems by (auto split: if_splits)
  next
    case False
    then show ?thesis using Cons.prems Cons.IH by (auto split: if_splits list.splits)
  qed
qed simp

text \<open>The extras a handler passes to the reader: none when its layout needs none.\<close>

definition handler_extras :: "mse list \<Rightarrow> extra_element option" where
  "handler_extras xs = (if xs = [] then None else Some (extra_new xs))"

lemma image_Nil: "image fl u cnt x mi (handler_extras xs) [] = reader_new mi (handler_extras xs)"
proof -
  have "seq_bytes (\<lambda>_. False) (\<lambda>_. False) p bs = replicate 8 0" for p bs
    by (intro nth_equalityI) (auto simp: nth_seq_bytes)
  then show ?thesis
    by (simp add: image_def Let_def reader_new_def image_mi_def handler_extras_def image_extra_def extra_new_def)
qed

lemma layout_roundtrip_sequence:
  assumes "codec_ok seq xs" "resolve seq xs = Some es" "finite_mover u" "isfinite_float (x_float x)" "length (x_guid x) = 8"
    "x_elements x = xs" "x_index x = 0"
  shows "\<exists>x1 b b'. write_sequence fl u cnt seq (Some x) bb_new = (Inr x1, b) \<and>
    read_sequence fl seq (reader_new mi (handler_extras xs)) (transmit b) =
      (Inr (image fl u cnt x mi (handler_extras xs) (rev es)), b')"
proof -
  let ?x0 = "handler_extras xs"
  have ok: "layout_ok bit_xel fits PStart [] es" "length es \<le> 1000" using assms(1,2) by (simp_all add: codec_ok_def)
  have "layout_ok bit_xel (good u x ?x0) PStart [] es"
    using resolve_Plain assms(2-5) by (intro layout_ok_good [OF ok(1)]) (auto simp: handler_extras_def split: if_splits)
  from movement.layout_roundtrip [OF this ok(2), where fl = fl and cnt = cnt and mi = mi] obtain b b' where
    w: "write_toks (concat (map (toks fl u cnt x) es)) bb_new = (Inr (), b)" and
    r: "run_elements (rd fl) es (image fl u cnt x mi ?x0 []) (transmit b) = (Inr (image fl u cnt x mi ?x0 (rev es)), b')"
    by blast
  have "write_sequence fl u cnt seq (Some x) = bind (write_toks (concat (map (toks fl u cnt x) es))) (\<lambda>_. ret (extras_done es (Some x)))"
    using assms(6,7) layout_ok_known [OF ok(1)]
    by (intro write_sequence_resolve [OF assms(2)]) (auto intro: exI [of _ "x_index x"])
  moreover have "extras_left (r_extras (reader_new mi ?x0)) xs"
    by (simp add: reader_new_def handler_extras_def extra_new_def)
  ultimately show ?thesis
    using w r read_sequence_resolve [OF assms(2), of "reader_new mi ?x0"] by (auto simp: image_Nil)
qed


section \<open>What arrives\<close>

text \<open>The information a receiver has after a complete layout: flags reduced to the width of their fields,
  optional parts at their defaults when they were not sent.\<close>

definition received :: "float_ops \<Rightarrow> mover \<Rightarrow> uint32 \<Rightarrow> movement_info" where
  "received fl u counter =
     (let i = u_info u; t = mi_transport i; j = mi_jump i in
      \<lparr>mi_guid = u_guid u, mi_flags = take_bit 30 (mi_flags i), mi_flags2 = take_bit 12 (mi_flags2 i),
       mi_pos = (u_pos u)\<lparr>orientation := NormalizeOrientation fl (if hasOrientation fl u then orientation (u_pos u) else 0)\<rparr>,
       mi_time = mi_time i, mi_counter = counter,
       mi_transport =
         (if hasTransportData u
          then t\<lparr>t_guid := u_transguid u, t_pos := (t_pos t)\<lparr>orientation := NormalizeOrientation fl (orientation (t_pos t))\<rparr>\<rparr>
          else transport_Reset fl),
       mi_pitch = (if hasPitch u then wrap_pi fl (mi_pitch i) else 0),
       mi_jump =
         \<lparr>fallTime = fallTime j, zspeed = (if hasFallData u then zspeed j else 0),
          sinAngle = (if hasFallDirection u then sinAngle j else 0),
          cosAngle = (if hasFallDirection u then cosAngle j else 0),
          xyspeed = (if hasFallDirection u then xyspeed j else 0)\<rparr>,
       mi_splineElevation = (if hasSplineElevation u then mi_splineElevation i else 0), mi_heightChangeFailed = False\<rparr>)"

lemma le_value_seq:
  assumes "\<And>i. i < 8 \<Longrightarrow> full i"
  shows "(le_value (seq_bytes mk full p (le_bytes g)) :: guid) = (if p then g else 0)"
proof (cases p)
  case True
  then have "seq_bytes mk full p (le_bytes g) = le_bytes g"
    using assms by (intro nth_equalityI) (auto simp: nth_seq_bytes)
  then show ?thesis using True by (simp add: le_value_le_bytes)
next
  case False
  then show ?thesis by (simp add: seq_bytes_absent le_value_zero)
qed

lemma pick_zero: "(pick (x \<noteq> 0) x 0 :: 'a::zero) = x" "pick (w \<noteq> 0) (take_bit n w) 0 = take_bit n (w :: 'b::len word)"
  by (auto simp: pick_def)

lemma image_complete:
  assumes "\<And>e. e \<in> set whole_info \<Longrightarrow> S e"
  shows "image_mi fl u cnt (MovementInfo_new fl) S =
    (received fl u (pick (S MSECounter) (case cnt of None \<Rightarrow> 0 | Some c \<Rightarrow> c) 0))
      \<lparr>mi_guid := 0, mi_transport := (mi_transport (received fl u 0))\<lparr>t_guid := 0\<rparr>\<rparr>"
proof -
  have j: "fallTime (mi_jump (u_info u)) = 0" "\<not> hasFallDirection u" if "\<not> hasFallData u"
    using that by (auto simp: hasFallData_def)
  have S: "S MSEMovementFlags" "S MSEMovementFlags2" "S MSEPositionX" "S MSEPositionY" "S MSEPositionZ" "S MSEOrientation"
    "S MSETimestamp" "S MSETransportPositionX" "S MSETransportPositionY" "S MSETransportPositionZ"
    "S MSETransportOrientation" "S MSETransportSeat" "S MSETransportTime" "S MSETransportTime2" "S MSETransportVehicleId"
    "S MSEPitch" "S MSEFallTime" "S MSEFallVerticalSpeed" "S MSEFallSinAngle" "S MSEFallCosAngle"
    "S MSEFallHorizontalSpeed" "S MSESplineElevation"
    using assms by (simp_all add: whole_info_def)
  show ?thesis using j
    by (cases "hasTransportData u"; cases "hasFallData u"; cases "u_pos u"; cases "t_pos (mi_transport (u_info u))"; cases "mi_transport (u_info u)")
      (simp_all add: image_mi_def received_def Let_def S MovementInfo_new_def Relocate_def transport_Reset_def jump_Reset_def
        hasMovementFlags_def hasMovementFlags2_def hasTransportTime2_def hasTransportVehicleId_def pick_zero pick_def)
qed


section \<open>Every message of a client keeps to the order\<close>

fun message_ok :: "uint32 \<times> mse list \<Rightarrow> bool" where
  "message_ok (opcode, xs) =
     (case GetMovementStatusElementsSequence opcode of
        None \<Rightarrow> opcode = CMSG_MOVE_FORCE_PITCH_RATE_CHANGE_ACK \<or> opcode = CMSG_MOVE_FORCE_TURN_RATE_CHANGE_ACK
      | Some seq \<Rightarrow> codec_ok seq xs \<and> complete seq \<and> list_all (\<lambda>e. e \<noteq> MSEEnd) (butlast seq))"

lemma messages_ok_1: "list_all message_ok (take 9 client_messages)" by code_simp

lemma messages_ok_2: "list_all message_ok (take 9 (drop 9 client_messages))" by code_simp

lemma messages_ok_3: "list_all message_ok (take 9 (drop 18 client_messages))" by code_simp

lemma messages_ok_4: "list_all message_ok (take 8 (drop 27 client_messages))" by code_simp

lemma messages_ok_5: "list_all message_ok (take 8 (drop 35 client_messages))" by code_simp

lemma messages_ok_6: "list_all message_ok (drop 43 client_messages)" by code_simp

lemma list_all_chunk: "list_all P (take n (drop k xs)) \<Longrightarrow> list_all P (drop (k + n) xs) \<Longrightarrow> list_all P (drop k xs)"
  by (metis append_take_drop_id drop_drop add.commute list_all_append)

lemma messages_ok: "m \<in> set client_messages \<Longrightarrow> message_ok m"
proof -
  have "list_all message_ok (drop 35 client_messages)"
    using list_all_chunk [OF messages_ok_5] messages_ok_6 by simp
  then have "list_all message_ok (drop 27 client_messages)"
    using list_all_chunk [OF messages_ok_4] by simp
  then have "list_all message_ok (drop 18 client_messages)"
    using list_all_chunk [OF messages_ok_3] by simp
  then have "list_all message_ok (drop 9 client_messages)"
    using list_all_chunk [OF messages_ok_2] by simp
  then have "list_all message_ok client_messages"
    using list_all_chunk [of message_ok 9 0 client_messages] messages_ok_1 by simp
  then show "m \<in> set client_messages \<Longrightarrow> message_ok m" by (simp add: list_all_iff)
qed

end
