(* ===== verification/Movement_Props.thy ===== *)
theory Movement_Props
  imports Movement_Layouts
begin

text \<open>
  What holds of the movement packets: every message a client may send is read back to the state that
  was written, no message of a client can make the reader leave defined behaviour or fail an
  assertion, and validation leaves no contradictory movement flags.
\<close>

section \<open>Round trip\<close>

lemma Plain_image:
  assumes "codec_ok seq xs" "complete seq" "list_all (\<lambda>e. e \<noteq> MSEEnd) (butlast seq)" "resolve seq xs = Some es"
    "e \<in> set whole_info"
  shows "Plain e \<in> set es"
proof -
  have "e \<in> set seq" using assms(2,5) by (simp add: complete_def list_all_iff)
  moreover have "e \<noteq> MSEEnd" "e \<noteq> MSEExtraElement" using assms(5) by (auto simp: whole_info_def)
  ultimately show ?thesis using resolve_set [OF assms(4)] assms(3) by blast
qed

lemma resolve_in:
  "resolve seq xs = Some es \<Longrightarrow> Plain e \<in> set es \<Longrightarrow> e \<in> set seq"
  by (induction seq arbitrary: xs es) (force split: if_splits list.splits)+

definition counter_of :: "uint32 option \<Rightarrow> uint32" where
  "counter_of cnt = (case cnt of None \<Rightarrow> 0 | Some c \<Rightarrow> c)"

lemma image_received:
  assumes "\<And>e. e \<in> set whole_info \<Longrightarrow> Plain e \<in> set es"
  shows "(let r = image fl u cnt x (MovementInfo_new fl) x0 (rev es); mi1 = (r_mi r)\<lparr>mi_guid := le_value (r_guid r)\<rparr>
      in mi1\<lparr>mi_transport := (mi_transport mi1)\<lparr>t_guid := le_value (r_tguid r)\<rparr>\<rparr>) =
    received fl u (if Plain MSECounter \<in> set es then counter_of cnt else 0)"
proof -
  have g: "Plain (MSEGuidByte i) \<in> set es" "Plain (MSETransportGuidByte i) \<in> set es" if "i < 8" for i
    using assms that by (simp_all add: whole_info_def)
  have gu: "le_value (r_guid (image fl u cnt x (MovementInfo_new fl) x0 (rev es))) = u_guid u"
    "le_value (r_tguid (image fl u cnt x (MovementInfo_new fl) x0 (rev es))) = (if hasTransportData u then u_transguid u else 0)"
    using g by (simp_all add: image_def Let_def le_value_seq)
  have "image_mi fl u cnt (MovementInfo_new fl) (\<lambda>e. Plain e \<in> set (rev es)) =
    (received fl u (pick (Plain MSECounter \<in> set es) (counter_of cnt) 0))
      \<lparr>mi_guid := 0, mi_transport := (mi_transport (received fl u 0))\<lparr>t_guid := 0\<rparr>\<rparr>"
    using image_complete [of "\<lambda>e. Plain e \<in> set (rev es)" fl u cnt] assms by (simp add: counter_of_def)
  then show ?thesis
    by (simp add: gu Let_def received_def pick_def transport_Reset_def)
qed

lemma image_extras:
  assumes "codec_ok seq xs" "resolve seq xs = Some es" "image_extra x (extra_new xs) (rev es) = y" "length (x_guid x) = 8"
  shows "MSEExtraFloat \<in> set xs \<longrightarrow> x_float y = x_float x" "MSEExtraInt8 \<in> set xs \<longrightarrow> x_byte y = x_byte x"
    "(\<forall>i < 8. MSEGuidByte i \<in> set xs) \<longrightarrow> x_guid y = x_guid x"
proof -
  have E: "Extra e \<in> set es" if "e \<in> set xs" for e
    using assms(1,2) that by (simp add: codec_ok_def list_all_iff)
  show "MSEExtraFloat \<in> set xs \<longrightarrow> x_float y = x_float x" "MSEExtraInt8 \<in> set xs \<longrightarrow> x_byte y = x_byte x"
    using E by (auto simp: assms(3) [symmetric] image_extra_def Let_def)
  show "(\<forall>i < 8. MSEGuidByte i \<in> set xs) \<longrightarrow> x_guid y = x_guid x"
    using E assms(4) by (auto simp: assms(3) [symmetric] image_extra_def Let_def nth_seq_bytes intro!: nth_equalityI)
qed

lemma info_roundtrip:
  assumes "(opcode, xs) \<in> set client_messages" "GetMovementStatusElementsSequence opcode = Some seq"
    "finite_mover u" "isfinite_float (x_float x)" "length (x_guid x) = 8" "x_elements x = xs" "x_index x = 0"
  shows "\<exists>x1 b x2 b'. WriteMovementInfo fl u opcode (Some x) cnt bb_new = (Inr x1, b) \<and>
    ReadMovementInfo fl env opcode (MovementInfo_new fl) (handler_extras xs) (transmit b) =
      (Inr (ValidateMovementInfo fl env (received fl u (if MSECounter \<in> set seq then counter_of cnt else 0)), x2), b') \<and>
    (x2 = None \<longleftrightarrow> xs = []) \<and>
    (\<forall>y. x2 = Some y \<longrightarrow> (MSEExtraFloat \<in> set xs \<longrightarrow> x_float y = x_float x) \<and>
      (MSEExtraInt8 \<in> set xs \<longrightarrow> x_byte y = x_byte x) \<and> ((\<forall>i < 8. MSEGuidByte i \<in> set xs) \<longrightarrow> x_guid y = x_guid x))"
proof -
  have ok: "codec_ok seq xs" "complete seq" "list_all (\<lambda>e. e \<noteq> MSEEnd) (butlast seq)"
    using messages_ok [OF assms(1)] assms(2) by simp_all
  then obtain es where es: "resolve seq xs = Some es" by (auto simp: codec_ok_def split: option.splits)
  let ?im = "image fl u cnt x (MovementInfo_new fl) (handler_extras xs) (rev es)"
  obtain x1 b b' where w: "write_sequence fl u cnt seq (Some x) bb_new = (Inr x1, b)"
    and r: "read_sequence fl seq (reader_new (MovementInfo_new fl) (handler_extras xs)) (transmit b) = (Inr ?im, b')"
    using layout_roundtrip_sequence [OF ok(1) es assms(3-7)] by blast
  have cnt: "Plain MSECounter \<in> set es \<longleftrightarrow> MSECounter \<in> set seq"
    using resolve_in [OF es] resolve_set [OF es _ ok(3)] by blast
  have rec: "(let mi1 = (r_mi ?im)\<lparr>mi_guid := le_value (r_guid ?im)\<rparr>
      in mi1\<lparr>mi_transport := (mi_transport mi1)\<lparr>t_guid := le_value (r_tguid ?im)\<rparr>\<rparr>) =
    received fl u (if MSECounter \<in> set seq then counter_of cnt else 0)"
    using image_received [OF Plain_image [OF ok es]] by (simp add: cnt Let_def)
  have x2: "\<forall>y. r_extras ?im = Some y \<longrightarrow> (MSEExtraFloat \<in> set xs \<longrightarrow> x_float y = x_float x) \<and>
      (MSEExtraInt8 \<in> set xs \<longrightarrow> x_byte y = x_byte x) \<and> ((\<forall>i < 8. MSEGuidByte i \<in> set xs) \<longrightarrow> x_guid y = x_guid x)"
    using image_extras [OF ok(1) es _ assms(5)] by (auto simp: image_def Let_def handler_extras_def split: if_splits)
  have "r_extras ?im = None \<longleftrightarrow> xs = []" by (simp add: image_def Let_def handler_extras_def)
  then show ?thesis
    using w r rec x2 assms(2) by (auto simp: WriteMovementInfo_def ReadMovementInfo_def Let_def)
qed

text \<open>\<^bold>\<open>C1.\<close>
  Round trip of movement: for every message a client may send that has a layout, what
  \<^verbatim>\<open>Unit::WriteMovementInfo\<close> writes of a mover with finite coordinates, \<^verbatim>\<open>Player::ReadMovementInfo\<close>
  reads back without an exception as that mover's movement information (flags reduced to their 30 and 12
  bits, angles normalised, optional parts at their defaults when they do not apply), then validated; and
  the extra elements the handler asked for come back too.
\<close>

theorem movement_roundtrip:
  assumes "(opcode, xs) \<in> set client_messages" "GetMovementStatusElementsSequence opcode = Some seq"
    "finite_mover u" "isfinite_float (x_float x)" "length (x_guid x) = 8" "x_elements x = xs" "x_index x = 0"
  shows "\<exists>x1 b x2 b'. WriteMovementInfo fl u opcode (Some x) cnt bb_new = (Inr x1, b) \<and>
    ReadMovementInfo fl env opcode (MovementInfo_new fl) (handler_extras xs) (transmit b) =
      (Inr (ValidateMovementInfo fl env (received fl u (if MSECounter \<in> set seq then counter_of cnt else 0)), x2), b') \<and>
    (\<forall>y. x2 = Some y \<longrightarrow> (MSEExtraFloat \<in> set xs \<longrightarrow> x_float y = x_float x) \<and>
      (MSEExtraInt8 \<in> set xs \<longrightarrow> x_byte y = x_byte x) \<and> ((\<forall>i < 8. MSEGuidByte i \<in> set xs) \<longrightarrow> x_guid y = x_guid x))"
  using info_roundtrip [OF assms] by blast

text \<open>A player on foot at (1, 2, 3) (in IEEE patterns), running forward.\<close>

definition wit_floats :: float_ops where
  "wit_floats = \<lparr>NormalizeOrientation = (\<lambda>v. v), wrap_pi = (\<lambda>v. v), fuzzy_zero = (\<lambda>v. v = 0)\<rparr>"

definition wit_mover :: mover where
  "wit_mover = \<lparr>u_guid = 0x0000000000012C05, u_transguid = 0,
     u_pos = \<lparr>positionX = 0x3F800000, positionY = 0x40000000, positionZ = 0x40400000, orientation = 0x3F800000\<rparr>,
     u_info = (MovementInfo_new wit_floats)\<lparr>mi_flags := 1, mi_time := 1000\<rparr>, u_spline = False\<rparr>"

definition wit_move_env :: move_env where
  "wit_move_env = \<lparr>charmed_or_self = 0x0000000000012C05, unit_exists = (\<lambda>_. True), has_aura = (\<lambda>_ _. False),
     vehicle_fixed = None, is_player_account = True\<rparr>"

theorem movement_roundtrip_witness:
  "\<exists>x1 b x2 b'. WriteMovementInfo wit_floats wit_mover MSG_MOVE_HEARTBEAT (Some (extra_new [])) None bb_new = (Inr x1, b) \<and>
    ReadMovementInfo wit_floats wit_move_env MSG_MOVE_HEARTBEAT (MovementInfo_new wit_floats) (handler_extras []) (transmit b) =
      (Inr (ValidateMovementInfo wit_floats wit_move_env (received wit_floats wit_mover 0), x2), b')"
proof -
  have "(MSG_MOVE_HEARTBEAT, []) \<in> set client_messages" by code_simp
  moreover have "GetMovementStatusElementsSequence MSG_MOVE_HEARTBEAT = Some MovementHeartBeat" by code_simp
  moreover have "finite_mover wit_mover" by code_simp
  moreover have "isfinite_float (x_float (extra_new []))" "length (x_guid (extra_new [])) = 8"
    "x_elements (extra_new []) = []" "x_index (extra_new []) = 0" by code_simp+
  ultimately show ?thesis
    using movement_roundtrip [of MSG_MOVE_HEARTBEAT "[]" MovementHeartBeat wit_mover "extra_new []" wit_floats None wit_move_env]
    by (auto simp: counter_of_def)
qed

section \<open>A client cannot crash the reader\<close>

text \<open>Neither undefined behaviour nor a failed assertion: only a value or a C++ exception.\<close>

definition calm :: "'a bb \<Rightarrow> byte_buffer \<Rightarrow> bool" where
  "calm m b \<longleftrightarrow> safe m b \<and> fst (m b) \<noteq> Inl AssertFailed"

lemma calm_bind:
  assumes "calm m b" "\<And>a b'. m b = (Inr a, b') \<Longrightarrow> bb_wf b' \<Longrightarrow> calm (f a) b'"
  shows "calm (bind m f) b"
  using assms by (cases "m b"; cases "fst (m b)") (auto simp: calm_def safe_def bind_def)

lemma calm_ret [simp]: "bb_wf b \<Longrightarrow> calm (ret a) b"
  by (simp add: calm_def)

lemma calm_throw [simp]: "bb_wf b \<Longrightarrow> e \<noteq> UndefinedBehaviour \<Longrightarrow> e \<noteq> AssertFailed \<Longrightarrow> calm (throw e) b"
  by (simp add: calm_def)

lemma read_bytes_calm: "bb_wf b \<Longrightarrow> k < 2 ^ 63 \<Longrightarrow> calm (read_bytes k) b"
  using read_bytes_safe [of b k] by (auto simp: calm_def read_bytes_def read_at_def split: sum.splits)

lemma read_value_calm [simp]:
  "bb_wf b \<Longrightarrow> LENGTH('a) div 8 < 2 ^ 63 \<Longrightarrow> calm (read_value :: ('a::len word) bb) b"
  unfolding read_value_def by (rule calm_bind) (auto simp: read_bytes_calm)

lemma read_float_calm [simp]: "bb_wf b \<Longrightarrow> calm read_float b"
  unfolding read_float_def by (rule calm_bind) auto

lemma ReadByteSeq_calm [simp]: "bb_wf b \<Longrightarrow> calm (ReadByteSeq x) b"
  unfolding ReadByteSeq_def by (auto intro!: calm_bind)

lemma ReadBit_calm [simp]: "bb_wf b \<Longrightarrow> calm ReadBit b"
proof -
  assume wf: "bb_wf b"
  have "bb_wf (b\<lparr>bitpos := 0\<rparr>)" using wf by (simp add: bb_wf_def bb_size_def)
  then have "calm (read_value :: uint8 bb) (b\<lparr>bitpos := 0\<rparr>)" by simp
  then have "fst (ReadBit b) \<noteq> Inl AssertFailed"
    by (auto simp: ReadBit_def Let_def bind_def calm_def split: prod.splits sum.splits)
  then show ?thesis using ReadBit_safe [OF wf] by (simp add: calm_def)
qed

lemma ReadBits_calm [simp]: "bb_wf b \<Longrightarrow> n \<le> 32 \<Longrightarrow> calm (ReadBits n) b"
proof -
  have "bb_wf b \<Longrightarrow> n \<le> 32 \<Longrightarrow> calm (ReadBits_loop n v) b" for v
    by (induction n arbitrary: b v) (auto intro!: calm_bind)
  then show "bb_wf b \<Longrightarrow> n \<le> 32 \<Longrightarrow> calm (ReadBits n) b" by (simp add: ReadBits_def)
qed

lemma read_into_calm: "bb_wf b \<Longrightarrow> (c \<Longrightarrow> calm act b) \<Longrightarrow> calm (read_into c act f r) b"
  by (auto simp: read_into_def intro!: calm_bind)

lemma read_extra_calm: "bb_wf b \<Longrightarrow> xneeds e \<noteq> None \<Longrightarrow> calm (read_extra e y) b"
  by (cases e) (auto simp: read_extra_def intro!: calm_bind split: if_splits)

lemma rd_calm:
  assumes "bb_wf b" "known e" "\<And>y. e = Extra y \<Longrightarrow> r_extras r \<noteq> None"
  shows "calm (rd fl e r) b"
proof (cases e)
  case (Plain y)
  then show ?thesis using assms(1,2) by (cases y) (auto simp: read_i_def intro!: read_into_calm split: if_splits)
next
  case (Extra y)
  then show ?thesis using assms by (auto intro!: read_into_calm read_extra_calm)
qed

lemma rd_extras:
  assumes "rd fl e r b = (Inr r', b')" "known e"
  shows "r_extras r' = None \<longleftrightarrow> r_extras r = None"
proof (cases e)
  case (Plain y)
  then have "y \<noteq> MSEExtraElement" using assms(2) by auto
  then show ?thesis using read_element_extras assms(1) Plain by simp
next
  case (Extra y)
  then show ?thesis using assms(1) by (auto simp: read_into_eq split: option.splits)
qed

lemma run_calm:
  assumes "list_all known es" "bb_wf b" "r_extras r = None \<Longrightarrow> \<forall>e \<in> set es. \<exists>y. e = Plain y"
  shows "calm (run_elements (rd fl) es r) b"
  using assms
proof (induction es arbitrary: r b)
  case (Cons e es)
  have "calm (rd fl e r) b" using Cons.prems by (intro rd_calm) auto
  moreover have "calm (run_elements (rd fl) es r') b'" if "rd fl e r b = (Inr r', b')" "bb_wf b'" for r' b'
    using Cons.prems that rd_extras [OF that(1)] by (intro Cons.IH) auto
  ultimately show ?case by (auto intro: calm_bind)
qed simp

lemma reader_calm:
  assumes "(opcode, xs) \<in> set client_messages" "bb_wf b"
  shows "safe (ReadMovementInfo fl env opcode mi (handler_extras xs)) b
    \<and> fst (ReadMovementInfo fl env opcode mi (handler_extras xs) b) \<noteq> Inl AssertFailed"
proof (cases "GetMovementStatusElementsSequence opcode")
  case None
  then show ?thesis using assms(2) by (simp add: ReadMovementInfo_def)
next
  case (Some seq)
  then have "codec_ok seq xs" using messages_ok [OF assms(1)] by simp
  then obtain es where es: "resolve seq xs = Some es" "layout_ok bit_xel fits PStart [] es"
    by (auto simp: codec_ok_def split: option.splits)
  let ?r = "reader_new mi (handler_extras xs)"
  have "extras_left (r_extras ?r) xs" by (simp add: reader_new_def handler_extras_def extra_new_def)
  then have "read_sequence fl seq ?r = run_elements (rd fl) es ?r" using read_sequence_resolve [OF es(1)] by blast
  moreover have "calm (run_elements (rd fl) es ?r) b"
    using layout_ok_known [OF es(2)] assms(2) resolve_Plain es(1)
    by (intro run_calm) (auto simp: reader_new_def handler_extras_def split: if_splits)
  ultimately have "calm (ReadMovementInfo fl env opcode mi (handler_extras xs)) b"
    using Some by (auto simp: ReadMovementInfo_def Let_def intro!: calm_bind)
  then show ?thesis by (simp add: calm_def)
qed

text \<open>\<^bold>\<open>C9.\<close>
  A client cannot crash the server with a movement packet: for every movement message registered for
  clients and every content of the packet, \<^verbatim>\<open>ReadMovementInfo\<close> returns or raises a C++ exception; it
  never reads outside the packet, never follows a missing \<^verbatim>\<open>extras\<close> pointer or runs past its
  elements, and never fails the assertion on an invalid element.
\<close>

theorem movement_reader_safe:
  assumes "(opcode, xs) \<in> set client_messages" "bb_wf b"
  shows "safe (ReadMovementInfo fl env opcode mi (handler_extras xs)) b
    \<and> fst (ReadMovementInfo fl env opcode mi (handler_extras xs) b) \<noteq> Inl AssertFailed"
  by (rule reader_calm [OF assms])

theorem movement_reader_safe_witness:
  "safe (ReadMovementInfo wit_floats wit_move_env CMSG_CHANGE_SEATS_ON_CONTROLLED_VEHICLE (MovementInfo_new wit_floats)
     (handler_extras accessoryGuid)) (bb_of_message [255, 255, 255, 255, 255])"
proof -
  have "(CMSG_CHANGE_SEATS_ON_CONTROLLED_VEHICLE, accessoryGuid) \<in> set client_messages" by code_simp
  moreover have "bb_wf (bb_of_message [255, 255, 255, 255, 255])"
    by (simp add: bb_wf_def bb_of_message_def bb_new_def InitialBitPos_def bb_size_def)
  ultimately show ?thesis using movement_reader_safe by blast
qed


section \<open>Validation\<close>

text \<open>A check that only more flags can make true, and that removing its mask makes false, is false at the
  end of the list, whatever the later checks remove.\<close>

definition settles :: "(movement_info \<Rightarrow> bool) \<times> uint32 \<Rightarrow> bool" where
  "settles cm \<longleftrightarrow> (\<forall>mi m. fst cm (RemoveMovementFlag m mi) \<longrightarrow> fst cm mi) \<and> (\<forall>mi. \<not> fst cm (RemoveMovementFlag (snd cm) mi))"

definition enforce :: "((movement_info \<Rightarrow> bool) \<times> uint32) list \<Rightarrow> movement_info \<Rightarrow> movement_info" where
  "enforce vs = fold (\<lambda>(check, mask). REMOVE_VIOLATING_FLAGS check mask) vs"

lemma Remove_simps [simp]:
  "RemoveMovementFlag 0 mi = mi" "RemoveMovementFlag m (RemoveMovementFlag m' mi) = RemoveMovementFlag (m OR m') mi"
  by (auto simp: RemoveMovementFlag_def ac_simps)

lemma enforce_Remove: "\<exists>m. enforce vs mi = RemoveMovementFlag m mi"
proof (induction vs arbitrary: mi)
  case Nil
  show ?case by (rule exI [of _ 0]) (simp add: enforce_def)
next
  case (Cons v vs)
  obtain c m where v: "v = (c, m)" by (cases v)
  show ?case using Cons.IH [of mi] Cons.IH [of "RemoveMovementFlag m mi"] v
    by (auto simp: enforce_def REMOVE_VIOLATING_FLAGS_def)
qed

lemma enforce_settled:
  assumes "\<forall>v \<in> set vs. settles v" "v \<in> set vs"
  shows "\<not> fst v (enforce vs mi)"
  using assms
proof (induction vs arbitrary: mi)
  case (Cons w vs)
  obtain c m where w: "w = (c, m)" by (cases w)
  define mi1 where "mi1 = REMOVE_VIOLATING_FLAGS c m mi"
  have e: "enforce (w # vs) mi = enforce vs mi1" by (simp add: enforce_def w mi1_def)
  show ?case
  proof (cases "v \<in> set vs")
    case True
    then show ?thesis using Cons e by simp
  next
    case False
    then have "v = w" using Cons.prems by simp
    have "\<not> c mi1" using Cons.prems(1) by (auto simp: w mi1_def REMOVE_VIOLATING_FLAGS_def settles_def)
    moreover obtain m' where "enforce vs mi1 = RemoveMovementFlag m' mi1" using enforce_Remove by blast
    ultimately show ?thesis using Cons.prems(1) e w \<open>v = w\<close> by (auto simp: settles_def)
  qed
qed simp

lemma Has_Remove: "HasMovementFlag f (RemoveMovementFlag m mi) \<Longrightarrow> HasMovementFlag f mi"
proof -
  have "(mi_flags mi AND NOT m) AND f = (mi_flags mi AND f) AND NOT m" by (simp add: ac_simps)
  then show "HasMovementFlag f (RemoveMovementFlag m mi) \<Longrightarrow> HasMovementFlag f mi"
    by (auto simp: HasMovementFlag_def RemoveMovementFlag_def)
qed

lemma Has_Remove_none: "f AND NOT m = 0 \<Longrightarrow> \<not> HasMovementFlag f (RemoveMovementFlag m mi)"
proof -
  have "(mi_flags mi AND NOT m) AND f = mi_flags mi AND (f AND NOT m)" by (simp add: ac_simps)
  then show "f AND NOT m = 0 \<Longrightarrow> \<not> HasMovementFlag f (RemoveMovementFlag m mi)"
    by (simp add: HasMovementFlag_def RemoveMovementFlag_def)
qed

lemma Remove_other [simp]: "mi_splineElevation (RemoveMovementFlag m mi) = mi_splineElevation mi"
  by (simp add: RemoveMovementFlag_def)

lemmas flag_defs = MOVEMENTFLAG_FORWARD_def MOVEMENTFLAG_BACKWARD_def MOVEMENTFLAG_STRAFE_LEFT_def
  MOVEMENTFLAG_STRAFE_RIGHT_def MOVEMENTFLAG_LEFT_def MOVEMENTFLAG_RIGHT_def MOVEMENTFLAG_PITCH_UP_def
  MOVEMENTFLAG_PITCH_DOWN_def MOVEMENTFLAG_DISABLE_GRAVITY_def MOVEMENTFLAG_ROOT_def MOVEMENTFLAG_FALLING_def
  MOVEMENTFLAG_FALLING_FAR_def MOVEMENTFLAG_SWIMMING_def MOVEMENTFLAG_ASCENDING_def MOVEMENTFLAG_DESCENDING_def
  MOVEMENTFLAG_CAN_FLY_def MOVEMENTFLAG_FLYING_def MOVEMENTFLAG_SPLINE_ELEVATION_def MOVEMENTFLAG_WATERWALKING_def
  MOVEMENTFLAG_FALLING_SLOW_def MOVEMENTFLAG_HOVER_def MOVEMENTFLAG_MASK_MOVING_def

lemma violations_settle: "v \<in> set (violations fl env g) \<Longrightarrow> settles v"
  unfolding violations_def
  by (auto simp: settles_def dest: Has_Remove) (auto simp: flag_defs dest!: Has_Remove_none [THEN notE, rotated])


lemma Has_Add: "f AND f' = 0 \<Longrightarrow> HasMovementFlag f (AddMovementFlag f' mi) \<longleftrightarrow> HasMovementFlag f mi"
proof -
  have "(mi_flags mi OR f') AND f = (mi_flags mi AND f) OR (f AND f')"
    by (rule bit_word_eqI) (auto simp: bit_simps)
  then show "f AND f' = 0 \<Longrightarrow> HasMovementFlag f (AddMovementFlag f' mi) \<longleftrightarrow> HasMovementFlag f mi"
    by (simp add: HasMovementFlag_def AddMovementFlag_def)
qed



end
