(* ===== verification/Movement_Change.thy ===== *)
theory Movement_Change
  imports Movement_Props
begin

text \<open>
  Movement changes a client must acknowledge: \<^verbatim>\<open>src/src/server/game/Movement/MovementPacketSender.cpp\<close>
  sends them and records them as pending (\<^verbatim>\<open>Unit::AssignPendingMovementChange\<close> and its companions in
  \<^verbatim>\<open>Entities/Unit/Unit.cpp\<close>); the setters of speeds and movement flags of \<^verbatim>\<open>Unit\<close> and
  \<^verbatim>\<open>Player\<close> call it. The packets are the ones of \<open>Movement_Info\<close>.
\<close>

section \<open>Data\<close>

datatype unit_move_type =
    MOVE_WALK | MOVE_RUN | MOVE_RUN_BACK | MOVE_SWIM | MOVE_SWIM_BACK | MOVE_TURN_RATE | MOVE_FLIGHT
  | MOVE_FLIGHT_BACK | MOVE_PITCH_RATE

datatype change_type =
    CHANGE_INVALID | CHANGE_ROOT | CHANGE_WATER_WALK | SET_HOVER | SET_CAN_FLY
  | SET_CAN_TRANSITION_BETWEEN_SWIM_AND_FLY | FEATHER_FALL | GRAVITY_DISABLE
  | SPEED_CHANGE_WALK | SPEED_CHANGE_RUN | SPEED_CHANGE_RUN_BACK | SPEED_CHANGE_SWIM | SPEED_CHANGE_SWIM_BACK
  | RATE_CHANGE_TURN | SPEED_CHANGE_FLIGHT_SPEED | SPEED_CHANGE_FLIGHT_BACK_SPEED | RATE_CHANGE_PITCH
  | SET_COLLISION_HGT | CHANGE_TELEPORT | KNOCK_BACK

record pending_change =
  pc_counter :: uint32
  pc_type :: change_type
  pc_time :: uint32
  pc_newValue :: uint32
  pc_apply :: bool

text \<open>Arithmetic on speeds: whether a rate is negative, equality of rates, the speed of a rate and the rate
  of a speed (they depend on \<^verbatim>\<open>IsControlledByPlayer\<close>, which chooses the table of base speeds), and
  whether two speeds differ by more than 0.01.\<close>

record speed_ops =
  rate_negative :: "uint32 \<Rightarrow> bool"
  rate_eq :: "uint32 \<Rightarrow> uint32 \<Rightarrow> bool"
  to_flat :: "bool \<Rightarrow> unit_move_type \<Rightarrow> uint32 \<Rightarrow> uint32"
  to_rate :: "bool \<Rightarrow> unit_move_type \<Rightarrow> uint32 \<Rightarrow> uint32"
  speeds_differ :: "uint32 \<Rightarrow> uint32 \<Rightarrow> bool"

text \<open>A unit, as far as the protocol uses it: what \<^verbatim>\<open>WriteMovementInfo\<close> reads of it, its movement counter,
  its pending changes in the order an iteration visits them, the client that moves it
  (\<^verbatim>\<open>_gameClientMovingMe\<close>), its speed rates, whether it is a player, is in the world, is controlled by
  a player, and whether it is a player out of combat with a pet.\<close>

type_synonym client_id = nat

record moved_unit =
  mu_mover :: mover
  mu_counter :: uint32
  mu_pending :: "(change_type \<times> pending_change) list"
  mu_client :: "client_id option"
  mu_speed_rate :: "unit_move_type \<Rightarrow> uint32"
  mu_player :: bool
  mu_in_world :: bool
  mu_player_controlled :: bool
  mu_pet :: bool

text \<open>What the operations do outside the unit: packets to the client that moves it, to the players around
  without that client's player, to the unit's own player, to the players around without it, to all players
  around; the kick of a client; the call of \<^verbatim>\<open>SetSpeedRate\<close> on the pet.\<close>

datatype move_effect =
    ToMover client_id uint32 "uint8 list"
  | ToObservers client_id uint32 "uint8 list"
  | ToSelf uint32 "uint8 list"
  | ToOthers uint32 "uint8 list"
  | ToAll uint32 "uint8 list"
  | KickPlayer client_id
  | PetSetSpeedRate unit_move_type uint32

type_synonym 'a move_result = "bb_error + 'a \<times> move_effect list"

section \<open>Pending changes\<close>

definition ClearPendingMovementChangeForType :: "change_type \<Rightarrow> moved_unit \<Rightarrow> moved_unit" where
  "ClearPendingMovementChangeForType t u = u\<lparr>mu_pending := filter (\<lambda>(k, _). k \<noteq> t) (mu_pending u)\<rparr>"

text \<open>An assignment to a present key keeps its place; the place of a new key in the
  \<^verbatim>\<open>std::unordered_map\<close> is the implementation's choice, here the front.\<close>

definition AssignPendingMovementChange :: "change_type \<Rightarrow> pending_change \<Rightarrow> moved_unit \<Rightarrow> moved_unit" where
  "AssignPendingMovementChange t c u =
     u\<lparr>mu_pending :=
       (if t \<in> fst ` set (mu_pending u)
        then map (\<lambda>(k, v). (k, if k = t then c else v)) (mu_pending u)
        else (t, c) # mu_pending u)\<rparr>"

definition GetPendingMovementChange :: "change_type \<Rightarrow> moved_unit \<Rightarrow> pending_change option" where
  "GetPendingMovementChange t u = map_of (mu_pending u) t"

definition GetMovementCounterAndInc :: "moved_unit \<Rightarrow> uint32 \<times> moved_unit" where
  "GetMovementCounterAndInc u = (mu_counter u, u\<lparr>mu_counter := mu_counter u + 1\<rparr>)"

definition pending_new :: "uint32 \<Rightarrow> pending_change" where
  "pending_new now = \<lparr>pc_counter = 0, pc_type = CHANGE_INVALID, pc_time = now, pc_newValue = 0, pc_apply = False\<rparr>"

text \<open>The loop of \<^verbatim>\<open>CheckPendingMovementAcks\<close>: the first overdue change decides. The sum of the time and
  the timeout is taken in 32 bits. A unit no client moves has no controller to kick.\<close>

fun check_acks_loop ::
  "uint32 \<Rightarrow> uint32 \<Rightarrow> client_id option \<Rightarrow> (change_type \<times> pending_change) list \<Rightarrow> bb_error + move_effect list" where
  "check_acks_loop now timeout client [] = Inr []"
| "check_acks_loop now timeout client ((k, c) # cs) =
     (if now > pc_time c + timeout then
        if pc_type c = CHANGE_TELEPORT then Inr []
        else (case client of None \<Rightarrow> Inl UndefinedBehaviour | Some cl \<Rightarrow> Inr [KickPlayer cl])
      else check_acks_loop now timeout client cs)"

definition CheckPendingMovementAcks :: "uint32 \<Rightarrow> uint32 \<Rightarrow> moved_unit \<Rightarrow> bb_error + move_effect list" where
  "CheckPendingMovementAcks now timeout u =
     (if timeout = 0 then Inr []
      else if mu_pending u = [] then Inr []
      else check_acks_loop now timeout (mu_client u) (mu_pending u))"

section \<open>Sending changes\<close>

definition moveTypeToOpcode :: "unit_move_type \<Rightarrow> uint32 \<times> uint32 \<times> uint32" where
  "moveTypeToOpcode t =
     (case t of
        MOVE_WALK \<Rightarrow> (SMSG_SPLINE_MOVE_SET_WALK_SPEED, SMSG_MOVE_SET_WALK_SPEED, SMSG_MOVE_UPDATE_WALK_SPEED)
      | MOVE_RUN \<Rightarrow> (SMSG_SPLINE_MOVE_SET_RUN_SPEED, SMSG_MOVE_SET_RUN_SPEED, SMSG_MOVE_UPDATE_RUN_SPEED)
      | MOVE_RUN_BACK \<Rightarrow> (SMSG_SPLINE_MOVE_SET_RUN_BACK_SPEED, SMSG_MOVE_SET_RUN_BACK_SPEED, SMSG_MOVE_UPDATE_RUN_BACK_SPEED)
      | MOVE_SWIM \<Rightarrow> (SMSG_SPLINE_MOVE_SET_SWIM_SPEED, SMSG_MOVE_SET_SWIM_SPEED, SMSG_MOVE_UPDATE_SWIM_SPEED)
      | MOVE_SWIM_BACK \<Rightarrow> (SMSG_SPLINE_MOVE_SET_SWIM_BACK_SPEED, SMSG_MOVE_SET_SWIM_BACK_SPEED, SMSG_MOVE_UPDATE_SWIM_BACK_SPEED)
      | MOVE_TURN_RATE \<Rightarrow> (SMSG_SPLINE_MOVE_SET_TURN_RATE, SMSG_MOVE_SET_TURN_RATE, SMSG_MOVE_UPDATE_TURN_RATE)
      | MOVE_FLIGHT \<Rightarrow> (SMSG_SPLINE_MOVE_SET_FLIGHT_SPEED, SMSG_MOVE_SET_FLIGHT_SPEED, SMSG_MOVE_UPDATE_FLIGHT_SPEED)
      | MOVE_FLIGHT_BACK \<Rightarrow> (SMSG_SPLINE_MOVE_SET_FLIGHT_BACK_SPEED, SMSG_MOVE_SET_FLIGHT_BACK_SPEED, SMSG_MOVE_UPDATE_FLIGHT_BACK_SPEED)
      | MOVE_PITCH_RATE \<Rightarrow> (SMSG_SPLINE_MOVE_SET_PITCH_RATE, SMSG_MOVE_SET_PITCH_RATE, SMSG_MOVE_UPDATE_PITCH_RATE))"

definition GetChangeTypeByMoveType :: "unit_move_type \<Rightarrow> change_type" where
  "GetChangeTypeByMoveType t =
     (case t of
        MOVE_WALK \<Rightarrow> SPEED_CHANGE_WALK
      | MOVE_RUN \<Rightarrow> SPEED_CHANGE_RUN
      | MOVE_RUN_BACK \<Rightarrow> SPEED_CHANGE_RUN_BACK
      | MOVE_SWIM \<Rightarrow> SPEED_CHANGE_SWIM
      | MOVE_SWIM_BACK \<Rightarrow> SPEED_CHANGE_SWIM_BACK
      | MOVE_TURN_RATE \<Rightarrow> RATE_CHANGE_TURN
      | MOVE_FLIGHT \<Rightarrow> SPEED_CHANGE_FLIGHT_SPEED
      | MOVE_FLIGHT_BACK \<Rightarrow> SPEED_CHANGE_FLIGHT_BACK_SPEED
      | MOVE_PITCH_RATE \<Rightarrow> RATE_CHANGE_PITCH)"

text \<open>Writing a packet and handing its bytes on; bits that were not flushed are not sent.\<close>

definition send_info ::
  "float_ops \<Rightarrow> (uint32 \<Rightarrow> uint8 list \<Rightarrow> move_effect) \<Rightarrow> moved_unit \<Rightarrow> uint32 \<Rightarrow> extra_element option \<Rightarrow> uint32 option
   \<Rightarrow> bb_error + move_effect list" where
  "send_info fl to u opcode x cnt =
     (case WriteMovementInfo fl (mu_mover u) opcode x cnt bb_new of
        (Inl e, _) \<Rightarrow> Inl e
      | (Inr _, b) \<Rightarrow> Inr [to opcode (storage b)])"

definition speed_extra :: "uint32 \<Rightarrow> extra_element" where
  "speed_extra v = (extra_new [MSEExtraFloat])\<lparr>x_float := v\<rparr>"

text \<open>The part the senders to the mover share: count, record as pending, write and send to the controller.\<close>

definition send_to_mover ::
  "float_ops \<Rightarrow> (pending_change \<Rightarrow> pending_change) \<Rightarrow> uint32 \<Rightarrow> change_type \<Rightarrow> uint32 \<Rightarrow> extra_element option
   \<Rightarrow> moved_unit \<Rightarrow> moved_unit move_result" where
  "send_to_mover fl val now t opcode x u =
     (case mu_client u of
        None \<Rightarrow> Inl AssertFailed
      | Some controller \<Rightarrow>
          let (mCounter, u1) = GetMovementCounterAndInc u;
              c = (val ((pending_new now)\<lparr>pc_counter := mCounter\<rparr>))\<lparr>pc_type := t\<rparr>;
              u2 = AssignPendingMovementChange t c u1
          in map_sum id (\<lambda>effs. (u2, effs)) (send_info fl (ToMover controller) u2 opcode x (Some mCounter)))"

definition SendSpeedChangeToMover ::
  "float_ops \<Rightarrow> uint32 \<Rightarrow> unit_move_type \<Rightarrow> uint32 \<Rightarrow> moved_unit \<Rightarrow> moved_unit move_result" where
  "SendSpeedChangeToMover fl now mtype newSpeedFlat =
     send_to_mover fl (pc_newValue_update (\<lambda>_. newSpeedFlat)) now (GetChangeTypeByMoveType mtype)
       (fst (snd (moveTypeToOpcode mtype))) (Some (speed_extra newSpeedFlat))"

definition SendHeightChangeToMover ::
  "float_ops \<Rightarrow> uint32 \<Rightarrow> uint32 \<Rightarrow> uint8 \<Rightarrow> moved_unit \<Rightarrow> moved_unit move_result" where
  "SendHeightChangeToMover fl now newHeight reason =
     send_to_mover fl (pc_newValue_update (\<lambda>_. newHeight)) now SET_COLLISION_HGT SMSG_MOVE_SET_COLLISION_HEIGHT
       (Some ((extra_new [MSEExtraTwoBits, MSEExtraFloat])\<lparr>x_float := newHeight, x_byte := reason\<rparr>))"

definition GetChangeTypeByMovementFlag :: "uint32 \<Rightarrow> change_type option" where
  "GetChangeTypeByMovementFlag mFlag =
     (if mFlag = MOVEMENTFLAG_CAN_FLY then Some SET_CAN_FLY
      else if mFlag = MOVEMENTFLAG_DISABLE_GRAVITY then Some GRAVITY_DISABLE
      else None)"

definition SendMovementFlagChangeToMover ::
  "float_ops \<Rightarrow> uint32 \<Rightarrow> uint32 \<Rightarrow> bool \<Rightarrow> moved_unit \<Rightarrow> moved_unit move_result" where
  "SendMovementFlagChangeToMover fl now mFlag apply u =
     (case GetChangeTypeByMovementFlag mFlag of
        None \<Rightarrow> Inl AssertFailed
      | Some t \<Rightarrow>
          send_to_mover fl (pc_apply_update (\<lambda>_. apply)) now t
            (if mFlag = MOVEMENTFLAG_CAN_FLY
             then (if apply then SMSG_MOVE_SET_CAN_FLY else SMSG_MOVE_UNSET_CAN_FLY)
             else (if apply then SMSG_MOVE_GRAVITY_DISABLE else SMSG_MOVE_GRAVITY_ENABLE)) None u)"

definition MOVEMENTFLAG2_CAN_SWIM_TO_FLY_TRANS :: uint16 where "MOVEMENTFLAG2_CAN_SWIM_TO_FLY_TRANS = 0x400"

definition SendMovementFlag2ChangeToMover ::
  "float_ops \<Rightarrow> uint32 \<Rightarrow> uint16 \<Rightarrow> bool \<Rightarrow> moved_unit \<Rightarrow> moved_unit move_result" where
  "SendMovementFlag2ChangeToMover fl now mFlag apply u =
     (if mFlag = MOVEMENTFLAG2_CAN_SWIM_TO_FLY_TRANS then
        send_to_mover fl (pc_apply_update (\<lambda>_. apply)) now SET_CAN_TRANSITION_BETWEEN_SWIM_AND_FLY
          (if apply then SMSG_MOVE_SET_CAN_TRANSITION_BETWEEN_SWIM_AND_FLY
           else SMSG_MOVE_UNSET_CAN_TRANSITION_BETWEEN_SWIM_AND_FLY) None u
      else Inl AssertFailed)"

definition SendSpeedChangeToObservers ::
  "float_ops \<Rightarrow> unit_move_type \<Rightarrow> uint32 \<Rightarrow> moved_unit \<Rightarrow> bb_error + move_effect list" where
  "SendSpeedChangeToObservers fl mtype newSpeedFlat u =
     (case mu_client u of
        None \<Rightarrow> Inl AssertFailed
      | Some c \<Rightarrow> send_info fl (ToObservers c) u (snd (snd (moveTypeToOpcode mtype))) (Some (speed_extra newSpeedFlat)) None)"

definition SendHeightChangeToObservers :: "float_ops \<Rightarrow> uint32 \<Rightarrow> moved_unit \<Rightarrow> bb_error + move_effect list" where
  "SendHeightChangeToObservers fl newHeight u =
     (case mu_client u of
        None \<Rightarrow> Inl AssertFailed
      | Some c \<Rightarrow> send_info fl (ToObservers c) u SMSG_MOVE_UPDATE_COLLISION_HEIGHT (Some (speed_extra newHeight)) None)"

definition SendMovementFlagChangeToObservers :: "float_ops \<Rightarrow> moved_unit \<Rightarrow> bb_error + move_effect list" where
  "SendMovementFlagChangeToObservers fl u =
     (case mu_client u of
        None \<Rightarrow> Inl AssertFailed
      | Some c \<Rightarrow> send_info fl (ToObservers c) u SMSG_MOVE_UPDATE None None)"

definition SendSpeedChangeToAll ::
  "float_ops \<Rightarrow> unit_move_type \<Rightarrow> uint32 \<Rightarrow> moved_unit \<Rightarrow> bb_error + move_effect list" where
  "SendSpeedChangeToAll fl mtype newSpeedFlat u =
     (case mu_client u of
        Some _ \<Rightarrow> Inl AssertFailed
      | None \<Rightarrow> send_info fl ToAll u (fst (moveTypeToOpcode mtype)) (Some (speed_extra newSpeedFlat)) None)"

text \<open>\<^verbatim>\<open>Movement::PacketSender\<close>: a player a client moves is told with one opcode, the others with another;
  for any other unit everybody gets the server's opcode. The extra elements start over in between.\<close>

definition PacketSender_Send ::
  "float_ops \<Rightarrow> uint32 \<Rightarrow> uint32 \<Rightarrow> uint32 \<Rightarrow> extra_element option \<Rightarrow> moved_unit \<Rightarrow> bb_error + move_effect list" where
  "PacketSender_Send fl serverControl playerControl broadcast x u =
     (let isPlayerMovement = mu_player u \<and> mu_client u \<noteq> None;
          selfOpcode = (if isPlayerMovement then playerControl else 0);
          bc = (if isPlayerMovement then broadcast else serverControl)
      in case (if isPlayerMovement \<and> selfOpcode \<noteq> 0 then send_info fl ToSelf u selfOpcode x None else Inr []) of
           Inl e \<Rightarrow> Inl e
         | Inr effs \<Rightarrow>
             if bc = 0 then Inr effs
             else map_sum id (\<lambda>effs'. effs @ effs')
               (send_info fl (if isPlayerMovement then ToOthers else ToAll) u bc (map_option ResetIndex x) None))"

section \<open>Speeds\<close>

definition SetSpeedRateReal :: "unit_move_type \<Rightarrow> uint32 \<Rightarrow> moved_unit \<Rightarrow> moved_unit \<times> move_effect list" where
  "SetSpeedRateReal mtype rate u =
     (u\<lparr>mu_speed_rate := (mu_speed_rate u)(mtype := rate)\<rparr>, if mu_pet u then [PetSetSpeedRate mtype rate] else [])"

definition SetSpeedRate ::
  "float_ops \<Rightarrow> speed_ops \<Rightarrow> uint32 \<Rightarrow> unit_move_type \<Rightarrow> uint32 \<Rightarrow> moved_unit \<Rightarrow> moved_unit move_result" where
  "SetSpeedRate fl sp now mtype rate0 u =
     (let rate = (if rate_negative sp rate0 then 0 else rate0) in
      if rate_eq sp (mu_speed_rate u mtype) rate then Inr (u, [])
      else
        let newSpeedFlat = to_flat sp (mu_player_controlled u) mtype rate in
        if mu_client u \<noteq> None \<and> mu_in_world u then
          (case SendSpeedChangeToMover fl now mtype newSpeedFlat u of
             Inl e \<Rightarrow> Inl e
           | Inr (u1, effs) \<Rightarrow> let (u2, effs') = SetSpeedRateReal mtype rate u1 in Inr (u2, effs @ effs'))
        else if mu_client u \<noteq> None then Inr (SetSpeedRateReal mtype rate u)
        else
          let (u1, effs) = SetSpeedRateReal mtype rate u
          in map_sum id (\<lambda>effs'. (u1, effs @ effs')) (SendSpeedChangeToAll fl mtype newSpeedFlat u1))"

section \<open>Movement flags\<close>

definition set_info :: "(movement_info \<Rightarrow> movement_info) \<Rightarrow> moved_unit \<Rightarrow> moved_unit" where
  "set_info f u = u\<lparr>mu_mover := (mu_mover u)\<lparr>u_info := f (u_info (mu_mover u))\<rparr>\<rparr>"

definition HasUnitMovementFlag :: "uint32 \<Rightarrow> moved_unit \<Rightarrow> bool" where
  "HasUnitMovementFlag f u = HasMovementFlag f (u_info (mu_mover u))"

definition HasExtraUnitMovementFlag :: "uint16 \<Rightarrow> moved_unit \<Rightarrow> bool" where
  "HasExtraUnitMovementFlag f u \<longleftrightarrow> mi_flags2 (u_info (mu_mover u)) AND f \<noteq> 0"

definition IsFlying :: "moved_unit \<Rightarrow> bool" where
  "IsFlying u = HasUnitMovementFlag (MOVEMENTFLAG_FLYING OR MOVEMENTFLAG_DISABLE_GRAVITY) u"

definition MOVEMENTFLAG_MASK_MOVING_FLY :: uint32 where
  "MOVEMENTFLAG_MASK_MOVING_FLY = MOVEMENTFLAG_FLYING OR MOVEMENTFLAG_ASCENDING OR MOVEMENTFLAG_DESCENDING"

definition SetFall :: "bool \<Rightarrow> moved_unit \<Rightarrow> moved_unit" where
  "SetFall enable u =
     (if enable = HasUnitMovementFlag MOVEMENTFLAG_FALLING u then u
      else if enable then
        set_info (\<lambda>mi. (AddMovementFlag MOVEMENTFLAG_FALLING mi)\<lparr>mi_jump := (mi_jump mi)\<lparr>fallTime := 0\<rparr>\<rparr>) u
      else set_info (RemoveMovementFlag (MOVEMENTFLAG_FALLING OR MOVEMENTFLAG_FALLING_FAR)) u)"

definition Unit_SetDisableGravity :: "bool \<Rightarrow> moved_unit \<Rightarrow> moved_unit" where
  "Unit_SetDisableGravity disable u =
     (if disable = HasUnitMovementFlag MOVEMENTFLAG_DISABLE_GRAVITY u then u
      else if disable then
        SetFall False
          (set_info (RemoveMovementFlag (MOVEMENTFLAG_SWIMMING OR MOVEMENTFLAG_SPLINE_ELEVATION))
            (set_info (AddMovementFlag MOVEMENTFLAG_DISABLE_GRAVITY) u))
      else
        let u1 = set_info (RemoveMovementFlag MOVEMENTFLAG_DISABLE_GRAVITY) u
        in if \<not> HasUnitMovementFlag MOVEMENTFLAG_CAN_FLY u1 then SetFall True u1 else u1)"

definition Unit_SetCanFly :: "bool \<Rightarrow> moved_unit \<Rightarrow> moved_unit" where
  "Unit_SetCanFly enable u =
     (if enable = HasUnitMovementFlag MOVEMENTFLAG_CAN_FLY u then u
      else if enable then
        SetFall False
          (set_info (RemoveMovementFlag (MOVEMENTFLAG_SWIMMING OR MOVEMENTFLAG_SPLINE_ELEVATION))
            (set_info (AddMovementFlag MOVEMENTFLAG_CAN_FLY) u))
      else
        let u1 = (if IsFlying u \<and> \<not> HasUnitMovementFlag MOVEMENTFLAG_DISABLE_GRAVITY u
                  then SetFall True u else u)
        in set_info (RemoveMovementFlag (MOVEMENTFLAG_CAN_FLY OR MOVEMENTFLAG_MASK_MOVING_FLY)) u1)"

definition Unit_SetCanTransitionBetweenSwimAndFly :: "bool \<Rightarrow> moved_unit \<Rightarrow> moved_unit" where
  "Unit_SetCanTransitionBetweenSwimAndFly enable u =
     (if enable = HasExtraUnitMovementFlag MOVEMENTFLAG2_CAN_SWIM_TO_FLY_TRANS u then u
      else set_info (\<lambda>mi. mi\<lparr>mi_flags2 :=
        (if enable then mi_flags2 mi OR MOVEMENTFLAG2_CAN_SWIM_TO_FLY_TRANS
         else mi_flags2 mi AND NOT MOVEMENTFLAG2_CAN_SWIM_TO_FLY_TRANS)\<rparr>) u)"

text \<open>The overrides of \<^verbatim>\<open>Player\<close>: ask the client first, then change the flags.\<close>

definition after_asking :: "moved_unit \<Rightarrow> (moved_unit \<Rightarrow> moved_unit move_result) \<Rightarrow> (moved_unit \<Rightarrow> moved_unit) \<Rightarrow> moved_unit move_result" where
  "after_asking u send f =
     (if mu_client u \<noteq> None \<and> mu_in_world u then map_sum id (map_prod f id) (send u) else Inr (f u, []))"

definition Player_SetDisableGravity :: "float_ops \<Rightarrow> uint32 \<Rightarrow> bool \<Rightarrow> moved_unit \<Rightarrow> moved_unit move_result" where
  "Player_SetDisableGravity fl now disable u =
     (if disable = HasUnitMovementFlag MOVEMENTFLAG_DISABLE_GRAVITY u then Inr (u, [])
      else after_asking u (SendMovementFlagChangeToMover fl now MOVEMENTFLAG_DISABLE_GRAVITY disable) (Unit_SetDisableGravity disable))"

definition Player_SetCanFly :: "float_ops \<Rightarrow> uint32 \<Rightarrow> bool \<Rightarrow> moved_unit \<Rightarrow> moved_unit move_result" where
  "Player_SetCanFly fl now enable u =
     (if enable = HasUnitMovementFlag MOVEMENTFLAG_CAN_FLY u then Inr (u, [])
      else after_asking u (SendMovementFlagChangeToMover fl now MOVEMENTFLAG_CAN_FLY enable) (Unit_SetCanFly enable))"

definition Player_SetCanTransitionBetweenSwimAndFly :: "float_ops \<Rightarrow> uint32 \<Rightarrow> bool \<Rightarrow> moved_unit \<Rightarrow> moved_unit move_result" where
  "Player_SetCanTransitionBetweenSwimAndFly fl now enable u =
     (if enable = HasExtraUnitMovementFlag MOVEMENTFLAG2_CAN_SWIM_TO_FLY_TRANS u then Inr (u, [])
      else after_asking u (SendMovementFlag2ChangeToMover fl now MOVEMENTFLAG2_CAN_SWIM_TO_FLY_TRANS enable)
        (Unit_SetCanTransitionBetweenSwimAndFly enable))"

definition SendMovementSetCollisionHeight :: "float_ops \<Rightarrow> uint32 \<Rightarrow> uint32 \<Rightarrow> uint8 \<Rightarrow> moved_unit \<Rightarrow> moved_unit move_result" where
  "SendMovementSetCollisionHeight fl now height reason u =
     after_asking u (SendHeightChangeToMover fl now height reason) (\<lambda>u. u)"

section \<open>Purging the pending changes\<close>

definition move_type_of_change :: "change_type \<Rightarrow> unit_move_type option" where
  "move_type_of_change t =
     (case t of
        SPEED_CHANGE_WALK \<Rightarrow> Some MOVE_WALK
      | SPEED_CHANGE_RUN \<Rightarrow> Some MOVE_RUN
      | SPEED_CHANGE_RUN_BACK \<Rightarrow> Some MOVE_RUN_BACK
      | SPEED_CHANGE_SWIM \<Rightarrow> Some MOVE_SWIM
      | SPEED_CHANGE_SWIM_BACK \<Rightarrow> Some MOVE_SWIM_BACK
      | RATE_CHANGE_TURN \<Rightarrow> Some MOVE_TURN_RATE
      | SPEED_CHANGE_FLIGHT_SPEED \<Rightarrow> Some MOVE_FLIGHT
      | SPEED_CHANGE_FLIGHT_BACK_SPEED \<Rightarrow> Some MOVE_FLIGHT_BACK
      | RATE_CHANGE_PITCH \<Rightarrow> Some MOVE_PITCH_RATE
      | _ \<Rightarrow> None)"

definition apply_pending ::
  "float_ops \<Rightarrow> speed_ops \<Rightarrow> bool \<Rightarrow> pending_change \<Rightarrow> moved_unit \<Rightarrow> moved_unit move_result" where
  "apply_pending fl sp informObservers c u =
     (case move_type_of_change (pc_type c) of
        Some mt \<Rightarrow>
          let speedFlat = pc_newValue c;
              (u1, effs) = SetSpeedRateReal mt (to_rate sp (mu_player_controlled u) mt speedFlat) u
          in if informObservers
             then map_sum id (\<lambda>effs'. (u1, effs @ effs')) (SendSpeedChangeToObservers fl mt speedFlat u1)
             else Inr (u1, effs)
      | None \<Rightarrow>
          let flag = (\<lambda>u1. if informObservers
                           then map_sum id (\<lambda>effs. (u1, effs)) (SendMovementFlagChangeToObservers fl u1)
                           else Inr (u1, []))
          in (case pc_type c of
                GRAVITY_DISABLE \<Rightarrow> flag (Unit_SetDisableGravity (pc_apply c) u)
              | SET_CAN_FLY \<Rightarrow> flag (Unit_SetCanFly (pc_apply c) u)
              | SET_CAN_TRANSITION_BETWEEN_SWIM_AND_FLY \<Rightarrow> flag (Unit_SetCanTransitionBetweenSwimAndFly (pc_apply c) u)
              | SET_COLLISION_HGT \<Rightarrow> Inr (u, [])
              | _ \<Rightarrow> Inl AssertFailed))"

fun purge_loop ::
  "float_ops \<Rightarrow> speed_ops \<Rightarrow> bool \<Rightarrow> (change_type \<times> pending_change) list \<Rightarrow> moved_unit \<Rightarrow> moved_unit move_result" where
  "purge_loop fl sp informObservers [] u = Inr (u, [])"
| "purge_loop fl sp informObservers ((k, c) # cs) u =
     (case apply_pending fl sp informObservers c u of
        Inl e \<Rightarrow> Inl e
      | Inr (u1, effs) \<Rightarrow> map_sum id (map_prod id (\<lambda>effs'. effs @ effs')) (purge_loop fl sp informObservers cs u1))"

definition PurgeAndApplyPendingMovementChanges ::
  "float_ops \<Rightarrow> speed_ops \<Rightarrow> bool \<Rightarrow> moved_unit \<Rightarrow> moved_unit move_result" where
  "PurgeAndApplyPendingMovementChanges fl sp informObservers u =
     map_sum id (map_prod (mu_pending_update (\<lambda>_. [])) id) (purge_loop fl sp informObservers (mu_pending u) u)"

end
