(* ===== verification/Movement_Ack.thy ===== *)
theory Movement_Ack
  imports Movement_Change
begin

text \<open>
  The clients that move units (\<^verbatim>\<open>src/src/server/game/Server/GameClient.cpp\<close>) and the handlers of their
  acknowledgements (\<^verbatim>\<open>Handlers/MovementHandler.cpp\<close>), over the changes of \<open>Movement_Change\<close>.
\<close>

section \<open>Clients\<close>

text \<open>The units the object accessor finds, and for every client the identifiers of the units it may move
  (\<^verbatim>\<open>_allowedMovers\<close>) and the one it moves actively.\<close>

record move_world =
  mw_units :: "guid \<rightharpoonup> moved_unit"
  mw_allowed :: "client_id \<Rightarrow> guid set"
  mw_active :: "client_id \<Rightarrow> guid option"

type_synonym world_result = "move_world move_result"

definition put_unit :: "guid \<Rightarrow> moved_unit \<Rightarrow> move_world \<Rightarrow> move_world" where
  "put_unit g u w = w\<lparr>mw_units := (mw_units w)(g \<mapsto> u)\<rparr>"

text \<open>Running an operation on a unit; a missing unit is a null pointer.\<close>

definition on_unit :: "guid \<Rightarrow> (moved_unit \<Rightarrow> moved_unit move_result) \<Rightarrow> move_world \<Rightarrow> world_result" where
  "on_unit g f w =
     (case mw_units w g of
        None \<Rightarrow> Inl UndefinedBehaviour
      | Some u \<Rightarrow> map_sum id (map_prod (\<lambda>u'. put_unit g u' w) id) (f u))"

definition IsAllowedToMove :: "client_id \<Rightarrow> guid \<Rightarrow> move_world \<Rightarrow> bool" where
  "IsAllowedToMove c g w \<longleftrightarrow> g \<in> mw_allowed w c"

definition AddAllowedMover :: "client_id \<Rightarrow> guid \<Rightarrow> move_world \<Rightarrow> world_result" where
  "AddAllowedMover c g w =
     (case mw_units w g of
        None \<Rightarrow> Inl UndefinedBehaviour
      | Some u \<Rightarrow>
          if mu_client u \<noteq> None \<and> mu_client u \<noteq> Some c then Inl AssertFailed
          else Inr (put_unit g (u\<lparr>mu_client := Some c\<rparr>)
                      (w\<lparr>mw_allowed := (mw_allowed w)(c := insert g (mw_allowed w c))\<rparr>), []))"

definition RemoveAllowedMover :: "float_ops \<Rightarrow> speed_ops \<Rightarrow> client_id \<Rightarrow> guid \<Rightarrow> move_world \<Rightarrow> world_result" where
  "RemoveAllowedMover fl sp c g w =
     (case mw_units w g of
        None \<Rightarrow> Inl UndefinedBehaviour
      | Some u \<Rightarrow>
          (case PurgeAndApplyPendingMovementChanges fl sp True u of
             Inl e \<Rightarrow> Inl e
           | Inr (u1, effs) \<Rightarrow>
               let w1 = w\<lparr>mw_allowed := (mw_allowed w)(c := mw_allowed w c - {g})\<rparr>
               in if mu_client u1 = Some c
                  then Inr (put_unit g (u1\<lparr>mu_client := None\<rparr>) (w1\<lparr>mw_active := (mw_active w1)(c := None)\<rparr>), effs)
                  else Inr (put_unit g u1 w1, effs)))"

definition SetMovedUnit :: "float_ops \<Rightarrow> speed_ops \<Rightarrow> client_id \<Rightarrow> guid \<Rightarrow> bool \<Rightarrow> move_world \<Rightarrow> world_result" where
  "SetMovedUnit fl sp c target allowMove w =
     (if allowMove then AddAllowedMover c target w else RemoveAllowedMover fl sp c target w)"

section \<open>Acknowledgements\<close>

text \<open>The packet read, the unit it names looked up, and the pending change of the given type handed to
  \<open>act\<close> when the client may move that unit and the counter is the expected one. Every other
  acknowledgement is ignored.\<close>

definition with_ack ::
  "float_ops \<Rightarrow> move_env \<Rightarrow> client_id \<Rightarrow> uint32 \<Rightarrow> mse list \<Rightarrow> byte_buffer \<Rightarrow> change_type option
   \<Rightarrow> (pending_change \<Rightarrow> movement_info \<Rightarrow> extra_element option \<Rightarrow> moved_unit \<Rightarrow> moved_unit move_result) \<Rightarrow> move_world \<Rightarrow> world_result" where
  "with_ack fl env cl opcode xs packet t act w =
     (case ReadMovementInfo fl env opcode (MovementInfo_new fl) (handler_extras xs) packet of
        (Inl e, _) \<Rightarrow> Inl e
      | (Inr (mi, x), _) \<Rightarrow>
          if \<not> IsAllowedToMove cl (mi_guid mi) w then Inr (w, [])
          else (case t of
             None \<Rightarrow> Inr (w, [])
           | Some changeType \<Rightarrow>
               on_unit (mi_guid mi) (\<lambda>mover.
                 case GetPendingMovementChange changeType mover of
                   None \<Rightarrow> Inr (mover, [])
                 | Some c \<Rightarrow> if pc_counter c \<noteq> mi_counter mi then Inr (mover, []) else act c mi x mover) w))"

definition extra_float :: "extra_element option \<Rightarrow> uint32" where
  "extra_float x = (case x of None \<Rightarrow> 0 | Some y \<Rightarrow> x_float y)"

definition ack_move_type :: "uint32 \<Rightarrow> unit_move_type option" where
  "ack_move_type opcode =
     (if opcode = CMSG_MOVE_FORCE_WALK_SPEED_CHANGE_ACK then Some MOVE_WALK
      else if opcode = CMSG_MOVE_FORCE_RUN_SPEED_CHANGE_ACK then Some MOVE_RUN
      else if opcode = CMSG_MOVE_FORCE_RUN_BACK_SPEED_CHANGE_ACK then Some MOVE_RUN_BACK
      else if opcode = CMSG_MOVE_FORCE_SWIM_SPEED_CHANGE_ACK then Some MOVE_SWIM
      else if opcode = CMSG_MOVE_FORCE_SWIM_BACK_SPEED_CHANGE_ACK then Some MOVE_SWIM_BACK
      else if opcode = CMSG_MOVE_FORCE_TURN_RATE_CHANGE_ACK then Some MOVE_TURN_RATE
      else if opcode = CMSG_MOVE_FORCE_FLIGHT_SPEED_CHANGE_ACK then Some MOVE_FLIGHT
      else if opcode = CMSG_MOVE_FORCE_FLIGHT_BACK_SPEED_CHANGE_ACK then Some MOVE_FLIGHT_BACK
      else if opcode = CMSG_MOVE_FORCE_PITCH_RATE_CHANGE_ACK then Some MOVE_PITCH_RATE
      else None)"

definition HandleForceSpeedChangeAck ::
  "float_ops \<Rightarrow> speed_ops \<Rightarrow> move_env \<Rightarrow> client_id \<Rightarrow> uint32 \<Rightarrow> byte_buffer \<Rightarrow> move_world \<Rightarrow> world_result" where
  "HandleForceSpeedChangeAck fl sp env cl opcode packet =
     with_ack fl env cl opcode speedElement packet (map_option GetChangeTypeByMoveType (ack_move_type opcode))
       (\<lambda>c mi x mover.
          let speedReceived = extra_float x; speedSent = pc_newValue c in
          if speeds_differ sp speedSent speedReceived then Inr (mover, [KickPlayer cl])
          else map_sum id (\<lambda>effs. (ClearPendingMovementChangeForType (GetChangeTypeByMoveType (the (ack_move_type opcode))) mover, effs))
                 (SendSpeedChangeToObservers fl (the (ack_move_type opcode)) speedSent mover))"

definition tell_and_clear :: "float_ops \<Rightarrow> change_type \<Rightarrow> moved_unit \<Rightarrow> moved_unit move_result" where
  "tell_and_clear fl t mover =
     map_sum id (\<lambda>effs. (ClearPendingMovementChangeForType t mover, effs)) (SendMovementFlagChangeToObservers fl mover)"

definition HandleMoveSetCanTransitionBetweenSwinAndFlyAck ::
  "float_ops \<Rightarrow> move_env \<Rightarrow> client_id \<Rightarrow> uint32 \<Rightarrow> byte_buffer \<Rightarrow> move_world \<Rightarrow> world_result" where
  "HandleMoveSetCanTransitionBetweenSwinAndFlyAck fl env cl opcode packet =
     with_ack fl env cl opcode [] packet (Some SET_CAN_TRANSITION_BETWEEN_SWIM_AND_FLY)
       (\<lambda>c mi x. tell_and_clear fl SET_CAN_TRANSITION_BETWEEN_SWIM_AND_FLY)"

definition HandleMoveGravityDisableAck ::
  "float_ops \<Rightarrow> move_env \<Rightarrow> client_id \<Rightarrow> uint32 \<Rightarrow> byte_buffer \<Rightarrow> move_world \<Rightarrow> world_result" where
  "HandleMoveGravityDisableAck fl env cl opcode packet =
     with_ack fl env cl opcode [] packet (Some GRAVITY_DISABLE)
       (\<lambda>c mi x mover.
          if pc_apply c \<noteq> (opcode = CMSG_MOVE_GRAVITY_DISABLE_ACK) then Inr (mover, [KickPlayer cl])
          else tell_and_clear fl GRAVITY_DISABLE mover)"

definition HandleSetCollisionHeightAck ::
  "float_ops \<Rightarrow> speed_ops \<Rightarrow> move_env \<Rightarrow> client_id \<Rightarrow> uint32 \<Rightarrow> byte_buffer \<Rightarrow> move_world \<Rightarrow> world_result" where
  "HandleSetCollisionHeightAck fl sp env cl opcode packet =
     with_ack fl env cl opcode extraElements packet (Some SET_COLLISION_HGT)
       (\<lambda>c mi x mover.
          if speeds_differ sp (pc_newValue c) (extra_float x) then Inr (mover, [KickPlayer cl])
          else map_sum id (\<lambda>effs. (mover, effs)) (SendHeightChangeToObservers fl (pc_newValue c) mover))"

text \<open>The movement time computed by \<^verbatim>\<open>HandleMoveSetCanFlyAckOpcode\<close> is stored in the local copy of the
  movement information only and not used.\<close>

definition HandleMoveSetCanFlyAckOpcode ::
  "float_ops \<Rightarrow> move_env \<Rightarrow> client_id \<Rightarrow> uint32 \<Rightarrow> byte_buffer \<Rightarrow> move_world \<Rightarrow> world_result" where
  "HandleMoveSetCanFlyAckOpcode fl env cl opcode packet =
     with_ack fl env cl opcode [] packet (Some SET_CAN_FLY) (\<lambda>c mi x. tell_and_clear fl SET_CAN_FLY)"

text \<open>The registration of these handlers in \<^verbatim>\<open>Server/Protocol/Opcodes.cpp\<close>.\<close>

definition speed_acks :: "uint32 list" where
  "speed_acks =
     [CMSG_MOVE_FORCE_FLIGHT_BACK_SPEED_CHANGE_ACK, CMSG_MOVE_FORCE_FLIGHT_SPEED_CHANGE_ACK,
      CMSG_MOVE_FORCE_PITCH_RATE_CHANGE_ACK, CMSG_MOVE_FORCE_RUN_BACK_SPEED_CHANGE_ACK,
      CMSG_MOVE_FORCE_RUN_SPEED_CHANGE_ACK, CMSG_MOVE_FORCE_SWIM_BACK_SPEED_CHANGE_ACK,
      CMSG_MOVE_FORCE_SWIM_SPEED_CHANGE_ACK, CMSG_MOVE_FORCE_TURN_RATE_CHANGE_ACK,
      CMSG_MOVE_FORCE_WALK_SPEED_CHANGE_ACK]"

definition handle_ack ::
  "float_ops \<Rightarrow> speed_ops \<Rightarrow> move_env \<Rightarrow> client_id \<Rightarrow> uint32 \<Rightarrow> byte_buffer \<Rightarrow> move_world \<Rightarrow> world_result" where
  "handle_ack fl sp env cl opcode packet w =
     (if opcode \<in> set speed_acks then HandleForceSpeedChangeAck fl sp env cl opcode packet w
      else if opcode = CMSG_MOVE_GRAVITY_DISABLE_ACK \<or> opcode = CMSG_MOVE_GRAVITY_ENABLE_ACK
        then HandleMoveGravityDisableAck fl env cl opcode packet w
      else if opcode = CMSG_MOVE_SET_CAN_FLY_ACK then HandleMoveSetCanFlyAckOpcode fl env cl opcode packet w
      else if opcode = CMSG_MOVE_SET_CAN_TRANSITION_BETWEEN_SWIM_AND_FLY_ACK
        then HandleMoveSetCanTransitionBetweenSwinAndFlyAck fl env cl opcode packet w
      else if opcode = CMSG_MOVE_SET_COLLISION_HEIGHT_ACK then HandleSetCollisionHeightAck fl sp env cl opcode packet w
      else Inr (w, []))"

end
