(* ===== verification/Movement_Senders.thy ===== *)
theory Movement_Senders
  imports Movement_Change
begin

text \<open>
  The packets the server sends for movement changes can always be written: every layout they use can be
  followed by the writer with the extra elements the senders pass, and stays far below the size limit of
  the buffer. What each sender of \<open>Movement_Change\<close> returns follows.
\<close>

section \<open>The writer never fails\<close>

text \<open>A layout the writer can follow with the given extra elements.\<close>

fun writable :: "mse list \<Rightarrow> mse list \<Rightarrow> bool" where
  "writable [] xs \<longleftrightarrow> False"
| "writable (e # es) xs \<longleftrightarrow>
     (if e = MSEEnd then True
      else if e = MSEExtraElement then (case xs of [] \<Rightarrow> False | y # ys \<Rightarrow> xneeds y \<noteq> None \<and> writable es ys)
      else (needs e \<noteq> None \<or> e = MSEFlushBits) \<and> writable es xs)"

definition grows :: "nat \<Rightarrow> 'a bb \<Rightarrow> bool" where
  "grows n act \<longleftrightarrow> (\<forall>b. wr_ok b \<longrightarrow> length (wbits b) + n < 79000000 \<longrightarrow>
     (\<exists>v b'. act b = (Inr v, b') \<and> wr_ok b' \<and> length (wbits b') \<le> length (wbits b) + n))"

lemma grows_bind: "grows n act \<Longrightarrow> (\<And>v. grows m (f v)) \<Longrightarrow> grows (n + m) (bind act f)"
  unfolding grows_def by (fastforce simp: bind_def)

lemma grows_ret [simp]: "grows n (ret v)"
  by (auto simp: grows_def)

lemma grows_le: "grows n act \<Longrightarrow> n \<le> m \<Longrightarrow> grows m act"
  unfolding grows_def by (meson add_le_mono le_refl le_trans order.strict_trans1)

lemma grows_toks: "\<forall>t \<in> set ts. tok_ok t \<Longrightarrow> grows (72 * length ts) (write_toks ts)"
  using write_toks_stream unfolding grows_def by blast

lemma grows_Flush: "grows 8 FlushBits"
  unfolding grows_def
proof (intro allI impI)
  fix b assume b: "wr_ok b" "length (wbits b) + 8 < 79000000"
  then have "length (storage b) < 10000000" using wbits_length [OF b(1)] by simp
  from FlushBits_wbits [OF b(1) this] b(1)
  show "\<exists>v b'. FlushBits b = (Inr v, b') \<and> wr_ok b' \<and> length (wbits b') \<le> length (wbits b) + 8"
    by (fastforce simp: wr_ok_def)
qed

lemma grows_element: "needs e \<noteq> None \<or> e = MSEFlushBits \<Longrightarrow> grows 2304 (write_element fl u cnt e)"
proof (cases "e = MSEFlushBits")
  case True
  then show ?thesis using grows_le [OF grows_Flush, of 2304] by simp
next
  case False
  moreover assume "needs e \<noteq> None \<or> e = MSEFlushBits"
  ultimately have "write_element fl u cnt e = write_toks (toks_of fl u cnt e)" using write_element_toks by blast
  moreover have "grows (72 * length (toks_of fl u cnt e)) (write_toks (toks_of fl u cnt e))"
    using grows_toks toks_of_ok(1) by blast
  ultimately show ?thesis using grows_le toks_of_ok(2) [of fl u cnt e] by fastforce
qed

lemma grows_extra: "xneeds e \<noteq> None \<Longrightarrow> grows 2304 (write_extra e x)"
proof -
  assume "xneeds e \<noteq> None"
  then have "write_extra e x = write_toks (toks_extra x e)" using write_extra_toks by blast
  moreover have "grows (72 * length (toks_extra x e)) (write_toks (toks_extra x e))"
    using grows_toks toks_extra_ok(1) by blast
  ultimately show ?thesis using grows_le toks_extra_ok(2) [of x e] by fastforce
qed

lemma grows_sequence:
  "writable seq xs \<Longrightarrow> extras_left x xs \<Longrightarrow> grows (2304 * length seq) (write_sequence fl u cnt seq x)"
proof (induction seq arbitrary: xs x)
  case (Cons e seq)
  have s: "2304 * length (e # seq) = 2304 + 2304 * length seq" by simp
  consider "e = MSEEnd" | "e = MSEExtraElement" | "e \<noteq> MSEEnd" "e \<noteq> MSEExtraElement" by blast
  then show ?case
  proof cases
    case 1
    then show ?thesis by (simp del: ret_apply)
  next
    case 2
    then obtain y ys where xs: "xs = y # ys" "xneeds y \<noteq> None" "writable seq ys"
      using Cons.prems(1) by (auto split: list.splits)
    then obtain z where z: "x = Some z" "drop (x_index z) (x_elements z) = y # ys"
      using Cons.prems(2) by (cases x) auto
    from drop_Cons_conv [OF z(2)] have d: "x_index z < length (x_elements z)" "x_elements z ! x_index z = y"
      "drop (Suc (x_index z)) (x_elements z) = ys" by auto
    let ?z = "z\<lparr>x_index := Suc (x_index z)\<rparr>"
    have "grows (2304 * length seq) (write_sequence fl u cnt seq (Some ?z))"
      using Cons.IH [OF xs(3), of "Some ?z"] d(3) by simp
    moreover have "write_sequence fl u cnt (e # seq) x = bind (write_extra y z) (\<lambda>_. write_sequence fl u cnt seq (Some ?z))"
      using 2 z(1) d(1,2) by (simp add: WriteNextElement_def bind_assoc del: ret_apply)
    ultimately show ?thesis unfolding s using grows_bind [OF grows_extra [OF xs(2)]] by simp
  next
    case 3
    then show ?thesis unfolding s using Cons.prems Cons.IH [of xs x]
      by (simp del: ret_apply) (blast intro: grows_bind grows_element)
  qed
qed simp

definition can_write :: "uint32 \<Rightarrow> mse list \<Rightarrow> bool" where
  "can_write opcode xs \<longleftrightarrow>
     (case GetMovementStatusElementsSequence opcode of
        None \<Rightarrow> True
      | Some seq \<Rightarrow> writable seq xs \<and> length seq \<le> 1000)"

lemma WriteMovementInfo_writes:
  assumes "can_write opcode xs" "extras_left x xs"
  shows "\<exists>x' b. WriteMovementInfo fl u opcode x cnt bb_new = (Inr x', b)"
proof (cases "GetMovementStatusElementsSequence opcode")
  case None
  then show ?thesis by (simp add: WriteMovementInfo_def)
next
  case (Some seq)
  then have "grows (2304 * length seq) (write_sequence fl u cnt seq x)" "length seq \<le> 1000"
    using assms grows_sequence by (auto simp: can_write_def)
  moreover have "wr_ok bb_new" "wbits bb_new = []" by (simp_all add: wr_ok_def wbits_def bb_new_def InitialBitPos_def)
  ultimately show ?thesis using Some unfolding grows_def by (fastforce simp: WriteMovementInfo_def)
qed


section \<open>The packets the server sends for changes\<close>

definition all_move_types :: "unit_move_type list" where
  "all_move_types =
     [MOVE_WALK, MOVE_RUN, MOVE_RUN_BACK, MOVE_SWIM, MOVE_SWIM_BACK, MOVE_TURN_RATE, MOVE_FLIGHT, MOVE_FLIGHT_BACK, MOVE_PITCH_RATE]"

lemma all_move_types: "t \<in> set all_move_types"
  by (cases t) (simp_all add: all_move_types_def)

lemma spline_opcodes_writable: "list_all (\<lambda>t. can_write (fst (moveTypeToOpcode t)) speedElement) all_move_types"
  by code_simp

lemma mover_opcodes_writable: "list_all (\<lambda>t. can_write (fst (snd (moveTypeToOpcode t))) speedElement) all_move_types"
  by code_simp

lemma update_opcodes_writable: "list_all (\<lambda>t. can_write (snd (snd (moveTypeToOpcode t))) speedElement) all_move_types"
  by code_simp

lemma speed_opcodes_writable:
  "can_write (fst (moveTypeToOpcode t)) speedElement" "can_write (fst (snd (moveTypeToOpcode t))) speedElement"
  "can_write (snd (snd (moveTypeToOpcode t))) speedElement"
  using spline_opcodes_writable mover_opcodes_writable update_opcodes_writable all_move_types
  by (auto simp: list_all_iff)

lemma flag_opcodes_writable:
  "list_all (\<lambda>op. can_write op [])
    [SMSG_MOVE_UPDATE, SMSG_MOVE_SET_CAN_FLY, SMSG_MOVE_UNSET_CAN_FLY, SMSG_MOVE_GRAVITY_DISABLE, SMSG_MOVE_GRAVITY_ENABLE,
     SMSG_MOVE_SET_CAN_TRANSITION_BETWEEN_SWIM_AND_FLY, SMSG_MOVE_UNSET_CAN_TRANSITION_BETWEEN_SWIM_AND_FLY]"
  by code_simp

lemma height_opcodes_writable:
  "can_write SMSG_MOVE_SET_COLLISION_HEIGHT [MSEExtraTwoBits, MSEExtraFloat]"
  "can_write SMSG_MOVE_UPDATE_COLLISION_HEIGHT speedElement"
  by code_simp+

lemma send_info_writes:
  assumes "can_write opcode xs" "extras_left x xs"
  shows "\<exists>bytes. send_info fl to u opcode x cnt = Inr [to opcode bytes]"
  using WriteMovementInfo_writes [OF assms, of fl "mu_mover u" cnt] by (auto simp: send_info_def)

lemma extras_left_new:
  "extras_left (Some (speed_extra v)) speedElement"
  "extras_left (Some ((extra_new xs)\<lparr>x_float := v, x_byte := r\<rparr>)) xs"
  by (simp_all add: speed_extra_def speedElement_def extra_new_def)

lemma SendSpeedChangeToObservers_writes:
  "mu_client u = Some c \<Longrightarrow>
    \<exists>bytes. SendSpeedChangeToObservers fl t v u = Inr [ToObservers c (snd (snd (moveTypeToOpcode t))) bytes]"
  unfolding SendSpeedChangeToObservers_def by (simp, rule send_info_writes [OF speed_opcodes_writable(3) extras_left_new(1)])

lemma SendHeightChangeToObservers_writes:
  "mu_client u = Some c \<Longrightarrow>
    \<exists>bytes. SendHeightChangeToObservers fl v u = Inr [ToObservers c SMSG_MOVE_UPDATE_COLLISION_HEIGHT bytes]"
  unfolding SendHeightChangeToObservers_def by (simp, rule send_info_writes [OF height_opcodes_writable(2) extras_left_new(1)])

lemma SendMovementFlagChangeToObservers_writes:
  "mu_client u = Some c \<Longrightarrow> \<exists>bytes. SendMovementFlagChangeToObservers fl u = Inr [ToObservers c SMSG_MOVE_UPDATE bytes]"
  using flag_opcodes_writable unfolding SendMovementFlagChangeToObservers_def by (simp add: send_info_writes [where xs = "[]"])

lemma SendSpeedChangeToAll_writes:
  "mu_client u = None \<Longrightarrow> \<exists>bytes. SendSpeedChangeToAll fl t v u = Inr [ToAll (fst (moveTypeToOpcode t)) bytes]"
  unfolding SendSpeedChangeToAll_def by (simp, rule send_info_writes [OF speed_opcodes_writable(1) extras_left_new(1)])

text \<open>What a sender to the mover leaves behind.\<close>

definition asked :: "(pending_change \<Rightarrow> pending_change) \<Rightarrow> uint32 \<Rightarrow> change_type \<Rightarrow> moved_unit \<Rightarrow> moved_unit" where
  "asked val now t u =
     AssignPendingMovementChange t ((val ((pending_new now)\<lparr>pc_counter := mu_counter u\<rparr>))\<lparr>pc_type := t\<rparr>)
       (u\<lparr>mu_counter := mu_counter u + 1\<rparr>)"

lemma send_to_mover_writes:
  assumes "can_write opcode xs" "extras_left x xs" "mu_client u = Some c"
  shows "\<exists>bytes. send_to_mover fl val now t opcode x u = Inr (asked val now t u, [ToMover c opcode bytes])"
  using send_info_writes [OF assms(1,2), of fl "ToMover c" "asked val now t u" "Some (mu_counter u)"] assms(3)
  by (auto simp: send_to_mover_def GetMovementCounterAndInc_def asked_def Let_def)

lemma SendSpeedChangeToMover_writes:
  "mu_client u = Some c \<Longrightarrow> \<exists>bytes. SendSpeedChangeToMover fl now t v u =
    Inr (asked (pc_newValue_update (\<lambda>_. v)) now (GetChangeTypeByMoveType t) u, [ToMover c (fst (snd (moveTypeToOpcode t))) bytes])"
  unfolding SendSpeedChangeToMover_def by (rule send_to_mover_writes [OF speed_opcodes_writable(2) extras_left_new(1)])

lemma SendHeightChangeToMover_writes:
  "mu_client u = Some c \<Longrightarrow> \<exists>bytes. SendHeightChangeToMover fl now v r u =
    Inr (asked (pc_newValue_update (\<lambda>_. v)) now SET_COLLISION_HGT u, [ToMover c SMSG_MOVE_SET_COLLISION_HEIGHT bytes])"
  unfolding SendHeightChangeToMover_def by (rule send_to_mover_writes [OF height_opcodes_writable(1) extras_left_new(2)])

lemma SendMovementFlagChangeToMover_writes:
  assumes "mu_client u = Some c" "GetChangeTypeByMovementFlag f = Some t"
  shows "\<exists>opcode bytes. SendMovementFlagChangeToMover fl now f apply u =
    Inr (asked (pc_apply_update (\<lambda>_. apply)) now t u, [ToMover c opcode bytes])"
  using assms flag_opcodes_writable send_to_mover_writes [where xs = "[]" and x = None, OF _ _ assms(1)]
  unfolding SendMovementFlagChangeToMover_def by simp blast

lemma SendMovementFlag2ChangeToMover_writes:
  assumes "mu_client u = Some c"
  shows "\<exists>opcode bytes. SendMovementFlag2ChangeToMover fl now MOVEMENTFLAG2_CAN_SWIM_TO_FLY_TRANS apply u =
    Inr (asked (pc_apply_update (\<lambda>_. apply)) now SET_CAN_TRANSITION_BETWEEN_SWIM_AND_FLY u, [ToMover c opcode bytes])"
  using assms flag_opcodes_writable send_to_mover_writes [where xs = "[]" and x = None, OF _ _ assms(1)]
  unfolding SendMovementFlag2ChangeToMover_def by simp blast

end
