(* ===== verification/Movement_Ack_Props.thy ===== *)
theory Movement_Ack_Props
  imports Movement_Ack Movement_Senders
begin

text \<open>
  What holds of movement changes and their acknowledgements: an honest client's acknowledgement completes
  the change, a client can neither crash the server nor change anything but its own pending changes with an
  acknowledgement, and which changes can never be completed.
\<close>

section \<open>Units keep their pending changes in order\<close>

definition supported_change :: "change_type \<Rightarrow> bool" where
  "supported_change t \<longleftrightarrow> move_type_of_change t \<noteq> None
     \<or> t \<in> {GRAVITY_DISABLE, SET_CAN_FLY, SET_CAN_TRANSITION_BETWEEN_SWIM_AND_FLY, SET_COLLISION_HGT}"

definition unit_ok :: "moved_unit \<Rightarrow> bool" where
  "unit_ok u \<longleftrightarrow> distinct (map fst (mu_pending u))
     \<and> (\<forall>(k, c) \<in> set (mu_pending u). pc_type c = k \<and> supported_change k)
     \<and> (mu_pending u \<noteq> [] \<longrightarrow> mu_client u \<noteq> None)"

lemma speed_supported [simp]: "supported_change (GetChangeTypeByMoveType t)"
  by (cases t) (simp_all add: supported_change_def GetChangeTypeByMoveType_def move_type_of_change_def)

lemma flag_supported: "GetChangeTypeByMovementFlag f = Some t \<Longrightarrow> supported_change t"
  by (auto simp: GetChangeTypeByMovementFlag_def supported_change_def split: if_splits)

lemma asked_ok:
  assumes "unit_ok u" "supported_change t" "mu_client u \<noteq> None"
  shows "unit_ok (asked val now t u)" "mu_client (asked val now t u) = mu_client u"
proof -
  have m: "map (fst \<circ> (\<lambda>(k, v). (k, if k = t then c else v))) xs = map fst xs" for c :: pending_change and xs
    by (simp add: comp_def case_prod_beta)
  show "unit_ok (asked val now t u)"
  proof (cases "t \<in> fst ` set (mu_pending u)")
    case True
    then show ?thesis using assms unfolding unit_ok_def asked_def AssignPendingMovementChange_def by (auto simp: m simp del: comp_apply split: if_splits)
  next
    case False
    then show ?thesis using assms unfolding unit_ok_def asked_def AssignPendingMovementChange_def by auto
  qed
qed (simp add: asked_def AssignPendingMovementChange_def)

lemma Clear_ok:
  assumes "unit_ok u"
  shows "unit_ok (ClearPendingMovementChangeForType t u)"
proof -
  have "map fst (filter (\<lambda>(k, _). k \<noteq> t) xs) = filter (\<lambda>k. k \<noteq> t) (map fst xs)" for xs :: "(change_type \<times> pending_change) list"
    by (induction xs) auto
  moreover have "filter (\<lambda>(k, _). k \<noteq> t) (mu_pending u) \<noteq> [] \<Longrightarrow> mu_pending u \<noteq> []" by auto
  ultimately show ?thesis using assms by (auto simp: unit_ok_def ClearPendingMovementChangeForType_def)
qed

text \<open>The contract of an operation on a unit: it neither fails an assertion nor leaves defined behaviour,
  keeps the pending changes in order and the client in place.\<close>

definition harmless :: "bb_error \<Rightarrow> bool" where
  "harmless e \<longleftrightarrow> e \<noteq> UndefinedBehaviour \<and> e \<noteq> AssertFailed"

definition unit_step_ok :: "moved_unit \<Rightarrow> moved_unit move_result \<Rightarrow> bool" where
  "unit_step_ok u r \<longleftrightarrow>
     (case r of Inl e \<Rightarrow> harmless e | Inr (u', _) \<Rightarrow> unit_ok u' \<and> mu_client u' = mu_client u)"

text \<open>A world in which no unit has the empty identifier, every unit is in order and a client may move exactly
  the units it is recorded in.\<close>

definition world_ok :: "move_world \<Rightarrow> bool" where
  "world_ok w \<longleftrightarrow> mw_units w 0 = None \<and> (\<forall>g u. mw_units w g = Some u \<longrightarrow> unit_ok u)
     \<and> (\<forall>c g. g \<in> mw_allowed w c \<longleftrightarrow> (\<exists>u. mw_units w g = Some u \<and> mu_client u = Some c))"

definition world_step_ok :: "world_result \<Rightarrow> bool" where
  "world_step_ok r \<longleftrightarrow> (case r of Inl e \<Rightarrow> harmless e | Inr (w', _) \<Rightarrow> world_ok w')"

locale unit_operation =
  fixes f :: "moved_unit \<Rightarrow> moved_unit move_result"
  assumes f_ok: "unit_ok u \<Longrightarrow> unit_step_ok u (f u)"
begin

lemma on_unit_ok:
  assumes "world_ok w" "mw_units w g \<noteq> None"
  shows "world_step_ok (on_unit g f w)"
proof -
  obtain u where u: "mw_units w g = Some u" "unit_ok u" using assms by (auto simp: world_ok_def)
  from f_ok [OF u(2)] u(1) assms(1) show ?thesis
    by (auto simp: unit_step_ok_def world_step_ok_def on_unit_def world_ok_def put_unit_def split: sum.splits prod.splits)
qed

end

lemma set_info_ok [simp]: "unit_ok (set_info f u) = unit_ok u" "mu_client (set_info f u) = mu_client u"
  by (simp_all add: set_info_def unit_ok_def)

lemma flags_ok [simp]:
  "unit_ok (SetFall v u) = unit_ok u" "mu_client (SetFall v u) = mu_client u"
  "unit_ok (Unit_SetDisableGravity v u) = unit_ok u" "mu_client (Unit_SetDisableGravity v u) = mu_client u"
  "unit_ok (Unit_SetCanFly v u) = unit_ok u" "mu_client (Unit_SetCanFly v u) = mu_client u"
  "unit_ok (Unit_SetCanTransitionBetweenSwimAndFly v u) = unit_ok u"
  "mu_client (Unit_SetCanTransitionBetweenSwimAndFly v u) = mu_client u"
  by (simp_all add: SetFall_def Unit_SetDisableGravity_def Unit_SetCanFly_def Unit_SetCanTransitionBetweenSwimAndFly_def Let_def)

lemma SetSpeedRateReal_ok [simp]:
  "unit_ok (fst (SetSpeedRateReal t v u)) = unit_ok u" "mu_client (fst (SetSpeedRateReal t v u)) = mu_client u"
  by (simp_all add: SetSpeedRateReal_def unit_ok_def)

lemma step_Inr [simp]: "unit_step_ok u (Inr p) \<longleftrightarrow> unit_ok (fst p) \<and> mu_client (fst p) = mu_client u"
  by (cases p) (simp add: unit_step_ok_def)

lemma after_asking_ok:
  assumes "unit_ok u" "\<And>u'. unit_ok u' \<Longrightarrow> unit_ok (f u') \<and> mu_client (f u') = mu_client u'"
    "\<And>c. mu_client u = Some c \<Longrightarrow> \<exists>val t effs. send u = Inr (asked val now t u, effs) \<and> supported_change t"
  shows "unit_step_ok u (after_asking u send f)"
proof (cases "mu_client u")
  case None
  then show ?thesis using assms(1,2) by (simp add: after_asking_def)
next
  case (Some c)
  then obtain val t effs where "send u = Inr (asked val now t u, effs)" "supported_change t" using assms(3) by blast
  then show ?thesis using assms(1,2) asked_ok [OF assms(1), of t val now] Some by (auto simp: after_asking_def)
qed

interpretation set_speed: unit_operation "SetSpeedRate fl sp now mtype rate" for fl sp now mtype rate
proof
  fix u assume u: "unit_ok u"
  show "unit_step_ok u (SetSpeedRate fl sp now mtype rate u)"
  proof (cases "mu_client u")
    case None
    define r where "r = (if rate_negative sp rate then 0 else rate)"
    obtain bytes where "SendSpeedChangeToAll fl mtype (to_flat sp (mu_player_controlled u) mtype r) (fst (SetSpeedRateReal mtype r u)) =
      Inr [ToAll (fst (moveTypeToOpcode mtype)) bytes]"
      using SendSpeedChangeToAll_writes [of "fst (SetSpeedRateReal mtype r u)"] None SetSpeedRateReal_ok(2) by metis
    then show ?thesis using u None unfolding SetSpeedRate_def r_def [symmetric]
      by (simp add: Let_def SetSpeedRateReal_def unit_ok_def)
  next
    case (Some c)
    define r where "r = (if rate_negative sp rate then 0 else rate)"
    obtain bytes where "SendSpeedChangeToMover fl now mtype (to_flat sp (mu_player_controlled u) mtype r) u =
      Inr (asked (pc_newValue_update (\<lambda>_. to_flat sp (mu_player_controlled u) mtype r)) now (GetChangeTypeByMoveType mtype) u,
        [ToMover c (fst (snd (moveTypeToOpcode mtype))) bytes])"
      using SendSpeedChangeToMover_writes [OF Some] by blast
    then show ?thesis
      using u Some asked_ok [OF u speed_supported] unfolding SetSpeedRate_def r_def [symmetric]
      by (simp add: Let_def case_prod_beta)
  qed
qed

interpretation set_gravity: unit_operation "Player_SetDisableGravity fl now v" for fl now v
proof
  fix u assume u: "unit_ok u"
  have "\<exists>val t effs. SendMovementFlagChangeToMover fl now MOVEMENTFLAG_DISABLE_GRAVITY v u = Inr (asked val now t u, effs) \<and> supported_change t"
    if "mu_client u = Some c" for c
    using SendMovementFlagChangeToMover_writes [OF that, of MOVEMENTFLAG_DISABLE_GRAVITY]
    by (force simp: GetChangeTypeByMovementFlag_def supported_change_def MOVEMENTFLAG_DISABLE_GRAVITY_def MOVEMENTFLAG_CAN_FLY_def)
  then show "unit_step_ok u (Player_SetDisableGravity fl now v u)"
    using u by (auto simp: Player_SetDisableGravity_def intro!: after_asking_ok)
qed

interpretation set_can_fly: unit_operation "Player_SetCanFly fl now v" for fl now v
proof
  fix u assume u: "unit_ok u"
  have "\<exists>val t effs. SendMovementFlagChangeToMover fl now MOVEMENTFLAG_CAN_FLY v u = Inr (asked val now t u, effs) \<and> supported_change t"
    if "mu_client u = Some c" for c
    using SendMovementFlagChangeToMover_writes [OF that, of MOVEMENTFLAG_CAN_FLY]
    by (force simp: GetChangeTypeByMovementFlag_def supported_change_def)
  then show "unit_step_ok u (Player_SetCanFly fl now v u)"
    using u by (auto simp: Player_SetCanFly_def intro!: after_asking_ok)
qed

interpretation set_transition: unit_operation "Player_SetCanTransitionBetweenSwimAndFly fl now v" for fl now v
proof
  fix u assume u: "unit_ok u"
  have "\<exists>val t effs. SendMovementFlag2ChangeToMover fl now MOVEMENTFLAG2_CAN_SWIM_TO_FLY_TRANS v u = Inr (asked val now t u, effs) \<and> supported_change t"
    if "mu_client u = Some c" for c
    using SendMovementFlag2ChangeToMover_writes [OF that] by (force simp: supported_change_def)
  then show "unit_step_ok u (Player_SetCanTransitionBetweenSwimAndFly fl now v u)"
    using u by (auto simp: Player_SetCanTransitionBetweenSwimAndFly_def intro!: after_asking_ok)
qed

interpretation set_height: unit_operation "SendMovementSetCollisionHeight fl now h r" for fl now h r
proof
  fix u assume u: "unit_ok u"
  have "\<exists>val t effs. SendHeightChangeToMover fl now h r u = Inr (asked val now t u, effs) \<and> supported_change t"
    if "mu_client u = Some c" for c
    using SendHeightChangeToMover_writes [OF that] by (force simp: supported_change_def)
  then show "unit_step_ok u (SendMovementSetCollisionHeight fl now h r u)"
    using u by (auto simp: SendMovementSetCollisionHeight_def intro!: after_asking_ok)
qed

section \<open>Purging\<close>

lemma apply_pending_ok:
  assumes "unit_ok u" "mu_client u \<noteq> None" "supported_change (pc_type c)"
  shows "\<exists>u' effs. apply_pending fl sp inform c u = Inr (u', effs) \<and> unit_ok u' \<and> mu_client u' = mu_client u"
proof (cases "move_type_of_change (pc_type c)")
  case (Some mt)
  obtain cl where cl: "mu_client u = Some cl" using assms(2) by blast
  let ?u = "fst (SetSpeedRateReal mt (to_rate sp (mu_player_controlled u) mt (pc_newValue c)) u)"
  obtain bytes where "SendSpeedChangeToObservers fl mt (pc_newValue c) ?u = Inr [ToObservers cl (snd (snd (moveTypeToOpcode mt))) bytes]"
    using cl SendSpeedChangeToObservers_writes [of ?u cl] SetSpeedRateReal_ok(2) by metis
  then show ?thesis
    using assms(1) Some cl by (cases inform) (auto simp: apply_pending_def Let_def case_prod_beta prod_eq_iff)
next
  case None
  obtain cl where cl: "mu_client u = Some cl" using assms(2) by blast
  have s: "\<exists>bytes. SendMovementFlagChangeToObservers fl u' = Inr [ToObservers cl SMSG_MOVE_UPDATE bytes]" if "mu_client u' = mu_client u" for u'
    using cl that by (intro SendMovementFlagChangeToObservers_writes) simp
  show ?thesis
    using assms(1,3) None cl s [of "Unit_SetDisableGravity (pc_apply c) u"] s [of "Unit_SetCanFly (pc_apply c) u"]
      s [of "Unit_SetCanTransitionBetweenSwimAndFly (pc_apply c) u"]
    by (auto simp: apply_pending_def Let_def supported_change_def)
qed

lemma purge_loop_ok:
  assumes "unit_ok u" "cs \<noteq> [] \<Longrightarrow> mu_client u \<noteq> None" "\<forall>(k, c) \<in> set cs. supported_change (pc_type c)"
  shows "\<exists>u' effs. purge_loop fl sp inform cs u = Inr (u', effs) \<and> unit_ok u' \<and> mu_client u' = mu_client u"
  using assms
proof (induction cs arbitrary: u)
  case (Cons kc cs)
  obtain k c where kc: "kc = (k, c)" by (cases kc)
  obtain u1 effs where u1: "apply_pending fl sp inform c u = Inr (u1, effs)" "unit_ok u1" "mu_client u1 = mu_client u"
    using apply_pending_ok [of u c fl sp inform] Cons.prems kc by auto
  then show ?case using Cons.IH [OF u1(2)] Cons.prems kc by auto
qed simp

lemma Purge_ok:
  assumes "unit_ok u"
  shows "\<exists>u' effs. PurgeAndApplyPendingMovementChanges fl sp inform u = Inr (u', effs) \<and> unit_ok u' \<and> mu_client u' = mu_client u
    \<and> mu_pending u' = []"
proof -
  have "\<forall>(k, c) \<in> set (mu_pending u). supported_change (pc_type c)" "mu_pending u \<noteq> [] \<Longrightarrow> mu_client u \<noteq> None"
    using assms by (auto simp: unit_ok_def)
  from purge_loop_ok [OF assms this(2,1)] obtain u' effs where
    "purge_loop fl sp inform (mu_pending u) u = Inr (u', effs)" "mu_client u' = mu_client u" by blast
  then show ?thesis by (simp add: PurgeAndApplyPendingMovementChanges_def unit_ok_def)
qed

interpretation purge: unit_operation "PurgeAndApplyPendingMovementChanges fl sp inform" for fl sp inform
proof
  fix u assume "unit_ok u"
  from Purge_ok [OF this, of fl sp inform] show "unit_step_ok u (PurgeAndApplyPendingMovementChanges fl sp inform u)"
    by auto
qed


section \<open>Acknowledgements are operations on one unit\<close>

definition ack_messages :: "(uint32 \<times> mse list) list" where
  "ack_messages =
     map (\<lambda>op. (op, speedElement)) speed_acks @
     [(CMSG_MOVE_GRAVITY_DISABLE_ACK, []), (CMSG_MOVE_GRAVITY_ENABLE_ACK, []), (CMSG_MOVE_SET_CAN_FLY_ACK, []),
      (CMSG_MOVE_SET_CAN_TRANSITION_BETWEEN_SWIM_AND_FLY_ACK, []), (CMSG_MOVE_SET_COLLISION_HEIGHT_ACK, extraElements)]"

lemma ack_messages_registered: "m \<in> set ack_messages \<Longrightarrow> m \<in> set client_messages"
proof -
  have "list_all (\<lambda>m. m \<in> set client_messages) ack_messages" by code_simp
  then show "m \<in> set ack_messages \<Longrightarrow> m \<in> set client_messages" by (simp add: list_all_iff)
qed

text \<open>What the packet of an acknowledgement asks for, and the answer to it once the counter fits.\<close>

definition ack_change :: "uint32 \<Rightarrow> change_type option" where
  "ack_change opcode =
     (if opcode \<in> set speed_acks then map_option GetChangeTypeByMoveType (ack_move_type opcode)
      else if opcode = CMSG_MOVE_GRAVITY_DISABLE_ACK \<or> opcode = CMSG_MOVE_GRAVITY_ENABLE_ACK then Some GRAVITY_DISABLE
      else if opcode = CMSG_MOVE_SET_CAN_FLY_ACK then Some SET_CAN_FLY
      else if opcode = CMSG_MOVE_SET_CAN_TRANSITION_BETWEEN_SWIM_AND_FLY_ACK then Some SET_CAN_TRANSITION_BETWEEN_SWIM_AND_FLY
      else if opcode = CMSG_MOVE_SET_COLLISION_HEIGHT_ACK then Some SET_COLLISION_HGT
      else None)"

definition answer_ok :: "change_type \<Rightarrow> moved_unit \<Rightarrow> moved_unit move_result \<Rightarrow> bool" where
  "answer_ok t u r \<longleftrightarrow>
     (\<exists>u' effs. r = Inr (u', effs) \<and> (u' = u \<or> t \<noteq> SET_COLLISION_HGT \<and> u' = ClearPendingMovementChangeForType t u))"

definition ack_answer ::
  "float_ops \<Rightarrow> speed_ops \<Rightarrow> client_id \<Rightarrow> uint32 \<Rightarrow> pending_change \<Rightarrow> movement_info \<Rightarrow> extra_element option \<Rightarrow> moved_unit
   \<Rightarrow> moved_unit move_result" where
  "ack_answer fl sp cl opcode c mi x mover =
     (if opcode \<in> set speed_acks then
        if speeds_differ sp (pc_newValue c) (extra_float x) then Inr (mover, [KickPlayer cl])
        else map_sum id (\<lambda>effs. (ClearPendingMovementChangeForType (GetChangeTypeByMoveType (the (ack_move_type opcode))) mover, effs))
               (SendSpeedChangeToObservers fl (the (ack_move_type opcode)) (pc_newValue c) mover)
      else if opcode = CMSG_MOVE_GRAVITY_DISABLE_ACK \<or> opcode = CMSG_MOVE_GRAVITY_ENABLE_ACK then
        if pc_apply c \<noteq> (opcode = CMSG_MOVE_GRAVITY_DISABLE_ACK) then Inr (mover, [KickPlayer cl])
        else tell_and_clear fl GRAVITY_DISABLE mover
      else if opcode = CMSG_MOVE_SET_CAN_FLY_ACK then tell_and_clear fl SET_CAN_FLY mover
      else if opcode = CMSG_MOVE_SET_CAN_TRANSITION_BETWEEN_SWIM_AND_FLY_ACK
        then tell_and_clear fl SET_CAN_TRANSITION_BETWEEN_SWIM_AND_FLY mover
      else if speeds_differ sp (pc_newValue c) (extra_float x) then Inr (mover, [KickPlayer cl])
      else map_sum id (\<lambda>effs. (mover, effs)) (SendHeightChangeToObservers fl (pc_newValue c) mover))"

lemma tell_and_clear_ok: "mu_client u = Some c \<Longrightarrow> t \<noteq> SET_COLLISION_HGT \<Longrightarrow> answer_ok t u (tell_and_clear fl t u)"
  using SendMovementFlagChangeToObservers_writes [of u c fl] by (auto simp: tell_and_clear_def answer_ok_def)

lemma with_ack_cong: "(\<And>c mi x u. act c mi x u = act' c mi x u) \<Longrightarrow> with_ack fl env cl op xs p t act w = with_ack fl env cl op xs p t act' w"
  by presburger

lemma ack_messages_cases:
  assumes "(opcode, xs) \<in> set ack_messages"
  shows "opcode \<in> set speed_acks \<and> xs = speedElement
    \<or> opcode \<notin> set speed_acks \<and> (opcode = CMSG_MOVE_GRAVITY_DISABLE_ACK \<and> xs = [] \<or> opcode = CMSG_MOVE_GRAVITY_ENABLE_ACK \<and> xs = []
      \<or> opcode = CMSG_MOVE_SET_CAN_FLY_ACK \<and> xs = []
      \<or> opcode = CMSG_MOVE_SET_CAN_TRANSITION_BETWEEN_SWIM_AND_FLY_ACK \<and> xs = []
      \<or> opcode = CMSG_MOVE_SET_COLLISION_HEIGHT_ACK \<and> xs = extraElements)"
  using assms by (auto simp: ack_messages_def speed_acks_def)

lemma speed_ack_type: "opcode \<in> set speed_acks \<Longrightarrow> \<exists>mt. ack_move_type opcode = Some mt"
proof -
  have "list_all (\<lambda>op. ack_move_type op \<noteq> None) speed_acks" by code_simp
  then show "opcode \<in> set speed_acks \<Longrightarrow> \<exists>mt. ack_move_type opcode = Some mt" by (auto simp: list_all_iff)
qed

lemma ack_change_known: "(opcode, xs) \<in> set ack_messages \<Longrightarrow> \<exists>t. ack_change opcode = Some t"
  using ack_messages_cases [of opcode xs] speed_ack_type [of opcode] by (auto simp: ack_change_def)

lemma handle_ack_eq:
  assumes "(opcode, xs) \<in> set ack_messages"
  shows "handle_ack fl sp env cl opcode packet w =
    with_ack fl env cl opcode xs packet (ack_change opcode) (ack_answer fl sp cl opcode) w"
  using ack_messages_cases [OF assms]
  by (elim disjE conjE)
    (simp_all add: handle_ack_def HandleForceSpeedChangeAck_def HandleMoveGravityDisableAck_def HandleMoveSetCanFlyAckOpcode_def
      HandleMoveSetCanTransitionBetweenSwinAndFlyAck_def HandleSetCollisionHeightAck_def ack_change_def ack_answer_def [abs_def] Let_def)

lemma ack_answer_ok:
  assumes "(opcode, xs) \<in> set ack_messages" "ack_change opcode = Some t" "mu_client u = Some cl'"
  shows "answer_ok t u (ack_answer fl sp cl opcode c mi x u)"
proof -
  have g: "GetChangeTypeByMoveType mt \<noteq> SET_COLLISION_HGT" for mt by (cases mt) (simp_all add: GetChangeTypeByMoveType_def)
  have o: "answer_ok t u (Inr (u, effs))" for effs by (simp add: answer_ok_def)
  show ?thesis
  proof (cases "opcode \<in> set speed_acks")
    case True
    then obtain mt where mt: "ack_move_type opcode = Some mt" using speed_ack_type by blast
    then have "t = GetChangeTypeByMoveType mt" using assms(2) True by (simp add: ack_change_def)
    then show ?thesis using True mt g [of mt] o SendSpeedChangeToObservers_writes [OF assms(3), of fl mt "pc_newValue c"]
      by (auto simp: ack_answer_def answer_ok_def)
  next
    case False
    then show ?thesis
      using ack_messages_cases [OF assms(1)] assms(2) o tell_and_clear_ok [OF assms(3)]
        SendHeightChangeToObservers_writes [OF assms(3), of fl "pc_newValue c"]
      by (elim disjE conjE) (auto simp: ack_change_def ack_answer_def answer_ok_def)
  qed
qed

lemma rate_acks_unread:
  "GetMovementStatusElementsSequence CMSG_MOVE_FORCE_TURN_RATE_CHANGE_ACK = None"
  "GetMovementStatusElementsSequence CMSG_MOVE_FORCE_PITCH_RATE_CHANGE_ACK = None"
  by code_simp+

definition acknowledgeable :: "change_type \<Rightarrow> bool" where
  "acknowledgeable t \<longleftrightarrow> t \<notin> {SET_COLLISION_HGT, RATE_CHANGE_TURN, RATE_CHANGE_PITCH}"

lemma ack_readable:
  assumes "(opcode, xs) \<in> set ack_messages" "ack_change opcode = Some t" "GetMovementStatusElementsSequence opcode \<noteq> None"
    "t \<noteq> SET_COLLISION_HGT"
  shows "acknowledgeable t"
proof -
  have "list_all (\<lambda>op. op = CMSG_MOVE_FORCE_TURN_RATE_CHANGE_ACK \<or> op = CMSG_MOVE_FORCE_PITCH_RATE_CHANGE_ACK
      \<or> (case ack_change op of None \<Rightarrow> False | Some t \<Rightarrow> t \<noteq> RATE_CHANGE_TURN \<and> t \<noteq> RATE_CHANGE_PITCH)) (map fst ack_messages)"
    by code_simp
  then show ?thesis
    using assms rate_acks_unread by (fastforce simp: list_all_iff acknowledgeable_def)
qed

text \<open>Any acknowledgement of any content: an exception, nothing at all, or a pending change of a unit the
  client moves is gone.\<close>

lemma ack_effect:
  assumes "(opcode, xs) \<in> set ack_messages" "world_ok w" "bb_wf packet"
  shows "case handle_ack fl sp env cl opcode packet w of
      Inl e \<Rightarrow> harmless e
    | Inr (w', effs) \<Rightarrow> w' = w \<or> (\<exists>g u t. g \<in> mw_allowed w cl \<and> mw_units w g = Some u \<and> ack_change opcode = Some t
        \<and> acknowledgeable t \<and> w' = put_unit g (ClearPendingMovementChangeForType t u) w)"
proof -
  let ?r = "ReadMovementInfo fl env opcode (MovementInfo_new fl) (handler_extras xs) packet"
  obtain t where t: "ack_change opcode = Some t" using ack_change_known [OF assms(1)] by blast
  note eq = handle_ack_eq [OF assms(1), of fl sp env cl packet w]
  show ?thesis
  proof (cases "fst ?r")
    case (Inl e)
    have "harmless e"
      using reader_calm [OF ack_messages_registered [OF assms(1)] assms(3), of fl env "MovementInfo_new fl"] Inl
      by (cases ?r) (auto simp: harmless_def safe_def)
    then show ?thesis using Inl eq by (cases ?r) (simp add: with_ack_def)
  next
    case (Inr mx)
    obtain mi x where mx: "mx = (mi, x)" by (cases mx)
    show ?thesis
    proof (cases "mi_guid mi \<in> mw_allowed w cl")
      case False
      then show ?thesis using Inr eq mx by (cases ?r) (simp add: with_ack_def IsAllowedToMove_def)
    next
      case True
      then obtain u where u: "mw_units w (mi_guid mi) = Some u" "mu_client u = Some cl" using assms(2) by (auto simp: world_ok_def)
      have seq: "GetMovementStatusElementsSequence opcode \<noteq> None"
      proof
        assume "GetMovementStatusElementsSequence opcode = None"
        then have "mi_guid mi = 0" using Inr mx by (auto simp: ReadMovementInfo_def MovementInfo_new_def)
        then show False using u(1) assms(2) by (simp add: world_ok_def)
      qed
      have w: "put_unit (mi_guid mi) u w = w" using u(1) by (simp add: put_unit_def map_upd_triv)
      have h: "handle_ack fl sp env cl opcode packet w =
        (case GetPendingMovementChange t u of None \<Rightarrow> Inr (w, [])
         | Some c \<Rightarrow> if pc_counter c \<noteq> mi_counter mi then Inr (w, [])
             else map_sum id (map_prod (\<lambda>u'. put_unit (mi_guid mi) u' w) id) (ack_answer fl sp cl opcode c mi x u))"
        using eq Inr mx t True u(1) w by (cases ?r) (simp add: with_ack_def IsAllowedToMove_def on_unit_def split: option.splits)
      consider "handle_ack fl sp env cl opcode packet w = Inr (w, [])"
        | c where "handle_ack fl sp env cl opcode packet w =
            map_sum id (map_prod (\<lambda>u'. put_unit (mi_guid mi) u' w) id) (ack_answer fl sp cl opcode c mi x u)"
        using h by (auto split: option.splits if_splits)
      then show ?thesis
      proof cases
        case 1
        then show ?thesis by simp
      next
        case 2
        obtain u' effs where a: "ack_answer fl sp cl opcode c mi x u = Inr (u', effs)"
          "u' = u \<or> t \<noteq> SET_COLLISION_HGT \<and> u' = ClearPendingMovementChangeForType t u"
          using ack_answer_ok [OF assms(1) t u(2)] unfolding answer_ok_def by metis
        then have h': "handle_ack fl sp env cl opcode packet w = Inr (put_unit (mi_guid mi) u' w, effs)" using 2 by simp
        show ?thesis using a(2)
        proof
          assume "u' = u"
          then show ?thesis using h' w by simp
        next
          assume "t \<noteq> SET_COLLISION_HGT \<and> u' = ClearPendingMovementChangeForType t u"
          then show ?thesis using h' t True u(1) ack_readable [OF assms(1) t seq] by auto
        qed
      qed
    qed
  qed
qed


section \<open>An honest client completes a speed change\<close>

lemma Validate_keeps [simp]:
  "mi_guid (ValidateMovementInfo fl env mi) = mi_guid mi" "mi_counter (ValidateMovementInfo fl env mi) = mi_counter mi"
proof -
  obtain m where "fold (\<lambda>(check, mask). REMOVE_VIOLATING_FLAGS check mask) (violations fl env (mi_guid mi)) mi = RemoveMovementFlag m mi"
    using enforce_Remove unfolding enforce_def by blast
  then show "mi_guid (ValidateMovementInfo fl env mi) = mi_guid mi" "mi_counter (ValidateMovementInfo fl env mi) = mi_counter mi"
    by (simp_all add: ValidateMovementInfo_def Let_def AddMovementFlag_def RemoveMovementFlag_def)
qed

lemma speed_ack_layout:
  assumes "op \<in> set speed_acks" "ack_move_type op = Some t" "t \<noteq> MOVE_TURN_RATE" "t \<noteq> MOVE_PITCH_RATE"
  shows "\<exists>seq. GetMovementStatusElementsSequence op = Some seq \<and> MSECounter \<in> set seq"
proof -
  have "list_all (\<lambda>op. op = CMSG_MOVE_FORCE_TURN_RATE_CHANGE_ACK \<or> op = CMSG_MOVE_FORCE_PITCH_RATE_CHANGE_ACK
      \<or> (case GetMovementStatusElementsSequence op of None \<Rightarrow> False | Some seq \<Rightarrow> MSECounter \<in> set seq)) speed_acks"
    by code_simp
  moreover have "op \<noteq> CMSG_MOVE_FORCE_TURN_RATE_CHANGE_ACK" "op \<noteq> CMSG_MOVE_FORCE_PITCH_RATE_CHANGE_ACK"
    using assms(2-4) by (auto simp: ack_move_type_def)
  ultimately show ?thesis using assms(1) by (auto simp: list_all_iff split: option.splits)
qed

lemma asked_pending: "GetPendingMovementChange t (asked val now t u) =
    Some ((val ((pending_new now)\<lparr>pc_counter := mu_counter u\<rparr>))\<lparr>pc_type := t\<rparr>)"
proof -
  have "map_of (map (\<lambda>(k, v). (k, if k = t then c else v)) xs) t = (if t \<in> fst ` set xs then Some c else None)" for c :: pending_change and xs
    by (induction xs) auto
  then show ?thesis by (simp add: GetPendingMovementChange_def asked_def AssignPendingMovementChange_def)
qed

lemma Clear_pending [simp]: "GetPendingMovementChange t (ClearPendingMovementChangeForType t' u) =
    (if t = t' then None else GetPendingMovementChange t u)"
proof -
  have "map_of (filter (\<lambda>(k, _). k \<noteq> t') xs) t = (if t = t' then None else map_of xs t)" for xs :: "(change_type \<times> pending_change) list"
    by (induction xs) auto
  then show ?thesis by (simp add: GetPendingMovementChange_def ClearPendingMovementChangeForType_def)
qed

text \<open>\<^bold>\<open>C10.\<close>
  A speed change is completed by the client's acknowledgement. For every kind of speed but the turn and
  pitch rates: after \<^verbatim>\<open>SendSpeedChangeToMover\<close> the change is pending, the client that moves the unit has
  been told, and the acknowledgement the client writes with the counter and the speed it was told (from any
  state of its mover with finite coordinates) makes \<^verbatim>\<open>HandleForceSpeedChangeAck\<close> tell the observers and
  clear exactly that pending change; nobody is kicked.
\<close>

theorem speed_change_completes:
  assumes "mw_units w g = Some u" "mu_client u = Some cl" "g \<in> mw_allowed w cl"
    "t \<noteq> MOVE_TURN_RATE" "t \<noteq> MOVE_PITCH_RATE" "op \<in> set speed_acks" "ack_move_type op = Some t"
    "finite_mover cu" "u_guid cu = g" "isfinite_float v" "\<not> speeds_differ sp v v"
  shows "\<exists>u1 bytes x b bytes'. SendSpeedChangeToMover fl now t v u = Inr (u1, [ToMover cl (fst (snd (moveTypeToOpcode t))) bytes])
    \<and> GetPendingMovementChange (GetChangeTypeByMoveType t) u1 \<noteq> None
    \<and> WriteMovementInfo fl cu op (Some (speed_extra v)) (Some (mu_counter u)) bb_new = (Inr x, b)
    \<and> HandleForceSpeedChangeAck fl sp env cl op (transmit b) (put_unit g u1 w) =
        Inr (put_unit g (ClearPendingMovementChangeForType (GetChangeTypeByMoveType t) u1) w,
             [ToObservers cl (snd (snd (moveTypeToOpcode t))) bytes'])"
proof -
  let ?ct = "GetChangeTypeByMoveType t"
  let ?u1 = "asked (pc_newValue_update (\<lambda>_. v)) now ?ct u"
  obtain bytes where s: "SendSpeedChangeToMover fl now t v u = Inr (?u1, [ToMover cl (fst (snd (moveTypeToOpcode t))) bytes])"
    using SendSpeedChangeToMover_writes [OF assms(2)] by blast
  have pend: "GetPendingMovementChange ?ct ?u1 = Some ((pending_new now)\<lparr>pc_counter := mu_counter u, pc_newValue := v, pc_type := ?ct\<rparr>)"
    by (simp add: asked_pending)
  have cl: "mu_client ?u1 = Some cl" using assms(2) by (simp add: asked_def AssignPendingMovementChange_def)
  obtain bytes' where o: "SendSpeedChangeToObservers fl t v ?u1 = Inr [ToObservers cl (snd (snd (moveTypeToOpcode t))) bytes']"
    using SendSpeedChangeToObservers_writes [OF cl] by blast
  obtain seq where seq: "GetMovementStatusElementsSequence op = Some seq" "MSECounter \<in> set seq"
    using speed_ack_layout [OF assms(6,7,4,5)] by blast
  have "(op, speedElement) \<in> set client_messages"
    using assms(6) by (intro ack_messages_registered) (simp add: ack_messages_def)
  from info_roundtrip [OF this seq(1) assms(8), where x = "speed_extra v" and fl = fl and cnt = "Some (mu_counter u)" and env = env]
  obtain x1 b x2 b' where rt: "WriteMovementInfo fl cu op (Some (speed_extra v)) (Some (mu_counter u)) bb_new = (Inr x1, b)"
    "ReadMovementInfo fl env op (MovementInfo_new fl) (handler_extras speedElement) (transmit b) =
      (Inr (ValidateMovementInfo fl env (received fl cu (mu_counter u)), x2), b')"
    "x2 \<noteq> None" "\<forall>y. x2 = Some y \<longrightarrow> x_float y = v"
    using assms(10) seq(2) by (auto simp: speed_extra_def extra_new_def speedElement_def counter_of_def)
  have x2: "extra_float x2 = v" using rt(3,4) by (auto simp: extra_float_def)
  have "HandleForceSpeedChangeAck fl sp env cl op (transmit b) (put_unit g ?u1 w) =
        Inr (put_unit g (ClearPendingMovementChangeForType ?ct ?u1) w, [ToObservers cl (snd (snd (moveTypeToOpcode t))) bytes'])"
    using rt(2) x2 assms(3,7,9,11) pend o
    by (simp add: HandleForceSpeedChangeAck_def with_ack_def IsAllowedToMove_def on_unit_def put_unit_def received_def Let_def)
  then show ?thesis using s pend rt(1) by blast
qed


definition wit_speeds :: speed_ops where
  "wit_speeds = \<lparr>rate_negative = (\<lambda>v. bit v 31), rate_eq = (=), to_flat = (\<lambda>_ _ v. v), to_rate = (\<lambda>_ _ v. v),
     speeds_differ = (\<noteq>)\<rparr>"

definition wit_unit :: moved_unit where
  "wit_unit = \<lparr>mu_mover = wit_mover, mu_counter = 7, mu_pending = [], mu_client = Some 1, mu_speed_rate = (\<lambda>_. 0x3F800000),
     mu_player = True, mu_in_world = True, mu_player_controlled = True, mu_pet = False\<rparr>"

definition wit_world :: move_world where
  "wit_world = \<lparr>mw_units = [0x0000000000012C05 \<mapsto> wit_unit],
     mw_allowed = (\<lambda>c. if c = 1 then {0x0000000000012C05} else {}), mw_active = (\<lambda>_. None)\<rparr>"

theorem speed_change_completes_witness:
  "\<exists>u1 bytes x b bytes'. SendSpeedChangeToMover wit_floats 5000 MOVE_RUN 0x41000000 wit_unit =
       Inr (u1, [ToMover 1 SMSG_MOVE_SET_RUN_SPEED bytes])
    \<and> WriteMovementInfo wit_floats wit_mover CMSG_MOVE_FORCE_RUN_SPEED_CHANGE_ACK (Some (speed_extra 0x41000000)) (Some 7) bb_new = (Inr x, b)
    \<and> HandleForceSpeedChangeAck wit_floats wit_speeds wit_move_env 1 CMSG_MOVE_FORCE_RUN_SPEED_CHANGE_ACK (transmit b)
        (put_unit 0x0000000000012C05 u1 wit_world) =
        Inr (put_unit 0x0000000000012C05 (ClearPendingMovementChangeForType SPEED_CHANGE_RUN u1) wit_world,
             [ToObservers 1 SMSG_MOVE_UPDATE_RUN_SPEED bytes'])"
proof -
  have "mw_units wit_world 0x0000000000012C05 = Some wit_unit" "mu_client wit_unit = Some 1" "0x0000000000012C05 \<in> mw_allowed wit_world 1"
    "mu_counter wit_unit = 7" "u_guid wit_mover = 0x0000000000012C05" "\<not> speeds_differ wit_speeds 0x41000000 0x41000000"
    by (simp_all add: wit_world_def wit_unit_def wit_speeds_def wit_mover_def)
  moreover have "finite_mover wit_mover" "isfinite_float (0x41000000 :: uint32)" by code_simp+
  moreover have "CMSG_MOVE_FORCE_RUN_SPEED_CHANGE_ACK \<in> set speed_acks" "ack_move_type CMSG_MOVE_FORCE_RUN_SPEED_CHANGE_ACK = Some MOVE_RUN"
    by code_simp+
  ultimately show ?thesis
    using speed_change_completes [of wit_world "0x0000000000012C05" wit_unit 1 MOVE_RUN CMSG_MOVE_FORCE_RUN_SPEED_CHANGE_ACK wit_mover
        "0x41000000" wit_speeds wit_floats 5000 wit_move_env]
    by (auto simp: moveTypeToOpcode_def GetChangeTypeByMoveType_def)
qed

section \<open>A client cannot do harm with an acknowledgement\<close>




section \<open>The protocol as a whole\<close>

text \<open>The operations that touch the pending changes: clients gain and lose units, the server changes speeds,
  flags and heights, purges on a far teleport, and clients acknowledge.\<close>

datatype move_op =
    OpSetMovedUnit client_id guid bool
  | OpSpeed uint32 guid unit_move_type uint32
  | OpGravity uint32 guid bool
  | OpCanFly uint32 guid bool
  | OpTransition uint32 guid bool
  | OpHeight uint32 guid uint32 uint8
  | OpPurge guid bool
  | OpAck client_id uint32 byte_buffer

fun run_op :: "float_ops \<Rightarrow> speed_ops \<Rightarrow> move_env \<Rightarrow> move_op \<Rightarrow> move_world \<Rightarrow> world_result" where
  "run_op fl sp env (OpSetMovedUnit c g allow) w = SetMovedUnit fl sp c g allow w"
| "run_op fl sp env (OpSpeed now g t rate) w = on_unit g (SetSpeedRate fl sp now t rate) w"
| "run_op fl sp env (OpGravity now g v) w = on_unit g (Player_SetDisableGravity fl now v) w"
| "run_op fl sp env (OpCanFly now g v) w = on_unit g (Player_SetCanFly fl now v) w"
| "run_op fl sp env (OpTransition now g v) w = on_unit g (Player_SetCanTransitionBetweenSwimAndFly fl now v) w"
| "run_op fl sp env (OpHeight now g h r) w = on_unit g (SendMovementSetCollisionHeight fl now h r) w"
| "run_op fl sp env (OpPurge g inform) w = on_unit g (PurgeAndApplyPendingMovementChanges fl sp inform) w"
| "run_op fl sp env (OpAck c opcode packet) w = handle_ack fl sp env c opcode packet w"

text \<open>What the callers see to: the server's operations are called on existing units, a client is given only a
  unit no other client moves, and an acknowledgement has an opcode registered for one of the handlers.\<close>

fun admissible :: "move_op \<Rightarrow> move_world \<Rightarrow> bool" where
  "admissible (OpSetMovedUnit c g allow) w \<longleftrightarrow>
     (\<exists>u. mw_units w g = Some u \<and> (allow \<longrightarrow> mu_client u = None \<or> mu_client u = Some c))"
| "admissible (OpSpeed now g t rate) w \<longleftrightarrow> mw_units w g \<noteq> None"
| "admissible (OpGravity now g v) w \<longleftrightarrow> mw_units w g \<noteq> None"
| "admissible (OpCanFly now g v) w \<longleftrightarrow> mw_units w g \<noteq> None"
| "admissible (OpTransition now g v) w \<longleftrightarrow> mw_units w g \<noteq> None"
| "admissible (OpHeight now g h r) w \<longleftrightarrow> mw_units w g \<noteq> None"
| "admissible (OpPurge g inform) w \<longleftrightarrow> mw_units w g \<noteq> None"
| "admissible (OpAck c opcode packet) w \<longleftrightarrow> opcode \<in> fst ` set ack_messages \<and> bb_wf packet"

lemma SetMovedUnit_ok:
  assumes "world_ok w" "admissible (OpSetMovedUnit c g allow) w"
  shows "world_step_ok (SetMovedUnit fl sp c g allow w)"
proof -
  obtain u where u: "mw_units w g = Some u" "allow \<longrightarrow> mu_client u = None \<or> mu_client u = Some c" "unit_ok u"
    using assms by (auto simp: world_ok_def)
  show ?thesis
  proof (cases allow)
    case True
    then show ?thesis using assms(1) u
      by (auto simp: SetMovedUnit_def AddAllowedMover_def world_step_ok_def world_ok_def unit_ok_def put_unit_def)
  next
    case False
    obtain u1 effs where p: "PurgeAndApplyPendingMovementChanges fl sp True u = Inr (u1, effs)" "unit_ok u1"
      "mu_client u1 = mu_client u" "mu_pending u1 = []" using Purge_ok [OF u(3)] by blast
    have c: "g \<in> mw_allowed w c' \<longleftrightarrow> mu_client u = Some c'" for c' using assms(1) u(1) by (auto simp: world_ok_def)
    show ?thesis
    proof (cases "mu_client u = Some c")
      case True
      then show ?thesis using False assms(1) u(1) p c
        by (auto simp: SetMovedUnit_def RemoveAllowedMover_def world_step_ok_def world_ok_def unit_ok_def put_unit_def Let_def)
    next
      case no: False
      then show ?thesis using False assms(1) u(1) p c
        by (auto simp: SetMovedUnit_def RemoveAllowedMover_def world_step_ok_def world_ok_def put_unit_def Let_def)
    qed
  qed
qed

lemma handle_ack_ok:
  assumes "(opcode, xs) \<in> set ack_messages" "world_ok w" "bb_wf packet"
  shows "world_step_ok (handle_ack fl sp env cl opcode packet w)"
proof (cases "handle_ack fl sp env cl opcode packet w")
  case (Inl e)
  then show ?thesis
    using ack_effect [OF assms, where fl = fl and sp = sp and env = env and cl = cl] by (simp add: world_step_ok_def)
next
  case (Inr r)
  obtain w' effs where r: "r = (w', effs)" by (cases r)
  consider "w' = w" | g u t where "mw_units w g = Some u" "w' = put_unit g (ClearPendingMovementChangeForType t u) w"
    using ack_effect [OF assms, where fl = fl and sp = sp and env = env and cl = cl] Inr r by auto
  then have "world_ok w'"
  proof cases
    case 2
    then show ?thesis
      using assms(2) Clear_ok [of u t] by (auto simp: world_ok_def put_unit_def ClearPendingMovementChangeForType_def)
  qed (use assms(2) in simp)
  then show ?thesis using Inr r by (simp add: world_step_ok_def)
qed

lemma run_op_ok: "world_ok w \<Longrightarrow> admissible op w \<Longrightarrow> world_step_ok (run_op fl sp env op w)"
  by (cases op) (auto simp: SetMovedUnit_ok handle_ack_ok set_speed.on_unit_ok set_gravity.on_unit_ok set_can_fly.on_unit_ok
      set_transition.on_unit_ok set_height.on_unit_ok purge.on_unit_ok)

inductive reachable_world :: "float_ops \<Rightarrow> speed_ops \<Rightarrow> move_env \<Rightarrow> move_world \<Rightarrow> bool" for fl sp env where
  start: "mw_units w 0 = None \<Longrightarrow> (\<forall>g u. mw_units w g = Some u \<longrightarrow> mu_client u = None \<and> mu_pending u = [])
    \<Longrightarrow> mw_allowed w = (\<lambda>_. {}) \<Longrightarrow> reachable_world fl sp env w"
| step: "reachable_world fl sp env w \<Longrightarrow> admissible op w \<Longrightarrow> run_op fl sp env op w = Inr (w', effs)
    \<Longrightarrow> reachable_world fl sp env w'"

lemma reachable_world_ok: "reachable_world fl sp env w \<Longrightarrow> world_ok w"
proof (induction rule: reachable_world.induct)
  case (start w)
  then show ?case by (fastforce simp: world_ok_def unit_ok_def)
next
  case (step w op w' effs)
  then show ?case using run_op_ok [of w op fl sp env] by (simp add: world_step_ok_def)
qed

lemma check_acks_client: "client \<noteq> None \<Longrightarrow> check_acks_loop now timeout client cs \<noteq> Inl e"
  by (induction cs) (auto split: if_splits)

text \<open>\<^bold>\<open>C5.\<close>
  The protocol of movement changes never crashes. In every state reached from a world without clients by
  any sequence of: giving units to clients and taking them away, changing speeds, movement flags and
  collision heights, purging, and acknowledgements of any content, the lists of movers and the units'
  controllers agree, a pending change always has a client to answer it, no next operation fails an assertion
  or leaves defined behaviour, and the check for overdue acknowledgements always finds the client to kick.
\<close>

theorem movement_protocol_safe:
  assumes "reachable_world fl sp env w"
  shows "(\<forall>c g. g \<in> mw_allowed w c \<longleftrightarrow> (\<exists>u. mw_units w g = Some u \<and> mu_client u = Some c))
    \<and> (\<forall>g u. mw_units w g = Some u \<longrightarrow> mu_pending u \<noteq> [] \<longrightarrow> mu_client u \<noteq> None)
    \<and> (\<forall>op. admissible op w \<longrightarrow> run_op fl sp env op w \<noteq> Inl UndefinedBehaviour \<and> run_op fl sp env op w \<noteq> Inl AssertFailed)
    \<and> (\<forall>g u now timeout. mw_units w g = Some u \<longrightarrow> (\<exists>effs. CheckPendingMovementAcks now timeout u = Inr effs))"
proof (intro conjI)
  have w: "world_ok w" using assms by (rule reachable_world_ok)
  show "\<forall>c g. g \<in> mw_allowed w c \<longleftrightarrow> (\<exists>u. mw_units w g = Some u \<and> mu_client u = Some c)"
    using w by (simp add: world_ok_def)
  show cl: "\<forall>g u. mw_units w g = Some u \<longrightarrow> mu_pending u \<noteq> [] \<longrightarrow> mu_client u \<noteq> None"
    using w by (auto simp: world_ok_def unit_ok_def)
  show "\<forall>op. admissible op w \<longrightarrow> run_op fl sp env op w \<noteq> Inl UndefinedBehaviour \<and> run_op fl sp env op w \<noteq> Inl AssertFailed"
    using run_op_ok [OF w, of _ fl sp env] by (fastforce simp: world_step_ok_def harmless_def)
  show "\<forall>g u now timeout. mw_units w g = Some u \<longrightarrow> (\<exists>effs. CheckPendingMovementAcks now timeout u = Inr effs)"
    using cl check_acks_client by (simp add: CheckPendingMovementAcks_def) (metis sum.exhaust_sel)
qed

theorem movement_protocol_safe_witness:
  "run_op wit_floats wit_speeds wit_move_env (OpSpeed 5000 0x0000000000012C05 MOVE_RUN 0x40000000)
     (wit_world\<lparr>mw_units := [0x0000000000012C05 \<mapsto> wit_unit\<lparr>mu_client := None\<rparr>], mw_allowed := (\<lambda>_. {})\<rparr>) \<noteq> Inl AssertFailed"
proof -
  let ?w = "wit_world\<lparr>mw_units := [0x0000000000012C05 \<mapsto> wit_unit\<lparr>mu_client := None\<rparr>], mw_allowed := (\<lambda>_. {})\<rparr>"
  have "reachable_world wit_floats wit_speeds wit_move_env ?w"
    by (rule reachable_world.start) (simp_all add: wit_unit_def)
  moreover have "admissible (OpSpeed 5000 0x0000000000012C05 MOVE_RUN 0x40000000) ?w" by simp
  ultimately show ?thesis using movement_protocol_safe by blast
qed


section \<open>Changes that can never be acknowledged\<close>

text \<open>A sequence of acknowledgements; an exception drops the packet and leaves the world as it is.\<close>

fun run_acks :: "float_ops \<Rightarrow> speed_ops \<Rightarrow> move_env \<Rightarrow> (client_id \<times> uint32 \<times> byte_buffer) list \<Rightarrow> move_world \<Rightarrow> move_world" where
  "run_acks fl sp env [] w = w"
| "run_acks fl sp env ((c, opcode, packet) # as) w =
     run_acks fl sp env as (case handle_ack fl sp env c opcode packet w of Inl _ \<Rightarrow> w | Inr (w', _) \<Rightarrow> w')"

lemma run_acks_keep:
  assumes "world_ok w" "mw_units w g = Some u" "GetPendingMovementChange t u = Some c" "\<not> acknowledgeable t"
    "mu_client u = Some cl" "dom (map_of (mu_pending u)) = {t}"
    "\<forall>(c, opcode, packet) \<in> set as. opcode \<in> fst ` set ack_messages \<and> bb_wf packet"
  shows "\<exists>u'. mw_units (run_acks fl sp env as w) g = Some u' \<and> mu_pending u' = mu_pending u \<and> mu_client u' = Some cl"
  using assms
proof (induction as arbitrary: w u)
  case (Cons a as)
  obtain cl' opcode packet xs where a: "a = (cl', opcode, packet)" "(opcode, xs) \<in> set ack_messages" "bb_wf packet"
    using Cons.prems(7) by (cases a) auto
  let ?w = "case handle_ack fl sp env cl' opcode packet w of Inl _ \<Rightarrow> w | Inr (w', _) \<Rightarrow> w'"
  have ok: "world_ok ?w"
    using handle_ack_ok [OF a(2) Cons.prems(1) a(3), where fl = fl and sp = sp and env = env and cl = cl'] Cons.prems(1)
    by (auto simp: world_step_ok_def split: sum.splits)
  have "\<exists>u'. mw_units ?w g = Some u' \<and> mu_pending u' = mu_pending u \<and> mu_client u' = Some cl"
  proof (cases "handle_ack fl sp env cl' opcode packet w")
    case (Inr r)
    obtain w' effs where r: "r = (w', effs)" by (cases r)
    consider "w' = w" | g' u' t' where "mw_units w g' = Some u'" "acknowledgeable t'"
        "w' = put_unit g' (ClearPendingMovementChangeForType t' u') w"
      using ack_effect [OF a(2) Cons.prems(1) a(3), where fl = fl and sp = sp and env = env and cl = cl'] Inr r by auto
    then show ?thesis
    proof cases
      case 2
      have "t \<noteq> t'" using 2(2) Cons.prems(4) by blast
      then have "k \<noteq> t'" if "(k, v) \<in> set (mu_pending u)" for k v
        using Cons.prems(6) that by (metis domIff dom_map_of_conv_image_fst empty_iff fst_conv image_eqI insert_iff)
      then have "filter (\<lambda>(k, _). k \<noteq> t') (mu_pending u) = mu_pending u" by (auto intro!: filter_True)
      then show ?thesis using 2(1,3) Inr r Cons.prems(2,5)
        by (cases "g' = g") (simp_all add: put_unit_def ClearPendingMovementChangeForType_def)
    qed (use Inr r Cons.prems in simp)
  qed (use Cons.prems in simp)
  then obtain u' where u': "mw_units ?w g = Some u'" "mu_pending u' = mu_pending u" "mu_client u' = Some cl" by blast
  then show ?case using Cons.IH [OF ok u'(1)] Cons.prems a(1) by (auto simp: GetPendingMovementChange_def)
qed simp

text \<open>\<^bold>\<open>C36.\<close>
  A change of the collision height, of the turn rate or of the pitch rate cannot be acknowledged: whatever
  acknowledgements any clients send after it, it stays pending, and the first check after the timeout kicks
  the client. \<^verbatim>\<open>HandleSetCollisionHeightAck\<close> does not clear the pending change, and the two rate
  acknowledgements have no layout, so their packets are never read.
\<close>

theorem unacknowledgeable_change_kicks:
  assumes "world_ok w" "mw_units w g = Some u" "mu_client u = Some cl" "mu_pending u = []"
    "send \<in> {SendHeightChangeToMover fl now v r, SendSpeedChangeToMover fl now MOVE_TURN_RATE v, SendSpeedChangeToMover fl now MOVE_PITCH_RATE v}"
    "\<forall>(c, opcode, packet) \<in> set as. opcode \<in> fst ` set ack_messages \<and> bb_wf packet"
    "timeout \<noteq> 0" "now' > now + timeout"
  shows "\<exists>u1 effs u'. send u = Inr (u1, effs) \<and> mw_units (run_acks fl sp env as (put_unit g u1 w)) g = Some u'
    \<and> CheckPendingMovementAcks now' timeout u' = Inr [KickPlayer cl]"
proof -
  define val :: "pending_change \<Rightarrow> pending_change" where "val = pc_newValue_update (\<lambda>_. v)"
  have "\<exists>t effs. send u = Inr (asked val now t u, effs) \<and> t \<in> {SET_COLLISION_HGT, RATE_CHANGE_TURN, RATE_CHANGE_PITCH}"
    using assms(5) SendHeightChangeToMover_writes [OF assms(3), of fl now v r]
      SendSpeedChangeToMover_writes [OF assms(3), of fl now MOVE_TURN_RATE v]
      SendSpeedChangeToMover_writes [OF assms(3), of fl now MOVE_PITCH_RATE v]
    unfolding val_def by (fastforce simp: GetChangeTypeByMoveType_def)
  then obtain t effs where s: "send u = Inr (asked val now t u, effs)" "\<not> acknowledgeable t" "supported_change t"
    by (auto simp: acknowledgeable_def supported_change_def move_type_of_change_def)
  let ?u1 = "asked val now t u"
  let ?c = "(val ((pending_new now)\<lparr>pc_counter := mu_counter u\<rparr>))\<lparr>pc_type := t\<rparr>"
  have p: "mu_pending ?u1 = [(t, ?c)]" using assms(4) by (simp add: asked_def AssignPendingMovementChange_def)
  have u: "unit_ok u" using assms(1,2) by (auto simp: world_ok_def)
  have o: "unit_ok ?u1" "mu_client ?u1 = Some cl" using asked_ok [OF u s(3)] assms(3) by auto
  have "world_ok (put_unit g ?u1 w)" using assms(1-3) o by (auto simp: world_ok_def put_unit_def)
  from run_acks_keep [OF this _ _ s(2) o(2) _ assms(6), where g = g and c = ?c and fl = fl and sp = sp and env = env] p
  obtain u' where u': "mw_units (run_acks fl sp env as (put_unit g ?u1 w)) g = Some u'" "mu_pending u' = [(t, ?c)]" "mu_client u' = Some cl"
    by (auto simp: put_unit_def GetPendingMovementChange_def)
  have "t \<noteq> CHANGE_TELEPORT" using s(3) by (auto simp: supported_change_def move_type_of_change_def)
  then have "CheckPendingMovementAcks now' timeout u' = Inr [KickPlayer cl]"
    using u'(2,3) assms(7,8) by (simp add: CheckPendingMovementAcks_def pending_new_def val_def)
  then show ?thesis using s(1) u'(1) by blast
qed

theorem unacknowledgeable_change_kicks_witness:
  "\<exists>u1 effs u'. SendHeightChangeToMover wit_floats 5000 0x40000000 1 wit_unit = Inr (u1, effs)
    \<and> mw_units (run_acks wit_floats wit_speeds wit_move_env [(1, CMSG_MOVE_SET_COLLISION_HEIGHT_ACK, bb_of_message [1, 2, 3])]
        (put_unit 0x0000000000012C05 u1 wit_world)) 0x0000000000012C05 = Some u'
    \<and> CheckPendingMovementAcks 9000 3000 u' = Inr [KickPlayer 1]"
proof -
  have "world_ok wit_world" "mw_units wit_world 0x0000000000012C05 = Some wit_unit" "mu_client wit_unit = Some 1" "mu_pending wit_unit = []"
    by (auto simp: world_ok_def wit_world_def wit_unit_def unit_ok_def)
  moreover have "bb_wf (bb_of_message [1, 2, 3])"
    by (simp add: bb_wf_def bb_of_message_def bb_new_def InitialBitPos_def bb_size_def)
  moreover have "CMSG_MOVE_SET_COLLISION_HEIGHT_ACK \<in> fst ` set ack_messages" by code_simp
  ultimately show ?thesis
    using unacknowledgeable_change_kicks [where w = wit_world and g = "0x0000000000012C05" and u = wit_unit and cl = 1
        and send = "SendHeightChangeToMover wit_floats 5000 0x40000000 1" and fl = wit_floats and now = 5000 and v = "0x40000000"
        and r = 1 and as = "[(1, CMSG_MOVE_SET_COLLISION_HEIGHT_ACK, bb_of_message [1, 2, 3])]" and timeout = 3000
        and now' = 9000 and sp = wit_speeds and env = wit_move_env]
    by auto
qed

end
