(* ===== verification/Spec2Isabelle.thy ===== *)
theory Spec2Isabelle
  imports Byte_Buffer Event_Map Rbac Channel_Props Channel_Mgr Object_Guid Lfg_Data Lfg_Queue_Props
    Movement_Ack_Props
begin

text \<open>
  A verification library for the Firelands game server (\<^verbatim>\<open>src/\<close>), a C++ server for the
  Cataclysm client. The server decodes packets of its clients, hands them to managers that keep the
  state of chat, accounts, groups and the world, and answers with packets. The library models the
  managers whose state and rules are their own, each as it is written, and proves what it promises.

  \<^bold>\<open>Parts and theories.\<close>

  \<^item> \<open>Prelude\<close>: machine integers, sizes modulo \<open>2 ^ 64\<close>, and computations with a state and an
    exception, in which a throw keeps the state reached so far.
  \<^item> \<open>Ordered_Map\<close>: \<^verbatim>\<open>std::map\<close> as the sorted list of its entries. The locale
    \<open>keyed_store\<close> is the contract of a map; the sorted list is its interpretation \<open>om\<close>.
  \<^item> \<open>Byte_Buffer\<close>: the packet codec \<^verbatim>\<open>shared/Packets/ByteBuffer.{h,cpp}\<close>. A buffer is the record
    of its members; every operation returns a value or an exception, a failed assertion, or
    undefined behaviour, and the buffer. The locales \<open>bit_writer\<close>, \<open>bit_reader\<close> and \<open>bit_channel\<close> state
    the bit stream a buffer stands for. Shown: bit fields, packed identifiers and packed times are read back as
    written; no read leaves the vector; \<^verbatim>\<open>PutBits\<close> changes exactly the addressed bits.
  \<^item> \<open>Object_Guid\<close>: identifiers \<^verbatim>\<open>game/Entities/Object/ObjectGuid.{h,cpp}\<close>, their packed form and the
    counter generator. Shown: decoding returns what was encoded, with the one kind for which it does
    not; counters are not reused; a packed identifier can be overwritten.
  \<^item> \<open>Event_Map\<close>: timed events of creature scripts \<^verbatim>\<open>common/Utilities/EventMap.{h,cpp}\<close> on the 32-bit
    clock, with group and phase bits. Shown: the store stays ordered over any calls, execution takes the
    earliest event that is due and in phase, rescheduling and delaying touch exactly their events.
  \<^item> \<open>Rbac\<close>: permissions \<^verbatim>\<open>game/Accounts/RBAC.{h,cpp}\<close> and the tables of \<^verbatim>\<open>AccountMgr.cpp\<close>.
    Shown: the expansion loop computes the closure under links, the effective permissions
    are the granted ones minus the denied ones after any calls, a denied permission stays denied.
  \<^item> \<open>Channel\<close>, \<open>Channel_Props\<close>, \<open>Channel_Mgr\<close>: chat channels \<^verbatim>\<open>game/Chat/Channels/\<close>. A handler takes the
    world it looks players up in and returns the channel and all it sends and writes, in
    order. Permissions are those of \<open>Rbac\<close>, notices are written with \<open>Byte_Buffer\<close>. \<open>chan_reach\<close> and
    \<open>mgr_reach\<close> are the states reached by any calls. Shown: one owner, only moderators change a channel, banned players
    stay out, an owner who leaves is succeeded, exactly who hears a message; the tables of the
    manager stay consistent and drop only empty channels.
  \<^item> \<open>Lfg_Roles\<close>, \<open>Lfg_Data\<close>, \<open>Lfg_Queue\<close>, \<open>Lfg_Queue_Props\<close>: the dungeon finder
    \<^verbatim>\<open>game/DungeonFinding/\<close>: \<^verbatim>\<open>LFGMgr::CheckGroupRoles\<close>, the records \<^verbatim>\<open>LfgPlayerData\<close> and \<^verbatim>\<open>LfgGroupData\<close>
    (locale \<open>saved_state\<close>, interpreted for both), and the whole of \<^verbatim>\<open>LFGQueue\<close>. Shown: the search for roles is sound and
    complete; a match is a full group in a dungeon all asked for; leaving the queue leaves no
    trace; the search for groups ends; and where the code loses or refuses entries.
  \<^item> \<open>Movement_Tables\<close>, \<open>Packet_Tokens\<close>, \<open>Movement_Info\<close>, \<open>Movement_Codec\<close>, \<open>Movement_Layouts\<close>,
    \<open>Movement_Props\<close>: movement packets. \<open>Movement_Tables\<close> holds the 109 layouts of
    \<^verbatim>\<open>game/Movement/MovementStructures.cpp\<close> and the switch from opcodes to them; \<open>Movement_Info\<close> the interpreters
    \<^verbatim>\<open>Unit::WriteMovementInfo\<close>, \<^verbatim>\<open>Player::ReadMovementInfo\<close>, \<^verbatim>\<open>Player::ValidateMovementInfo\<close> and the extra elements. The
    locale \<open>layout_codec\<close> of \<open>Packet_Tokens\<close> states when a layout of bits and bytes can be read back;
    \<open>Movement_Codec\<close> interprets it for the movement elements and \<open>Movement_Layouts\<close> checks it for every message a client may
    send. Shown: round trip of every such message, no content of a packet crashes the reader, validation leaves no
    contradictory flags.
  \<^item> \<open>Movement_Change\<close>, \<open>Movement_Ack\<close>, \<open>Movement_Senders\<close>, \<open>Movement_Ack_Props\<close>: changes of speeds, flags and heights that a
    client must acknowledge: \<^verbatim>\<open>MovementPacketSender.cpp\<close>, the setters and pending changes of \<^verbatim>\<open>Unit\<close> and \<^verbatim>\<open>Player\<close>,
    \<^verbatim>\<open>GameClient.cpp\<close> and the handlers of \<^verbatim>\<open>MovementHandler.cpp\<close>. The locale \<open>unit_operation\<close> is the contract of an operation
    on a unit, interpreted for every setter and for purging; \<open>reachable_world\<close> are the states any calls reach. Shown: the
    packets can always be written, an honest acknowledgement completes a speed change, no acknowledgement does harm, the
    protocol never crashes, and which changes can never be completed.

  \<^bold>\<open>How the theories relate to the code.\<close> A class is a record of its members, an enumeration a
  datatype or its numbers, a member function one definition with its guards in the order of the
  code. Packets, database statements and calls back into other objects are effects in a
  returned list. Undefined behaviour (a dangling reference, the end of a container, a null pointer) is a
  value of its own, \<open>None\<close> or \<open>UndefinedBehaviour\<close>, never a chosen result. What a component asks of code
  that is not modelled (connected players, configuration, client database, clock, random
  numbers, folding of UTF-8 names, functions on floating-point numbers) is an argument; nothing is assumed of it except in the stated hypotheses.

  \<^bold>\<open>Loops and fuel.\<close> Loops are recursive functions with termination proofs: the expansion of
  permissions by the number of permissions left, \<open>pick_dungeon\<close> by the list of dungeons, \<open>find_loop\<close> by the list
  of entries left, which the nested call shares, \<open>FindGroups_loop\<close> by the list of new entries.
  \<open>check_roles\<close> has fuel; every nested call removes a selected role, so the sum of the masks plus
  one is enough, and the lemma \<open>check_roles_answers\<close> shows that the search then answers. \<open>show_digits\<close> prints at most 20
  digits, enough for 64 bits. A layout is a list ended by its end mark; a layout of at most 1000 elements stays far below
  the size limit of a buffer, and all layouts are shorter.

  \<^bold>\<open>Not modelled.\<close> Log texts, float packing of positions, capacity of vectors, localised names, database access and
  time stamps of the database. A \<^verbatim>\<open>float\<close> is its bit pattern and arithmetic on it is not modelled. Of the server: entities
  beyond identifiers and movement changes, spells, maps, motion generators, scripts, most packet
  handlers, the database layer and the programs themselves, which are glue, input and output, or game content
  in floating-point numbers and client data.

  \<^bold>\<open>Plan.\<close> Next are the role checks and proposals of \<^verbatim>\<open>LFGMgr\<close> on top of the queue, then groups and
  guilds, calendar, reputation, the battleground queue and the login session.
\<close>

end
